(* ===== verification/Prelude.thy ===== *)
theory Prelude
  imports Main "HOL-Library.Word" "HOL-Library.List_Lexorder" "HOL-Library.Char_ord"
begin

text \<open>
  The prelude of the ionscale development: the machine integers and instants the Go code
  uses, the errors its handlers return, and the state-and-error monad in which every
  handler that touches the database or the session manager is written.

  A Go function \<open>func(ctx, \<dots>) (T, error)\<close> that reads and writes the server's state is
  a value of type \<open>('s, T) go\<close>: it maps a state to a result, which is an error
  (\<open>Inl\<close>) or a value (\<open>Inr\<close>), and the state it leaves behind. \<open>bindM\<close> is the
  sequence "call, return early on \<open>err != nil\<close>, go on"; the state reached before an
  error is kept, as it is in Go.

  The relation \<open>within R m\<close> says that every run of \<open>m\<close>, failing or not, moves the
  state only along \<open>R\<close>. The locale \<open>frame\<close> collects its rules for a reflexive and
  transitive \<open>R\<close>; the components interpret it for the invariants and the isolation
  properties they keep.
\<close>

section \<open>Machine integers and instants\<close>

type_synonym uint64 = "64 word"

text \<open>
  An instant is the number of nanoseconds since the zero value of Go's \<open>time.Time\<close>
  (January 1, year 1, UTC), so that \<open>IsZero\<close> is equality with 0. Durations are
  nanoseconds too.
\<close>

type_synonym instant = int
type_synonym duration = int

abbreviation (input) IsZero :: "instant \<Rightarrow> bool" where
  "IsZero t \<equiv> t = 0"

definition Second :: duration where
  "Second = 1000000000"

definition Minute :: duration where
  "Minute = 60 * Second"

definition Hour :: duration where
  "Hour = 60 * Minute"

definition time_Unix :: "int \<Rightarrow> instant" where
  "time_Unix sec = (62135596800 + sec) * Second"

section \<open>Errors\<close>

text \<open>The codes of the RPC errors the services return (\<open>connect.Code\<dots>\<close>).\<close>

datatype rpc_code =
    CodeInvalidArgument | CodeNotFound | CodeAlreadyExists | CodePermissionDenied
  | CodeFailedPrecondition | CodeUnauthenticated | CodeInternal

text \<open>
  \<open>DbError\<close> is any error of the database driver, \<open>NilDeref\<close> the panic of a nil
  pointer, \<open>Connect\<close> an RPC error, \<open>HTTPError\<close> an \<open>echo.HTTPError\<close> with its status,
  \<open>NoReturn\<close> a call that never returns,
  \<open>Err\<close> any other error value.
\<close>

datatype error =
    DbError
  | NilDeref
  | Connect rpc_code string
  | HTTPError nat string
  | NoReturn
  | Err string

section \<open>The state-and-error monad\<close>

type_synonym ('s, 'a) go = "'s \<Rightarrow> (error + 'a) \<times> 's"

definition returnM :: "'a \<Rightarrow> ('s, 'a) go" where
  "returnM x = (\<lambda>s. (Inr x, s))"

definition throwM :: "error \<Rightarrow> ('s, 'a) go" where
  "throwM e = (\<lambda>s. (Inl e, s))"

definition bindM :: "('s, 'a) go \<Rightarrow> ('a \<Rightarrow> ('s, 'b) go) \<Rightarrow> ('s, 'b) go" where
  "bindM m f = (\<lambda>s. case m s of (r, s') \<Rightarrow> (case r of Inl e \<Rightarrow> (Inl e, s') | Inr x \<Rightarrow> f x s'))"

definition seqM :: "('s, 'a) go \<Rightarrow> ('s, 'b) go \<Rightarrow> ('s, 'b) go" where
  "seqM m k = bindM m (\<lambda>_. k)"

definition requireM :: "bool \<Rightarrow> error \<Rightarrow> ('s, unit) go" where
  "requireM b e = (if b then returnM () else throwM e)"

definition whenM :: "bool \<Rightarrow> ('s, unit) go \<Rightarrow> ('s, unit) go" where
  "whenM b m = (if b then m else returnM ())"

text \<open>A panic unwinds the stack: no caller that inspects an error sees it.\<close>

definition is_panic :: "error \<Rightarrow> bool" where
  "is_panic e \<longleftrightarrow> e = NilDeref \<or> e = NoReturn"

text \<open>The result and the error of a call whose caller inspects both.\<close>

definition tryM :: "('s, 'a) go \<Rightarrow> ('s, error + 'a) go" where
  "tryM m = (\<lambda>s. case m s of
      (Inl e, s') \<Rightarrow> (if is_panic e then (Inl e, s') else (Inr (Inl e), s'))
    | (Inr x, s') \<Rightarrow> (Inr (Inr x), s'))"

text \<open>\<open>_ = f()\<close>: the error of \<open>f\<close> is dropped, its effects stay.\<close>

definition ignoreM :: "('s, 'a) go \<Rightarrow> ('s, unit) go" where
  "ignoreM m = bindM (tryM m) (\<lambda>_. returnM ())"

definition getsM :: "('s \<Rightarrow> 'a) \<Rightarrow> ('s, 'a) go" where
  "getsM f = (\<lambda>s. (Inr (f s), s))"

definition modifyM :: "('s \<Rightarrow> 's) \<Rightarrow> ('s, unit) go" where
  "modifyM f = (\<lambda>s. (Inr (), f s))"

primrec forM :: "'a list \<Rightarrow> ('a \<Rightarrow> ('s, unit) go) \<Rightarrow> ('s, unit) go" where
  "forM [] f = returnM ()"
| "forM (x # xs) f = seqM (f x) (forM xs f)"

text \<open>A loop that appends one result per element and stops at the first error.\<close>

primrec mapM :: "('a \<Rightarrow> ('s, 'b) go) \<Rightarrow> 'a list \<Rightarrow> ('s, 'b list) go" where
  "mapM f [] = returnM []"
| "mapM f (x # xs) = bindM (f x) (\<lambda>y. bindM (mapM f xs) (\<lambda>ys. returnM (y # ys)))"

definition liftE :: "error + 'a \<Rightarrow> ('s, 'a) go" where
  "liftE r = (\<lambda>s. (r, s))"

definition okM :: "error + 'a \<Rightarrow> bool" where
  "okM r = (case r of Inl _ \<Rightarrow> False | Inr _ \<Rightarrow> True)"

lemmas go_defs = returnM_def throwM_def bindM_def seqM_def requireM_def whenM_def
  ignoreM_def tryM_def getsM_def modifyM_def liftE_def

lemma returnM_apply [simp]: "returnM x s = (Inr x, s)"
  by (simp add: returnM_def)

lemma throwM_apply [simp]: "throwM e s = (Inl e, s)"
  by (simp add: throwM_def)

lemma getsM_apply [simp]: "getsM f s = (Inr (f s), s)"
  by (simp add: getsM_def)

lemma modifyM_apply [simp]: "modifyM f s = (Inr (), f s)"
  by (simp add: modifyM_def)

lemma liftE_apply [simp]: "liftE r s = (r, s)"
  by (simp add: liftE_def)

lemma bindM_Inr [simp]: "m s = (Inr x, s') \<Longrightarrow> bindM m f s = f x s'"
  by (simp add: bindM_def)

lemma bindM_Inl [simp]: "m s = (Inl e, s') \<Longrightarrow> bindM m f s = (Inl e, s')"
  by (simp add: bindM_def)

lemma seqM_Inr [simp]: "m s = (Inr x, s') \<Longrightarrow> seqM m k s = k s'"
  by (simp add: seqM_def)

lemma seqM_Inl [simp]: "m s = (Inl e, s') \<Longrightarrow> seqM m k s = (Inl e, s')"
  by (simp add: seqM_def)

lemma requireM_apply [simp]: "requireM b e s = (if b then (Inr (), s) else (Inl e, s))"
  by (simp add: requireM_def)

lemma whenM_apply [simp]: "whenM b m s = (if b then m s else (Inr (), s))"
  by (simp add: whenM_def)

lemma bindM_assoc: "bindM (bindM m f) g = bindM m (\<lambda>x. bindM (f x) g)"
  by (rule ext) (auto simp: bindM_def split: prod.splits sum.splits)

lemma bindM_result_split:
  "bindM m f s = (Inr y, t) \<longleftrightarrow> (\<exists>x s'. m s = (Inr x, s') \<and> f x s' = (Inr y, t))"
  by (auto simp: bindM_def split: prod.splits sum.splits)

lemma seqM_result_split:
  "seqM m k s = (Inr y, t) \<longleftrightarrow> (\<exists>x s'. m s = (Inr x, s') \<and> k s' = (Inr y, t))"
  by (simp add: seqM_def bindM_result_split)

lemma requireM_result: "requireM b e s = (Inr u, t) \<longleftrightarrow> b \<and> t = s"
  by auto

lemmas go_success = bindM_result_split seqM_result_split requireM_result

section \<open>Frames: what every run of a computation leaves alone\<close>

definition within :: "('s \<Rightarrow> 's \<Rightarrow> bool) \<Rightarrow> ('s, 'a) go \<Rightarrow> bool" where
  "within R m \<longleftrightarrow> (\<forall>s. R s (snd (m s)))"

definition stays :: "('s \<Rightarrow> 's \<Rightarrow> bool) \<Rightarrow> ('s, 'a) go \<Rightarrow> 's \<Rightarrow> bool" where
  "stays R m s \<longleftrightarrow> R s (snd (m s))"

lemma within_iff_stays: "within R m \<longleftrightarrow> (\<forall>s. stays R m s)"
  by (simp add: within_def stays_def)

lemma withinD: "within R m \<Longrightarrow> m s = (r, t) \<Longrightarrow> R s t"
  by (metis snd_conv within_def)

locale frame =
  fixes R :: "'s \<Rightarrow> 's \<Rightarrow> bool"
  assumes frame_refl: "R s s"
    and frame_trans: "R s t \<Longrightarrow> R t u \<Longrightarrow> R s u"
begin

lemma within_returnM: "within R (returnM x)"
  by (simp add: within_def frame_refl)

lemma within_throwM: "within R (throwM e)"
  by (simp add: within_def frame_refl)

lemma within_getsM: "within R (getsM f)"
  by (simp add: within_def frame_refl)

lemma within_liftE: "within R (liftE r)"
  by (simp add: within_def frame_refl)

lemma within_requireM: "within R (requireM b e)"
  by (simp add: within_def frame_refl)

lemma within_modifyM: "(\<And>s. R s (f s)) \<Longrightarrow> within R (modifyM f)"
  by (simp add: within_def)

lemma within_bindM_result:
  assumes "within R m" and "\<And>s x s'. m s = (Inr x, s') \<Longrightarrow> R s' (snd (f x s'))"
  shows "within R (bindM m f)"
  unfolding within_def
proof
  fix s
  obtain r s' where m: "m s = (r, s')" by fastforce
  with assms(1) have "R s s'" by (auto dest: withinD)
  with m assms(2)[of s _ s'] show "R s (snd (bindM m f s))"
    by (cases r) (auto intro: frame_trans)
qed

lemma within_bindM: "within R m \<Longrightarrow> (\<And>x. within R (f x)) \<Longrightarrow> within R (bindM m f)"
  by (rule within_bindM_result) (auto simp: within_def)

lemma within_seqM: "within R m \<Longrightarrow> within R k \<Longrightarrow> within R (seqM m k)"
  by (simp add: seqM_def within_bindM)

lemma within_whenM: "(b \<Longrightarrow> within R m) \<Longrightarrow> within R (whenM b m)"
  by (simp add: whenM_def within_returnM)

lemma within_tryM: "within R m \<Longrightarrow> within R (tryM m)"
  by (auto simp: within_def tryM_def split: prod.splits sum.splits) (metis snd_conv)+

lemma within_ignoreM: "within R m \<Longrightarrow> within R (ignoreM m)"
  unfolding ignoreM_def by (intro within_bindM within_tryM within_returnM)

lemma within_if: "(b \<Longrightarrow> within R m) \<Longrightarrow> (\<not> b \<Longrightarrow> within R k) \<Longrightarrow> within R (if b then m else k)"
  by simp

lemma within_case_option:
  "(x = None \<Longrightarrow> within R m) \<Longrightarrow> (\<And>y. x = Some y \<Longrightarrow> within R (f y)) \<Longrightarrow>
   within R (case x of None \<Rightarrow> m | Some y \<Rightarrow> f y)"
  by (cases x) auto

lemma within_case_prod:
  "(\<And>a b. x = (a, b) \<Longrightarrow> within R (f a b)) \<Longrightarrow> within R (case x of (a, b) \<Rightarrow> f a b)"
  by (cases x) auto

lemma within_case_sum:
  "(\<And>a. x = Inl a \<Longrightarrow> within R (f a)) \<Longrightarrow> (\<And>b. x = Inr b \<Longrightarrow> within R (g b)) \<Longrightarrow>
   within R (case x of Inl a \<Rightarrow> f a | Inr b \<Rightarrow> g b)"
  by (cases x) auto

lemma within_Let: "within R (f x) \<Longrightarrow> within R (let y = x in f y)"
  by simp

lemma within_forM: "(\<And>x. x \<in> set xs \<Longrightarrow> within R (f x)) \<Longrightarrow> within R (forM xs f)"
  by (induction xs) (auto intro: within_returnM within_seqM)

lemma within_mapM: "(\<And>x. x \<in> set xs \<Longrightarrow> within R (f x)) \<Longrightarrow> within R (mapM f xs)"
  by (induction xs) (auto intro!: within_returnM within_bindM)

text \<open>The same at one state: what the computation does when started there.\<close>

lemma stays_within: "within R m \<Longrightarrow> stays R m s"
  by (simp add: within_def stays_def)

lemma stays_bindM:
  assumes "stays R m s" and "\<And>x s'. m s = (Inr x, s') \<Longrightarrow> stays R (f x) s'"
  shows "stays R (bindM m f) s"
proof -
  obtain r s' where m: "m s = (r, s')" by fastforce
  with assms(1) have "R s s'" by (simp add: stays_def)
  with m assms(2)[of _ s'] show ?thesis
    by (cases r) (auto simp: stays_def intro: frame_trans)
qed

lemma stays_seqM:
  "stays R m s \<Longrightarrow> (\<And>x s'. m s = (Inr x, s') \<Longrightarrow> stays R k s') \<Longrightarrow> stays R (seqM m k) s"
  unfolding seqM_def by (rule stays_bindM)

lemma stays_refl: "stays R (returnM x) s" "stays R (throwM e) s" "stays R (getsM f) s"
  "stays R (liftE r) s" "stays R (requireM b e) s"
  by (simp_all add: stays_def frame_refl)

lemmas within_intros = within_returnM within_throwM within_getsM within_liftE
  within_requireM within_bindM within_seqM within_whenM within_ignoreM within_tryM
  within_if within_case_option within_case_prod within_case_sum within_Let within_forM
  within_mapM

end

text \<open>The frame of an invariant: once it holds it goes on holding.\<close>

definition keeps :: "('s \<Rightarrow> bool) \<Rightarrow> 's \<Rightarrow> 's \<Rightarrow> bool" where
  "keeps P s t \<longleftrightarrow> (P s \<longrightarrow> P t)"

interpretation keeps_frame: frame "keeps P" for P :: "'s \<Rightarrow> bool"
  by unfold_locales (auto simp: keeps_def)

section \<open>Lists, options and maps\<close>

definition option_or :: "'a option \<Rightarrow> 'a \<Rightarrow> 'a" where
  "option_or x d = (case x of None \<Rightarrow> d | Some y \<Rightarrow> y)"

lemma option_or_simps [simp]: "option_or None d = d" "option_or (Some y) d = y"
  by (simp_all add: option_or_def)

text \<open>Lookup in a Go map of slices: a missing key reads as the nil slice.\<close>

definition map_get :: "('k \<rightharpoonup> 'v list) \<Rightarrow> 'k \<Rightarrow> 'v list" where
  "map_get m k = option_or (m k) []"

lemma find_append:
  "find P (xs @ ys) = (case find P xs of None \<Rightarrow> find P ys | Some x \<Rightarrow> Some x)"
  by (induction xs) auto

lemma find_filter: "find P (filter Q xs) = find (\<lambda>x. Q x \<and> P x) xs"
  by (induction xs) auto

lemma find_SomeD: "find P xs = Some x \<Longrightarrow> x \<in> set xs \<and> P x"
  by (induction xs) (auto split: if_splits)

lemma find_NoneD: "find P xs = None \<Longrightarrow> x \<in> set xs \<Longrightarrow> \<not> P x"
  by (simp add: find_None_iff)

end
