(* ===== verification/GoStrings.thy ===== *)
theory GoStrings
  imports Prelude
begin

text \<open>
  The parts of Go's \<open>strings\<close>, \<open>strconv\<close>, \<open>sort\<close> and \<open>fmt\<close> packages that ionscale
  calls. A Go string is a sequence of bytes, here a list of characters; the comparison of
  \<open>sort.Strings\<close> is the lexicographic order on bytes, which is the order of
  \<open>List_Lexorder\<close> on \<open>Char_ord\<close>.
\<close>

section \<open>strings\<close>

definition HasPrefix :: "string \<Rightarrow> string \<Rightarrow> bool" where
  "HasPrefix s pre \<longleftrightarrow> take (length pre) s = pre"

definition HasSuffix :: "string \<Rightarrow> string \<Rightarrow> bool" where
  "HasSuffix s suf \<longleftrightarrow> HasPrefix (rev s) (rev suf)"

definition TrimPrefix :: "string \<Rightarrow> string \<Rightarrow> string" where
  "TrimPrefix s pre = (if HasPrefix s pre then drop (length pre) s else s)"

lemma HasPrefix_append [simp]: "HasPrefix (pre @ s) pre"
  by (simp add: HasPrefix_def)

lemma HasPrefix_iff: "HasPrefix s pre \<longleftrightarrow> (\<exists>t. s = pre @ t)"
  by (metis HasPrefix_append HasPrefix_def append_take_drop_id)

lemma TrimPrefix_append [simp]: "TrimPrefix (pre @ s) pre = s"
  by (simp add: TrimPrefix_def)

text \<open>\<open>strings.Split\<close> with a separator of one byte.\<close>

fun Split :: "char \<Rightarrow> string \<Rightarrow> string list" where
  "Split c [] = [[]]"
| "Split c (x # xs) =
     (if x = c then [] # Split c xs
      else (case Split c xs of [] \<Rightarrow> [[x]] | y # ys \<Rightarrow> (x # y) # ys))"

fun Join :: "string list \<Rightarrow> string \<Rightarrow> string" where
  "Join [] sep = []"
| "Join [x] sep = x"
| "Join (x # y # ys) sep = x @ sep @ Join (y # ys) sep"

lemma Split_nonempty [simp]: "Split c s \<noteq> []"
  by (induction s) (auto split: list.splits)

lemma Split_no_sep: "c \<notin> set s \<Longrightarrow> Split c s = [s]"
  by (induction s) auto

lemma Split_append_sep: "c \<notin> set x \<Longrightarrow> Split c (x @ c # s) = x # Split c s"
  by (induction x) auto

lemma Split_Join:
  assumes "xs \<noteq> []" and "\<And>x. x \<in> set xs \<Longrightarrow> c \<notin> set x"
  shows "Split c (Join xs [c]) = xs"
  using assms by (induction xs "[c]" rule: Join.induct) (auto simp: Split_no_sep Split_append_sep)

lemma Join_Split: "Join (Split c s) [c] = s"
proof (induction s)
  case (Cons x s)
  then show ?case
  proof (cases "Split c s")
    case (Cons y ys)
    with \<open>Join (Split c s) [c] = s\<close> show ?thesis by (cases ys) auto
  qed simp
qed simp

lemma Split_elem_no_sep: "x \<in> set (Split c s) \<Longrightarrow> c \<notin> set x"
proof (induction s arbitrary: x)
  case (Cons a s)
  then show ?case by (cases "Split c s") (auto split: if_splits)
qed simp

text \<open>
  \<open>strings.LastIndex\<close> of one byte, used to cut a string around it: \<open>None\<close> is the
  index -1, \<open>Some (before, after)\<close> the two slices around the last occurrence.
\<close>

fun CutLast :: "char \<Rightarrow> string \<Rightarrow> (string \<times> string) option" where
  "CutLast c [] = None"
| "CutLast c (x # xs) =
     (case CutLast c xs of
        Some (a, b) \<Rightarrow> Some (x # a, b)
      | None \<Rightarrow> (if x = c then Some ([], xs) else None))"

lemma CutLast_None: "CutLast c s = None \<longleftrightarrow> c \<notin> set s"
  by (induction s) (auto split: option.splits)

lemma CutLast_append: "c \<notin> set b \<Longrightarrow> CutLast c (a @ c # b) = Some (a, b)"
proof (induction a)
  case Nil
  then have "CutLast c b = None" by (simp add: CutLast_None)
  then show ?case by simp
qed simp

lemma CutLast_Some: "CutLast c s = Some (a, b) \<Longrightarrow> s = a @ c # b \<and> c \<notin> set b"
proof (induction s arbitrary: a)
  case (Cons x s)
  then show ?case
    by (cases "CutLast c s") (auto simp: CutLast_None split: if_splits)
qed simp

text \<open>\<open>strings.Trim\<close> with a cutset of one byte, and \<open>TrimSpace\<close> on ASCII white space.\<close>

definition Trim :: "string \<Rightarrow> char \<Rightarrow> string" where
  "Trim s c = rev (dropWhile (\<lambda>x. x = c) (rev (dropWhile (\<lambda>x. x = c) s)))"

definition is_space :: "char \<Rightarrow> bool" where
  "is_space c \<longleftrightarrow> of_char c \<in> {9::nat, 10, 11, 12, 13, 32}"

definition TrimSpace :: "string \<Rightarrow> string" where
  "TrimSpace s = rev (dropWhile is_space (rev (dropWhile is_space s)))"

lemma dropWhile_sep: "x \<noteq> [] \<Longrightarrow> c \<notin> set x \<Longrightarrow> dropWhile (\<lambda>y. y = c) (x @ s) = x @ s"
  by (cases x) auto

text \<open>\<open>strings.ToUpper\<close> and \<open>strings.ToLower\<close> on ASCII letters.\<close>

definition upper_char :: "char \<Rightarrow> char" where
  "upper_char c = (let n = of_char c :: nat in if 97 \<le> n \<and> n \<le> 122 then char_of (n - 32) else c)"

definition lower_char :: "char \<Rightarrow> char" where
  "lower_char c = (let n = of_char c :: nat in if 65 \<le> n \<and> n \<le> 90 then char_of (n + 32) else c)"

definition ToUpper :: "string \<Rightarrow> string" where
  "ToUpper s = map upper_char s"

definition ToLower :: "string \<Rightarrow> string" where
  "ToLower s = map lower_char s"

lemma upper_char_idem [simp]: "upper_char (upper_char c) = upper_char c"
  by (auto simp: upper_char_def Let_def)

lemma ToUpper_idem [simp]: "ToUpper (ToUpper s) = ToUpper s"
  by (simp add: ToUpper_def)

section \<open>strconv and the integer verbs of fmt\<close>

definition digit_val :: "char \<Rightarrow> nat option" where
  "digit_val c = (let n = of_char c :: nat in if 48 \<le> n \<and> n \<le> 57 then Some (n - 48) else None)"

fun digits_val :: "nat \<Rightarrow> string \<Rightarrow> nat option" where
  "digits_val acc [] = Some acc"
| "digits_val acc (c # cs) =
     (case digit_val c of None \<Rightarrow> None | Some d \<Rightarrow> digits_val (acc * 10 + d) cs)"

text \<open>\<open>strconv.ParseUint(s, 10, bits)\<close>: no sign, at least one digit, in range.\<close>

definition ParseUint :: "nat \<Rightarrow> string \<Rightarrow> nat option" where
  "ParseUint bits s =
     (if s = [] then None
      else case digits_val 0 s of None \<Rightarrow> None | Some n \<Rightarrow> if n < 2 ^ bits then Some n else None)"

text \<open>\<open>strconv.Atoi\<close> on a 64-bit \<open>int\<close>: an optional sign, then digits.\<close>

definition Atoi :: "string \<Rightarrow> int option" where
  "Atoi s =
     (let neg = (s \<noteq> [] \<and> hd s = CHR ''-'');
          body = (if s \<noteq> [] \<and> (hd s = CHR ''-'' \<or> hd s = CHR ''+'') then tl s else s)
      in if body = [] then None
         else case digits_val 0 body of
                None \<Rightarrow> None
              | Some n \<Rightarrow> (let i = (if neg then - int n else int n)
                           in if - (2 ^ 63) \<le> i \<and> i < 2 ^ 63 then Some i else None))"

definition digit_char :: "nat \<Rightarrow> char" where
  "digit_char d = char_of (48 + d)"

fun Itoa :: "nat \<Rightarrow> string" where
  "Itoa n = (if n < 10 then [digit_char n] else Itoa (n div 10) @ [digit_char (n mod 10)])"

declare Itoa.simps [simp del]

lemma digit_val_char [simp]: "d < 10 \<Longrightarrow> digit_val (digit_char d) = Some d"
  by (simp add: digit_val_def digit_char_def)

lemma digits_val_append:
  "digits_val acc (xs @ ys) = (case digits_val acc xs of None \<Rightarrow> None | Some a \<Rightarrow> digits_val a ys)"
  by (induction xs arbitrary: acc) (auto split: option.splits)

lemma digits_val_Itoa: "digits_val 0 (Itoa n) = Some n"
proof (induction n rule: Itoa.induct)
  case (1 n)
  then show ?case by (subst Itoa.simps) (simp add: digits_val_append)
qed

lemma Itoa_nonempty [simp]: "Itoa n \<noteq> []"
  by (subst Itoa.simps) simp

lemma Itoa_digits: "c \<in> set (Itoa n) \<Longrightarrow> \<exists>d < 10. c = digit_char d"
proof (induction n rule: Itoa.induct)
  case (1 n)
  show ?case
  proof (cases "n < 10")
    case True
    with "1.prems" show ?thesis by (subst (asm) Itoa.simps) auto
  next
    case False
    with "1.prems" have "c \<in> set (Itoa (n div 10)) \<or> c = digit_char (n mod 10)"
      by (subst (asm) Itoa.simps) auto
    moreover have "n mod 10 < 10" by simp
    ultimately show ?thesis using "1.IH" False by blast
  qed
qed

lemma digit_val_None_neq: "digit_val c = None \<Longrightarrow> d < 10 \<Longrightarrow> digit_char d \<noteq> c"
  using digit_val_char by fastforce

lemma Itoa_no_char: "digit_val c = None \<Longrightarrow> c \<notin> set (Itoa n)"
  using Itoa_digits digit_val_None_neq by blast

lemma ParseUint_Itoa: "n < 2 ^ bits \<Longrightarrow> ParseUint bits (Itoa n) = Some n"
  by (simp add: ParseUint_def digits_val_Itoa)

lemma ParseUint_bound: "ParseUint bits s = Some n \<Longrightarrow> n < 2 ^ bits"
  by (auto simp: ParseUint_def split: if_splits option.splits)

lemma Atoi_Itoa: "n < 2 ^ 63 \<Longrightarrow> Atoi (Itoa n) = Some (int n)"
proof -
  assume n: "n < 2 ^ 63"
  have "CHR ''-'' \<notin> set (Itoa n)" "CHR ''+'' \<notin> set (Itoa n)"
    by (rule Itoa_no_char, simp add: digit_val_def)+
  then have "hd (Itoa n) \<noteq> CHR ''-''" "hd (Itoa n) \<noteq> CHR ''+''"
    using hd_in_set[OF Itoa_nonempty, of n] by metis+
  moreover from n have "int n < 2 ^ 63" by simp
  ultimately show ?thesis by (simp add: Atoi_def digits_val_Itoa Let_def)
qed

lemma Itoa_inj: "Itoa m = Itoa n \<Longrightarrow> m = n"
  by (metis digits_val_Itoa option.inject)

definition hex_char :: "nat \<Rightarrow> char" where
  "hex_char d = (if d < 10 then char_of (48 + d) else char_of (87 + d))"

fun Hex :: "nat \<Rightarrow> string" where
  "Hex n = (if n < 16 then [hex_char n] else Hex (n div 16) @ [hex_char (n mod 16)])"

declare Hex.simps [simp del]

definition hex_val :: "char \<Rightarrow> nat option" where
  "hex_val c =
     (let n = of_char c :: nat
      in if 48 \<le> n \<and> n \<le> 57 then Some (n - 48)
         else if 97 \<le> n \<and> n \<le> 102 then Some (n - 87)
         else if 65 \<le> n \<and> n \<le> 70 then Some (n - 55)
         else None)"

lemma hex_val_char [simp]: "d < 16 \<Longrightarrow> hex_val (hex_char d) = Some d"
  by (auto simp: hex_val_def hex_char_def Let_def)

end
