(* ===== verification/Netip.thy ===== *)
theory Netip
  imports GoStrings
begin

text \<open>
  The parts of Go's \<open>net/netip\<close> that ionscale uses. An \<open>Addr\<close> is the zero (invalid)
  address, an IPv4 address or an IPv6 address with a zone; a \<open>Prefix\<close> is an address and
  its \<open>bitsPlusOne\<close>, where 0 marks an invalid prefix. \<open>ParseAddr\<close> and \<open>ParsePrefix\<close>
  return \<open>None\<close> for every error.
\<close>

section \<open>Addresses\<close>

datatype Addr =
    ZeroAddr
  | Addr4 "32 word"
  | Addr6 "128 word" string

fun IsValid :: "Addr \<Rightarrow> bool" where
  "IsValid ZeroAddr = False"
| "IsValid _ = True"

fun Is4 :: "Addr \<Rightarrow> bool" where
  "Is4 (Addr4 _) = True"
| "Is4 _ = False"

fun Is6 :: "Addr \<Rightarrow> bool" where
  "Is6 (Addr6 _ _) = True"
| "Is6 _ = False"

fun BitLen :: "Addr \<Rightarrow> nat" where
  "BitLen ZeroAddr = 0"
| "BitLen (Addr4 _) = 32"
| "BitLen (Addr6 _ _) = 128"

fun Zone :: "Addr \<Rightarrow> string" where
  "Zone (Addr6 _ z) = z"
| "Zone _ = []"

fun withoutZone :: "Addr \<Rightarrow> Addr" where
  "withoutZone (Addr6 a _) = Addr6 a []"
| "withoutZone a = a"

text \<open>The leading \<open>b\<close> bits of two addresses of the same family agree.\<close>

fun agree :: "nat \<Rightarrow> Addr \<Rightarrow> Addr \<Rightarrow> bool" where
  "agree b (Addr4 x) (Addr4 y) = (drop_bit (32 - b) x = drop_bit (32 - b) y)"
| "agree b (Addr6 x _) (Addr6 y _) = (drop_bit (128 - b) x = drop_bit (128 - b) y)"
| "agree b _ _ = False"

text \<open>The address with all but its leading \<open>b\<close> bits cleared.\<close>

fun mask_addr :: "nat \<Rightarrow> Addr \<Rightarrow> Addr" where
  "mask_addr b (Addr4 x) = Addr4 (push_bit (32 - b) (drop_bit (32 - b) x))"
| "mask_addr b (Addr6 x _) = Addr6 (push_bit (128 - b) (drop_bit (128 - b) x)) []"
| "mask_addr b ZeroAddr = ZeroAddr"

section \<open>Printing addresses\<close>

definition octets :: "32 word \<Rightarrow> nat list" where
  "octets a = (let n = unat a in
     [n div 2 ^ 24, n div 2 ^ 16 mod 256, n div 2 ^ 8 mod 256, n mod 256])"

definition string4 :: "32 word \<Rightarrow> string" where
  "string4 a = Join (map Itoa (octets a)) ''.''"

definition groups :: "128 word \<Rightarrow> nat list" where
  "groups a = map (\<lambda>i. unat a div 2 ^ (112 - 16 * i) mod 65536) [0..<8]"

text \<open>
  The zero run that \<open>::\<close> replaces: the first of the longest runs of at least two zero
  groups, as a pair of start and end; \<open>(255, 255)\<close> when there is none.
\<close>

definition zero_run :: "nat list \<Rightarrow> nat \<times> nat" where
  "zero_run gs =
     fold (\<lambda>i (zs, ze).
       let l = length (takeWhile (\<lambda>g. g = 0) (drop i gs))
       in if l \<ge> 2 \<and> l > ze - zs then (i, i + l) else (zs, ze)) [0..<8] (255, 255)"

definition string6 :: "128 word \<Rightarrow> string" where
  "string6 a =
     (let gs = groups a; (zs, ze) = zero_run gs
      in if zs = 255 then Join (map Hex gs) '':''
         else Join (map Hex (take zs gs)) '':'' @ ''::'' @ Join (map Hex (drop ze gs)) '':'')"

definition Is4In6 :: "128 word \<Rightarrow> bool" where
  "Is4In6 a \<longleftrightarrow> unat a div 2 ^ 32 = 65535"

definition zone_suffix :: "string \<Rightarrow> string" where
  "zone_suffix z = (if z = [] then [] else ''%'' @ z)"

fun Addr_String :: "Addr \<Rightarrow> string" where
  "Addr_String ZeroAddr = ''invalid IP''"
| "Addr_String (Addr4 a) = string4 a"
| "Addr_String (Addr6 a z) =
     (if Is4In6 a then ''::ffff:'' @ string4 (ucast a) else string6 a) @ zone_suffix z"

section \<open>Parsing addresses\<close>

text \<open>One decimal octet: at least one digit, no leading zero, at most 255.\<close>

definition parse_octet :: "string \<Rightarrow> nat option" where
  "parse_octet s =
     (if s = [] \<or> (length s > 1 \<and> hd s = CHR ''0'') then None
      else case digits_val 0 s of None \<Rightarrow> None | Some n \<Rightarrow> if n \<le> 255 then Some n else None)"

definition parse4 :: "string \<Rightarrow> nat option" where
  "parse4 s =
     (case map parse_octet (Split CHR ''.'' s) of
        [Some a, Some b, Some c, Some d] \<Rightarrow> Some (((a * 256 + b) * 256 + c) * 256 + d)
      | _ \<Rightarrow> None)"

text \<open>
  The hex digits at the head of a string: their value, how many there are, and the rest.
  \<open>None\<close> when there are more than four (a group holds 16 bits).
\<close>

definition parse_group :: "string \<Rightarrow> (nat \<times> nat \<times> string) option" where
  "parse_group s =
     (let ds = takeWhile (\<lambda>c. hex_val c \<noteq> None) s
      in if length ds > 4 then None
         else Some (foldl (\<lambda>acc c. acc * 16 + option_or (hex_val c) 0) 0 ds,
                    length ds, drop (length ds) s))"

text \<open>
  The loop of \<open>parseIPv6\<close>. \<open>gs\<close> are the groups parsed so far and \<open>ell\<close> the number of
  groups before the \<open>::\<close>, when one was seen; the result is their final values.
\<close>

fun parse6_loop :: "nat \<Rightarrow> nat list \<Rightarrow> nat option \<Rightarrow> string \<Rightarrow> (nat list \<times> nat option) option" where
  "parse6_loop 0 gs ell s = (if s = [] then Some (gs, ell) else None)"
| "parse6_loop (Suc n) gs ell s =
     (case parse_group s of
        None \<Rightarrow> None
      | Some (v, k, rest) \<Rightarrow>
          if k = 0 then None
          else if rest \<noteq> [] \<and> hd rest = CHR ''.'' then
            (if ell = None \<and> length gs \<noteq> 6 then None
             else if length gs + 2 > 8 then None
             else case parse4 s of None \<Rightarrow> None
                  | Some w \<Rightarrow> Some (gs @ [w div 65536, w mod 65536], ell))
          else if rest = [] then Some (gs @ [v], ell)
          else if hd rest \<noteq> CHR '':'' \<or> tl rest = [] then None
          else if hd (tl rest) = CHR '':'' then
            (if ell \<noteq> None then None
             else if tl (tl rest) = [] then Some (gs @ [v], Some (length gs + 1))
             else parse6_loop n (gs @ [v]) (Some (length gs + 1)) (tl (tl rest)))
          else parse6_loop n (gs @ [v]) ell (tl rest))"

definition of_groups :: "nat list \<Rightarrow> nat" where
  "of_groups gs = foldl (\<lambda>acc g. acc * 65536 + g) 0 gs"

definition expand6 :: "nat list \<times> nat option \<Rightarrow> nat option" where
  "expand6 r =
     (case r of (gs, ell) \<Rightarrow>
        if length gs < 8 then
          (case ell of None \<Rightarrow> None
           | Some e \<Rightarrow> Some (of_groups (take e gs @ replicate (8 - length gs) 0 @ drop e gs)))
        else if ell \<noteq> None then None
        else Some (of_groups gs))"

definition parse6 :: "string \<Rightarrow> nat option" where
  "parse6 s =
     (if HasPrefix s ''::'' then
        (if drop 2 s = [] then Some 0
         else case parse6_loop 8 [] (Some 0) (drop 2 s) of None \<Rightarrow> None | Some r \<Rightarrow> expand6 r)
      else case parse6_loop 8 [] None s of None \<Rightarrow> None | Some r \<Rightarrow> expand6 r)"

definition parseIPv4 :: "string \<Rightarrow> Addr option" where
  "parseIPv4 s = map_option (\<lambda>n. Addr4 (word_of_nat n)) (parse4 s)"

definition parseIPv6 :: "string \<Rightarrow> Addr option" where
  "parseIPv6 s =
     (let body = takeWhile (\<lambda>c. c \<noteq> CHR ''%'') s;
          after = dropWhile (\<lambda>c. c \<noteq> CHR ''%'') s
      in if after \<noteq> [] \<and> tl after = [] then None
         else map_option (\<lambda>n. Addr6 (word_of_nat n) (if after = [] then [] else tl after)) (parse6 body))"

definition ParseAddr :: "string \<Rightarrow> Addr option" where
  "ParseAddr s =
     (case find (\<lambda>c. c = CHR ''.'' \<or> c = CHR '':'' \<or> c = CHR ''%'') s of
        None \<Rightarrow> None
      | Some c \<Rightarrow> if c = CHR ''.'' then parseIPv4 s
                  else if c = CHR '':'' then parseIPv6 s
                  else None)"

section \<open>Prefixes\<close>

datatype Prefix = Prefix (prefix_ip: Addr) (bitsPlusOne: nat)

definition PrefixFrom :: "Addr \<Rightarrow> int \<Rightarrow> Prefix" where
  "PrefixFrom a b =
     Prefix (withoutZone a) (if IsValid a \<and> 0 \<le> b \<and> b \<le> int (BitLen a) then nat b + 1 else 0)"

definition Prefix_IsValid :: "Prefix \<Rightarrow> bool" where
  "Prefix_IsValid p \<longleftrightarrow> bitsPlusOne p > 0"

definition Bits :: "Prefix \<Rightarrow> int" where
  "Bits p = int (bitsPlusOne p) - 1"

definition Masked :: "Prefix \<Rightarrow> Prefix" where
  "Masked p =
     (if Prefix_IsValid p then Prefix (mask_addr (nat (Bits p)) (prefix_ip p)) (bitsPlusOne p)
      else Prefix ZeroAddr 0)"

definition Contains :: "Prefix \<Rightarrow> Addr \<Rightarrow> bool" where
  "Contains p a \<longleftrightarrow> Prefix_IsValid p \<and> Zone a = [] \<and> agree (nat (Bits p)) a (prefix_ip p)"

definition Overlaps :: "Prefix \<Rightarrow> Prefix \<Rightarrow> bool" where
  "Overlaps p q \<longleftrightarrow> Prefix_IsValid p \<and> Prefix_IsValid q \<and>
     (p = q \<or> (Is4 (prefix_ip p) = Is4 (prefix_ip q) \<and>
        (let m = min (Bits p) (Bits q)
         in m = 0 \<or> mask_addr (nat m) (prefix_ip p) = mask_addr (nat m) (prefix_ip q))))"

definition Prefix_String :: "Prefix \<Rightarrow> string" where
  "Prefix_String p =
     (if Prefix_IsValid p then Addr_String (prefix_ip p) @ ''/'' @ Itoa (nat (Bits p))
      else ''invalid Prefix'')"

definition ParsePrefix :: "string \<Rightarrow> Prefix option" where
  "ParsePrefix s =
     (case CutLast CHR ''/'' s of
        None \<Rightarrow> None
      | Some (astr, bstr) \<Rightarrow>
          (case ParseAddr astr of
             None \<Rightarrow> None
           | Some a \<Rightarrow>
               if Zone a \<noteq> [] then None
               else if length bstr > 1 \<and> \<not> (CHR ''1'' \<le> hd bstr \<and> hd bstr \<le> CHR ''9'') then None
               else (case Atoi bstr of
                       None \<Rightarrow> None
                     | Some b \<Rightarrow> if b < 0 \<or> b > int (BitLen a) then None
                                 else Some (PrefixFrom a b))))"

text \<open>A prefix literal of the source, as \<open>netip.MustParsePrefix\<close> reads it.\<close>

definition prefix4_all :: Prefix where
  "prefix4_all = Prefix (Addr4 0) 1"

definition prefix6_all :: Prefix where
  "prefix6_all = Prefix (Addr6 0 []) 1"

section \<open>Evaluation of literals\<close>

lemma parse6_loop_8: "parse6_loop 8 = parse6_loop (Suc (Suc (Suc (Suc (Suc (Suc (Suc (Suc 0))))))))"
  by (simp add: eval_nat_numeral)

lemmas parse_eval = parse6_loop_8 ParsePrefix_def ParseAddr_def parseIPv4_def parseIPv6_def parse4_def
  parse6_def parse_octet_def parse_group_def expand6_def of_groups_def digit_val_def
  hex_val_def HasPrefix_def Atoi_def PrefixFrom_def Let_def less_eq_char_def

lemmas print_eval = Prefix_String_def string4_def string6_def octets_def groups_def
  zero_run_def Is4In6_def zone_suffix_def Prefix_IsValid_def Bits_def Itoa.simps Hex.simps
  digit_char_def hex_char_def upt_rec char_of_def bit_Suc_0_iff

section \<open>Containment\<close>

lemma drop_bit_mono_eq:
  fixes x y :: "'a::len word"
  assumes "drop_bit k x = drop_bit k y" "k \<le> l"
  shows "drop_bit l x = drop_bit l y"
  using assms by (metis drop_bit_drop_bit le_add_diff_inverse2)

lemma drop_bit_masked:
  fixes x :: "'a::len word"
  assumes "k \<le> l"
  shows "drop_bit l (push_bit k (drop_bit k x)) = drop_bit l x"
  using assms by (intro bit_eqI) (auto simp: bit_simps dest: bit_imp_le_length)

lemma agree_refl: "IsValid a \<Longrightarrow> agree b a a"
  by (cases a) auto

lemma agree_sym: "agree b x y \<longleftrightarrow> agree b y x"
  by (cases x; cases y) auto

lemma agree_trans: "agree b x y \<Longrightarrow> agree b y z \<Longrightarrow> agree b x z"
  by (cases x; cases y; cases z) auto

lemma agree_mono: "agree b x y \<Longrightarrow> b' \<le> b \<Longrightarrow> agree b' x y"
  by (cases x; cases y) (auto intro: drop_bit_mono_eq[rotated] diff_le_mono2)

lemma agree_mask: "IsValid a \<Longrightarrow> b' \<le> b \<Longrightarrow> agree b' (mask_addr b a) a"
  by (cases a) (auto simp: drop_bit_masked)

lemma agree_mask_eq: "agree b (mask_addr c x) y \<longleftrightarrow> agree b x y" if "b \<le> c"
  using that by (cases x; cases y) (auto simp: drop_bit_masked)

text \<open>A prefix that lies inside another one: the containment test of the routes.\<close>

lemma Contains_nested:
  assumes "Contains q (prefix_ip (Masked p))" and "Bits q \<le> Bits p" and "Contains p a"
  shows "Contains q a"
proof -
  from assms(3) have p: "Prefix_IsValid p" "agree (nat (Bits p)) a (prefix_ip p)" "Zone a = []"
    by (auto simp: Contains_def)
  from assms(1) p(1) have q: "Prefix_IsValid q" "agree (nat (Bits q)) (mask_addr (nat (Bits p)) (prefix_ip p)) (prefix_ip q)"
    by (auto simp: Contains_def Masked_def)
  from assms(2) have le: "nat (Bits q) \<le> nat (Bits p)" by simp
  from q(2) le have "agree (nat (Bits q)) (prefix_ip p) (prefix_ip q)" by (simp add: agree_mask_eq)
  with p(2) le have "agree (nat (Bits q)) a (prefix_ip q)" by (blast intro: agree_trans agree_mono)
  with p(3) q(1) show ?thesis by (simp add: Contains_def)
qed

lemma Contains_Addr4:
  "Contains (Prefix (Addr4 w) (Suc b)) (Addr4 x) \<longleftrightarrow> unat x div 2 ^ (32 - b) = unat w div 2 ^ (32 - b)"
proof -
  have "drop_bit k x = drop_bit k w \<longleftrightarrow> unat x div 2 ^ k = unat w div 2 ^ k" for k
    by (metis drop_bit_eq_div unat_drop_bit_eq word_unat_eq_iff)
  then show ?thesis by (simp add: Contains_def Prefix_IsValid_def Bits_def del: drop_bit_eq_div)
qed

lemma div_interval: "0 < k \<Longrightarrow> n div k = c \<longleftrightarrow> k * c \<le> n \<and> n < k * c + k" for n k c :: nat
proof (rule iffI)
  assume "0 < k" "n div k = c"
  then show "k * c \<le> n \<and> n < k * c + k"
    using dividend_less_times_div[of k n] by auto
qed (auto intro!: div_nat_eqI)

lemma Contains_Addr4_interval:
  assumes "unat w mod 2 ^ (32 - b) = 0"
  shows "Contains (Prefix (Addr4 w) (Suc b)) (Addr4 x) \<longleftrightarrow>
    unat w \<le> unat x \<and> unat x < unat w + 2 ^ (32 - b)"
proof -
  from assms obtain c where c: "unat w = 2 ^ (32 - b) * c" by auto
  then show ?thesis by (simp add: Contains_Addr4 div_interval)
qed

lemma Contains_Addr4_numeral:
  assumes "unat w mod 2 ^ (33 - numeral k) = 0"
  shows "Contains (Prefix (Addr4 w) (numeral k)) (Addr4 x) \<longleftrightarrow>
    unat w \<le> unat x \<and> unat x < unat w + 2 ^ (33 - numeral k)"
  using Contains_Addr4_interval[of w "pred_numeral k" x] assms by (simp add: numeral_eq_Suc)

text \<open>
  A partition of an interval of naturals into consecutive pieces, each marked in or out:
  a number is in one of the marked pieces exactly when it is in none of the others.
\<close>

fun tiles :: "nat \<Rightarrow> (nat \<times> nat \<times> bool) list \<Rightarrow> nat \<Rightarrow> bool" where
  "tiles a [] b = (a = b)"
| "tiles a ((lo, hi, t) # ivs) b = (lo = a \<and> a < hi \<and> tiles hi ivs b)"

lemma tiles_le: "tiles a ivs b \<Longrightarrow> a \<le> b"
  by (induction a ivs b rule: tiles.induct) auto

lemma tiles_lower: "tiles a ivs b \<Longrightarrow> (lo, hi, t) \<in> set ivs \<Longrightarrow> a \<le> lo"
  by (induction a ivs b rule: tiles.induct) fastforce+

lemma tiles_split:
  "tiles a ivs b \<Longrightarrow> a \<le> n \<Longrightarrow> n < b \<Longrightarrow>
   (\<exists>(lo, hi, t) \<in> set ivs. t \<and> lo \<le> n \<and> n < hi) \<longleftrightarrow>
   \<not> (\<exists>(lo, hi, t) \<in> set ivs. \<not> t \<and> lo \<le> n \<and> n < hi)"
proof (induction a ivs b rule: tiles.induct)
  case (2 a lo hi t ivs b)
  show ?case
  proof (cases "n < hi")
    case True
    with 2 have "\<not> (lo' \<le> n)" if "(lo', hi', t') \<in> set ivs" for lo' hi' t'
      using tiles_lower[of hi ivs b lo' hi' t'] that by auto
    with 2 True show ?thesis by fastforce
  next
    case False
    with 2 show ?thesis by auto
  qed
qed simp
section \<open>The round trip of IPv4 addresses\<close>

lemma Itoa_leading_zero: "hd (Itoa n) = CHR ''0'' \<Longrightarrow> n = 0"
proof (induction n rule: Itoa.induct)
  case (1 n)
  show ?case
  proof (cases "n < 10")
    case True
    with 1(2) have "digit_val (digit_char n) = digit_val CHR ''0''" by (simp add: Itoa.simps[of n])
    with True show ?thesis by (simp add: digit_val_def[of "CHR ''0''"])
  next
    case False
    with 1(2) have "hd (Itoa (n div 10)) = CHR ''0''" by (simp add: Itoa.simps[of n])
    with 1(1) False show ?thesis by auto
  qed
qed

lemma parse_octet_Itoa: "n \<le> 255 \<Longrightarrow> parse_octet (Itoa n) = Some n"
  using Itoa_leading_zero[of n] by (auto simp: parse_octet_def digits_val_Itoa Itoa.simps[of 0])

lemma octets_bound: "o1 \<in> set (octets a) \<Longrightarrow> o1 \<le> 255"
  using unsigned_less[of a, where ?'a = nat] by (auto simp: octets_def Let_def)

lemma octets_value:
  assumes "octets a = [o1, o2, o3, o4]"
  shows "((o1 * 256 + o2) * 256 + o3) * 256 + o4 = unat a"
proof -
  let ?n = "unat a" and ?q = "unat a div 256" and ?r = "unat a div 256 div 256"
  have "o1 = ?r div 256" "o2 = ?r mod 256" "o3 = ?q mod 256" "o4 = ?n mod 256"
    using assms by (simp_all add: octets_def Let_def flip: div_mult2_eq)
  then show ?thesis by (simp only: div_mult_mod_eq)
qed

lemma parse4_string4: "parse4 (string4 a) = Some (unat a)"
proof -
  obtain o1 o2 o3 o4 where o: "octets a = [o1, o2, o3, o4]" by (auto simp: octets_def Let_def)
  have "Split CHR ''.'' (string4 a) = map Itoa (octets a)"
    unfolding string4_def by (rule Split_Join) (auto simp: o Itoa_no_char digit_val_def)
  moreover have "o1 \<le> 255" "o2 \<le> 255" "o3 \<le> 255" "o4 \<le> 255" 
    using octets_bound[of _ a] by (simp_all add: o)
  ultimately show ?thesis using octets_value[OF o] by (simp add: parse4_def o parse_octet_Itoa)
qed

lemma ParseAddr_string4: "ParseAddr (string4 a) = Some (Addr4 a)"
proof -
  obtain o1 o2 o3 o4 where o: "octets a = [o1, o2, o3, o4]" by (auto simp: octets_def Let_def)
  have "find (\<lambda>c. c = CHR ''.'' \<or> c = CHR '':'' \<or> c = CHR ''%'') (Itoa n) = None" for n
    using Itoa_no_char[of _ n] by (force simp: find_None_iff digit_val_def)
  then have "find (\<lambda>c. c = CHR ''.'' \<or> c = CHR '':'' \<or> c = CHR ''%'') (string4 a) = Some CHR ''.''"
    by (simp add: string4_def o find_append)
  then show ?thesis by (simp add: ParseAddr_def parseIPv4_def parse4_string4)
qed
end
