(* ===== verification/Domain.thy ===== *)
theory Domain
  imports Netip
begin

text \<open>
  The data of \<open>internal/domain\<close> and the pure methods on it: accounts, users, tailnets,
  machines and their policies (\<open>account.go\<close>, \<open>user.go\<close>, \<open>tailnet.go\<close>, \<open>machine.go\<close>,
  \<open>dns_config.go\<close>, \<open>derpmap.go\<close>, \<open>iam.go\<close>, \<open>tags.go\<close>, \<open>datatypes.go\<close>,
  \<open>principal.go\<close>, and the policy types of \<open>pkg/client/ionscale/types.go\<close>).

  A Go pointer that may be nil is an \<open>option\<close>. A map that the code only looks up is a HOL
  map; a map that the code ranges over is an association list in iteration order, and the
  theorems about it hold for every order. A machine's two addresses are never nil once it
  is stored (\<open>IP.Scan\<close> refuses NULL), so they are plain addresses.

  Third-party functions that the code calls (\<open>dnsname\<close>, \<open>net/mail\<close>, \<open>tailcfg.CheckTag\<close>,
  \<open>go-bexpr\<close>, \<open>hujson\<close> with \<open>encoding/json\<close>, \<open>bcrypt\<close>, \<open>tsaddr\<close>) are the fields of
  the record \<open>env\<close>, an argument of the definitions that use them.
\<close>

section \<open>Sets kept in Go maps\<close>

text \<open>
  \<open>StringSet\<close> (\<open>acl.go\<close>) and \<open>AllowIPsSet\<close> (\<open>machine.go\<close>) keep their elements as the
  keys of a map. The key list is kept here in insertion order. \<open>StringSet.Items\<close> sorts;
  \<open>AllowIPsSet.Items\<close> does not, so nothing below relies on its order.
\<close>

type_synonym StringSet = "string list"

definition StringSet_Add :: "StringSet \<Rightarrow> string list \<Rightarrow> StringSet" where
  "StringSet_Add s t = fold List.insert t s"

definition StringSet_Items :: "StringSet \<Rightarrow> string list" where
  "StringSet_Items s = sort s"

definition StringSet_Empty :: "StringSet \<Rightarrow> bool" where
  "StringSet_Empty s \<longleftrightarrow> length s = 0"

type_synonym AllowIPsSet = "Prefix list"

definition AllowIPsSet_Add :: "AllowIPsSet \<Rightarrow> Prefix list \<Rightarrow> AllowIPsSet" where
  "AllowIPsSet_Add s t = fold List.insert t s"

definition NewAllowIPsSet :: "Prefix list \<Rightarrow> AllowIPsSet" where
  "NewAllowIPsSet t = AllowIPsSet_Add [] t"

definition AllowIPsSet_Remove :: "AllowIPsSet \<Rightarrow> Prefix list \<Rightarrow> AllowIPsSet" where
  "AllowIPsSet_Remove s t = fold removeAll t s"

definition AllowIPsSet_Items :: "AllowIPsSet \<Rightarrow> Prefix list" where
  "AllowIPsSet_Items s = s"

section \<open>Policies\<close>

text \<open>\<open>pkg/client/ionscale/types.go\<close> and the \<open>tailcfg\<close> types it mentions.\<close>

record PortRange =
  prFirst :: "16 word"
  prLast :: "16 word"

record ProtoPortRange =
  pprProto :: int
  pprPorts :: PortRange

type_synonym PeerCapMap = "(string \<times> string list) list"

record ACLAutoApprovers =
  aaRoutes :: "(string \<times> string list) list"
  aaExitNode :: "string list"

record ACLEntry =
  aeAction :: string
  aeProtocol :: string
  aeSource :: "string list"
  aeDestination :: "string list"

record ACLSSH =
  shAction :: string
  shSource :: "string list"
  shDestination :: "string list"
  shUsers :: "string list"
  shCheckPeriod :: string
  shRecorder :: "string list"
  shEnforceRecorder :: bool

record ACLNodeAttrGrant =
  naTarget :: "string list"
  naAttr :: "string list"

record ACLGrant =
  agSource :: "string list"
  agDestination :: "string list"
  agIP :: "ProtoPortRange list"
  agApp :: PeerCapMap

record ACLPolicy =
  plGroups :: "string \<rightharpoonup> string list"
  plHosts :: "string \<rightharpoonup> string"
  plACLs :: "ACLEntry list"
  plTagOwners :: "string \<rightharpoonup> string list"
  plAutoApprovers :: "ACLAutoApprovers option"
  plSSH :: "ACLSSH list"
  plNodeAttrs :: "ACLNodeAttrGrant list"
  plGrants :: "ACLGrant list"

record IAMPolicy =
  iamSubs :: "string list"
  iamEmails :: "string list"
  iamFilters :: "string list"
  iamRoles :: "string \<rightharpoonup> string"

text \<open>A policy as the user wrote it, with its decoded form (\<open>datatypes.go\<close>).\<close>

record 'a HuJSON =
  hjV :: string
  hjT :: "'a option"

definition HuJSON_Equal :: "'a HuJSON option \<Rightarrow> 'a HuJSON option \<Rightarrow> bool" where
  "HuJSON_Equal i x =
     (case (i, x) of
        (None, None) \<Rightarrow> True
      | (Some a, Some b) \<Rightarrow> hjV a = hjV b
      | _ \<Rightarrow> False)"

text \<open>The column value of a policy: an empty text is stored as NULL.\<close>

definition HuJSON_Value :: "'a HuJSON \<Rightarrow> string option" where
  "HuJSON_Value h = (if length (hjV h) = 0 then None else Some (hjV h))"

section \<open>Accounts, tailnets, users\<close>

record Account =
  acID :: uint64
  acExternalID :: string
  acOrganization :: string
  acLoginName :: string
  acLastAuthenticated :: "instant option"

record DNSRecord =
  drName :: string
  drType :: string
  drValue :: string

record DNSConfig =
  dcHttpsCertsEnabled :: bool
  dcMagicDNS :: bool
  dcOverrideLocalDNS :: bool
  dcNameservers :: "string list"
  dcRoutes :: "(string \<times> string list) list"
  dcSearchDomains :: "string list"
  dcExtraRecords :: "DNSRecord list"

text \<open>
  \<open>reflect.DeepEqual\<close> on the two route maps ignores the order of their keys. A nil slice
  and an empty one are not told apart here.
\<close>

definition DNSConfig_Equal :: "DNSConfig option \<Rightarrow> DNSConfig option \<Rightarrow> bool" where
  "DNSConfig_Equal i x =
     (case (i, x) of
        (None, None) \<Rightarrow> True
      | (Some a, Some b) \<Rightarrow>
          dcMagicDNS a = dcMagicDNS b \<and>
          dcHttpsCertsEnabled a = dcHttpsCertsEnabled b \<and>
          dcOverrideLocalDNS a = dcOverrideLocalDNS b \<and>
          dcNameservers a = dcNameservers b \<and>
          set (dcRoutes a) = set (dcRoutes b) \<and>
          dcSearchDomains a = dcSearchDomains b \<and>
          dcExtraRecords a = dcExtraRecords b
      | _ \<Rightarrow> False)"

text \<open>A relay map is opaque (\<open>tailcfg.DERPMap\<close>): its JSON text.\<close>

record DERPMap =
  dmChecksum :: string
  dmDERPMap :: string

record Tailnet =
  tID :: uint64
  tName :: string
  tOrganization :: string
  tDNSConfig :: DNSConfig
  tIAMPolicy :: "IAMPolicy HuJSON"
  tACLPolicy :: "ACLPolicy HuJSON"
  tDERPMap :: DERPMap
  tServiceCollectionEnabled :: bool
  tFileSharingEnabled :: bool
  tSSHEnabled :: bool
  tMachineAuthorizationEnabled :: bool
  tTailnetLockEnabled :: bool

definition SystemRoleAdmin :: string where
  "SystemRoleAdmin = ''admin''"

definition UserRoleNone :: string where
  "UserRoleNone = []"

definition UserRoleMember :: string where
  "UserRoleMember = ''member''"

definition UserRoleAdmin :: string where
  "UserRoleAdmin = ''admin''"

definition UserTypeService :: string where
  "UserTypeService = ''service''"

definition UserTypePerson :: string where
  "UserTypePerson = ''person''"

lemmas role_defs = SystemRoleAdmin_def UserRoleNone_def UserRoleMember_def UserRoleAdmin_def
  UserTypeService_def UserTypePerson_def

definition SystemRole_IsAdmin :: "string \<Rightarrow> bool" where
  "SystemRole_IsAdmin s \<longleftrightarrow> s = SystemRoleAdmin"

definition UserRole_IsAdmin :: "string \<Rightarrow> bool" where
  "UserRole_IsAdmin s \<longleftrightarrow> s = UserRoleAdmin"

record User =
  uID :: uint64
  uName :: string
  uUserType :: string
  uLastAuthenticated :: "instant option"
  uTailnetID :: uint64
  uTailnet :: Tailnet
  uAccountID :: "uint64 option"
  uAccount :: "Account option"

definition GetRole :: "IAMPolicy \<Rightarrow> User \<Rightarrow> string" where
  "GetRole i user = (case iamRoles i (uName user) of Some val \<Rightarrow> val | None \<Rightarrow> UserRoleMember)"

section \<open>Machines\<close>

record NetInfo =
  niPreferredDERP :: int

record Service =
  svProto :: string
  svPort :: "16 word"
  svDescription :: string

record HostInfo =
  hiHostname :: string
  hiOS :: string
  hiIPNVersion :: string
  hiRoutableIPs :: "Prefix list"
  hiRequestTags :: "string list"
  hiServices :: "Service list"
  hiNetInfo :: "NetInfo option"
  hiSSH_HostKeys :: "string list"

record Machine =
  mID :: uint64
  mName :: string
  mNameIdx :: uint64
  mMachineKey :: string
  mNodeKey :: string
  mDiscoKey :: string
  mNLKey :: string
  mKeySignature :: string
  mEphemeral :: bool
  mRegisteredTags :: "string list"
  mTags :: "string list"
  mKeyExpiryDisabled :: bool
  mAuthorized :: bool
  mUseOSHostname :: bool
  mHostInfo :: HostInfo
  mEndpoints :: "string list"
  mAllowIPs :: "Prefix list"
  mAutoAllowIPs :: "Prefix list"
  mIPv4 :: Addr
  mIPv6 :: Addr
  mCreatedAt :: instant
  mExpiresAt :: instant
  mLastSeen :: "instant option"
  mUserID :: uint64
  mUser :: User
  mTailnetID :: uint64
  mTailnet :: Tailnet

definition CompleteName :: "Machine \<Rightarrow> string" where
  "CompleteName m =
     (if mNameIdx m \<noteq> 0 then mName m @ ''-'' @ Itoa (unat (mNameIdx m)) else mName m)"

definition IPs :: "Machine \<Rightarrow> string list" where
  "IPs m = [Addr_String (mIPv4 m), Addr_String (mIPv6 m)]"

definition IsExpired :: "instant \<Rightarrow> Machine \<Rightarrow> bool" where
  "IsExpired now m \<longleftrightarrow> \<not> mKeyExpiryDisabled m \<and> \<not> IsZero (mExpiresAt m) \<and> mExpiresAt m < now"

definition IsQuarantined :: "instant \<Rightarrow> Machine \<Rightarrow> Tailnet option \<Rightarrow> bool" where
  "IsQuarantined now m t =
     (if IsExpired now m then True
      else case t of None \<Rightarrow> False
           | Some t' \<Rightarrow> tMachineAuthorizationEnabled t' \<and> \<not> mAuthorized m)"

definition HasIP :: "Machine \<Rightarrow> Addr \<Rightarrow> bool" where
  "HasIP m v \<longleftrightarrow> v = mIPv4 m \<or> v = mIPv6 m"

definition HasTag :: "Machine \<Rightarrow> string \<Rightarrow> bool" where
  "HasTag m tag \<longleftrightarrow> list_ex (\<lambda>t. t = tag) (mTags m)"

definition HasUser :: "Machine \<Rightarrow> string \<Rightarrow> bool" where
  "HasUser m loginName \<longleftrightarrow> uName (mUser m) = loginName"

definition HasTags :: "Machine \<Rightarrow> bool" where
  "HasTags m \<longleftrightarrow> length (mTags m) \<noteq> 0"

definition IsAdvertisedExitNode :: "Machine \<Rightarrow> bool" where
  "IsAdvertisedExitNode m \<longleftrightarrow> list_ex (\<lambda>r. Bits r = 0) (hiRoutableIPs (mHostInfo m))"

definition IsAllowedExitNode :: "Machine \<Rightarrow> bool" where
  "IsAllowedExitNode m \<longleftrightarrow>
     list_ex (\<lambda>r. Bits r = 0) (mAllowIPs m) \<or> list_ex (\<lambda>r. Bits r = 0) (mAutoAllowIPs m)"

definition AdvertisedPrefixes :: "Machine \<Rightarrow> string list" where
  "AdvertisedPrefixes m =
     map Prefix_String (filter (\<lambda>r. Bits r \<noteq> 0) (hiRoutableIPs (mHostInfo m)))"

definition AllowedPrefixes :: "Machine \<Rightarrow> string list" where
  "AllowedPrefixes m =
     (let add = (\<lambda>r result. if Bits r \<noteq> 0 then StringSet_Add result [Prefix_String r] else result)
      in StringSet_Items (fold add (mAutoAllowIPs m) (fold add (mAllowIPs m) [])))"

definition IsAllowedIP :: "Machine \<Rightarrow> Addr \<Rightarrow> bool" where
  "IsAllowedIP m i =
     (if HasIP m i then True
      else if list_ex (\<lambda>t. Contains t i) (mAllowIPs m) then True
      else list_ex (\<lambda>t. Contains t i) (mAutoAllowIPs m))"

definition IsAllowedIPPrefix :: "Machine \<Rightarrow> Prefix \<Rightarrow> bool" where
  "IsAllowedIPPrefix m i =
     (if list_ex (\<lambda>t. Overlaps t i) (mAllowIPs m) then True
      else list_ex (\<lambda>t. Overlaps t i) (mAutoAllowIPs m))"

definition IsExitNode :: "Machine \<Rightarrow> bool" where
  "IsExitNode m \<longleftrightarrow>
     list_ex (\<lambda>t. Bits t = 0) (mAllowIPs m) \<or> list_ex (\<lambda>t. Bits t = 0) (mAutoAllowIPs m)"

text \<open>
  The columns. A value the driver hands to \<open>Scan\<close> is a string, a byte slice or NULL.
\<close>

datatype driver_value = DNull | DString string | DBytes string

definition IP_Scan :: "driver_value \<Rightarrow> error + Addr" where
  "IP_Scan d =
     (case d of
        DString value \<Rightarrow>
          (case ParseAddr value of None \<Rightarrow> Inl (Err ''ParseAddr'') | Some ip \<Rightarrow> Inr ip)
      | _ \<Rightarrow> Inl (Err ''unexpected data type''))"

definition IP_Value :: "Addr option \<Rightarrow> driver_value" where
  "IP_Value i = (case i of None \<Rightarrow> DNull | Some a \<Rightarrow> DString (Addr_String a))"

section \<open>Tags\<close>

definition Tags_Scan :: "driver_value \<Rightarrow> error + string list" where
  "Tags_Scan d =
     (case d of
        DString value \<Rightarrow>
          (let t = Trim value CHR ''|''
           in if length t = 0 then Inr [] else Inr (Split CHR ''|'' t))
      | _ \<Rightarrow> Inl (Err ''unexpected data type''))"

definition Tags_Value :: "string list \<Rightarrow> driver_value" where
  "Tags_Value i =
     (if length i = 0 then DString []
      else DString (''|'' @ Join i ''|'' @ ''|''))"

definition SanitizeTags :: "string list \<Rightarrow> string list" where
  "SanitizeTags input = StringSet_Items (StringSet_Add [] input)"

section \<open>Identities and third-party functions\<close>

text \<open>A decoded JSON claim of the identity provider.\<close>

datatype claim =
    CNull
  | CBool bool
  | CNumber int
  | CString string
  | CList "claim list"
  | CObject "(string \<times> claim) list"

type_synonym attrs = "string \<rightharpoonup> claim"

record Identity =
  idUserID :: string
  idUsername :: string
  idEmail :: string
  idAttr :: attrs

text \<open>
  The outcome of a filter: \<open>EvalNotFound\<close> is \<open>pointerstructure.ErrNotFound\<close>; the boolean
  is the result returned beside the error.
\<close>

datatype eval_result = EvalOk bool | EvalNotFound bool | EvalError string

record env =
  envSanitizeLabel :: "string \<Rightarrow> string"
  envSanitizeHostname :: "string \<Rightarrow> string"
  envParseAddress :: "string \<Rightarrow> string option"
  envCheckTag :: "string \<Rightarrow> bool"
  envCreateEvaluator :: "string \<Rightarrow> bool"
  envEvaluate :: "string \<Rightarrow> attrs \<Rightarrow> eval_result"
  envParseACLPolicy :: "string \<Rightarrow> (string \<times> ACLPolicy) option"
  envParseIAMPolicy :: "string \<Rightarrow> (string \<times> IAMPolicy) option"
  envMarshalACLPolicy :: "ACLPolicy \<Rightarrow> string"
  envMarshalIAMPolicy :: "IAMPolicy \<Rightarrow> string"
  envHash :: "string \<Rightarrow> string"
  envCompareHash :: "string \<Rightarrow> string \<Rightarrow> bool"
  envChecksum :: "string \<Rightarrow> string"
  envTailscaleSSHEnabled :: "HostInfo \<Rightarrow> bool"
  envMagicDNSSuffix :: string
  envDNSProviderConfigured :: bool

definition CheckTags :: "env \<Rightarrow> string list \<Rightarrow> error option" where
  "CheckTags e tags =
     (if list_ex (\<lambda>t. \<not> envCheckTag e t) tags then Some (Err ''invalid tags'') else None)"

text \<open>\<open>IAMPolicy.EvaluatePolicy\<close>: the subjects, then the emails, then the filters in order.\<close>

primrec evaluateFilters :: "env \<Rightarrow> attrs \<Rightarrow> string list \<Rightarrow> error + bool" where
  "evaluateFilters e attr [] = Inr False"
| "evaluateFilters e attr (f # fs) =
     (if f = ''*'' then Inr True
      else if \<not> envCreateEvaluator e f then Inl (Err ''bexpr'')
      else case envEvaluate e f attr of
             EvalError s \<Rightarrow> Inl (Err s)
           | EvalOk result \<Rightarrow> if result then Inr True else evaluateFilters e attr fs
           | EvalNotFound result \<Rightarrow> if result then Inr True else evaluateFilters e attr fs)"

definition EvaluatePolicy :: "env \<Rightarrow> IAMPolicy \<Rightarrow> Identity \<Rightarrow> error + bool" where
  "EvaluatePolicy e i identity =
     (if list_ex (\<lambda>sub. idUserID identity = sub) (iamSubs i) then Inr True
      else if list_ex (\<lambda>email. idEmail identity = email) (iamEmails i) then Inr True
      else evaluateFilters e (idAttr identity) (iamFilters i))"

definition SanitizeTailnetName :: "env \<Rightarrow> string \<Rightarrow> string" where
  "SanitizeTailnetName e name0 =
     (let name = ToLower name0
      in if envParseAddress e name = Some name then
           (let s = Split CHR ''@'' name
            in Join [envSanitizeLabel e (s ! 0), s ! 1] ''.'')
         else Join (map (envSanitizeLabel e) (Split CHR ''.'' name)) ''.'')"

definition GetDERPMap :: "Tailnet \<Rightarrow> DERPMap \<Rightarrow> DERPMap" where
  "GetDERPMap t fallback = (if dmChecksum (tDERPMap t) = [] then fallback else tDERPMap t)"

definition WrapDERPMap :: "env \<Rightarrow> string \<Rightarrow> DERPMap" where
  "WrapDERPMap e d = \<lparr>dmChecksum = envChecksum e d, dmDERPMap = d\<rparr>"

definition ParseACLHuJson :: "env \<Rightarrow> string \<Rightarrow> error + ACLPolicy HuJSON" where
  "ParseACLHuJson e v =
     (case envParseACLPolicy e v of
        None \<Rightarrow> Inl (Err ''hujson'')
      | Some (formatted, t) \<Rightarrow> Inr \<lparr>hjV = formatted, hjT = Some t\<rparr>)"

definition ParseIAMHuJson :: "env \<Rightarrow> string \<Rightarrow> error + IAMPolicy HuJSON" where
  "ParseIAMHuJson e v =
     (case envParseIAMPolicy e v of
        None \<Rightarrow> Inl (Err ''hujson'')
      | Some (formatted, t) \<Rightarrow> Inr \<lparr>hjV = formatted, hjT = Some t\<rparr>)"

definition NewIAMHuJSON :: "env \<Rightarrow> IAMPolicy \<Rightarrow> IAMPolicy HuJSON" where
  "NewIAMHuJSON e t = \<lparr>hjV = envMarshalIAMPolicy e t, hjT = Some t\<rparr>"

definition NewACLHuJSON :: "env \<Rightarrow> ACLPolicy \<Rightarrow> ACLPolicy HuJSON" where
  "NewACLHuJSON e t = \<lparr>hjV = envMarshalACLPolicy e t, hjT = Some t\<rparr>"

section \<open>Principals\<close>

record Principal =
  pSystemRole :: string
  pUser :: "User option"
  pUserRole :: string
  pServiceName :: string

definition IsSystemAdmin :: "Principal \<Rightarrow> bool" where
  "IsSystemAdmin p \<longleftrightarrow> SystemRole_IsAdmin (pSystemRole p)"

text \<open>The next three follow \<open>p.User\<close>, and panic when it is nil.\<close>

definition IsTailnetAdmin :: "Principal \<Rightarrow> uint64 \<Rightarrow> error + bool" where
  "IsTailnetAdmin p tailnetID =
     (case pUser p of
        None \<Rightarrow> Inl NilDeref
      | Some u \<Rightarrow> Inr (uTailnetID u = tailnetID \<and> UserRole_IsAdmin (pUserRole p)))"

definition IsTailnetMember :: "Principal \<Rightarrow> uint64 \<Rightarrow> error + bool" where
  "IsTailnetMember p tailnetID =
     (case pUser p of None \<Rightarrow> Inl NilDeref | Some u \<Rightarrow> Inr (uTailnetID u = tailnetID))"

definition UserMatches :: "Principal \<Rightarrow> uint64 \<Rightarrow> error + bool" where
  "UserMatches p userID =
     (case pUser p of None \<Rightarrow> Inl NilDeref | Some u \<Rightarrow> Inr (uID u = userID))"

section \<open>The contract of the sets\<close>

locale go_set =
  fixes inv :: "'s \<Rightarrow> bool"
    and empty :: 's
    and add :: "'s \<Rightarrow> 'a list \<Rightarrow> 's"
    and items :: "'s \<Rightarrow> 'a list"
  assumes inv_empty: "inv empty"
    and inv_add: "inv s \<Longrightarrow> inv (add s t)"
    and items_empty: "items empty = []"
    and items_add: "inv s \<Longrightarrow> set (items (add s t)) = set (items s) \<union> set t"
    and items_distinct: "inv s \<Longrightarrow> distinct (items s)"
begin

lemma inv_fold_add: "inv s \<Longrightarrow> inv (fold (\<lambda>x s. add s (f x)) xs s)"
  by (induction xs arbitrary: s) (auto intro: inv_add)

lemma items_fold_add:
  "inv s \<Longrightarrow> set (items (fold (\<lambda>x s. add s (f x)) xs s)) = set (items s) \<union> (\<Union>x\<in>set xs. set (f x))"
  by (induction xs arbitrary: s) (auto simp: inv_add items_add)

lemma items_collect:
  "set (items (fold (\<lambda>x s. add s (f x)) xs empty)) = (\<Union>x\<in>set xs. set (f x))"
  by (simp add: items_fold_add inv_empty items_empty)

end

lemma set_fold_insert [simp]: "set (fold List.insert t s) = set t \<union> set s"
  by (induction t arbitrary: s) auto

lemma distinct_fold_insert [simp]: "distinct s \<Longrightarrow> distinct (fold List.insert t s)"
  by (induction t arbitrary: s) auto

lemma set_fold_removeAll [simp]: "set (fold removeAll t s) = set s - set t"
  by (induction t arbitrary: s) auto

interpretation string_set: go_set distinct "[]" StringSet_Add StringSet_Items
  by unfold_locales (auto simp: StringSet_Add_def StringSet_Items_def)

interpretation allow_ips_set: go_set distinct "[]" AllowIPsSet_Add AllowIPsSet_Items
  by unfold_locales (auto simp: AllowIPsSet_Add_def AllowIPsSet_Items_def)

lemma sort_distinct_set: "distinct s \<Longrightarrow> sort s = sorted_list_of_set (set s)"
  by (simp add: sorted_list_of_set_sort_remdups distinct_remdups_id)

lemma StringSet_Items_eq:
  "distinct s \<Longrightarrow> distinct t \<Longrightarrow> set s = set t \<Longrightarrow> StringSet_Items s = StringSet_Items t"
  by (simp add: StringSet_Items_def sort_distinct_set)

lemma StringSet_Items_collect:
  "StringSet_Items (fold (\<lambda>x s. StringSet_Add s (f x)) xs []) =
   sorted_list_of_set (\<Union>x\<in>set xs. set (f x))"
proof -
  have "distinct (fold (\<lambda>x s. StringSet_Add s (f x)) xs [])"
    by (rule string_set.inv_fold_add) simp
  then show ?thesis
    using string_set.items_collect[of f xs] by (simp add: StringSet_Items_def sort_distinct_set)
qed

lemma SanitizeTags_eq: "SanitizeTags input = sorted_list_of_set (set input)"
  by (simp add: SanitizeTags_def StringSet_Items_def StringSet_Add_def sort_distinct_set)

end
