(* ===== verification/Samples.thy ===== *)
theory Samples
  imports Domain
begin

text \<open>
  A small tailnet used to instantiate the theorems: two users, a policy, and three
  machines, one of them tagged.
\<close>

definition sample_policy :: ACLPolicy where
  "sample_policy =
     \<lparr>plGroups = [''group:eng'' \<mapsto> [''alice'']],
      plHosts = [''router'' \<mapsto> ''10.1.0.1''],
      plACLs = [\<lparr>aeAction = ''accept'', aeProtocol = ''tcp'', aeSource = [''group:eng''],
                 aeDestination = [''tag:web:80'']\<rparr>],
      plTagOwners = [''tag:web'' \<mapsto> [''group:eng'', ''bob'']],
      plAutoApprovers = Some \<lparr>aaRoutes = [(''10.1.0.0/16'', [''group:eng''])], aaExitNode = [''bob'']\<rparr>,
      plSSH = [\<lparr>shAction = ''accept'', shSource = [''group:eng''], shDestination = [''tag:web''],
                shUsers = [''autogroup:nonroot''], shCheckPeriod = [], shRecorder = [],
                shEnforceRecorder = False\<rparr>],
      plNodeAttrs = [\<lparr>naTarget = [''*''], naAttr = [''funnel'']\<rparr>],
      plGrants = []\<rparr>"

definition sample_iam :: IAMPolicy where
  "sample_iam =
     \<lparr>iamSubs = [], iamEmails = [''alice@example.com''], iamFilters = [],
      iamRoles = [''alice'' \<mapsto> ''admin'']\<rparr>"

definition sample_dns :: DNSConfig where
  "sample_dns =
     \<lparr>dcHttpsCertsEnabled = False, dcMagicDNS = True, dcOverrideLocalDNS = False,
      dcNameservers = [], dcRoutes = [], dcSearchDomains = [], dcExtraRecords = []\<rparr>"

definition sample_tailnet :: Tailnet where
  "sample_tailnet =
     \<lparr>tID = 1, tName = ''example'', tOrganization = ''acme'', tDNSConfig = sample_dns,
      tIAMPolicy = \<lparr>hjV = ''{}'', hjT = Some sample_iam\<rparr>,
      tACLPolicy = \<lparr>hjV = ''{}'', hjT = Some sample_policy\<rparr>,
      tDERPMap = \<lparr>dmChecksum = [], dmDERPMap = []\<rparr>,
      tServiceCollectionEnabled = False, tFileSharingEnabled = True, tSSHEnabled = True,
      tMachineAuthorizationEnabled = False, tTailnetLockEnabled = False\<rparr>"

definition sample_alice :: User where
  "sample_alice =
     \<lparr>uID = 11, uName = ''alice'', uUserType = ''person'', uLastAuthenticated = None,
      uTailnetID = 1, uTailnet = sample_tailnet, uAccountID = Some 21, uAccount = None\<rparr>"

definition sample_bob :: User where
  "sample_bob = sample_alice\<lparr>uID := 12, uName := ''bob'', uAccountID := Some 22\<rparr>"

definition sample_hostinfo :: HostInfo where
  "sample_hostinfo =
     \<lparr>hiHostname = ''laptop'', hiOS = ''linux'', hiIPNVersion = ''1.80'', hiRoutableIPs = [],
      hiRequestTags = [], hiServices = [], hiNetInfo = None, hiSSH_HostKeys = []\<rparr>"

definition sample_laptop :: Machine where
  "sample_laptop =
     \<lparr>mID = 101, mName = ''laptop'', mNameIdx = 0, mMachineKey = ''mkey:1'', mNodeKey = ''nodekey:1'',
      mDiscoKey = [], mNLKey = [], mKeySignature = [], mEphemeral = False, mRegisteredTags = [],
      mTags = [], mKeyExpiryDisabled = False, mAuthorized = True, mUseOSHostname = True,
      mHostInfo = sample_hostinfo, mEndpoints = [], mAllowIPs = [], mAutoAllowIPs = [],
      mIPv4 = Addr4 1681915905, mIPv6 = Addr6 1 [],
      mCreatedAt = 1, mExpiresAt = 0, mLastSeen = None,
      mUserID = 11, mUser = sample_alice, mTailnetID = 1, mTailnet = sample_tailnet\<rparr>"

definition sample_server :: Machine where
  "sample_server =
     sample_laptop\<lparr>mID := 102, mName := ''server'', mMachineKey := ''mkey:2'', mNodeKey := ''nodekey:2'',
       mTags := [''tag:web''], mIPv4 := Addr4 1681915906, mIPv6 := Addr6 2 [],
       mUserID := 12, mUser := sample_bob\<rparr>"

definition sample_phone :: Machine where
  "sample_phone =
     sample_laptop\<lparr>mID := 103, mName := ''phone'', mMachineKey := ''mkey:3'', mNodeKey := ''nodekey:3'',
       mIPv4 := Addr4 1681915907, mIPv6 := Addr6 3 [], mUserID := 12, mUser := sample_bob\<rparr>"

definition sample_env :: env where
  "sample_env =
     \<lparr>envSanitizeLabel = (\<lambda>s. s), envSanitizeHostname = (\<lambda>s. s), envParseAddress = (\<lambda>_. None),
      envCheckTag = (\<lambda>t. HasPrefix t ''tag:''), envCreateEvaluator = (\<lambda>_. True),
      envEvaluate = (\<lambda>_ _. EvalOk False), envParseACLPolicy = (\<lambda>s. Some (s, sample_policy)),
      envParseIAMPolicy = (\<lambda>s. Some (s, sample_iam)), envMarshalACLPolicy = (\<lambda>_. ''{}''),
      envMarshalIAMPolicy = (\<lambda>_. ''{}''), envHash = (\<lambda>p. ''h:'' @ p),
      envCompareHash = (\<lambda>h p. h = ''h:'' @ p), envChecksum = (\<lambda>s. s),
      envTailscaleSSHEnabled = (\<lambda>h. hiSSH_HostKeys h \<noteq> []),
      envMagicDNSSuffix = ''ionscale.net'', envDNSProviderConfigured = False\<rparr>"

lemmas sample_defs = sample_policy_def sample_iam_def sample_dns_def sample_tailnet_def
  sample_alice_def sample_bob_def sample_hostinfo_def sample_laptop_def sample_server_def
  sample_phone_def

end
