(* ===== verification/Sessions.thy ===== *)
theory Sessions
  imports Prelude "HOL-Library.AList"
begin

text \<open>
  \<open>internal/core/session_manager.go\<close>: the registry of the machines that have a map poll
  open, with the channels that wake them up.

  A channel is a number; its state is a capacity, a fill and whether it is closed. A send to
  a closed channel and a second close panic in Go; here they set \<open>smPanicked\<close>, and the
  invariant of the polling protocol says that this never happens. \<open>time.NewTimer\<close> with the
  goroutine that waits for it is an entry of \<open>smTimers\<close>; a stopped timer leaves the list
  (its goroutine waits for ever and does nothing), and a timer that fires runs the
  goroutine's body. The map of tailnets is total, because \<open>load\<close> creates a missing entry.
\<close>

section \<open>State\<close>

record chan =
  chClosed :: bool
  chLen :: nat
  chCap :: nat

record tailnetSessionManager =
  tsTargets :: "(uint64 \<times> nat) list"
  tsTimers :: "(uint64 \<times> nat) list"
  tsSessions :: "uint64 \<rightharpoonup> bool"

record sm_timer =
  tmID :: nat
  tmAt :: instant
  tmTailnet :: uint64
  tmMachine :: uint64
  tmOnline :: bool

record pollMapSessionManager =
  smTailnets :: "uint64 \<Rightarrow> tailnetSessionManager"
  smChans :: "nat \<Rightarrow> chan"
  smTimers :: "sm_timer list"
  smNextTimer :: nat
  smPanicked :: bool

definition empty_tsm :: tailnetSessionManager where
  "empty_tsm = \<lparr>tsTargets = [], tsTimers = [], tsSessions = Map.empty\<rparr>"

definition NewPollMapSessionManager :: pollMapSessionManager where
  "NewPollMapSessionManager =
     \<lparr>smTailnets = (\<lambda>_. empty_tsm), smChans = (\<lambda>_. \<lparr>chClosed = False, chLen = 0, chCap = 0\<rparr>),
      smTimers = [], smNextTimer = 0, smPanicked = False\<rparr>"

definition set_tsm ::
    "uint64 \<Rightarrow> tailnetSessionManager \<Rightarrow> pollMapSessionManager \<Rightarrow> pollMapSessionManager" where
  "set_tsm t ts s = s\<lparr>smTailnets := (smTailnets s)(t := ts)\<rparr>"

section \<open>Channels\<close>

definition close_chan :: "nat \<Rightarrow> pollMapSessionManager \<Rightarrow> pollMapSessionManager" where
  "close_chan c s =
     (if chClosed (smChans s c) then s\<lparr>smPanicked := True\<rparr>
      else s\<lparr>smChans := (smChans s)(c := (smChans s c)\<lparr>chClosed := True\<rparr>)\<rparr>)"

text \<open>The \<open>select\<close> with a default branch: a ping is dropped when the buffer is full.\<close>

definition try_send :: "nat \<Rightarrow> pollMapSessionManager \<Rightarrow> pollMapSessionManager" where
  "try_send c s =
     (if chClosed (smChans s c) then s\<lparr>smPanicked := True\<rparr>
      else if chLen (smChans s c) < chCap (smChans s c) then
        s\<lparr>smChans := (smChans s)(c := (smChans s c)\<lparr>chLen := chLen (smChans s c) + 1\<rparr>)\<rparr>
      else s)"

section \<open>Operations\<close>

definition HasSession :: "uint64 \<Rightarrow> uint64 \<Rightarrow> pollMapSessionManager \<Rightarrow> bool" where
  "HasSession tailnetID machineID s \<longleftrightarrow> tsSessions (smTailnets s tailnetID) machineID = Some True"

definition NotifyAll ::
    "uint64 \<Rightarrow> uint64 list \<Rightarrow> pollMapSessionManager \<Rightarrow> pollMapSessionManager" where
  "NotifyAll tailnetID ignoreMachineIDs s =
     fold (\<lambda>(i, p) s. if i \<notin> set ignoreMachineIDs then try_send p s else s)
       (tsTargets (smTailnets s tailnetID)) s"

text \<open>Stop the timer of the machine, if any, and start a new one.\<close>

definition replace_timer ::
    "uint64 \<Rightarrow> uint64 \<Rightarrow> instant \<Rightarrow> bool \<Rightarrow> pollMapSessionManager \<Rightarrow> pollMapSessionManager" where
  "replace_timer t m at online s =
     (let ts = smTailnets s t;
          live = (case map_of (tsTimers ts) m of
                    None \<Rightarrow> smTimers s
                  | Some old \<Rightarrow> filter (\<lambda>x. tmID x \<noteq> old) (smTimers s));
          new = \<lparr>tmID = smNextTimer s, tmAt = at, tmTailnet = t, tmMachine = m, tmOnline = online\<rparr>
      in set_tsm t (ts\<lparr>tsTimers := AList.update m (smNextTimer s) (tsTimers ts)\<rparr>)
           (s\<lparr>smTimers := live @ [new], smNextTimer := smNextTimer s + 1\<rparr>))"

definition Register ::
    "uint64 \<Rightarrow> uint64 \<Rightarrow> nat \<Rightarrow> instant \<Rightarrow> pollMapSessionManager \<Rightarrow> pollMapSessionManager" where
  "Register tailnetID machineID ch now s =
     (let s1 = (case map_of (tsTargets (smTailnets s tailnetID)) machineID of
                  None \<Rightarrow> s | Some prev \<Rightarrow> close_chan prev s);
          ts = smTailnets s1 tailnetID;
          s2 = set_tsm tailnetID
                 (ts\<lparr>tsTargets := AList.update machineID ch (tsTargets ts),
                     tsSessions := (tsSessions ts)(machineID \<mapsto> True)\<rparr>) s1
      in replace_timer tailnetID machineID (now + 5 * Second) True s2)"

definition Deregister ::
    "uint64 \<Rightarrow> uint64 \<Rightarrow> nat \<Rightarrow> instant \<Rightarrow> pollMapSessionManager \<Rightarrow> pollMapSessionManager" where
  "Deregister tailnetID machineID ch now s =
     (let ts = smTailnets s tailnetID
      in if (case map_of (tsTargets ts) machineID of None \<Rightarrow> False | Some prev \<Rightarrow> prev \<noteq> ch) then s
         else
           replace_timer tailnetID machineID (now + 10 * Second) False
             (set_tsm tailnetID
                (ts\<lparr>tsTargets := AList.delete machineID (tsTargets ts),
                    tsSessions := (tsSessions ts)(machineID \<mapsto> False)\<rparr>) s))"

text \<open>The goroutine of a timer that fires.\<close>

definition fire_timer :: "sm_timer \<Rightarrow> pollMapSessionManager \<Rightarrow> pollMapSessionManager" where
  "fire_timer x s =
     (let s1 = s\<lparr>smTimers := filter (\<lambda>y. tmID y \<noteq> tmID x) (smTimers s)\<rparr>
      in if tmOnline x then
           (if HasSession (tmTailnet x) (tmMachine x) s1 then NotifyAll (tmTailnet x) [tmMachine x] s1 else s1)
         else
           (if \<not> HasSession (tmTailnet x) (tmMachine x) s1 then NotifyAll (tmTailnet x) [] s1 else s1))"

text \<open>
  \<open>make(chan *core.Ping, 20)\<close> of \<open>PollNetMapHandler\<close>, and the receive of its loop.
\<close>

definition make_chan :: "nat \<Rightarrow> pollMapSessionManager \<Rightarrow> pollMapSessionManager" where
  "make_chan c s = s\<lparr>smChans := (smChans s)(c := \<lparr>chClosed = False, chLen = 0, chCap = 20\<rparr>)\<rparr>"

definition receive_chan :: "nat \<Rightarrow> pollMapSessionManager \<Rightarrow> pollMapSessionManager" where
  "receive_chan c s =
     s\<lparr>smChans := (smChans s)(c := (smChans s c)\<lparr>chLen := chLen (smChans s c) - 1\<rparr>)\<rparr>"

section \<open>The interface of the session manager\<close>

locale poll_sessions =
  fixes has :: "uint64 \<Rightarrow> uint64 \<Rightarrow> 's \<Rightarrow> bool"
    and owner :: "uint64 \<Rightarrow> uint64 \<Rightarrow> 's \<Rightarrow> nat option"
    and register :: "uint64 \<Rightarrow> uint64 \<Rightarrow> nat \<Rightarrow> instant \<Rightarrow> 's \<Rightarrow> 's"
    and deregister :: "uint64 \<Rightarrow> uint64 \<Rightarrow> nat \<Rightarrow> instant \<Rightarrow> 's \<Rightarrow> 's"
    and notify :: "uint64 \<Rightarrow> uint64 list \<Rightarrow> 's \<Rightarrow> 's"
  assumes has_register: "has t m (register t' m' c now s) \<longleftrightarrow> (t = t' \<and> m = m') \<or> has t m s"
    and owner_register:
      "owner t m (register t' m' c now s) = (if t = t' \<and> m = m' then Some c else owner t m s)"
    and has_deregister:
      "has t m (deregister t' m' c now s) \<longleftrightarrow>
         has t m s \<and> \<not> (t = t' \<and> m = m' \<and> (owner t' m' s = None \<or> owner t' m' s = Some c))"
    and owner_deregister:
      "owner t m (deregister t' m' c now s) =
         (if t = t' \<and> m = m' \<and> owner t m s = Some c then None else owner t m s)"
    and has_notify: "has t m (notify t' ign s) = has t m s"
    and owner_notify: "owner t m (notify t' ign s) = owner t m s"
begin

text \<open>A disconnect that arrives late does not end the session that replaced it.\<close>

lemma stale_deregister:
  assumes "c \<noteq> c'"
  shows "has t m (deregister t m c now' (register t m c' now s)) \<and>
         owner t m (deregister t m c now' (register t m c' now s)) = Some c'"
  using assms by (simp add: has_deregister has_register owner_register owner_deregister)

lemma register_deregister:
  "\<not> has t m (deregister t m c now' (register t m c now s)) \<and>
   owner t m (deregister t m c now' (register t m c now s)) = None"
  by (simp add: has_deregister has_register owner_register owner_deregister)

lemma other_machines_unaffected:
  assumes "(t, m) \<noteq> (t', m')"
  shows "has t m (register t' m' c now s) = has t m s"
    and "has t m (deregister t' m' c now s) = has t m s"
  using assms by (auto simp: has_register has_deregister)

end

definition session_owner :: "uint64 \<Rightarrow> uint64 \<Rightarrow> pollMapSessionManager \<Rightarrow> nat option" where
  "session_owner t m s = map_of (tsTargets (smTailnets s t)) m"

lemma set_tsm_simps [simp]:
  "smTailnets (set_tsm t ts s) = (smTailnets s)(t := ts)"
  "smChans (set_tsm t ts s) = smChans s"
  "smTimers (set_tsm t ts s) = smTimers s"
  "smNextTimer (set_tsm t ts s) = smNextTimer s"
  "smPanicked (set_tsm t ts s) = smPanicked s"
  by (simp_all add: set_tsm_def)

lemma close_chan_tailnets [simp]: "smTailnets (close_chan c s) = smTailnets s"
  by (simp add: close_chan_def)

lemma try_send_tailnets [simp]: "smTailnets (try_send c s) = smTailnets s"
  by (simp add: try_send_def)

lemma fold_try_send_tailnets [simp]:
  "smTailnets (fold (\<lambda>(i, p) s. if i \<notin> ign then try_send p s else s) xs s) = smTailnets s"
  by (induction xs arbitrary: s) (auto split: prod.splits)

lemma NotifyAll_tailnets [simp]: "smTailnets (NotifyAll t ign s) = smTailnets s"
  by (simp add: NotifyAll_def)

lemma replace_timer_sessions [simp]:
  "tsTargets (smTailnets (replace_timer t m at b s) t') = tsTargets (smTailnets s t')"
  "tsSessions (smTailnets (replace_timer t m at b s) t') = tsSessions (smTailnets s t')"
  "smChans (replace_timer t m at b s) = smChans s"
  "smPanicked (replace_timer t m at b s) = smPanicked s"
  by (simp_all add: replace_timer_def Let_def)

lemma Register_targets:
  "tsTargets (smTailnets (Register t m c now s) t') =
     (if t' = t then AList.update m c (tsTargets (smTailnets s t)) else tsTargets (smTailnets s t'))"
  "tsSessions (smTailnets (Register t m c now s) t') =
     (if t' = t then (tsSessions (smTailnets s t))(m \<mapsto> True) else tsSessions (smTailnets s t'))"
  by (auto simp: Register_def Let_def split: option.splits)

lemma Deregister_stale: "session_owner t m s = Some c' \<Longrightarrow> c' \<noteq> c \<Longrightarrow> Deregister t m c now s = s"
  by (simp add: Deregister_def session_owner_def)

lemma Deregister_targets:
  assumes "session_owner t m s = None \<or> session_owner t m s = Some c"
  shows "tsTargets (smTailnets (Deregister t m c now s) t') =
     (if t' = t then AList.delete m (tsTargets (smTailnets s t)) else tsTargets (smTailnets s t'))"
    and "tsSessions (smTailnets (Deregister t m c now s) t') =
     (if t' = t then (tsSessions (smTailnets s t))(m \<mapsto> False) else tsSessions (smTailnets s t'))"
    and "smChans (Deregister t m c now s) = smChans s" "smPanicked (Deregister t m c now s) = smPanicked s"
  using assms by (auto simp: Deregister_def session_owner_def Let_def split: option.splits)

interpretation sessions: poll_sessions HasSession session_owner Register Deregister NotifyAll
proof unfold_locales
  fix t m t' m' :: uint64 and c :: nat and now :: instant and s :: pollMapSessionManager and ign
  show "HasSession t m (Register t' m' c now s) \<longleftrightarrow> (t = t' \<and> m = m') \<or> HasSession t m s"
    by (auto simp: HasSession_def Register_targets)
  show "session_owner t m (Register t' m' c now s) = (if t = t' \<and> m = m' then Some c else session_owner t m s)"
    by (auto simp: session_owner_def Register_targets update_conv')
  have cases: "session_owner t' m' s = None \<or> session_owner t' m' s = Some c \<or>
      (\<exists>c'. session_owner t' m' s = Some c' \<and> c' \<noteq> c)"
    by (cases "session_owner t' m' s") auto
  then show "HasSession t m (Deregister t' m' c now s) \<longleftrightarrow> HasSession t m s \<and>
      \<not> (t = t' \<and> m = m' \<and> (session_owner t' m' s = None \<or> session_owner t' m' s = Some c))"
    by (auto simp: HasSession_def Deregister_targets Deregister_stale split: if_splits)
  from cases show "session_owner t m (Deregister t' m' c now s) =
      (if t = t' \<and> m = m' \<and> session_owner t m s = Some c then None else session_owner t m s)"
    by (auto simp: Deregister_stale) (auto simp: session_owner_def Deregister_targets delete_conv')
  show "HasSession t m (NotifyAll t' ign s) = HasSession t m s" by (simp add: HasSession_def)
  show "session_owner t m (NotifyAll t' ign s) = session_owner t m s" by (simp add: session_owner_def)
qed

section \<open>The polling protocol\<close>

text \<open>
  What the poll handlers do to the session manager, as a step relation. \<open>pcNext\<close> is the
  next channel that \<open>make\<close> returns and \<open>pcOpen\<close> the handlers that registered and have not
  run their deferred \<open>Deregister\<close>; each handler deregisters the channel it registered, once,
  at any time, in any order with the other handlers, the notifications and the timers.
\<close>

record poll_system =
  pcState :: pollMapSessionManager
  pcNext :: nat
  pcOpen :: "(nat \<times> uint64 \<times> uint64) list"

definition poll_init :: poll_system where
  "poll_init = \<lparr>pcState = NewPollMapSessionManager, pcNext = 0, pcOpen = []\<rparr>"

inductive poll_step :: "poll_system \<Rightarrow> poll_system \<Rightarrow> bool" where
  connect: "poll_step p (p\<lparr>pcState := Register t m (pcNext p) now (make_chan (pcNext p) (pcState p)),
                          pcNext := pcNext p + 1, pcOpen := (pcNext p, t, m) # pcOpen p\<rparr>)"
| disconnect: "(c, t, m) \<in> set (pcOpen p) \<Longrightarrow>
    poll_step p (p\<lparr>pcState := Deregister t m c now (pcState p), pcOpen := removeAll (c, t, m) (pcOpen p)\<rparr>)"
| notify: "poll_step p (p\<lparr>pcState := NotifyAll t ign (pcState p)\<rparr>)"
| fire: "x \<in> set (smTimers (pcState p)) \<Longrightarrow>
    poll_step p (p\<lparr>pcState := fire_timer x (pcState p)\<rparr>)"
| receive: "c < pcNext p \<Longrightarrow> poll_step p (p\<lparr>pcState := receive_chan c (pcState p)\<rparr>)"

inductive poll_reachable :: "poll_system \<Rightarrow> bool" where
  init: "poll_reachable poll_init"
| step: "poll_reachable p \<Longrightarrow> poll_step p q \<Longrightarrow> poll_reachable q"

text \<open>
  The invariant: every target is an open buffered channel, made before and registered by a handler
  for that machine that is still running; a session is recorded exactly for the machines
  with a target.
\<close>

definition chans_ok :: "pollMapSessionManager \<Rightarrow> nat \<Rightarrow> (nat \<times> uint64 \<times> uint64) list \<Rightarrow> bool" where
  "chans_ok s n op \<longleftrightarrow>
     \<not> smPanicked s \<and>
     (\<forall>t. distinct (map fst (tsTargets (smTailnets s t)))) \<and>
     (\<forall>t m c. (m, c) \<in> set (tsTargets (smTailnets s t)) \<longrightarrow>
        c < n \<and> \<not> chClosed (smChans s c) \<and> 0 < chCap (smChans s c) \<and> (c, t, m) \<in> set op) \<and>
     (\<forall>t m. HasSession t m s \<longleftrightarrow> session_owner t m s \<noteq> None)"

definition poll_inv :: "poll_system \<Rightarrow> bool" where
  "poll_inv p \<longleftrightarrow> chans_ok (pcState p) (pcNext p) (pcOpen p) \<and>
     distinct (map fst (pcOpen p)) \<and> (\<forall>c t m. (c, t, m) \<in> set (pcOpen p) \<longrightarrow> c < pcNext p)"

section \<open>No send on a closed channel\<close>

lemma try_send_closed [simp]: "chClosed (smChans (try_send c s) x) = chClosed (smChans s x)"
  by (simp add: try_send_def)

lemma try_send_cap [simp]: "chCap (smChans (try_send c s) x) = chCap (smChans s x)"
  by (simp add: try_send_def)

lemma try_send_len:
  "chLen (smChans s x) \<le> chLen (smChans (try_send c s) x)"
  "\<not> chClosed (smChans s c) \<Longrightarrow> 0 < chCap (smChans s c) \<Longrightarrow> 0 < chLen (smChans (try_send c s) c)"
  by (auto simp: try_send_def)

lemma try_send_panicked: "smPanicked (try_send c s) \<longleftrightarrow> smPanicked s \<or> chClosed (smChans s c)"
  by (simp add: try_send_def)

lemma fold_try_send:
  "chClosed (smChans (fold (\<lambda>(i, p) s. if i \<notin> ign then try_send p s else s) xs s) x) = chClosed (smChans s x)"
  "smPanicked (fold (\<lambda>(i, p) s. if i \<notin> ign then try_send p s else s) xs s) \<Longrightarrow>
     smPanicked s \<or> (\<exists>(i, p) \<in> set xs. chClosed (smChans s p))"
  by (induction xs arbitrary: s) (fastforce simp: try_send_panicked split: prod.splits if_splits)+

lemma fold_try_send_cap:
  "chCap (smChans (fold (\<lambda>(i, p) s. if i \<notin> ign then try_send p s else s) xs s) x) = chCap (smChans s x)"
  by (induction xs arbitrary: s) (auto split: prod.splits)

lemma fold_try_send_len:
  "chLen (smChans s x) \<le> chLen (smChans (fold (\<lambda>(i, p) s. if i \<notin> ign then try_send p s else s) xs s) x)"
proof (induction xs arbitrary: s)
  case (Cons y xs)
  obtain i p where y: "y = (i, p)" by fastforce
  show ?case using Cons[of "try_send p s"] Cons[of s] try_send_len(1)[of s x p] by (auto simp: y)
qed simp

lemma fold_try_send_woken:
  "(i, c) \<in> set xs \<Longrightarrow> i \<notin> ign \<Longrightarrow> \<not> chClosed (smChans s c) \<Longrightarrow> 0 < chCap (smChans s c) \<Longrightarrow>
   0 < chLen (smChans (fold (\<lambda>(i, p) s. if i \<notin> ign then try_send p s else s) xs s) c)"
proof (induction xs arbitrary: s)
  case (Cons y xs)
  obtain j p where y: "y = (j, p)" by fastforce
  show ?case
  proof (cases "(j, p) = (i, c)")
    case True
    with Cons.prems try_send_len(2)[of s c] fold_try_send_len[of "try_send c s" c ign xs] show ?thesis
      by (auto simp: y)
  next
    case False
    with Cons.prems have "(i, c) \<in> set xs" by (auto simp: y)
    with Cons.prems Cons.IH[of s] Cons.IH[of "try_send p s"] show ?thesis by (auto simp: y)
  qed
qed simp

lemma NotifyAll_closed: "chClosed (smChans (NotifyAll t ign s) x) = chClosed (smChans s x)"
  by (simp add: NotifyAll_def fold_try_send)

lemma NotifyAll_cap: "chCap (smChans (NotifyAll t ign s) x) = chCap (smChans s x)"
  by (simp add: NotifyAll_def fold_try_send_cap)

lemma NotifyAll_panicked:
  "smPanicked (NotifyAll t ign s) \<Longrightarrow> smPanicked s \<or> (\<exists>(i, p) \<in> set (tsTargets (smTailnets s t)). chClosed (smChans s p))"
  unfolding NotifyAll_def by (rule fold_try_send)

lemma chans_ok_NotifyAll: "chans_ok s n op \<Longrightarrow> chans_ok (NotifyAll t ign s) n op"
  using NotifyAll_panicked[of t ign s]
  by (auto simp: chans_ok_def NotifyAll_closed NotifyAll_cap sessions.has_notify sessions.owner_notify)

lemma chans_ok_fire: "chans_ok s n op \<Longrightarrow> chans_ok (fire_timer x s) n op"
proof -
  assume ok: "chans_ok s n op"
  let ?s = "s\<lparr>smTimers := filter (\<lambda>y. tmID y \<noteq> tmID x) (smTimers s)\<rparr>"
  from ok have "chans_ok ?s n op" by (simp add: chans_ok_def HasSession_def session_owner_def)
  then show ?thesis by (simp add: fire_timer_def Let_def chans_ok_NotifyAll)
qed

lemma chans_ok_receive: "chans_ok s n op \<Longrightarrow> chans_ok (receive_chan c s) n op"
  by (simp add: chans_ok_def receive_chan_def HasSession_def session_owner_def)

lemma chans_ok_make: "chans_ok s n op \<Longrightarrow> chans_ok (make_chan n s) n op"
  by (auto simp: chans_ok_def make_chan_def HasSession_def session_owner_def)

lemma set_AList_update:
  "distinct (map fst xs) \<Longrightarrow> (k, v) \<in> set (AList.update k' v' xs) \<longleftrightarrow>
     (if k = k' then v = v' else (k, v) \<in> set xs)"
  by (metis distinct_update map_of_eq_Some_iff option.inject update_conv' fun_upd_apply)

lemma set_AList_delete: "(k, v) \<in> set (AList.delete k' xs) \<longleftrightarrow> k \<noteq> k' \<and> (k, v) \<in> set xs"
  by (auto simp: AList.delete_eq)

lemma chans_ok_Deregister:
  assumes "chans_ok s n op" and "distinct (map fst op)" and "(c, t, m) \<in> set op"
  shows "chans_ok (Deregister t m c now s) n (removeAll (c, t, m) op)"
proof (cases "session_owner t m s = None \<or> session_owner t m s = Some c")
  case True
  have "(c', t', m') \<in> set (removeAll (c, t, m) op)"
    if "(m', c') \<in> set (tsTargets (smTailnets s t'))" "\<not> (t' = t \<and> m' = m)" for t' m' c'
    using that assms(1) by (auto simp: chans_ok_def)
  with assms(1) True show ?thesis
    unfolding chans_ok_def sessions.has_deregister sessions.owner_deregister
    by (auto simp: Deregister_targets set_AList_delete distinct_delete)
next
  case False
  then obtain c' where c': "session_owner t m s = Some c'" "c' \<noteq> c" by auto
  have "x \<noteq> c" if "(m', x) \<in> set (tsTargets (smTailnets s t'))" for t' m' x
  proof
    assume "x = c"
    with that assms(1) have "(c, t', m') \<in> set op" by (auto simp: chans_ok_def)
    with assms(2,3) have "(t', m') = (t, m)" by (metis eq_key_imp_eq_value)
    with that \<open>x = c\<close> have "(m, c) \<in> set (tsTargets (smTailnets s t))" by simp
    with assms(1) have "session_owner t m s = Some c" by (simp add: chans_ok_def session_owner_def)
    with c' show False by simp
  qed
  with assms(1) c' show ?thesis by (fastforce simp: Deregister_stale chans_ok_def)
qed

lemma Register_chans:
  "smChans (Register t m c now s) =
     (case session_owner t m s of None \<Rightarrow> smChans s | Some old \<Rightarrow> smChans (close_chan old s))"
  "smPanicked (Register t m c now s) \<longleftrightarrow>
     smPanicked s \<or> (\<exists>old. session_owner t m s = Some old \<and> chClosed (smChans s old))"
  by (auto simp: Register_def session_owner_def close_chan_def Let_def split: option.splits)

lemma chans_ok_Register:
  assumes ok: "chans_ok s n op" and dist: "distinct (map fst op)" and "\<not> chClosed (smChans s n)" "0 < chCap (smChans s n)"
  shows "chans_ok (Register t m n now s) (n + 1) ((n, t, m) # op)"
proof -
  have open_old: "old < n \<and> \<not> chClosed (smChans s old)" if "session_owner t m s = Some old" for old
    using that ok map_of_SomeD by (fastforce simp: chans_ok_def session_owner_def)
  have other: "session_owner t m s \<noteq> Some c"
    if "(m', c) \<in> set (tsTargets (smTailnets s t'))" "(t', m') \<noteq> (t, m)" for t' m' c
  proof
    assume "session_owner t m s = Some c"
    with that ok have "(c, t', m') \<in> set op" "(c, t, m) \<in> set op"
      using map_of_SomeD by (fastforce simp: chans_ok_def session_owner_def)+
    with dist that(2) show False by (metis eq_key_imp_eq_value)
  qed
  have closed: "chClosed (smChans (Register t m n now s) c) \<longleftrightarrow> chClosed (smChans s c) \<or> session_owner t m s = Some c" for c
    using open_old by (auto simp: Register_chans close_chan_def split: option.splits)
  have cap: "chCap (smChans (Register t m n now s) c) = chCap (smChans s c)" for c
    by (auto simp: Register_chans close_chan_def split: option.splits)
  have "session_owner t m s \<noteq> Some n" using open_old by auto
  moreover have "\<not> smPanicked (Register t m n now s)"
    using ok open_old by (auto simp: chans_ok_def Register_chans)
  moreover have "distinct (map fst (tsTargets (smTailnets (Register t m n now s) t')))" for t'
    using ok by (simp add: chans_ok_def Register_targets distinct_update)
  moreover have "(m', c) \<in> set (tsTargets (smTailnets (Register t m n now s) t')) \<longleftrightarrow>
      (if t' = t \<and> m' = m then c = n else (m', c) \<in> set (tsTargets (smTailnets s t')))" for t' m' c
    using ok by (auto simp: chans_ok_def Register_targets set_AList_update)
  ultimately show ?thesis
    using ok assms(3,4) other unfolding chans_ok_def sessions.has_register sessions.owner_register closed cap
    by (auto simp: less_Suc_eq)
qed

lemma poll_inv_init: "poll_inv poll_init"
  by (simp add: poll_inv_def poll_init_def chans_ok_def NewPollMapSessionManager_def empty_tsm_def
    HasSession_def session_owner_def)

lemma poll_inv_step: "poll_step p q \<Longrightarrow> poll_inv p \<Longrightarrow> poll_inv q"
proof (induction rule: poll_step.induct)
  case (connect p t m now)
  then have "chans_ok (make_chan (pcNext p) (pcState p)) (pcNext p) (pcOpen p)"
    by (simp add: poll_inv_def chans_ok_make)
  then have "chans_ok (Register t m (pcNext p) now (make_chan (pcNext p) (pcState p))) (pcNext p + 1)
      ((pcNext p, t, m) # pcOpen p)"
    using connect by (intro chans_ok_Register) (simp_all add: poll_inv_def make_chan_def)
  with connect show ?case by (fastforce simp: poll_inv_def)
next
  case (disconnect c t m p now)
  then have "chans_ok (Deregister t m c now (pcState p)) (pcNext p) (removeAll (c, t, m) (pcOpen p))"
    by (intro chans_ok_Deregister) (auto simp: poll_inv_def)
  with disconnect show ?case by (auto simp: poll_inv_def distinct_map_filter removeAll_filter_not_eq)
qed (auto simp: poll_inv_def chans_ok_NotifyAll chans_ok_fire chans_ok_receive)

lemma poll_reachable_inv: "poll_reachable p \<Longrightarrow> poll_inv p"
  by (induction rule: poll_reachable.induct) (auto intro: poll_inv_init poll_inv_step)

text \<open>
  C29. However connections, disconnections, notifications and timers interleave, the session
  manager never sends to a closed channel and never closes a channel twice.
\<close>

theorem poll_never_panics:
  assumes "poll_reachable p"
  shows "\<not> smPanicked (pcState p)"
  using poll_reachable_inv[OF assms] by (simp add: poll_inv_def chans_ok_def)

text \<open>
  A machine is reported as connected exactly while a handler that polls for it, namely
  the last one that registered, is still running: every recorded session has a target
  channel, open, owned by a live handler of that machine, and there is no target without a
  session.
\<close>

theorem poll_sessions_live:
  assumes "poll_reachable p"
  shows "HasSession t m (pcState p) \<longleftrightarrow>
    (\<exists>c. session_owner t m (pcState p) = Some c \<and> (c, t, m) \<in> set (pcOpen p) \<and>
       \<not> chClosed (smChans (pcState p) c))"
  using poll_reachable_inv[OF assms] map_of_SomeD
  by (fastforce simp: poll_inv_def chans_ok_def session_owner_def)

text \<open>
  C30. No wake-up is lost: after a notification of a tailnet every connected machine that is
  not excluded has a ping waiting in its channel, whether this notification put it there or
  an earlier one that the machine has not read yet.
\<close>

theorem poll_no_lost_wakeup:
  assumes "poll_reachable p" and "HasSession t m (pcState p)" and "m \<notin> set ign"
  shows "\<exists>c. session_owner t m (pcState p) = Some c \<and>
    0 < chLen (smChans (NotifyAll t ign (pcState p)) c)"
proof -
  from poll_reachable_inv[OF assms(1)] have ok: "chans_ok (pcState p) (pcNext p) (pcOpen p)"
    by (simp add: poll_inv_def)
  with assms(2) obtain c where c: "session_owner t m (pcState p) = Some c" by (auto simp: chans_ok_def)
  then have "(m, c) \<in> set (tsTargets (smTailnets (pcState p) t))"
    by (simp add: session_owner_def map_of_SomeD)
  moreover from this ok have "\<not> chClosed (smChans (pcState p) c)" "0 < chCap (smChans (pcState p) c)"
    by (auto simp: chans_ok_def)
  ultimately show ?thesis using c fold_try_send_woken assms(3) by (auto simp: NotifyAll_def)
qed

text \<open>
  A reconnecting machine stays connected: when a second poll of the same machine takes
  over, the deferred deregistration of the first one, whenever it runs, leaves the new
  session in place.
\<close>

theorem poll_takeover:
  assumes "c \<noteq> c'"
  shows "HasSession t m (Deregister t m c now' (Register t m c' now s)) \<and>
         session_owner t m (Deregister t m c now' (Register t m c' now s)) = Some c'"
  using assms by (rule sessions.stale_deregister)

section \<open>Instances\<close>

definition sample_poll :: poll_system where
  "sample_poll = poll_init\<lparr>pcState := Register 1 101 0 7 (make_chan 0 NewPollMapSessionManager),
     pcNext := 1, pcOpen := [(0, 1, 101)]\<rparr>"

lemma sample_poll_reachable: "poll_reachable sample_poll"
  using poll_reachable.step[OF poll_reachable.init poll_step.connect[of poll_init 1 101 7]]
  by (simp add: sample_poll_def poll_init_def)

lemma sample_poll_session: "HasSession 1 101 (pcState sample_poll)"
  by (simp add: sample_poll_def sessions.has_register)

theorem poll_never_panics_witness: "\<not> smPanicked (pcState sample_poll)"
  by (rule poll_never_panics[OF sample_poll_reachable])

theorem poll_sessions_live_witness:
  "\<exists>c. session_owner 1 101 (pcState sample_poll) = Some c \<and> (c, 1, 101) \<in> set (pcOpen sample_poll) \<and>
     \<not> chClosed (smChans (pcState sample_poll) c)"
  using poll_sessions_live[OF sample_poll_reachable] sample_poll_session by blast

theorem poll_no_lost_wakeup_witness:
  "\<exists>c. session_owner 1 101 (pcState sample_poll) = Some c \<and>
     0 < chLen (smChans (NotifyAll 1 [] (pcState sample_poll)) c)"
  using poll_no_lost_wakeup[OF sample_poll_reachable sample_poll_session, of "[]"] by simp

theorem poll_takeover_witness:
  "HasSession 1 101 (Deregister 1 101 0 9 (Register 1 101 1 8 (pcState sample_poll)))"
  using poll_takeover[of 0 1 1 101 9 8 "pcState sample_poll"] by simp

end
