(* ===== verification/Repository.thy ===== *)
theory Repository
  imports Samples Sessions
begin

text \<open>
  The database (\<open>internal/domain\<close>: the repository methods over gorm) and the state of the
  server.

  A table is the list of its rows in the order the database returns them when the query
  does not order. A row holds the columns only: \<open>withContext\<close> omits associations on
  every write, so the association fields of a stored row are the Go zero values, and the
  queries that preload an association fill it in. \<open>Save\<close> is gorm's upsert by primary key.
  A query on a struct ignores the struct's zero fields.

  Every statement can fail with an error of the driver: \<open>wFaults\<close> is the sequence of
  outcomes of the statements to come (True is a failure), so a theorem about all worlds is a
  theorem about all failures. A violated unique index is such an error as well.
  \<open>Transaction\<close> restores the tables on an error, including an error of the commit.

  \<open>wNow\<close> is the clock, one instant per request. Identifiers and random numbers come from
  the supplies \<open>wIDs\<close> and \<open>wRand\<close>.
\<close>

section \<open>Tables\<close>

record AuthKey =
  akID :: uint64
  akKey :: string
  akHash :: string
  akEphemeral :: bool
  akPreAuthorized :: bool
  akTags :: "string list"
  akCreatedAt :: instant
  akExpiresAt :: "instant option"
  akTailnetID :: uint64
  akTailnet :: Tailnet
  akUserID :: uint64
  akUser :: User

record ApiKey =
  apID :: uint64
  apKey :: string
  apHash :: string
  apCreatedAt :: instant
  apExpiresAt :: "instant option"
  apTailnetID :: uint64
  apTailnet :: Tailnet
  apUserID :: uint64
  apUser :: User

record SystemApiKey =
  skID :: uint64
  skKey :: string
  skHash :: string
  skCreatedAt :: instant
  skExpiresAt :: "instant option"
  skAccountID :: uint64
  skAccount :: Account

text \<open>The parts of a \<open>tailcfg.RegisterRequest\<close> that the server reads.\<close>

record RegisterRequest =
  rgVersion :: int
  rgNodeKey :: string
  rgOldNodeKey :: string
  rgNLKey :: string
  rgAuthKey :: "string option"
  rgExpiry :: instant
  rgFollowup :: string
  rgHostinfo :: HostInfo
  rgEphemeral :: bool
  rgNodeKeySignature :: string

record RegistrationRequest =
  rrMachineKey :: string
  rrKey :: string
  rrData :: RegisterRequest
  rrCreatedAt :: instant
  rrAuthenticated :: bool
  rrError :: string
  rrUserID :: uint64

record AuthenticationRequest =
  aqKey :: string
  aqToken :: string
  aqTailnetID :: "uint64 option"
  aqError :: string
  aqCreatedAt :: instant

record SSHActionRequest =
  sqKey :: string
  sqAction :: string
  sqSrcMachineID :: uint64
  sqDstMachineID :: uint64
  sqCreatedAt :: instant

record TKAAum =
  taTailnetID :: uint64
  taHash :: string
  taPrevHash :: string
  taData :: string
  taCreatedAt :: instant

record TailnetTKAState =
  tkTailnetID :: uint64
  tkEnabled :: bool
  tkDisabled :: bool
  tkHead :: string
  tkLastActiveAncestor :: string
  tkPendingGenesis :: string
  tkDisablementSecret :: string
  tkSupportDisablement :: string

record ServerConfig =
  scKey :: string
  scValue :: string

record db =
  dbAccounts :: "Account list"
  dbTailnets :: "Tailnet list"
  dbUsers :: "User list"
  dbMachines :: "Machine list"
  dbAuthKeys :: "AuthKey list"
  dbApiKeys :: "ApiKey list"
  dbSystemApiKeys :: "SystemApiKey list"
  dbRegistrationRequests :: "RegistrationRequest list"
  dbAuthenticationRequests :: "AuthenticationRequest list"
  dbSSHActionRequests :: "SSHActionRequest list"
  dbTKAStates :: "TailnetTKAState list"
  dbTKAAums :: "TKAAum list"
  dbServerConfigs :: "ServerConfig list"

record world =
  wDB :: db
  wSessions :: pollMapSessionManager
  wNow :: instant
  wIDs :: "nat \<Rightarrow> uint64"
  wNextID :: nat
  wRand :: "nat \<Rightarrow> nat"
  wNextRand :: nat
  wFaults :: "bool list"

section \<open>Zero values and associations\<close>

definition zero_dns :: DNSConfig where
  "zero_dns = \<lparr>dcHttpsCertsEnabled = False, dcMagicDNS = False, dcOverrideLocalDNS = False,
     dcNameservers = [], dcRoutes = [], dcSearchDomains = [], dcExtraRecords = []\<rparr>"

definition zero_tailnet :: Tailnet where
  "zero_tailnet = \<lparr>tID = 0, tName = [], tOrganization = [], tDNSConfig = zero_dns,
     tIAMPolicy = \<lparr>hjV = [], hjT = None\<rparr>, tACLPolicy = \<lparr>hjV = [], hjT = None\<rparr>,
     tDERPMap = \<lparr>dmChecksum = [], dmDERPMap = []\<rparr>, tServiceCollectionEnabled = False,
     tFileSharingEnabled = False, tSSHEnabled = False, tMachineAuthorizationEnabled = False,
     tTailnetLockEnabled = False\<rparr>"

definition zero_user :: User where
  "zero_user = \<lparr>uID = 0, uName = [], uUserType = [], uLastAuthenticated = None, uTailnetID = 0,
     uTailnet = zero_tailnet, uAccountID = None, uAccount = None\<rparr>"

definition zero_account :: Account where
  "zero_account = \<lparr>acID = 0, acExternalID = [], acOrganization = [], acLoginName = [],
     acLastAuthenticated = None\<rparr>"

definition user_row :: "User \<Rightarrow> User" where
  "user_row u = u\<lparr>uTailnet := zero_tailnet, uAccount := None\<rparr>"

definition machine_row :: "Machine \<Rightarrow> Machine" where
  "machine_row m = m\<lparr>mUser := zero_user, mTailnet := zero_tailnet\<rparr>"

definition auth_key_row :: "AuthKey \<Rightarrow> AuthKey" where
  "auth_key_row k = k\<lparr>akTailnet := zero_tailnet, akUser := zero_user\<rparr>"

definition api_key_row :: "ApiKey \<Rightarrow> ApiKey" where
  "api_key_row k = k\<lparr>apTailnet := zero_tailnet, apUser := zero_user\<rparr>"

definition system_api_key_row :: "SystemApiKey \<Rightarrow> SystemApiKey" where
  "system_api_key_row k = k\<lparr>skAccount := zero_account\<rparr>"

definition tailnet_of :: "db \<Rightarrow> uint64 \<Rightarrow> Tailnet" where
  "tailnet_of d i = option_or (find (\<lambda>t. tID t = i) (dbTailnets d)) zero_tailnet"

definition user_of :: "db \<Rightarrow> uint64 \<Rightarrow> User" where
  "user_of d i = option_or (find (\<lambda>u. uID u = i) (dbUsers d)) zero_user"

definition account_of :: "db \<Rightarrow> uint64 option \<Rightarrow> Account option" where
  "account_of d i = (case i of None \<Rightarrow> None | Some j \<Rightarrow> find (\<lambda>a. acID a = j) (dbAccounts d))"

text \<open>\<open>Preload("Tailnet")\<close>, \<open>Preload("User")\<close>, \<open>Preload("User.Account")\<close>.\<close>

definition user_with_account :: "db \<Rightarrow> User \<Rightarrow> User" where
  "user_with_account d u = u\<lparr>uAccount := account_of d (uAccountID u)\<rparr>"

definition load_machine :: "db \<Rightarrow> Machine \<Rightarrow> Machine" where
  "load_machine d m = m\<lparr>mTailnet := tailnet_of d (mTailnetID m), mUser := user_of d (mUserID m)\<rparr>"

definition load_machine_account :: "db \<Rightarrow> Machine \<Rightarrow> Machine" where
  "load_machine_account d m =
     m\<lparr>mTailnet := tailnet_of d (mTailnetID m), mUser := user_with_account d (user_of d (mUserID m))\<rparr>"

definition load_auth_key :: "db \<Rightarrow> AuthKey \<Rightarrow> AuthKey" where
  "load_auth_key d k = k\<lparr>akTailnet := tailnet_of d (akTailnetID k), akUser := user_of d (akUserID k)\<rparr>"

definition load_api_key :: "db \<Rightarrow> ApiKey \<Rightarrow> ApiKey" where
  "load_api_key d k = k\<lparr>apTailnet := tailnet_of d (apTailnetID k), apUser := user_of d (apUserID k)\<rparr>"

definition load_system_api_key :: "db \<Rightarrow> SystemApiKey \<Rightarrow> SystemApiKey" where
  "load_system_api_key d k = k\<lparr>skAccount := option_or (account_of d (Some (skAccountID k))) zero_account\<rparr>"

section \<open>Statements\<close>

type_synonym 'a m = "(world, 'a) go"

text \<open>The next statement fails when the head of the fault sequence is True.\<close>

definition db_stmt :: "(db \<Rightarrow> (error + 'a) \<times> db) \<Rightarrow> 'a m" where
  "db_stmt f = (\<lambda>w.
     case wFaults w of
       True # fs \<Rightarrow> (Inl DbError, w\<lparr>wFaults := fs\<rparr>)
     | fs \<Rightarrow> (case f (wDB w) of (r, d) \<Rightarrow> (r, w\<lparr>wDB := d, wFaults := tl fs\<rparr>)))"

definition db_query :: "(db \<Rightarrow> 'a) \<Rightarrow> 'a m" where
  "db_query q = db_stmt (\<lambda>d. (Inr (q d), d))"

definition db_exec :: "(db \<Rightarrow> db) \<Rightarrow> unit m" where
  "db_exec f = db_stmt (\<lambda>d. (Inr (), f d))"

text \<open>A statement guarded by a unique index.\<close>

definition db_exec_unique :: "(db \<Rightarrow> bool) \<Rightarrow> (db \<Rightarrow> db) \<Rightarrow> unit m" where
  "db_exec_unique ok f = db_stmt (\<lambda>d. if ok d then (Inr (), f d) else (Inl DbError, d))"

definition Transaction :: "'a m \<Rightarrow> 'a m" where
  "Transaction action = (\<lambda>w.
     case wFaults w of
       True # fs \<Rightarrow> (Inl DbError, w\<lparr>wFaults := fs\<rparr>)
     | fs \<Rightarrow>
         (case action (w\<lparr>wFaults := tl fs\<rparr>) of
            (Inl e, w') \<Rightarrow> (Inl e, w'\<lparr>wDB := wDB w\<rparr>)
          | (Inr x, w') \<Rightarrow>
              (case wFaults w' of
                 True # fs' \<Rightarrow> (Inl DbError, w'\<lparr>wDB := wDB w, wFaults := fs'\<rparr>)
               | fs' \<Rightarrow> (Inr x, w'\<lparr>wFaults := tl fs'\<rparr>))))"

text \<open>The upsert of \<open>Save\<close>, and \<open>FirstOrCreate\<close>'s order by primary key.\<close>

definition save_row :: "('r \<Rightarrow> 'k) \<Rightarrow> 'r \<Rightarrow> 'r list \<Rightarrow> 'r list" where
  "save_row key r rows =
     (if list_ex (\<lambda>x. key x = key r) rows then map (\<lambda>x. if key x = key r then r else x) rows
      else rows @ [r])"

definition first_by :: "('r \<Rightarrow> 'k::linorder) \<Rightarrow> ('r \<Rightarrow> bool) \<Rightarrow> 'r list \<Rightarrow> 'r option" where
  "first_by key P rows =
     (case filter P rows of
        [] \<Rightarrow> None
      | r # rs \<Rightarrow> Some (fold (\<lambda>x best. if key x < key best then x else best) rs r))"

definition other_row :: "('r \<Rightarrow> 'k) \<Rightarrow> 'r \<Rightarrow> ('r \<Rightarrow> bool) \<Rightarrow> 'r list \<Rightarrow> bool" where
  "other_row key r P rows \<longleftrightarrow> list_ex (\<lambda>x. key x \<noteq> key r \<and> P x) rows"

section \<open>Identifiers, random strings, the clock\<close>

definition NextID :: "uint64 m" where
  "NextID = (\<lambda>w. (Inr (wIDs w (wNextID w)), w\<lparr>wNextID := wNextID w + 1\<rparr>))"

definition rand_int :: "nat \<Rightarrow> nat m" where
  "rand_int n = (\<lambda>w. (Inr (wRand w (wNextRand w) mod n), w\<lparr>wNextRand := wNextRand w + 1\<rparr>))"

definition letterBytes :: string where
  "letterBytes = ''abcdefghijklmnopqrstuvwxyzABCDEFGHIJKLMNOPQRSTUVWXYZ''"

definition RandStringBytes :: "nat \<Rightarrow> string m" where
  "RandStringBytes n =
     mapM (\<lambda>_. bindM (rand_int (length letterBytes)) (\<lambda>idx. returnM (letterBytes ! idx))) [0..<n]"

definition time_Now :: "instant m" where
  "time_Now = getsM wNow"

section \<open>Accounts\<close>

definition GetAccount :: "uint64 \<Rightarrow> Account option m" where
  "GetAccount i = db_query (\<lambda>d. find (\<lambda>a. acID a = i) (dbAccounts d))"

definition GetAccountByExternalID :: "string \<Rightarrow> Account option m" where
  "GetAccountByExternalID externalID = db_query (\<lambda>d. find (\<lambda>a. acExternalID a = externalID) (dbAccounts d))"

definition ListAccountsByExternalID :: "string \<Rightarrow> Account list m" where
  "ListAccountsByExternalID externalID = db_query (\<lambda>d. filter (\<lambda>a. acExternalID a = externalID) (dbAccounts d))"

definition SetAccountLastAuthenticated :: "uint64 \<Rightarrow> unit m" where
  "SetAccountLastAuthenticated accountID =
     bindM time_Now (\<lambda>t. db_exec (\<lambda>d. d\<lparr>dbAccounts :=
       map (\<lambda>a. if acID a = accountID then a\<lparr>acLastAuthenticated := Some t\<rparr> else a) (dbAccounts d)\<rparr>))"

text \<open>
  \<open>FirstOrCreate\<close> is a query followed, when nothing matches, by an insert. The conditions
  come from a struct, so an empty external id or organization is no condition at all.
\<close>

definition account_query :: "string \<Rightarrow> string \<Rightarrow> Account \<Rightarrow> bool" where
  "account_query externalID organization a \<longleftrightarrow>
     (externalID = [] \<or> acExternalID a = externalID) \<and>
     (organization = [] \<or> acOrganization a = organization)"

definition GetOrCreateAccount :: "string \<Rightarrow> string \<Rightarrow> string \<Rightarrow> (Account \<times> bool) m" where
  "GetOrCreateAccount externalID organization loginName =
     bindM NextID (\<lambda>id.
     bindM (db_query (\<lambda>d. first_by acID (account_query externalID organization) (dbAccounts d))) (\<lambda>found.
     bindM (case found of
              Some a \<Rightarrow> returnM a
            | None \<Rightarrow>
                (let a = \<lparr>acID = id, acExternalID = externalID, acOrganization = organization,
                          acLoginName = loginName, acLastAuthenticated = None\<rparr>
                 in seqM (db_exec_unique (\<lambda>d. \<not> list_ex (\<lambda>x. acID x = id) (dbAccounts d))
                            (\<lambda>d. d\<lparr>dbAccounts := dbAccounts d @ [a]\<rparr>)) (returnM a))) (\<lambda>account.
     let created = (acID account = id)
     in if \<not> created \<and> loginName \<noteq> [] \<and> acLoginName account \<noteq> loginName then
          seqM (db_exec (\<lambda>d. d\<lparr>dbAccounts :=
                  map (\<lambda>a. if acID a = acID account then a\<lparr>acLoginName := loginName\<rparr> else a) (dbAccounts d)\<rparr>))
               (returnM (account\<lparr>acLoginName := loginName\<rparr>, created))
        else returnM (account, created))))"

section \<open>Tailnets\<close>

definition SaveTailnet :: "Tailnet \<Rightarrow> unit m" where
  "SaveTailnet t =
     db_exec_unique (\<lambda>d. \<not> other_row tID t (\<lambda>x. tName x = tName t) (dbTailnets d))
       (\<lambda>d. d\<lparr>dbTailnets := save_row tID t (dbTailnets d)\<rparr>)"

definition GetTailnet :: "uint64 \<Rightarrow> Tailnet option m" where
  "GetTailnet i = db_query (\<lambda>d. find (\<lambda>t. tID t = i) (dbTailnets d))"

definition GetTailnetByName :: "string \<Rightarrow> Tailnet option m" where
  "GetTailnetByName name = db_query (\<lambda>d. find (\<lambda>t. tName t = name) (dbTailnets d))"

definition GetTailnetByOrganization :: "string \<Rightarrow> Tailnet option m" where
  "GetTailnetByOrganization organization =
     db_query (\<lambda>d. first_by tID (\<lambda>t. tOrganization t = organization) (dbTailnets d))"

definition ListTailnets :: "Tailnet list m" where
  "ListTailnets = db_query dbTailnets"

definition ListTailnetsByOrganization :: "string \<Rightarrow> Tailnet list m" where
  "ListTailnetsByOrganization organization =
     db_query (\<lambda>d. filter (\<lambda>t. tOrganization t = organization) (dbTailnets d))"

text \<open>\<open>Delete\<close> of a struct with a zero primary key is gorm's missing-where-clause error.\<close>

definition db_delete_by_id :: "bool \<Rightarrow> (db \<Rightarrow> db) \<Rightarrow> unit m" where
  "db_delete_by_id nonzero f = (if nonzero then db_exec f else throwM DbError)"

definition DeleteTailnet_row :: "uint64 \<Rightarrow> unit m" where
  "DeleteTailnet_row i =
     db_delete_by_id (i \<noteq> 0) (\<lambda>d. d\<lparr>dbTailnets := filter (\<lambda>t. tID t \<noteq> i) (dbTailnets d)\<rparr>)"

section \<open>Users\<close>

definition GetUser :: "uint64 \<Rightarrow> User option m" where
  "GetUser userID =
     db_query (\<lambda>d. map_option (\<lambda>u. u\<lparr>uTailnet := tailnet_of d (uTailnetID u), uAccount := account_of d (uAccountID u)\<rparr>)
       (find (\<lambda>u. uID u = userID) (dbUsers d)))"

definition DeleteUser_row :: "uint64 \<Rightarrow> unit m" where
  "DeleteUser_row userID =
     db_delete_by_id (userID \<noteq> 0) (\<lambda>d. d\<lparr>dbUsers := filter (\<lambda>u. uID u \<noteq> userID) (dbUsers d)\<rparr>)"

definition ListUsers_of :: "uint64 \<Rightarrow> User list m" where
  "ListUsers_of tailnetID =
     db_query (\<lambda>d. map (user_with_account d)
       (filter (\<lambda>u. uTailnetID u = tailnetID \<and> uUserType u = UserTypePerson) (dbUsers d)))"

definition ListUsersByAccount :: "uint64 \<Rightarrow> User list m" where
  "ListUsersByAccount accountID =
     db_query (\<lambda>d. map (\<lambda>u. u\<lparr>uTailnet := tailnet_of d (uTailnetID u)\<rparr>)
       (filter (\<lambda>u. uAccountID u = Some accountID) (dbUsers d)))"

definition DeleteUsersByTailnet :: "uint64 \<Rightarrow> unit m" where
  "DeleteUsersByTailnet tailnetID =
     db_exec (\<lambda>d. d\<lparr>dbUsers := filter (\<lambda>u. uTailnetID u \<noteq> tailnetID) (dbUsers d)\<rparr>)"

definition SetUserLastAuthenticated :: "uint64 \<Rightarrow> instant \<Rightarrow> unit m" where
  "SetUserLastAuthenticated userID timestamp =
     db_exec (\<lambda>d. d\<lparr>dbUsers :=
       map (\<lambda>u. if uID u = userID then u\<lparr>uLastAuthenticated := Some timestamp\<rparr> else u) (dbUsers d)\<rparr>)"

definition insert_user :: "User \<Rightarrow> unit m" where
  "insert_user u =
     db_exec_unique (\<lambda>d. \<not> list_ex (\<lambda>x. uID x = uID u) (dbUsers d))
       (\<lambda>d. d\<lparr>dbUsers := dbUsers d @ [user_row u]\<rparr>)"

definition service_user_query :: "Tailnet \<Rightarrow> User \<Rightarrow> bool" where
  "service_user_query t u \<longleftrightarrow>
     (tName t = [] \<or> uName u = tName t) \<and> (tID t = 0 \<or> uTailnetID u = tID t) \<and>
     uUserType u = UserTypeService"

definition GetOrCreateServiceUser :: "Tailnet \<Rightarrow> (User \<times> bool) m" where
  "GetOrCreateServiceUser tailnet =
     bindM NextID (\<lambda>id.
     bindM (db_query (\<lambda>d. first_by uID (service_user_query tailnet) (dbUsers d))) (\<lambda>found.
     bindM (case found of
              Some u \<Rightarrow> returnM u
            | None \<Rightarrow>
                (let u = zero_user\<lparr>uID := id, uName := tName tailnet, uUserType := UserTypeService,
                                   uTailnetID := tID tailnet\<rparr>
                 in seqM (insert_user u) (returnM u))) (\<lambda>user.
     returnM (user, uID user = id))))"

definition GetOrCreateUserWithAccount :: "Tailnet \<Rightarrow> Account \<Rightarrow> (User \<times> bool) m" where
  "GetOrCreateUserWithAccount tailnet account =
     bindM NextID (\<lambda>id.
     bindM (db_query (\<lambda>d. first_by uID
              (\<lambda>u. uAccountID u = Some (acID account) \<and> (tID tailnet = 0 \<or> uTailnetID u = tID tailnet))
              (dbUsers d))) (\<lambda>found.
     bindM (case found of
              Some u \<Rightarrow> returnM u
            | None \<Rightarrow>
                (let u = zero_user\<lparr>uID := id, uName := acLoginName account, uUserType := UserTypePerson,
                                   uTailnetID := tID tailnet, uAccountID := Some (acID account)\<rparr>
                 in seqM (insert_user u) (returnM u))) (\<lambda>user.
     let created = (uID user = id)
     in if \<not> created \<and> acLoginName account \<noteq> [] \<and> uName user \<noteq> acLoginName account then
          seqM (db_exec (\<lambda>d. d\<lparr>dbUsers :=
                  map (\<lambda>u. if uID u = uID user then u\<lparr>uName := acLoginName account\<rparr> else u) (dbUsers d)\<rparr>))
               (returnM (user\<lparr>uName := acLoginName account\<rparr>, created))
        else returnM (user, created))))"

section \<open>Machines\<close>

definition machine_name_taken :: "Machine \<Rightarrow> db \<Rightarrow> bool" where
  "machine_name_taken m d \<longleftrightarrow>
     other_row mID m (\<lambda>x. mTailnetID x = mTailnetID m \<and> mName x = mName m \<and> mNameIdx x = mNameIdx m) (dbMachines d)"

definition SaveMachine :: "Machine \<Rightarrow> unit m" where
  "SaveMachine m =
     db_exec_unique (\<lambda>d. \<not> machine_name_taken m d)
       (\<lambda>d. d\<lparr>dbMachines := save_row mID (machine_row m) (dbMachines d)\<rparr>)"

definition DeleteMachine_row :: "uint64 \<Rightarrow> bool m" where
  "DeleteMachine_row i =
     db_stmt (\<lambda>d. (Inr (length (filter (\<lambda>m. mID m = i) (dbMachines d)) = 1),
                   d\<lparr>dbMachines := filter (\<lambda>m. mID m \<noteq> i) (dbMachines d)\<rparr>))"

definition GetMachine_row :: "uint64 \<Rightarrow> Machine option m" where
  "GetMachine_row i =
     db_query (\<lambda>d. map_option (load_machine_account d) (find (\<lambda>m. mID m = i) (dbMachines d)))"

text \<open>The largest name index in use plus one, in 64 bits, or 0.\<close>

definition next_name_index :: "db \<Rightarrow> uint64 \<Rightarrow> string \<Rightarrow> uint64" where
  "next_name_index d tailnetID name =
     (case filter (\<lambda>m. mName m = name \<and> mTailnetID m = tailnetID) (dbMachines d) of
        [] \<Rightarrow> 0
      | m # ms \<Rightarrow> fold (\<lambda>x best. if best < mNameIdx x then mNameIdx x else best) ms (mNameIdx m) + 1)"

definition GetNextMachineNameIndex :: "uint64 \<Rightarrow> string \<Rightarrow> uint64 m" where
  "GetNextMachineNameIndex tailnetID name = db_query (\<lambda>d. next_name_index d tailnetID name)"

definition take_machine :: "(Machine \<Rightarrow> bool) \<Rightarrow> Machine option m" where
  "take_machine P = db_query (\<lambda>d. map_option (load_machine d) (find P (dbMachines d)))"

definition GetMachineByKeyAndUser :: "string \<Rightarrow> uint64 \<Rightarrow> Machine option m" where
  "GetMachineByKeyAndUser machineKey userID =
     take_machine (\<lambda>m. mMachineKey m = machineKey \<and> mUserID m = userID)"

definition GetMachineByKeys :: "string \<Rightarrow> string \<Rightarrow> Machine option m" where
  "GetMachineByKeys machineKey nodeKey =
     take_machine (\<lambda>m. mMachineKey m = machineKey \<and> mNodeKey m = nodeKey)"

definition GetMachineByMachineKey :: "string \<Rightarrow> Machine option m" where
  "GetMachineByMachineKey machineKey = take_machine (\<lambda>m. mMachineKey m = machineKey)"

definition GetMachineByNodeKey :: "uint64 \<Rightarrow> string \<Rightarrow> Machine option m" where
  "GetMachineByNodeKey tailnetID nodeKey =
     take_machine (\<lambda>m. mTailnetID m = tailnetID \<and> mNodeKey m = nodeKey)"

definition CountMachinesWithIPv4 :: "string \<Rightarrow> nat m" where
  "CountMachinesWithIPv4 ip =
     db_query (\<lambda>d. length (filter (\<lambda>m. IP_Value (Some (mIPv4 m)) = DString ip) (dbMachines d)))"

definition CountMachineByTailnet :: "uint64 \<Rightarrow> nat m" where
  "CountMachineByTailnet tailnetID =
     db_query (\<lambda>d. length (filter (\<lambda>m. mTailnetID m = tailnetID) (dbMachines d)))"

definition DeleteMachineByTailnet :: "uint64 \<Rightarrow> unit m" where
  "DeleteMachineByTailnet tailnetID =
     db_exec (\<lambda>d. d\<lparr>dbMachines := filter (\<lambda>m. mTailnetID m \<noteq> tailnetID) (dbMachines d)\<rparr>)"

definition DeleteMachineByUser :: "uint64 \<Rightarrow> unit m" where
  "DeleteMachineByUser userID =
     db_exec (\<lambda>d. d\<lparr>dbMachines := filter (\<lambda>m. mUserID m \<noteq> userID) (dbMachines d)\<rparr>)"

definition ListMachineByTailnet :: "uint64 \<Rightarrow> Machine list m" where
  "ListMachineByTailnet tailnetID =
     db_query (\<lambda>d. map (load_machine_account d)
       (sort_key mName (sort_key mNameIdx (filter (\<lambda>m. mTailnetID m = tailnetID) (dbMachines d)))))"

definition ListMachinePeers :: "uint64 \<Rightarrow> uint64 \<Rightarrow> Machine list m" where
  "ListMachinePeers tailnetID machineID =
     db_query (\<lambda>d. map (load_machine_account d)
       (sort_key mID (filter (\<lambda>m. mTailnetID m = tailnetID \<and> mID m \<noteq> machineID) (dbMachines d))))"

definition ListMachinesExpiredBetween :: "instant \<Rightarrow> instant \<Rightarrow> Machine list m" where
  "ListMachinesExpiredBetween from to =
     db_query (\<lambda>d. filter (\<lambda>m. \<not> mKeyExpiryDisabled m \<and> from < mExpiresAt m \<and> mExpiresAt m \<le> to) (dbMachines d))"

definition ListInactiveEphemeralMachines :: "instant \<Rightarrow> Machine list m" where
  "ListInactiveEphemeralMachines t =
     db_query (\<lambda>d. filter (\<lambda>m. mEphemeral m \<and>
        (case mLastSeen m of None \<Rightarrow> False | Some l \<Rightarrow> l < t)) (dbMachines d))"

definition SetMachineLastSeen :: "uint64 \<Rightarrow> unit m" where
  "SetMachineLastSeen machineID =
     bindM time_Now (\<lambda>t. db_exec (\<lambda>d. d\<lparr>dbMachines :=
       map (\<lambda>m. if mID m = machineID then m\<lparr>mLastSeen := Some t\<rparr> else m) (dbMachines d)\<rparr>))"

section \<open>Keys\<close>

text \<open>\<open>Create\<dots>Key\<close> returns the secret to show once and the row to store.\<close>

definition new_key_parts :: "env \<Rightarrow> (string \<times> string \<times> string \<times> uint64) m" where
  "new_key_parts e =
     bindM (RandStringBytes 12) (\<lambda>key.
     bindM (RandStringBytes 22) (\<lambda>pwd.
     bindM NextID (\<lambda>id. returnM (key, pwd, envHash e pwd, id))))"

definition CreateAuthKey ::
    "env \<Rightarrow> Tailnet \<Rightarrow> User \<Rightarrow> bool \<Rightarrow> bool \<Rightarrow> string list \<Rightarrow> instant option \<Rightarrow> (string \<times> AuthKey) m" where
  "CreateAuthKey e tailnet user ephemeral preAuthorized tags expiresAt =
     bindM (new_key_parts e) (\<lambda>(key, pwd, hash, id).
     bindM time_Now (\<lambda>t.
     returnM (key @ ''_'' @ pwd,
       \<lparr>akID = id, akKey = key, akHash = hash, akEphemeral = ephemeral, akPreAuthorized = preAuthorized,
        akTags = tags, akCreatedAt = t, akExpiresAt = expiresAt, akTailnetID = tID tailnet,
        akTailnet = zero_tailnet, akUserID = uID user, akUser = zero_user\<rparr>)))"

definition CreateApiKey :: "env \<Rightarrow> Tailnet \<Rightarrow> User \<Rightarrow> instant option \<Rightarrow> (string \<times> ApiKey) m" where
  "CreateApiKey e tailnet user expiresAt =
     bindM (new_key_parts e) (\<lambda>(key, pwd, hash, id).
     bindM time_Now (\<lambda>t.
     returnM (key @ ''_'' @ pwd,
       \<lparr>apID = id, apKey = key, apHash = hash, apCreatedAt = t, apExpiresAt = expiresAt,
        apTailnetID = tID tailnet, apTailnet = zero_tailnet, apUserID = uID user, apUser = zero_user\<rparr>)))"

definition CreateSystemApiKey :: "env \<Rightarrow> Account \<Rightarrow> instant option \<Rightarrow> (string \<times> SystemApiKey) m" where
  "CreateSystemApiKey e account expiresAt =
     bindM (new_key_parts e) (\<lambda>(key, pwd, hash, id).
     bindM time_Now (\<lambda>t.
     returnM (''sk_'' @ key @ ''_'' @ pwd,
       \<lparr>skID = id, skKey = key, skHash = hash, skCreatedAt = t, skExpiresAt = expiresAt,
        skAccountID = acID account, skAccount = zero_account\<rparr>)))"

definition GetAuthKey_row :: "uint64 \<Rightarrow> AuthKey option m" where
  "GetAuthKey_row i = db_query (\<lambda>d. map_option (load_auth_key d) (find (\<lambda>k. akID k = i) (dbAuthKeys d)))"

definition SaveAuthKey :: "AuthKey \<Rightarrow> unit m" where
  "SaveAuthKey k =
     db_exec_unique (\<lambda>d. \<not> other_row akID k (\<lambda>x. akKey x = akKey k) (dbAuthKeys d))
       (\<lambda>d. d\<lparr>dbAuthKeys := save_row akID (auth_key_row k) (dbAuthKeys d)\<rparr>)"

definition DeleteAuthKey_row :: "uint64 \<Rightarrow> bool m" where
  "DeleteAuthKey_row i =
     db_stmt (\<lambda>d. (Inr (length (filter (\<lambda>k. akID k = i) (dbAuthKeys d)) = 1),
                   d\<lparr>dbAuthKeys := filter (\<lambda>k. akID k \<noteq> i) (dbAuthKeys d)\<rparr>))"

definition DeleteAuthKeysByTailnet :: "uint64 \<Rightarrow> unit m" where
  "DeleteAuthKeysByTailnet tailnetID =
     db_exec (\<lambda>d. d\<lparr>dbAuthKeys := filter (\<lambda>k. akTailnetID k \<noteq> tailnetID) (dbAuthKeys d)\<rparr>)"

definition DeleteAuthKeysByUser :: "uint64 \<Rightarrow> unit m" where
  "DeleteAuthKeysByUser userID =
     db_exec (\<lambda>d. d\<lparr>dbAuthKeys := filter (\<lambda>k. akUserID k \<noteq> userID) (dbAuthKeys d)\<rparr>)"

definition ListAuthKeys_of :: "uint64 \<Rightarrow> AuthKey list m" where
  "ListAuthKeys_of tailnetID =
     db_query (\<lambda>d. map (load_auth_key d) (filter (\<lambda>k. akTailnetID k = tailnetID) (dbAuthKeys d)))"

definition ListAuthKeysByTailnetAndUser :: "uint64 \<Rightarrow> uint64 \<Rightarrow> AuthKey list m" where
  "ListAuthKeysByTailnetAndUser tailnetID userID =
     db_query (\<lambda>d. map (load_auth_key d)
       (filter (\<lambda>k. akTailnetID k = tailnetID \<and> akUserID k = userID) (dbAuthKeys d)))"

text \<open>An expiry that is nil or zero never passes.\<close>

definition key_expired :: "instant option \<Rightarrow> instant \<Rightarrow> bool" where
  "key_expired expiresAt t \<longleftrightarrow> (case expiresAt of None \<Rightarrow> False | Some x \<Rightarrow> \<not> IsZero x \<and> x < t)"

definition LoadAuthKey :: "env \<Rightarrow> string \<Rightarrow> AuthKey option m" where
  "LoadAuthKey e key =
     (case Split CHR ''_'' key of
        [k, pwd] \<Rightarrow>
          bindM (db_query (\<lambda>d. map_option (load_auth_key d) (find (\<lambda>x. akKey x = k) (dbAuthKeys d)))) (\<lambda>r.
          case r of
            None \<Rightarrow> returnM None
          | Some m \<Rightarrow>
              if \<not> envCompareHash e (akHash m) pwd then returnM None
              else bindM time_Now (\<lambda>t.
                if key_expired (akExpiresAt m) t then returnM None else returnM (Some m)))
      | _ \<Rightarrow> returnM None)"

definition SaveApiKey :: "ApiKey \<Rightarrow> unit m" where
  "SaveApiKey k =
     db_exec_unique (\<lambda>d. \<not> other_row apID k (\<lambda>x. apKey x = apKey k) (dbApiKeys d))
       (\<lambda>d. d\<lparr>dbApiKeys := save_row apID (api_key_row k) (dbApiKeys d)\<rparr>)"

definition LoadApiKey :: "env \<Rightarrow> string \<Rightarrow> ApiKey option m" where
  "LoadApiKey e key =
     (case Split CHR ''_'' key of
        [k, pwd] \<Rightarrow>
          bindM (db_query (\<lambda>d. map_option (load_api_key d) (find (\<lambda>x. apKey x = k) (dbApiKeys d)))) (\<lambda>r.
          case r of
            None \<Rightarrow> returnM None
          | Some m \<Rightarrow>
              if \<not> envCompareHash e (apHash m) pwd then returnM None
              else bindM time_Now (\<lambda>t.
                if key_expired (apExpiresAt m) t then returnM None else returnM (Some m)))
      | _ \<Rightarrow> returnM None)"

definition DeleteApiKeysByTailnet :: "uint64 \<Rightarrow> unit m" where
  "DeleteApiKeysByTailnet tailnetID =
     db_exec (\<lambda>d. d\<lparr>dbApiKeys := filter (\<lambda>k. apTailnetID k \<noteq> tailnetID) (dbApiKeys d)\<rparr>)"

definition DeleteApiKeysByUser :: "uint64 \<Rightarrow> unit m" where
  "DeleteApiKeysByUser userID =
     db_exec (\<lambda>d. d\<lparr>dbApiKeys := filter (\<lambda>k. apUserID k \<noteq> userID) (dbApiKeys d)\<rparr>)"

definition SaveSystemApiKey :: "SystemApiKey \<Rightarrow> unit m" where
  "SaveSystemApiKey k =
     db_exec_unique (\<lambda>d. \<not> other_row skID k (\<lambda>x. skKey x = skKey k) (dbSystemApiKeys d))
       (\<lambda>d. d\<lparr>dbSystemApiKeys := save_row skID (system_api_key_row k) (dbSystemApiKeys d)\<rparr>)"

text \<open>Unlike the two above, this one follows a nil expiry pointer.\<close>

definition LoadSystemApiKey :: "env \<Rightarrow> string \<Rightarrow> SystemApiKey option m" where
  "LoadSystemApiKey e token =
     (case Split CHR ''_'' token of
        [prefix, key, pwd] \<Rightarrow>
          if prefix \<noteq> ''sk'' then returnM None
          else bindM (db_query (\<lambda>d. map_option (load_system_api_key d) (find (\<lambda>x. skKey x = key) (dbSystemApiKeys d)))) (\<lambda>r.
            case r of
              None \<Rightarrow> returnM None
            | Some m \<Rightarrow>
                if \<not> envCompareHash e (skHash m) pwd then returnM None
                else bindM time_Now (\<lambda>t.
                  case skExpiresAt m of
                    None \<Rightarrow> throwM NilDeref
                  | Some x \<Rightarrow> if \<not> IsZero x \<and> x < t then returnM None else returnM (Some m)))
      | _ \<Rightarrow> returnM None)"

section \<open>Requests\<close>

definition SaveRegistrationRequest :: "RegistrationRequest \<Rightarrow> unit m" where
  "SaveRegistrationRequest r =
     db_exec_unique (\<lambda>d. \<not> other_row rrMachineKey r (\<lambda>x. rrKey x = rrKey r) (dbRegistrationRequests d))
       (\<lambda>d. d\<lparr>dbRegistrationRequests := save_row rrMachineKey r (dbRegistrationRequests d)\<rparr>)"

definition GetRegistrationRequestByKey :: "string \<Rightarrow> RegistrationRequest option m" where
  "GetRegistrationRequestByKey key = db_query (\<lambda>d. find (\<lambda>r. rrKey r = key) (dbRegistrationRequests d))"

definition GetRegistrationRequestByMachineKey :: "string \<Rightarrow> RegistrationRequest option m" where
  "GetRegistrationRequestByMachineKey key =
     db_query (\<lambda>d. find (\<lambda>r. rrMachineKey r = key) (dbRegistrationRequests d))"

definition SaveAuthenticationRequest :: "AuthenticationRequest \<Rightarrow> unit m" where
  "SaveAuthenticationRequest r =
     db_exec (\<lambda>d. d\<lparr>dbAuthenticationRequests := save_row aqKey r (dbAuthenticationRequests d)\<rparr>)"

definition GetAuthenticationRequest :: "string \<Rightarrow> AuthenticationRequest option m" where
  "GetAuthenticationRequest key = db_query (\<lambda>d. find (\<lambda>r. aqKey r = key) (dbAuthenticationRequests d))"

definition DeleteAuthenticationRequest :: "string \<Rightarrow> unit m" where
  "DeleteAuthenticationRequest key =
     db_delete_by_id (key \<noteq> [])
       (\<lambda>d. d\<lparr>dbAuthenticationRequests := filter (\<lambda>r. aqKey r \<noteq> key) (dbAuthenticationRequests d)\<rparr>)"

definition SaveSSHActionRequest :: "SSHActionRequest \<Rightarrow> unit m" where
  "SaveSSHActionRequest r =
     db_exec (\<lambda>d. d\<lparr>dbSSHActionRequests := save_row sqKey r (dbSSHActionRequests d)\<rparr>)"

definition GetSSHActionRequest :: "string \<Rightarrow> SSHActionRequest option m" where
  "GetSSHActionRequest key = db_query (\<lambda>d. find (\<lambda>r. sqKey r = key) (dbSSHActionRequests d))"

definition DeleteSSHActionRequest :: "string \<Rightarrow> unit m" where
  "DeleteSSHActionRequest key =
     db_delete_by_id (key \<noteq> [])
       (\<lambda>d. d\<lparr>dbSSHActionRequests := filter (\<lambda>r. sqKey r \<noteq> key) (dbSSHActionRequests d)\<rparr>)"

section \<open>Tailnet lock\<close>

definition zero_tka :: "uint64 \<Rightarrow> TailnetTKAState" where
  "zero_tka i = \<lparr>tkTailnetID = i, tkEnabled = False, tkDisabled = False, tkHead = [],
     tkLastActiveAncestor = [], tkPendingGenesis = [], tkDisablementSecret = [], tkSupportDisablement = []\<rparr>"

definition GetTailnetTKAState :: "uint64 \<Rightarrow> TailnetTKAState m" where
  "GetTailnetTKAState tailnetID =
     db_query (\<lambda>d. option_or (find (\<lambda>s. tkTailnetID s = tailnetID) (dbTKAStates d)) (zero_tka tailnetID))"

definition SaveTailnetTKAState :: "TailnetTKAState \<Rightarrow> unit m" where
  "SaveTailnetTKAState s = db_exec (\<lambda>d. d\<lparr>dbTKAStates := save_row tkTailnetID s (dbTKAStates d)\<rparr>)"

definition DeleteTKAByTailnet :: "uint64 \<Rightarrow> unit m" where
  "DeleteTKAByTailnet tailnetID =
     seqM (db_exec (\<lambda>d. d\<lparr>dbTKAAums := filter (\<lambda>a. taTailnetID a \<noteq> tailnetID) (dbTKAAums d)\<rparr>))
          (db_exec (\<lambda>d. d\<lparr>dbTKAStates := filter (\<lambda>s. tkTailnetID s \<noteq> tailnetID) (dbTKAStates d)\<rparr>))"

definition ListMachineKeySignaturesByTailnet :: "uint64 \<Rightarrow> string list m" where
  "ListMachineKeySignaturesByTailnet tailnetID =
     db_query (\<lambda>d. map mKeySignature
       (filter (\<lambda>m. mTailnetID m = tailnetID \<and> length (mKeySignature m) > 0) (dbMachines d)))"

section \<open>The laws of keyed tables\<close>

text \<open>
  What a client relies on when it stores a row under its primary key and looks it up later;
  the tables of the schema interpret it.
\<close>

locale keyed_table =
  fixes key :: "'r \<Rightarrow> 'k"
    and lookup :: "'k \<Rightarrow> 't \<Rightarrow> 'r option"
    and save :: "'r \<Rightarrow> 't \<Rightarrow> 't"
    and delete :: "'k \<Rightarrow> 't \<Rightarrow> 't"
    and rows :: "'t \<Rightarrow> 'r set"
  assumes lookup_save: "lookup k (save r t) = (if k = key r then Some r else lookup k t)"
    and lookup_delete: "lookup k (delete k' t) = (if k = k' then None else lookup k t)"
    and lookup_key: "lookup k t = Some r \<Longrightarrow> key r = k \<and> r \<in> rows t"
    and lookup_None: "lookup k t = None \<longleftrightarrow> (\<forall>r \<in> rows t. key r \<noteq> k)"
    and rows_save: "rows (save r t) = insert r {x \<in> rows t. key x \<noteq> key r}"
    and rows_delete: "rows (delete k t) = {x \<in> rows t. key x \<noteq> k}"
begin

lemma save_save: "lookup k (save r (save r t)) = lookup k (save r t)"
  by (simp add: lookup_save)

lemma delete_save: "lookup k (delete (key r) (save r t)) = lookup k (delete (key r) t)"
  by (simp add: lookup_save lookup_delete)

lemma save_other: "k \<noteq> key r \<Longrightarrow> lookup k (save r t) = lookup k t"
  by (simp add: lookup_save)

end

definition find_row :: "('r \<Rightarrow> 'k) \<Rightarrow> 'k \<Rightarrow> 'r list \<Rightarrow> 'r option" where
  "find_row key k rows = find (\<lambda>r. key r = k) rows"

definition delete_row :: "('r \<Rightarrow> 'k) \<Rightarrow> 'k \<Rightarrow> 'r list \<Rightarrow> 'r list" where
  "delete_row key k rows = filter (\<lambda>r. key r \<noteq> k) rows"

lemma set_save_row: "set (save_row key r rows) = insert r {x \<in> set rows. key x \<noteq> key r}"
  by (auto simp: save_row_def list_ex_iff image_iff)

lemma find_map_row:
  "find (\<lambda>x. key x = k) (map (\<lambda>x. if key x = key r then r else x) rows) =
   (if k = key r then (if list_ex (\<lambda>x. key x = k) rows then Some r else None)
    else find (\<lambda>x. key x = k) rows)"
  by (induction rows) auto

lemma find_save_row:
  "find (\<lambda>x. key x = k) (save_row key r rows) = (if k = key r then Some r else find (\<lambda>x. key x = k) rows)"
proof (cases "list_ex (\<lambda>x. key x = key r) rows")
  case True
  then show ?thesis by (simp add: save_row_def find_map_row)
next
  case False
  then have "find (\<lambda>x. key x = key r) rows = None" by (auto simp: find_None_iff list_ex_iff)
  with False show ?thesis by (auto simp: save_row_def find_append split: option.splits)
qed

lemma keyed_table_list: "keyed_table key (find_row key) (save_row key) (delete_row key) set"
  by unfold_locales
    (auto simp: find_row_def delete_row_def find_save_row find_filter find_None_iff set_save_row
      dest: find_SomeD intro!: arg_cong2[where f = find])

interpretation machines: keyed_table mID "find_row mID" "save_row mID" "delete_row mID" set
  by (rule keyed_table_list)

interpretation tailnets: keyed_table tID "find_row tID" "save_row tID" "delete_row tID" set
  by (rule keyed_table_list)

interpretation users: keyed_table uID "find_row uID" "save_row uID" "delete_row uID" set
  by (rule keyed_table_list)

interpretation auth_keys: keyed_table akID "find_row akID" "save_row akID" "delete_row akID" set
  by (rule keyed_table_list)

interpretation tka_states: keyed_table tkTailnetID "find_row tkTailnetID" "save_row tkTailnetID" "delete_row tkTailnetID" set
  by (rule keyed_table_list)

interpretation registrations: keyed_table rrMachineKey "find_row rrMachineKey" "save_row rrMachineKey" "delete_row rrMachineKey" set
  by (rule keyed_table_list)

interpretation authentications: keyed_table aqKey "find_row aqKey" "save_row aqKey" "delete_row aqKey" set
  by (rule keyed_table_list)

section \<open>Frames of the database\<close>

text \<open>
  A reflexive and transitive relation between the tables before and after. Reads, fresh
  identifiers, random strings and notifications stay within every such relation, and so
  does a transaction whose body does.
\<close>

definition on_db :: "(db \<Rightarrow> db \<Rightarrow> bool) \<Rightarrow> world \<Rightarrow> world \<Rightarrow> bool" where
  "on_db R w w' \<longleftrightarrow> R (wDB w) (wDB w')"

definition notifyM :: "uint64 \<Rightarrow> unit m" where
  "notifyM t = modifyM (\<lambda>w. w\<lparr>wSessions := NotifyAll t [] (wSessions w)\<rparr>)"

locale db_frame =
  fixes R :: "db \<Rightarrow> db \<Rightarrow> bool"
  assumes R_refl: "R d d"
    and R_trans: "R d d' \<Longrightarrow> R d' d'' \<Longrightarrow> R d d''"

sublocale db_frame \<subseteq> frame "on_db R"
  by unfold_locales (auto simp: on_db_def intro: R_refl R_trans)

context db_frame
begin

lemma within_db_stmt: "(\<And>d. R d (snd (f d))) \<Longrightarrow> within (on_db R) (db_stmt f)"
  by (auto simp: within_def on_db_def db_stmt_def R_refl split: list.splits bool.splits prod.splits)
     (metis snd_conv)+

lemma within_db_query: "within (on_db R) (db_query q)"
  unfolding db_query_def by (rule within_db_stmt) (simp add: R_refl)

lemma within_db_exec: "(\<And>d. R d (f d)) \<Longrightarrow> within (on_db R) (db_exec f)"
  unfolding db_exec_def by (rule within_db_stmt) simp

lemma within_db_exec_unique: "(\<And>d. ok d \<Longrightarrow> R d (f d)) \<Longrightarrow> within (on_db R) (db_exec_unique ok f)"
  unfolding db_exec_unique_def by (rule within_db_stmt) (simp add: R_refl)

lemma within_db_delete_by_id: "(\<And>d. b \<Longrightarrow> R d (f d)) \<Longrightarrow> within (on_db R) (db_delete_by_id b f)"
  by (cases b) (simp_all add: db_delete_by_id_def within_db_exec within_throwM)

lemma within_NextID: "within (on_db R) NextID"
  by (simp add: within_def NextID_def on_db_def R_refl)

lemma within_rand_int: "within (on_db R) (rand_int n)"
  by (simp add: within_def rand_int_def on_db_def R_refl)

lemma within_RandStringBytes: "within (on_db R) (RandStringBytes n)"
  unfolding RandStringBytes_def by (intro within_mapM within_bindM within_rand_int within_returnM)

lemma within_time_Now: "within (on_db R) time_Now"
  unfolding time_Now_def by (rule within_getsM)

lemma within_notifyM: "within (on_db R) (notifyM t)"
  by (simp add: within_def notifyM_def on_db_def R_refl)

lemma within_Transaction: "within (on_db R) m \<Longrightarrow> within (on_db R) (Transaction m)"
  unfolding within_def
proof
  fix w
  assume "\<forall>s. on_db R s (snd (m s))"
  then have m: "R (wDB w) (wDB w')" if "m (w\<lparr>wFaults := fs\<rparr>) = (r, w')" for fs r w'
    using that unfolding on_db_def by (metis (no_types, lifting) select_convs(1) simps(9) snd_conv surjective update_convs(8))
  show "on_db R w (snd (Transaction m w))"
    by (auto simp: Transaction_def on_db_def R_refl split: list.splits bool.splits prod.splits sum.splits dest: m)
qed

lemma within_new_key_parts: "within (on_db R) (new_key_parts e)"
  unfolding new_key_parts_def
  by (intro within_bindM within_RandStringBytes within_NextID within_returnM)

lemmas within_basic = within_db_query within_NextID within_RandStringBytes within_time_Now
  within_notifyM within_new_key_parts

end

interpretation db_same: db_frame "(=)"
  by unfold_locales simp_all

interpretation db_keeps: db_frame "keeps I" for I :: "db \<Rightarrow> bool"
  by unfold_locales (auto simp: keeps_def)

section \<open>Runs without failures\<close>

lemma db_stmt_ok: "wFaults w = [] \<Longrightarrow> db_stmt f w = (fst (f (wDB w)), w\<lparr>wDB := snd (f (wDB w))\<rparr>)"
  by (simp add: db_stmt_def split: prod.splits)

lemma db_query_ok: "wFaults w = [] \<Longrightarrow> db_query q w = (Inr (q (wDB w)), w)"
  by (simp add: db_query_def db_stmt_ok)

lemma db_exec_ok: "wFaults w = [] \<Longrightarrow> db_exec f w = (Inr (), w\<lparr>wDB := f (wDB w)\<rparr>)"
  by (simp add: db_exec_def db_stmt_ok)

lemma db_exec_unique_ok:
  "wFaults w = [] \<Longrightarrow> db_exec_unique ok f w =
     (if ok (wDB w) then (Inr (), w\<lparr>wDB := f (wDB w)\<rparr>) else (Inl DbError, w))"
  by (simp add: db_exec_unique_def db_stmt_ok)

lemma time_Now_ok: "time_Now w = (Inr (wNow w), w)"
  by (simp add: time_Now_def)

lemma NextID_ok: "NextID w = (Inr (wIDs w (wNextID w)), w\<lparr>wNextID := wNextID w + 1\<rparr>)"
  by (simp add: NextID_def)

lemmas run_ok = db_query_ok db_exec_ok db_exec_unique_ok time_Now_ok NextID_ok

lemma db_query_result: "db_query q w = (Inr x, w') \<Longrightarrow> x = q (wDB w) \<and> wDB w' = wDB w"
  by (auto simp: db_query_def db_stmt_def split: list.splits bool.splits)

lemma db_query_db: "wDB (snd (db_query q w)) = wDB w"
  by (auto simp: db_query_def db_stmt_def split: list.splits bool.splits)

lemma db_stmt_frame:
  "wNow (snd (db_stmt f w)) = wNow w" "wSessions (snd (db_stmt f w)) = wSessions w"
  by (auto simp: db_stmt_def split: list.splits bool.splits prod.splits)

lemma db_query_run:
  assumes "db_query q w = (Inr x, w')"
  shows "x = q (wDB w)" "wDB w' = wDB w" "wNow w' = wNow w" "wSessions w' = wSessions w"
  using db_query_result[OF assms] db_stmt_frame[of "\<lambda>d. (Inr (q d), d)" w] assms
  by (auto simp: db_query_def)

lemma Transaction_failed: "Transaction action w = (Inl e, w') \<Longrightarrow> wDB w' = wDB w"
  by (auto simp: Transaction_def split: list.splits bool.splits prod.splits sum.splits)

lemma Transaction_run:
  assumes "Transaction action w = (Inr x, w')"
  obtains w1 w2 where "wDB w1 = wDB w" "action w1 = (Inr x, w2)" "wDB w' = wDB w2"
  using assms that[of "w\<lparr>wFaults := tl (wFaults w)\<rparr>"]
  by (auto simp: Transaction_def split: list.splits bool.splits prod.splits sum.splits)

section \<open>Name indexes\<close>

lemma fold_max_ge:
  fixes x :: "'a::linorder"
  shows "x \<le> fold (\<lambda>y best. if best < f y then f y else best) ys x \<and>
   (\<forall>y \<in> set ys. f y \<le> fold (\<lambda>y best. if best < f y then f y else best) ys x)"
proof (induction ys arbitrary: x)
  case (Cons y ys)
  from Cons[of "f y"] Cons[of x] show ?case by (auto intro: order.trans)
qed simp

lemma fold_max_in:
  "fold (\<lambda>y best. if best < f y then f y else best) ys x \<in> insert x (f ` set ys)" for x :: "'a::linorder"
proof (induction ys arbitrary: x)
  case (Cons y ys)
  from Cons[of "f y"] Cons[of x] show ?case by auto
qed simp

lemma word_inc_greater: "b \<noteq> - 1 \<Longrightarrow> b < b + 1" for b :: "'a::len word"
proof -
  assume "b \<noteq> - 1"
  then have "1 + b \<noteq> 0" by (metis add_eq_0_iff minus_equation_iff)
  then have "unat (b + 1) = Suc (unat b)" by (metis add.commute unatSuc)
  then show ?thesis by (simp add: word_less_nat_alt)
qed

text \<open>
  A name index handed out is free: no machine of the tailnet has that name and index, as
  long as the largest index in use is not the largest 64-bit number (the addition wraps).
\<close>

theorem next_name_index_fresh:
  assumes "\<And>m. m \<in> set (dbMachines d) \<Longrightarrow> mName m = name \<Longrightarrow> mTailnetID m = t \<Longrightarrow> mNameIdx m \<noteq> - 1"
    and "m \<in> set (dbMachines d)" and "mName m = name" and "mTailnetID m = t"
  shows "mNameIdx m \<noteq> next_name_index d t name"
proof -
  let ?ms = "filter (\<lambda>m. mName m = name \<and> mTailnetID m = t) (dbMachines d)"
  have m: "m \<in> set ?ms" using assms by simp
  then obtain x xs where xs: "?ms = x # xs" by (cases ?ms) auto
  let ?b = "fold (\<lambda>y best. if best < mNameIdx y then mNameIdx y else best) xs (mNameIdx x)"
  from m xs have "mNameIdx m \<le> ?b" using fold_max_ge[where f = mNameIdx and ys = xs and x = "mNameIdx x"] by auto
  moreover have "?b \<noteq> - 1"
  proof -
    have "?b \<in> mNameIdx ` set ?ms"
      using fold_max_in[where f = mNameIdx and ys = xs and x = "mNameIdx x"] by (auto simp: xs)
    then obtain y where "y \<in> set ?ms" "?b = mNameIdx y" by blast
    with assms(1)[of y] show ?thesis by simp
  qed
  then have "?b < ?b + 1" by (rule word_inc_greater)
  ultimately show ?thesis by (auto simp: next_name_index_def xs)
qed

section \<open>Keys\<close>

lemma mapM_const_run:
  assumes "\<And>w. \<exists>y. f w = (Inr y, g w) \<and> P y"
  shows "\<exists>ys. mapM (\<lambda>_. f) xs w = (Inr ys, (g ^^ length xs) w) \<and> (\<forall>y \<in> set ys. P y)"
proof (induction xs arbitrary: w)
  case (Cons x xs)
  from assms[of w] obtain y where y: "f w = (Inr y, g w)" "P y" by blast
  from Cons[of "g w"] obtain ys where "mapM (\<lambda>_. f) xs (g w) = (Inr ys, (g ^^ length xs) (g w))" "\<forall>y \<in> set ys. P y"
    by blast
  with y show ?case by (auto simp: funpow_swap1)
qed simp

lemma funpow_rand: "((\<lambda>w. w\<lparr>wNextRand := Suc (wNextRand w)\<rparr>) ^^ n) w = w\<lparr>wNextRand := wNextRand w + n\<rparr>"
  by (induction n) simp_all

lemma RandStringBytes_ok:
  "\<exists>s. RandStringBytes n w = (Inr s, w\<lparr>wNextRand := wNextRand w + n\<rparr>) \<and> set s \<subseteq> set letterBytes"
proof -
  have "\<exists>y. bindM (rand_int (length letterBytes)) (\<lambda>idx. returnM (letterBytes ! idx)) w =
      (Inr y, w\<lparr>wNextRand := wNextRand w + 1\<rparr>) \<and> y \<in> set letterBytes" for w
  proof -
    have "wRand w (wNextRand w) mod length letterBytes < length letterBytes" by (simp add: letterBytes_def)
    then show ?thesis by (simp add: bindM_def rand_int_def)
  qed
  then have "\<exists>ys. mapM (\<lambda>_. bindM (rand_int (length letterBytes)) (\<lambda>idx. returnM (letterBytes ! idx))) [0..<n] w =
      (Inr ys, ((\<lambda>w. w\<lparr>wNextRand := wNextRand w + 1\<rparr>) ^^ length [0..<n]) w) \<and> (\<forall>y \<in> set ys. y \<in> set letterBytes)"
    by (rule mapM_const_run)
  then show ?thesis by (auto simp: RandStringBytes_def funpow_rand)
qed

lemma letterBytes_no_underscore: "set s \<subseteq> set letterBytes \<Longrightarrow> CHR ''_'' \<notin> set s"
proof -
  have "CHR ''_'' \<notin> set letterBytes" by (simp add: letterBytes_def)
  then show "set s \<subseteq> set letterBytes \<Longrightarrow> CHR ''_'' \<notin> set s" by blast
qed

lemma find_unique:
  assumes "r \<in> set rows" and "P r" and "\<And>x. x \<in> set rows \<Longrightarrow> P x \<Longrightarrow> x = r"
  shows "find P rows = Some r"
proof (cases "find P rows")
  case None
  with assms(1,2) show ?thesis by (simp add: find_None_iff)
next
  case (Some x)
  with find_SomeD[OF Some] assms(3) show ?thesis by blast
qed

text \<open>
  What \<open>LoadAuthKey\<close> accepts: the secret is of the form \<open>key_password\<close>, the key is a row of
  the table, the password matches the row's hash, and the row has not expired.
\<close>

theorem LoadAuthKey_sound:
  assumes "LoadAuthKey e secret w = (Inr (Some k), w')"
  shows "\<exists>key pwd row. Split CHR ''_'' secret = [key, pwd] \<and> row \<in> set (dbAuthKeys (wDB w)) \<and>
    akKey row = key \<and> k = load_auth_key (wDB w) row \<and> envCompareHash e (akHash row) pwd \<and>
    \<not> key_expired (akExpiresAt row) (wNow w) \<and> wDB w' = wDB w"
proof -
  from assms obtain key pwd where split: "Split CHR ''_'' secret = [key, pwd]"
    by (auto simp: LoadAuthKey_def split: list.splits)
  with assms obtain r w1 where r: "db_query (\<lambda>d. map_option (load_auth_key d) (find (\<lambda>x. akKey x = key) (dbAuthKeys d))) w = (Inr r, w1)"
    and rest: "(case r of None \<Rightarrow> returnM None | Some m \<Rightarrow>
              if \<not> envCompareHash e (akHash m) pwd then returnM None
              else bindM time_Now (\<lambda>t. if key_expired (akExpiresAt m) t then returnM None else returnM (Some m))) w1 = (Inr (Some k), w')"
    by (auto simp: LoadAuthKey_def bindM_result_split)
  have "wNow w1 = wNow w" using r by (auto simp: db_query_def db_stmt_def split: list.splits bool.splits)
  with rest have k: "r = Some k" "envCompareHash e (akHash k) pwd" "\<not> key_expired (akExpiresAt k) (wNow w)" "w' = w1"
    by (auto simp: time_Now_def bindM_def split: option.splits if_splits)
  from db_query_result[OF r] k obtain row where "find (\<lambda>x. akKey x = key) (dbAuthKeys (wDB w)) = Some row"
    "k = load_auth_key (wDB w) row" "wDB w' = wDB w" by (auto simp: map_option_case split: option.splits)
  with k split find_SomeD[of _ "dbAuthKeys (wDB w)" row] show ?thesis
    by (auto simp: load_auth_key_def)
qed

text \<open>
  C31. An auth key works: once the key made by \<open>CreateAuthKey\<close> is saved, the secret shown to the
  user loads exactly that key, until it expires. The hypothesis on bcrypt is its
  documented contract: a password matches its own hash.
\<close>

theorem auth_key_roundtrip:
  assumes bcrypt: "\<And>p. envCompareHash e (envHash e p) p"
    and faults: "wFaults w = []"
    and create: "CreateAuthKey e t u ephemeral preAuthorized tags expiresAt w = (Inr (secret, k), w1)"
    and save: "SaveAuthKey k w1 = (Inr (), w2)"
    and live: "\<not> key_expired expiresAt (wNow w)"
  shows "LoadAuthKey e secret w2 = (Inr (Some (load_auth_key (wDB w2) (auth_key_row k))), w2)"
proof -
  obtain key where key: "RandStringBytes 12 w = (Inr key, w\<lparr>wNextRand := wNextRand w + 12\<rparr>)" "set key \<subseteq> set letterBytes"
    using RandStringBytes_ok by blast
  let ?w1 = "w\<lparr>wNextRand := wNextRand w + 12\<rparr>"
  obtain pwd where pwd: "RandStringBytes 22 ?w1 = (Inr pwd, ?w1\<lparr>wNextRand := wNextRand ?w1 + 22\<rparr>)" "set pwd \<subseteq> set letterBytes"
    using RandStringBytes_ok by blast
  from create have k: "secret = key @ ''_'' @ pwd" "akKey k = key" "akHash k = envHash e pwd" "akExpiresAt k = expiresAt"
    "wFaults w1 = []" "wNow w1 = wNow w"
    by (auto simp: CreateAuthKey_def new_key_parts_def bindM_def key pwd NextID_def time_Now_def faults)
  have split: "Split CHR ''_'' secret = [key, pwd]"
    using k(1) key(2) pwd(2) by (simp add: Split_append_sep Split_no_sep letterBytes_no_underscore)
  from save k(5) have ok: "\<not> other_row akID k (\<lambda>x. akKey x = akKey k) (dbAuthKeys (wDB w1))"
    and w2: "w2 = w1\<lparr>wDB := (wDB w1)\<lparr>dbAuthKeys := save_row akID (auth_key_row k) (dbAuthKeys (wDB w1))\<rparr>\<rparr>"
    by (auto simp: SaveAuthKey_def db_exec_unique_ok split: if_splits)
  have row: "akID (auth_key_row k) = akID k" "akKey (auth_key_row k) = key"
    by (simp_all add: auth_key_row_def k)
  have "find (\<lambda>x. akKey x = key) (save_row akID (auth_key_row k) (dbAuthKeys (wDB w1))) = Some (auth_key_row k)"
    by (rule find_unique) (use ok row k(2) in \<open>auto simp: set_save_row other_row_def list_ex_iff\<close>)
  with w2 k live bcrypt split show ?thesis
    by (simp add: LoadAuthKey_def bindM_def db_query_ok time_Now_def load_auth_key_def auth_key_row_def)
qed

section \<open>Accounts\<close>

lemma fold_best_in: "fold (\<lambda>x best. if key x < key best then x else best) rs r \<in> insert r (set rs)"
proof (induction rs arbitrary: r)
  case (Cons x rs)
  from Cons[of x] Cons[of r] show ?case by auto
qed simp

lemma first_by_SomeD:
  assumes "first_by key P rows = Some r"
  shows "r \<in> set rows \<and> P r"
proof -
  from assms obtain x xs where xs: "filter P rows = x # xs"
    and r: "r = fold (\<lambda>x best. if key x < key best then x else best) xs x"
    by (auto simp: first_by_def split: list.splits)
  from r fold_best_in[of key xs x] have "r \<in> set (filter P rows)" by (simp add: xs)
  then show ?thesis by simp
qed

text \<open>
  An identity without an organization is given an account of an organization: the query is
  made from a struct, an empty organization is no condition, so any account with the same
  subject matches, and its login name is overwritten.
\<close>

theorem GetOrCreateAccount_ignores_empty_organization:
  assumes "wFaults w = []" and "dbAccounts (wDB w) = [a]" and "acExternalID a = sub"
    and "acID a \<noteq> wIDs w (wNextID w)" and "login \<noteq> []"
  shows "\<exists>w'. GetOrCreateAccount sub [] login w = (Inr (a\<lparr>acLoginName := login\<rparr>, False), w')"
  using assms
  by (auto simp: GetOrCreateAccount_def bindM_def seqM_def NextID_def db_query_ok db_exec_ok first_by_def account_query_def
    Let_def split: if_splits)

section \<open>A sample server\<close>

definition sample_account :: Account where
  "sample_account = \<lparr>acID = 21, acExternalID = ''sub-1'', acOrganization = ''acme'',
     acLoginName = ''alice'', acLastAuthenticated = None\<rparr>"

definition sample_db :: db where
  "sample_db =
     \<lparr>dbAccounts = [sample_account], dbTailnets = [sample_tailnet],
      dbUsers = [user_row sample_alice, user_row sample_bob],
      dbMachines = [machine_row sample_laptop, machine_row sample_server, machine_row sample_phone],
      dbAuthKeys = [], dbApiKeys = [], dbSystemApiKeys = [], dbRegistrationRequests = [],
      dbAuthenticationRequests = [], dbSSHActionRequests = [], dbTKAStates = [], dbTKAAums = [], dbServerConfigs = []\<rparr>"

definition sample_world :: world where
  "sample_world =
     \<lparr>wDB = sample_db, wSessions = NewPollMapSessionManager, wNow = 1000, wIDs = (\<lambda>n. word_of_nat (1000 + n mod 1000)),
      wNextID = 0, wRand = (\<lambda>n. n), wNextRand = 0, wFaults = []\<rparr>"

theorem next_name_index_fresh_witness:
  "mNameIdx (machine_row sample_laptop) \<noteq> next_name_index sample_db 1 ''laptop''"
  by (rule next_name_index_fresh[of sample_db "''laptop''" 1])
    (auto simp: sample_db_def machine_row_def sample_defs)

lemma CreateAuthKey_returns:
  "\<exists>secret k w1. CreateAuthKey e t u eph pre tags expiresAt w = (Inr (secret, k), w1) \<and>
     wFaults w1 = wFaults w \<and> wDB w1 = wDB w"
proof -
  obtain key where "RandStringBytes 12 w = (Inr key, w\<lparr>wNextRand := wNextRand w + 12\<rparr>)"
    using RandStringBytes_ok by blast
  moreover obtain pwd where "RandStringBytes 22 (w\<lparr>wNextRand := wNextRand w + 12\<rparr>) =
      (Inr pwd, w\<lparr>wNextRand := wNextRand w + 12\<rparr>\<lparr>wNextRand := wNextRand (w\<lparr>wNextRand := wNextRand w + 12\<rparr>) + 22\<rparr>)"
    using RandStringBytes_ok by blast
  ultimately show ?thesis by (simp add: CreateAuthKey_def new_key_parts_def bindM_def NextID_def time_Now_def)
qed

theorem auth_key_roundtrip_witness:
  "\<exists>secret k w1 w2.
     CreateAuthKey sample_env sample_tailnet sample_alice False True [] None sample_world = (Inr (secret, k), w1) \<and>
     SaveAuthKey k w1 = (Inr (), w2) \<and>
     LoadAuthKey sample_env secret w2 = (Inr (Some (load_auth_key (wDB w2) (auth_key_row k))), w2)"
proof -
  obtain secret k w1 where c: "CreateAuthKey sample_env sample_tailnet sample_alice False True [] None sample_world = (Inr (secret, k), w1)"
    and w1: "wFaults w1 = []" "wDB w1 = sample_db"
    using CreateAuthKey_returns[of sample_env sample_tailnet sample_alice False True "[]" None sample_world]
    by (auto simp: sample_world_def)
  then obtain w2 where s: "SaveAuthKey k w1 = (Inr (), w2)"
    by (simp add: SaveAuthKey_def db_exec_unique_ok other_row_def sample_db_def)
  have "LoadAuthKey sample_env secret w2 = (Inr (Some (load_auth_key (wDB w2) (auth_key_row k))), w2)"
    by (rule auth_key_roundtrip[OF _ _ c s]) (simp_all add: sample_env_def sample_world_def key_expired_def)
  with c s show ?thesis by blast
qed

theorem LoadAuthKey_sound_witness:
  "\<exists>row. row \<in> set (dbAuthKeys (sample_db\<lparr>dbAuthKeys :=
      [\<lparr>akID = 5, akKey = ''k'', akHash = ''h:p'', akEphemeral = False, akPreAuthorized = False, akTags = [],
        akCreatedAt = 1, akExpiresAt = None, akTailnetID = 1, akTailnet = zero_tailnet, akUserID = 11, akUser = zero_user\<rparr>]\<rparr>)) \<and>
     akKey row = ''k''"
proof -
  let ?row = "\<lparr>akID = 5, akKey = ''k'', akHash = ''h:p'', akEphemeral = False, akPreAuthorized = False, akTags = [],
        akCreatedAt = 1, akExpiresAt = None, akTailnetID = 1, akTailnet = zero_tailnet, akUserID = 11, akUser = zero_user\<rparr>"
  let ?w = "sample_world\<lparr>wDB := sample_db\<lparr>dbAuthKeys := [?row]\<rparr>\<rparr>"
  have "LoadAuthKey sample_env ''k_p'' ?w = (Inr (Some (load_auth_key (wDB ?w) ?row)), ?w)"
    by (simp add: LoadAuthKey_def bindM_def db_query_ok time_Now_def sample_world_def sample_env_def load_auth_key_def key_expired_def)
  from LoadAuthKey_sound[OF this] show ?thesis by auto
qed

theorem GetOrCreateAccount_ignores_empty_organization_witness:
  "\<exists>w'. GetOrCreateAccount ''sub-1'' [] ''bob'' sample_world =
     (Inr (sample_account\<lparr>acLoginName := ''bob''\<rparr>, False), w') \<and> acOrganization sample_account = ''acme''"
  using GetOrCreateAccount_ignores_empty_organization[of sample_world sample_account "''sub-1''" "''bob''"]
  by (simp add: sample_world_def sample_db_def sample_account_def)

end
