(* ===== verification/AddrSelect.thy ===== *)
theory AddrSelect
  imports Repository
begin

text \<open>
  \<open>internal/addr/addr.go\<close>: the choice of a free address for a new machine. The functions of
  \<open>go-cidr\<close> and \<open>tsaddr\<close> are the fields of \<open>addr_env\<close>: the number of addresses of the
  range, its n-th address (\<open>cidr.HostBig\<close>, None for its error), whether an address is a
  Tailscale address, and the IPv6 address that goes with an IPv4 one.

  The loop has no bound in the source: it ends when it meets a free address. It is a partial
  function to \<open>option\<close>, where \<open>None\<close> is a loop that does not end.
\<close>

record addr_env =
  aeCount :: nat
  aeHostBig :: "nat \<Rightarrow> Addr option"
  aeIsTailscaleIP :: "Addr \<Rightarrow> bool"
  aeTailscale4To6 :: "Addr \<Rightarrow> Addr"

definition validateIP :: "addr_env \<Rightarrow> (Addr \<Rightarrow> bool m) option \<Rightarrow> Addr \<Rightarrow> bool m" where
  "validateIP e p ip =
     (if aeIsTailscaleIP e ip then (case p of Some f \<Rightarrow> f ip | None \<Rightarrow> returnM True)
      else returnM False)"

partial_function (option) selectIP_loop ::
    "addr_env \<Rightarrow> (Addr \<Rightarrow> bool m) option \<Rightarrow> nat \<Rightarrow> world \<Rightarrow> ((error + Addr) \<times> world) option" where
  "selectIP_loop e p n w =
     (case aeHostBig e n of
        None \<Rightarrow> Some (Inl (Err ''cidr''), w)
      | Some ip \<Rightarrow>
          (case validateIP e p ip w of
             (r, w') \<Rightarrow>
               (case r of
                  Inl err \<Rightarrow> Some (Inl err, w')
                | Inr ok \<Rightarrow>
                    if ok then Some (Inr ip, w')
                    else selectIP_loop e p ((n + 1) mod aeCount e) w')))"

definition selectIP :: "addr_env \<Rightarrow> (Addr \<Rightarrow> bool m) option \<Rightarrow> world \<Rightarrow> ((error + Addr) \<times> world) option" where
  "selectIP e p w =
     (case rand_int (aeCount e) w of
        (Inl err, w') \<Rightarrow> Some (Inl err, w')
      | (Inr n, w') \<Rightarrow> selectIP_loop e p n w')"

definition SelectIP ::
    "addr_env \<Rightarrow> (Addr \<Rightarrow> bool m) option \<Rightarrow> world \<Rightarrow> ((error + Addr \<times> Addr) \<times> world) option" where
  "SelectIP e p w =
     (case selectIP e p w of
        None \<Rightarrow> None
      | Some (Inl err, w') \<Rightarrow> Some (Inl err, w')
      | Some (Inr ip4, w') \<Rightarrow> Some (Inr (ip4, aeTailscale4To6 e ip4), w'))"

text \<open>
  \<open>checkIP\<close> of the registration handlers: an address is free when no machine has it.
\<close>

definition checkIP :: "Addr \<Rightarrow> bool m" where
  "checkIP ip = bindM (CountMachinesWithIPv4 (Addr_String ip)) (\<lambda>c. returnM (c = 0))"

section \<open>The loop ends at a free address\<close>

definition ip_free :: "db \<Rightarrow> Addr \<Rightarrow> bool" where
  "ip_free d ip \<longleftrightarrow> (\<forall>m \<in> set (dbMachines d). Addr_String (mIPv4 m) \<noteq> Addr_String ip)"

lemma checkIP_ok: "wFaults w = [] \<Longrightarrow> checkIP ip w = (Inr (ip_free (wDB w) ip), w)"
  by (auto simp: checkIP_def CountMachinesWithIPv4_def bindM_def db_query_ok ip_free_def IP_Value_def filter_empty_conv)

lemma validateIP_ok:
  "wFaults w = [] \<Longrightarrow>
   validateIP e (Some checkIP) ip w = (Inr (aeIsTailscaleIP e ip \<and> ip_free (wDB w) ip), w)"
  by (simp add: validateIP_def checkIP_ok)

lemma selectIP_loop_step:
  assumes "wFaults w = []" and "aeHostBig e n = Some ip"
  shows "selectIP_loop e (Some checkIP) n w =
    (if aeIsTailscaleIP e ip \<and> ip_free (wDB w) ip then Some (Inr ip, w)
     else selectIP_loop e (Some checkIP) ((n + 1) mod aeCount e) w)"
  using assms by (subst selectIP_loop.simps) (simp add: validateIP_ok)

lemma selectIP_loop_finds:
  assumes faults: "wFaults w = []"
    and hosts: "\<And>i. i < aeCount e \<Longrightarrow> \<exists>ip. aeHostBig e i = Some ip"
    and goal: "aeHostBig e ((n + d) mod aeCount e) = Some goal" "aeIsTailscaleIP e goal" "ip_free (wDB w) goal"
    and n: "n < aeCount e"
  shows "\<exists>ip i. selectIP_loop e (Some checkIP) n w = Some (Inr ip, w) \<and> i < aeCount e \<and>
    aeHostBig e i = Some ip \<and> aeIsTailscaleIP e ip \<and> ip_free (wDB w) ip"
  using goal(1) n
proof (induction d arbitrary: n)
  case 0
  then have "aeHostBig e n = Some goal" by simp
  with goal faults 0 show ?case by (auto simp: selectIP_loop_step)
next
  case (Suc d)
  from hosts Suc.prems obtain ip where ip: "aeHostBig e n = Some ip" by blast
  show ?case
  proof (cases "aeIsTailscaleIP e ip \<and> ip_free (wDB w) ip")
    case True
    with ip faults Suc.prems show ?thesis by (auto simp: selectIP_loop_step)
  next
    case False
    let ?n = "(n + 1) mod aeCount e"
    have "(?n + d) mod aeCount e = (n + Suc d) mod aeCount e" by (simp add: mod_add_left_eq)
    moreover have "?n < aeCount e" using Suc.prems by simp
    ultimately show ?thesis
      using Suc.IH[of ?n] Suc.prems False ip faults by (auto simp: selectIP_loop_step)
  qed
qed

text \<open>
  C32. When the range holds a free address the search ends with a free one: the loop visits
  the whole range, whatever its random start, and returns an address of the range that
  no machine of the server has.
\<close>

theorem selectIP_total:
  assumes "wFaults w = []" and "\<And>i. i < aeCount e \<Longrightarrow> \<exists>ip. aeHostBig e i = Some ip"
    and "i < aeCount e" and "aeHostBig e i = Some free" and "aeIsTailscaleIP e free" and "ip_free (wDB w) free"
  shows "\<exists>ip w'. selectIP e (Some checkIP) w = Some (Inr ip, w') \<and> wDB w' = wDB w \<and>
    (\<exists>j < aeCount e. aeHostBig e j = Some ip) \<and> aeIsTailscaleIP e ip \<and> ip_free (wDB w) ip"
proof -
  let ?n = "wRand w (wNextRand w) mod aeCount e" and ?w = "w\<lparr>wNextRand := wNextRand w + 1\<rparr>"
  have n: "?n < aeCount e" using assms(3) by simp
  define d where "d = (i + (aeCount e - ?n)) mod aeCount e"
  have "(?n + d) mod aeCount e = (?n + (i + (aeCount e - ?n))) mod aeCount e"
    by (simp add: d_def mod_add_right_eq)
  also have "?n + (i + (aeCount e - ?n)) = i + aeCount e" using n by simp
  finally have "(?n + d) mod aeCount e = i" using assms(3) by simp
  with assms n selectIP_loop_finds[of ?w e ?n d free] obtain ip j where
    "selectIP_loop e (Some checkIP) ?n ?w = Some (Inr ip, ?w)" "j < aeCount e" "aeHostBig e j = Some ip"
    "aeIsTailscaleIP e ip" "ip_free (wDB w) ip" by auto
  then show ?thesis by (auto simp: selectIP_def rand_int_def)
qed

definition sample_addr_env :: addr_env where
  "sample_addr_env = \<lparr>aeCount = 4, aeHostBig = (\<lambda>i. Some (Addr4 (1681915904 + word_of_nat i))),
     aeIsTailscaleIP = (\<lambda>_. True), aeTailscale4To6 = (\<lambda>_. Addr6 1 [])\<rparr>"

theorem selectIP_total_witness:
  "\<exists>ip w'. selectIP sample_addr_env (Some checkIP) sample_world = Some (Inr ip, w') \<and> ip_free sample_db ip"
proof -
  have "ip_free (wDB sample_world) (Addr4 1681915904)"
    by (simp add: ip_free_def sample_world_def sample_db_def machine_row_def sample_defs print_eval)
  then have "\<exists>ip w'. selectIP sample_addr_env (Some checkIP) sample_world = Some (Inr ip, w') \<and>
     wDB w' = wDB sample_world \<and> (\<exists>j < aeCount sample_addr_env. aeHostBig sample_addr_env j = Some ip) \<and>
     aeIsTailscaleIP sample_addr_env ip \<and> ip_free (wDB sample_world) ip"
    by (intro selectIP_total[of sample_world sample_addr_env 0 "Addr4 1681915904"])
      (simp_all add: sample_addr_env_def sample_world_def)
  then show ?thesis by (auto simp: sample_world_def)
qed

end
