(* ===== verification/ACL.thy ===== *)
theory ACL
  imports Samples
begin

text \<open>
  \<open>internal/domain/acl.go\<close>: what an alias of an ACL policy names, who owns a tag, which
  routes are approved automatically, which capabilities a machine gets, and the parsers of
  port ranges and protocols.
\<close>

section \<open>Aliases\<close>

definition AutoGroupSelf :: string where "AutoGroupSelf = ''autogroup:self''"
definition AutoGroupMember :: string where "AutoGroupMember = ''autogroup:member''"
definition AutoGroupMembers :: string where "AutoGroupMembers = ''autogroup:members''"
definition AutoGroupTagged :: string where "AutoGroupTagged = ''autogroup:tagged''"
definition AutoGroupInternet :: string where "AutoGroupInternet = ''autogroup:internet''"
definition AutoGroupDangerAll :: string where "AutoGroupDangerAll = ''autogroup:danger-all''"

lemmas autogroup_defs = AutoGroupSelf_def AutoGroupMember_def AutoGroupMembers_def
  AutoGroupTagged_def AutoGroupInternet_def AutoGroupDangerAll_def

definition isUserAlias :: "ACLPolicy \<Rightarrow> string \<Rightarrow> bool" where
  "isUserAlias a alias =
     (if alias = [] \<or> alias = ''*'' then False
      else if list_ex (\<lambda>prefix. HasPrefix alias prefix) [''autogroup:'', ''group:'', ''tag:''] then False
      else if plHosts a alias \<noteq> None then False
      else if ParseAddr alias \<noteq> None then False
      else if ParsePrefix alias \<noteq> None then False
      else True)"

definition machineOwnedBy :: "ACLPolicy \<Rightarrow> string \<Rightarrow> Machine \<Rightarrow> bool" where
  "machineOwnedBy a alias m \<longleftrightarrow> isUserAlias a alias \<and> \<not> HasTags m \<and> HasUser m alias"

definition isGroupMember :: "ACLPolicy \<Rightarrow> string \<Rightarrow> Machine \<Rightarrow> bool" where
  "isGroupMember a grp m =
     (if HasTags m then False
      else case plGroups a grp of
             None \<Rightarrow> False
           | Some users \<Rightarrow> list_ex (\<lambda>u. HasUser m u) users)"

section \<open>Automatic approval of routes\<close>

text \<open>The two closures of \<open>FindAutoApprovedIPs\<close>.\<close>

definition approver_matches :: "ACLPolicy \<Rightarrow> string list \<Rightarrow> User \<Rightarrow> string list \<Rightarrow> bool" where
  "approver_matches a tags u values \<longleftrightarrow>
     list_ex (\<lambda>alias.
       alias = uName u \<or>
       (case plGroups a alias of None \<Rightarrow> False | Some grp \<Rightarrow> list_ex (\<lambda>g. g = uName u) grp) \<or>
       (HasPrefix alias ''tag:'' \<and> list_ex (\<lambda>tag. alias = tag) tags)) values"

definition isAutoApproved :: "Prefix \<Rightarrow> Prefix list \<Rightarrow> bool" where
  "isAutoApproved candidate approvedIPs \<longleftrightarrow>
     list_ex (\<lambda>approvedIP. Bits candidate \<ge> Bits approvedIP \<and>
        Contains approvedIP (prefix_ip (Masked candidate))) approvedIPs"

text \<open>
  The loop over the routes of the policy: \<open>None\<close> is the early return on a route that does
  not parse.
\<close>

primrec approved_routes ::
    "ACLPolicy \<Rightarrow> string list \<Rightarrow> User \<Rightarrow> (string \<times> string list) list \<Rightarrow> Prefix list option" where
  "approved_routes a tags u [] = Some []"
| "approved_routes a tags u (r # rs) =
     (case ParsePrefix (fst r) of
        None \<Rightarrow> None
      | Some candidate \<Rightarrow>
          (case approved_routes a tags u rs of
             None \<Rightarrow> None
           | Some rest \<Rightarrow>
               Some (if approver_matches a tags u (snd r) then candidate # rest else rest)))"

definition FindAutoApprovedIPs ::
    "ACLPolicy \<Rightarrow> Prefix list \<Rightarrow> string list \<Rightarrow> User \<Rightarrow> Prefix list" where
  "FindAutoApprovedIPs a routableIPs tags u =
     (case plAutoApprovers a of
        None \<Rightarrow> []
      | Some approvers \<Rightarrow>
          if length routableIPs = 0 then []
          else case approved_routes a tags u (aaRoutes approvers) of
                 None \<Rightarrow> []
               | Some autoApprovedIPs \<Rightarrow>
                   concat (map (\<lambda>c.
                     (if Bits c = 0 \<and> approver_matches a tags u (aaExitNode approvers) then [c] else []) @
                     (if isAutoApproved c autoApprovedIPs then [c] else [])) routableIPs))"

section \<open>Tag owners\<close>

text \<open>The loop returns at the first group that exists, whatever it answers.\<close>

primrec tag_owner_loop :: "ACLPolicy \<Rightarrow> User \<Rightarrow> string list \<Rightarrow> bool" where
  "tag_owner_loop a p [] = False"
| "tag_owner_loop a p (alias # rest) =
     (if HasPrefix alias ''group:'' then
        (case plGroups a alias of
           Some grp \<Rightarrow> uName p \<in> set grp
         | None \<Rightarrow> tag_owner_loop a p rest)
      else if alias = uName p then True
      else tag_owner_loop a p rest)"

definition isTagOwner :: "ACLPolicy \<Rightarrow> string \<Rightarrow> User \<Rightarrow> bool" where
  "isTagOwner a tag p =
     (if uUserType p = UserTypeService then True
      else case plTagOwners a tag of
             None \<Rightarrow> False
           | Some tagOwners \<Rightarrow> tag_owner_loop a p tagOwners)"

definition CheckTagOwners :: "ACLPolicy \<Rightarrow> string list \<Rightarrow> User \<Rightarrow> error option" where
  "CheckTagOwners a tags p =
     (if list_ex (\<lambda>t. \<not> isTagOwner a t p) tags
      then Some (Err ''tag is invalid or not permitted'') else None)"

section \<open>Node capabilities\<close>

definition attr_matches :: "ACLPolicy \<Rightarrow> Machine \<Rightarrow> string list \<Rightarrow> bool" where
  "attr_matches a m targets \<longleftrightarrow>
     list_ex (\<lambda>alias.
       alias = ''*'' \<or>
       machineOwnedBy a alias m \<or>
       (HasPrefix alias ''tag:'' \<and> HasTag m alias) \<or>
       (HasPrefix alias ''group:'' \<and> \<not> HasTags m \<and>
          list_ex (\<lambda>u. HasUser m u) (map_get (plGroups a) alias)) \<or>
       ((alias = AutoGroupMember \<or> alias = AutoGroupMembers) \<and> \<not> HasTags m)) targets"

definition NodeCapabilities :: "ACLPolicy \<Rightarrow> Machine \<Rightarrow> string list" where
  "NodeCapabilities a m =
     StringSet_Items
       (fold (\<lambda>nodeAddr result.
          if attr_matches a m (naTarget nodeAddr) then StringSet_Add result (naAttr nodeAddr) else result)
        (plNodeAttrs a) [])"

section \<open>Ports and protocols\<close>

definition PortRangeAny :: PortRange where
  "PortRangeAny = \<lparr>prFirst = 0, prLast = 65535\<rparr>"

definition parse_port_range :: "string \<Rightarrow> PortRange option" where
  "parse_port_range p =
     (case Split CHR ''-'' p of
        [x] \<Rightarrow>
          (case ParseUint 16 x of
             None \<Rightarrow> None
           | Some pi \<Rightarrow> Some \<lparr>prFirst = word_of_nat pi, prLast = word_of_nat pi\<rparr>)
      | [x, y] \<Rightarrow>
          (case ParseUint 16 x of
             None \<Rightarrow> None
           | Some start \<Rightarrow>
               (case ParseUint 16 y of
                  None \<Rightarrow> None
                | Some end_ \<Rightarrow> Some \<lparr>prFirst = word_of_nat start, prLast = word_of_nat end_\<rparr>))
      | _ \<Rightarrow> None)"

primrec parse_port_list :: "string list \<Rightarrow> PortRange list option" where
  "parse_port_list [] = Some []"
| "parse_port_list (p # ps) =
     (case parse_port_range p of
        None \<Rightarrow> None
      | Some r \<Rightarrow> map_option (\<lambda>rs. r # rs) (parse_port_list ps))"

definition parsePortRanges :: "string \<Rightarrow> PortRange list option" where
  "parsePortRanges s =
     (if s = ''*'' then Some [PortRangeAny] else parse_port_list (Split CHR '','' s))"

definition parseProtocol :: "string \<Rightarrow> int list" where
  "parseProtocol protocol =
     (if protocol = [] then []
      else if protocol = ''igmp'' then [2]
      else if protocol = ''ipv4'' \<or> protocol = ''ip-in-ip'' then [4]
      else if protocol = ''tcp'' then [6]
      else if protocol = ''egp'' then [8]
      else if protocol = ''igp'' then [9]
      else if protocol = ''udp'' then [17]
      else if protocol = ''gre'' then [47]
      else if protocol = ''esp'' then [50]
      else if protocol = ''ah'' then [51]
      else if protocol = ''sctp'' then [132]
      else if protocol = ''icmp'' then [1, 58]
      else case Atoi protocol of None \<Rightarrow> [] | Some n \<Rightarrow> [n])"

section \<open>The ranges of autogroup:internet\<close>

definition autogroupInternetRanges :: "string list" where
  "autogroupInternetRanges =
     [''0.0.0.0/5'', ''8.0.0.0/7'', ''11.0.0.0/8'', ''12.0.0.0/6'', ''16.0.0.0/4'',
      ''32.0.0.0/3'', ''64.0.0.0/3'', ''96.0.0.0/6'', ''100.0.0.0/10'', ''100.128.0.0/9'',
      ''101.0.0.0/8'', ''102.0.0.0/7'', ''104.0.0.0/5'', ''112.0.0.0/4'', ''128.0.0.0/3'',
      ''160.0.0.0/5'', ''168.0.0.0/8'', ''169.0.0.0/9'', ''169.128.0.0/10'',
      ''169.192.0.0/11'', ''169.224.0.0/12'', ''169.240.0.0/13'', ''169.248.0.0/14'',
      ''169.252.0.0/15'', ''169.255.0.0/16'', ''170.0.0.0/7'', ''172.0.0.0/12'',
      ''172.32.0.0/11'', ''172.64.0.0/10'', ''172.128.0.0/9'', ''173.0.0.0/8'',
      ''174.0.0.0/7'', ''176.0.0.0/4'', ''192.0.0.0/9'', ''192.128.0.0/11'',
      ''192.160.0.0/13'', ''192.169.0.0/16'', ''192.170.0.0/15'', ''192.172.0.0/14'',
      ''192.176.0.0/12'', ''192.192.0.0/10'', ''193.0.0.0/8'', ''194.0.0.0/7'',
      ''196.0.0.0/6'', ''200.0.0.0/5'', ''208.0.0.0/4'', ''224.0.0.0/3'', ''2000::/3'']"

section \<open>The internet is everything but the private ranges\<close>

definition in_ranges :: "string list \<Rightarrow> 32 word \<Rightarrow> bool" where
  "in_ranges ss x \<longleftrightarrow>
     list_ex (\<lambda>s. case ParsePrefix s of None \<Rightarrow> False | Some p \<Rightarrow> Contains p (Addr4 x)) ss"

text \<open>The same ranges and the five private ones as consecutive pieces of the address space.\<close>

definition internet_tiles :: "(nat \<times> nat \<times> bool) list" where
  "internet_tiles =
     [(0, 134217728, True), (134217728, 167772160, True), (167772160, 184549376, False),
      (184549376, 201326592, True), (201326592, 268435456, True), (268435456, 536870912, True),
      (536870912, 1073741824, True), (1073741824, 1610612736, True), (1610612736, 1677721600, True),
      (1677721600, 1681915904, True), (1681915904, 1686110208, False), (1686110208, 1694498816, True),
      (1694498816, 1711276032, True), (1711276032, 1744830464, True), (1744830464, 1879048192, True),
      (1879048192, 2147483648, True), (2147483648, 2684354560, True), (2684354560, 2818572288, True),
      (2818572288, 2835349504, True), (2835349504, 2843738112, True), (2843738112, 2847932416, True),
      (2847932416, 2850029568, True), (2850029568, 2851078144, True), (2851078144, 2851602432, True),
      (2851602432, 2851864576, True), (2851864576, 2851995648, True), (2851995648, 2852061184, False),
      (2852061184, 2852126720, True), (2852126720, 2885681152, True), (2885681152, 2886729728, True),
      (2886729728, 2887778304, False), (2887778304, 2889875456, True), (2889875456, 2894069760, True),
      (2894069760, 2902458368, True), (2902458368, 2919235584, True), (2919235584, 2952790016, True),
      (2952790016, 3221225472, True), (3221225472, 3229614080, True), (3229614080, 3231711232, True),
      (3231711232, 3232235520, True), (3232235520, 3232301056, False), (3232301056, 3232366592, True),
      (3232366592, 3232497664, True), (3232497664, 3232759808, True), (3232759808, 3233808384, True),
      (3233808384, 3238002688, True), (3238002688, 3254779904, True), (3254779904, 3288334336, True),
      (3288334336, 3355443200, True), (3355443200, 3489660928, True), (3489660928, 3758096384, True),
      (3758096384, 4294967296, True)]"

definition private_ranges :: "string list" where
  "private_ranges =
     [''10.0.0.0/8'', ''100.64.0.0/10'', ''169.254.0.0/16'', ''172.16.0.0/12'', ''192.168.0.0/16'']"

lemma internet_tiles_tile: "tiles 0 internet_tiles 4294967296"
  by (simp add: internet_tiles_def)

lemma in_ranges_Cons:
  "in_ranges (s # ss) x \<longleftrightarrow>
   (case ParsePrefix s of None \<Rightarrow> False | Some p \<Rightarrow> Contains p (Addr4 x)) \<or> in_ranges ss x"
  by (simp add: in_ranges_def)

lemma in_ranges_Nil: "\<not> in_ranges [] x"
  by (simp add: in_ranges_def)

lemma Contains_Addr6_Addr4: "\<not> Contains (Prefix (Addr6 w z) b) (Addr4 x)"
  by (simp add: Contains_def)

lemmas range_eval = in_ranges_Cons in_ranges_Nil parse_eval Contains_Addr6_Addr4
  Contains_Addr4_numeral

lemma internet_ranges_tiles:
  "in_ranges autogroupInternetRanges x \<longleftrightarrow>
   (\<exists>(lo, hi, t) \<in> set internet_tiles. t \<and> lo \<le> unat x \<and> unat x < hi)"
  by (simp add: autogroupInternetRanges_def internet_tiles_def range_eval)

lemma private_ranges_tiles:
  "in_ranges private_ranges x \<longleftrightarrow>
   (\<exists>(lo, hi, t) \<in> set internet_tiles. \<not> t \<and> lo \<le> unat x \<and> unat x < hi)"
  by (simp add: private_ranges_def internet_tiles_def range_eval)

text \<open>
  The ranges that stand for \<open>autogroup:internet\<close> hold exactly the IPv4 addresses that
  are not private, link-local or of the tailnet itself: an address is in one of them if and
  only if it is outside 10/8, 100.64/10, 169.254/16, 172.16/12 and 192.168/16.
\<close>

theorem autogroupInternetRanges_exact:
  "in_ranges autogroupInternetRanges x \<longleftrightarrow> \<not> in_ranges private_ranges x"
  unfolding internet_ranges_tiles private_ranges_tiles
  by (rule tiles_split[OF internet_tiles_tile]) (use unsigned_less[of x, where ?'a = nat] in simp_all)

section \<open>Route approval\<close>

lemma approved_routes_None:
  "approved_routes a tags u rs = None \<longleftrightarrow> (\<exists>r \<in> set rs. ParsePrefix (fst r) = None)"
proof (induction rs)
  case (Cons r rs)
  then show ?case
    by (cases "ParsePrefix (fst r)"; cases "approved_routes a tags u rs") auto
qed simp

lemma approved_routes_Some:
  "approved_routes a tags u rs = Some ps \<Longrightarrow>
   set ps = {p. \<exists>r \<in> set rs. ParsePrefix (fst r) = Some p \<and> approver_matches a tags u (snd r)}"
  by (induction rs arbitrary: ps) (auto split: option.splits if_splits)

lemma isAutoApproved_covers:
  "isAutoApproved c ps \<Longrightarrow> \<exists>p \<in> set ps. \<forall>x. Contains c x \<longrightarrow> Contains p x"
  unfolding isAutoApproved_def list_ex_iff using Contains_nested by blast

text \<open>
  C34. A route is approved automatically only when the machine advertised it and the policy
  says so: it is an exit route and the user (or one of the tags) is an exit-node approver,
  or it lies wholly inside a route of the policy whose approvers include the user or a tag.
\<close>

theorem FindAutoApprovedIPs_sound:
  assumes "c \<in> set (FindAutoApprovedIPs a routableIPs tags u)"
  shows "c \<in> set routableIPs \<and>
    (\<exists>approvers. plAutoApprovers a = Some approvers \<and>
      (Bits c = 0 \<and> approver_matches a tags u (aaExitNode approvers) \<or>
       (\<exists>route owners p. (route, owners) \<in> set (aaRoutes approvers) \<and>
          ParsePrefix route = Some p \<and> approver_matches a tags u owners \<and>
          (\<forall>x. Contains c x \<longrightarrow> Contains p x))))"
proof -
  from assms obtain approvers where ap: "plAutoApprovers a = Some approvers"
    by (cases "plAutoApprovers a") (auto simp: FindAutoApprovedIPs_def)
  from assms ap obtain ps where ps: "approved_routes a tags u (aaRoutes approvers) = Some ps"
    by (cases "approved_routes a tags u (aaRoutes approvers)")
      (auto simp: FindAutoApprovedIPs_def split: if_splits)
  from assms have c: "c \<in> set routableIPs"
    "Bits c = 0 \<and> approver_matches a tags u (aaExitNode approvers) \<or> isAutoApproved c ps"
    by (auto simp: FindAutoApprovedIPs_def ap ps split: if_splits)
  from c(2) show ?thesis
  proof
    assume "isAutoApproved c ps"
    from isAutoApproved_covers[OF this] approved_routes_Some[OF ps] c(1) ap show ?thesis by fastforce
  qed (use c(1) ap in simp)
qed

theorem FindAutoApprovedIPs_sound_witness:
  "Prefix (Addr4 167838208) 25 \<in> set [Prefix (Addr4 167838208) 25] \<and>
   (\<exists>approvers. plAutoApprovers sample_policy = Some approvers)"
proof -
  have "Prefix (Addr4 167838208) 25 \<in>
    set (FindAutoApprovedIPs sample_policy [Prefix (Addr4 167838208) 25] [] sample_alice)"
    by (simp add: FindAutoApprovedIPs_def sample_policy_def sample_alice_def approver_matches_def
      isAutoApproved_def parse_eval Masked_def Contains_def Prefix_IsValid_def Bits_def)
  from FindAutoApprovedIPs_sound[OF this] show ?thesis by blast
qed

text \<open>
  The routes of a policy live in a Go map, whose iteration order is random; the routes
  approved do not depend on it.
\<close>

theorem FindAutoApprovedIPs_order:
  assumes "set (aaRoutes x) = set (aaRoutes y)" and "aaExitNode x = aaExitNode y"
  shows "FindAutoApprovedIPs (a\<lparr>plAutoApprovers := Some x\<rparr>) routableIPs tags u =
         FindAutoApprovedIPs (a\<lparr>plAutoApprovers := Some y\<rparr>) routableIPs tags u"
proof -
  let ?ax = "a\<lparr>plAutoApprovers := Some x\<rparr>" and ?ay = "a\<lparr>plAutoApprovers := Some y\<rparr>"
  have m: "approver_matches ?ax = approver_matches ?ay"
    by (intro ext) (simp add: approver_matches_def)
  show ?thesis
  proof (cases "approved_routes ?ax tags u (aaRoutes x)")
    case None
    with assms(1) have "approved_routes ?ay tags u (aaRoutes y) = None"
      by (simp add: approved_routes_None)
    with None show ?thesis by (simp add: FindAutoApprovedIPs_def)
  next
    case (Some ps)
    with assms(1) have "approved_routes ?ay tags u (aaRoutes y) \<noteq> None"
      using approved_routes_None[of ?ax tags u "aaRoutes x"] by (simp add: approved_routes_None)
    then obtain qs where qs: "approved_routes ?ay tags u (aaRoutes y) = Some qs" by blast
    from approved_routes_Some[OF Some] approved_routes_Some[OF qs] have "set ps = set qs"
      by (simp add: m assms(1))
    then have "isAutoApproved c ps = isAutoApproved c qs" for c
      by (simp add: isAutoApproved_def list_ex_iff)
    with Some qs m assms(2) show ?thesis by (simp add: FindAutoApprovedIPs_def)
  qed
qed

theorem FindAutoApprovedIPs_order_witness:
  "FindAutoApprovedIPs (sample_policy\<lparr>plAutoApprovers :=
      Some \<lparr>aaRoutes = [(''10.0.0.0/8'', [''alice'']), (''11.0.0.0/8'', [])], aaExitNode = []\<rparr>\<rparr>) [] [] sample_alice =
   FindAutoApprovedIPs (sample_policy\<lparr>plAutoApprovers :=
      Some \<lparr>aaRoutes = [(''11.0.0.0/8'', []), (''10.0.0.0/8'', [''alice''])], aaExitNode = []\<rparr>\<rparr>) [] [] sample_alice"
  by (rule FindAutoApprovedIPs_order) auto

section \<open>Ports\<close>

definition print_port_range :: "PortRange \<Rightarrow> string" where
  "print_port_range r = Itoa (unat (prFirst r)) @ ''-'' @ Itoa (unat (prLast r))"

lemma parse_print_port_range: "parse_port_range (print_port_range r) = Some r"
proof -
  have "Split CHR ''-'' (print_port_range r) = [Itoa (unat (prFirst r)), Itoa (unat (prLast r))]"
    by (simp add: print_port_range_def Split_append_sep Split_no_sep Itoa_no_char digit_val_def)
  moreover have "ParseUint 16 (Itoa (unat w)) = Some (unat w)" for w :: "16 word"
    using unsigned_less[of w, where ?'a = nat] by (intro ParseUint_Itoa) simp
  ultimately show ?thesis by (simp add: parse_port_range_def)
qed

lemma parse_port_list_print: "parse_port_list (map print_port_range rs) = Some rs"
  by (induction rs) (simp_all add: parse_print_port_range)

text \<open>
  Port ranges survive printing: a non-empty list of ranges written the way a policy
  writes them, \<open>first-last\<close> separated by commas, parses to exactly that list, over the
  whole 16-bit range of both ends.
\<close>

theorem parsePortRanges_roundtrip:
  assumes "rs \<noteq> []"
  shows "parsePortRanges (Join (map print_port_range rs) '','') = Some rs"
proof -
  let ?s = "Join (map print_port_range rs) '',''"
  have comma: "CHR '','' \<notin> set (print_port_range r)" for r
    by (simp add: print_port_range_def Itoa_no_char digit_val_def)
  have "Split CHR '','' ?s = map print_port_range rs"
    using assms comma by (intro Split_Join) auto
  moreover have "?s \<noteq> ''*''"
  proof
    assume "?s = ''*''"
    then have "parse_port_list (Split CHR '','' ''*'') = Some rs"
      using calculation parse_port_list_print by metis
    then show False by (simp add: parse_port_range_def ParseUint_def digit_val_def)
  qed
  ultimately show ?thesis by (simp add: parsePortRanges_def parse_port_list_print)
qed

theorem parsePortRanges_roundtrip_witness:
  "parsePortRanges ''80-443'' = Some [\<lparr>prFirst = 80, prLast = 443\<rparr>]"
  using parsePortRanges_roundtrip[of "[\<lparr>prFirst = 80, prLast = 443\<rparr>]"]
  by (simp add: print_port_range_def print_eval)

section \<open>Tag owners\<close>

lemma isTagOwner_person:
  "uUserType p \<noteq> UserTypeService \<Longrightarrow>
   isTagOwner a tag p \<longleftrightarrow> (\<exists>owners. plTagOwners a tag = Some owners \<and> tag_owner_loop a p owners)"
  by (auto simp: isTagOwner_def split: option.splits)

lemma tag_owner_loop_sound:
  "tag_owner_loop a p owners \<Longrightarrow>
   uName p \<in> set owners \<or> (\<exists>g grp. g \<in> set owners \<and> HasPrefix g ''group:'' \<and> plGroups a g = Some grp \<and> uName p \<in> set grp)"
  by (induction owners) (auto split: if_splits option.splits)

text \<open>
  A user passes the tag check only for tags the policy lets that user own: every tag has
  an owner list that names the user or a group with the user in it. (Service users own
  every tag.)
\<close>

theorem CheckTagOwners_sound:
  assumes "CheckTagOwners a tags p = None" and "uUserType p \<noteq> UserTypeService" and "t \<in> set tags"
  shows "\<exists>owners. plTagOwners a t = Some owners \<and>
    (uName p \<in> set owners \<or>
     (\<exists>g grp. g \<in> set owners \<and> HasPrefix g ''group:'' \<and> plGroups a g = Some grp \<and> uName p \<in> set grp))"
proof -
  from assms(1,3) have "isTagOwner a t p"
    by (auto simp: CheckTagOwners_def list_ex_iff split: if_splits)
  with assms(2) obtain owners where "plTagOwners a t = Some owners" "tag_owner_loop a p owners"
    by (auto simp: isTagOwner_person)
  with tag_owner_loop_sound show ?thesis by blast
qed

theorem CheckTagOwners_sound_witness:
  "\<exists>owners. plTagOwners sample_policy ''tag:web'' = Some owners"
  using CheckTagOwners_sound[of sample_policy "[''tag:web'']" sample_alice "''tag:web''"]
  by (auto simp: CheckTagOwners_def isTagOwner_def sample_policy_def sample_alice_def HasPrefix_def role_defs)

text \<open>
  The converse fails: the first group that exists decides alone, so a user listed by
  name behind a group without that user is refused the tag.
\<close>

theorem isTagOwner_first_group_decides:
  assumes "uUserType p \<noteq> UserTypeService"
    and "plTagOwners a tag = Some (g # owners)" and "HasPrefix g ''group:''"
    and "plGroups a g = Some grp" and "uName p \<notin> set grp"
  shows "\<not> isTagOwner a tag p"
  using assms by (simp add: isTagOwner_def)

theorem isTagOwner_first_group_decides_witness:
  "\<not> isTagOwner sample_policy ''tag:web'' sample_bob \<and>
   plTagOwners sample_policy ''tag:web'' = Some [''group:eng'', ''bob''] \<and> uName sample_bob = ''bob''"
  using isTagOwner_first_group_decides[of sample_bob sample_policy "''tag:web''" "''group:eng''" "[''bob'']" "[''alice'']"]
  by (simp add: sample_defs HasPrefix_def role_defs)

section \<open>Capabilities\<close>

lemma NodeCapabilities_set:
  "set (NodeCapabilities a m) = (\<Union>n \<in> {n \<in> set (plNodeAttrs a). attr_matches a m (naTarget n)}. set (naAttr n))"
proof -
  let ?f = "\<lambda>n. if attr_matches a m (naTarget n) then naAttr n else []"
  have eq: "(\<lambda>n s. if attr_matches a m (naTarget n) then StringSet_Add s (naAttr n) else s) =
        (\<lambda>n s. StringSet_Add s (?f n))"
    by (intro ext) (simp add: StringSet_Add_def)
  have "set (NodeCapabilities a m) = (\<Union>n\<in>set (plNodeAttrs a). set (?f n))"
    unfolding NodeCapabilities_def eq by (rule string_set.items_collect)
  then show ?thesis by auto
qed

text \<open>
  What an alias names is decided once: a user alias is not a wildcard, an autogroup, a
  group, a tag, a host or an address.
\<close>

lemma isUserAlias_exclusive:
  "isUserAlias a alias \<Longrightarrow>
   alias \<noteq> ''*'' \<and> \<not> HasPrefix alias ''group:'' \<and> \<not> HasPrefix alias ''tag:'' \<and>
   \<not> HasPrefix alias ''autogroup:'' \<and> plHosts a alias = None \<and> ParseAddr alias = None"
  by (auto simp: isUserAlias_def split: if_splits)

end
