(* ===== verification/FilterRules.thy ===== *)
theory FilterRules
  imports ACL
begin

text \<open>
  \<open>internal/domain/acl_filter_rules.go\<close>: which machines are peers of each other and the
  packet filter a machine enforces. The closures the Go functions pass around are
  definitions of their own; a user pointer that may be nil is an option.
\<close>

section \<open>From aliases to addresses\<close>

definition translateAliasToMachineIPs ::
    "ACLPolicy \<Rightarrow> string \<Rightarrow> Machine \<Rightarrow> (string \<Rightarrow> Machine \<Rightarrow> string list) \<Rightarrow> string list" where
  "translateAliasToMachineIPs a alias m f =
     (if alias = AutoGroupMember \<or> alias = AutoGroupMembers \<or> alias = AutoGroupSelf then
        (if \<not> HasTags m then IPs m else [])
      else if alias = AutoGroupTagged then
        (if HasTags m then IPs m else [])
      else if alias = AutoGroupInternet \<and> IsExitNode m then autogroupInternetRanges
      else if machineOwnedBy a alias m then IPs m
      else if HasPrefix alias ''group:'' \<and> \<not> HasTags m \<and> isGroupMember a alias m then IPs m
      else if HasPrefix alias ''tag:'' \<and> HasTag m alias then IPs m
      else f (case plHosts a alias of Some h \<Rightarrow> h | None \<Rightarrow> alias) m)"

definition source_literal :: "string \<Rightarrow> Machine \<Rightarrow> string list" where
  "source_literal alias m =
     (case ParseAddr alias of
        Some ip \<Rightarrow> if HasIP m ip then [Addr_String ip] else []
      | None \<Rightarrow> [])"

definition translateSourceAliasToMachineIPs ::
    "ACLPolicy \<Rightarrow> string \<Rightarrow> Machine \<Rightarrow> User option \<Rightarrow> string list" where
  "translateSourceAliasToMachineIPs a alias m u =
     (if u \<noteq> None \<and> HasTags m then []
      else if u \<noteq> None \<and> \<not> HasUser m (uName (the u)) then []
      else if alias = ''*'' then IPs m @ AllowedPrefixes m
      else if alias = AutoGroupDangerAll then [''0.0.0.0/0'', ''::/0'']
      else translateAliasToMachineIPs a alias m source_literal)"

definition destination_literal :: "string \<Rightarrow> Machine \<Rightarrow> string list" where
  "destination_literal alias m =
     (case ParseAddr alias of
        Some ip \<Rightarrow> if IsAllowedIP m ip then [Addr_String ip]
                   else (case ParsePrefix alias of
                           Some prefix \<Rightarrow> if IsAllowedIPPrefix m prefix then [Prefix_String prefix] else []
                         | None \<Rightarrow> [])
      | None \<Rightarrow>
          (case ParsePrefix alias of
             Some prefix \<Rightarrow> if IsAllowedIPPrefix m prefix then [Prefix_String prefix] else []
           | None \<Rightarrow> []))"

definition translateDestinationAliasToMachineIPs :: "ACLPolicy \<Rightarrow> string \<Rightarrow> Machine \<Rightarrow> string list" where
  "translateDestinationAliasToMachineIPs a alias m =
     (if alias = ''*'' then [''*''] else translateAliasToMachineIPs a alias m destination_literal)"

record NetPortRange =
  npIP :: string
  npPorts :: PortRange

definition translationDestinationAliasToMachineNetPortRanges ::
    "ACLPolicy \<Rightarrow> string \<Rightarrow> Machine \<Rightarrow> NetPortRange list" where
  "translationDestinationAliasToMachineNetPortRanges a alias m =
     (case CutLast CHR '':'' alias of
        None \<Rightarrow> []
      | Some (alias', ports) \<Rightarrow>
          (case parsePortRanges ports of
             None \<Rightarrow> []
           | Some portRanges \<Rightarrow>
               (let ips = translateDestinationAliasToMachineIPs a alias' m
                in if length ips = 0 then []
                   else concat (map (\<lambda>d. map (\<lambda>p. \<lparr>npIP = d, npPorts = p\<rparr>) portRanges) ips))))"

text \<open>Both return the ranges for \<open>autogroup:self\<close> and the others apart.\<close>

definition translateDestinationAliasesToMachineNetPortRanges ::
    "ACLPolicy \<Rightarrow> string list \<Rightarrow> Machine \<Rightarrow> NetPortRange list \<times> NetPortRange list" where
  "translateDestinationAliasesToMachineNetPortRanges a aliases m =
     fold (\<lambda>alias (self, other).
       let ranges = translationDestinationAliasToMachineNetPortRanges a alias m
       in if HasPrefix alias AutoGroupSelf then (self @ ranges, other) else (self, other @ ranges))
     aliases ([], [])"

definition translateDestinationAliasesToMachineIPs ::
    "ACLPolicy \<Rightarrow> string list \<Rightarrow> Machine \<Rightarrow> string list \<times> string list" where
  "translateDestinationAliasesToMachineIPs a aliases m =
     (case fold (\<lambda>alias (self, other).
         let ips = translateDestinationAliasToMachineIPs a alias m
         in if alias = AutoGroupSelf then (StringSet_Add self ips, other)
            else (self, StringSet_Add other ips)) aliases ([], []) of
        (self, other) \<Rightarrow> (StringSet_Items self, StringSet_Items other))"

section \<open>Peers\<close>

text \<open>The two inner loops that every part of \<open>IsValidPeer\<close> runs.\<close>

definition source_reaches ::
    "ACLPolicy \<Rightarrow> string list \<Rightarrow> Machine \<Rightarrow> User option \<Rightarrow> bool" where
  "source_reaches a aliases src u \<longleftrightarrow>
     list_ex (\<lambda>alias. length (translateSourceAliasToMachineIPs a alias src u) \<noteq> 0) aliases"

definition IsValidPeer :: "ACLPolicy \<Rightarrow> Machine \<Rightarrow> Machine \<Rightarrow> bool" where
  "IsValidPeer a src dest =
     (if \<not> HasTags src \<and> \<not> HasTags dest \<and> HasUser dest (uName (mUser src)) then True
      else if list_ex (\<lambda>acl.
          case translateDestinationAliasesToMachineNetPortRanges a (aeDestination acl) dest of
            (selfDestPorts, allDestPorts) \<Rightarrow>
              (length selfDestPorts \<noteq> 0 \<and> source_reaches a (aeSource acl) src (Some (mUser dest))) \<or>
              (length allDestPorts \<noteq> 0 \<and> source_reaches a (aeSource acl) src None)) (plACLs a) then True
      else if list_ex (\<lambda>grant.
          case translateDestinationAliasesToMachineIPs a (agDestination grant) dest of
            (selfIps, otherIps) \<Rightarrow>
              (length selfIps \<noteq> 0 \<and> source_reaches a (agSource grant) src (Some (mUser dest))) \<or>
              (length otherIps \<noteq> 0 \<and> source_reaches a (agSource grant) src None)) (plGrants a) then True
      else list_ex (\<lambda>ssh.
          case translateDestinationAliasesToMachineIPs a (shRecorder ssh) dest of
            (selfIps, otherIps) \<Rightarrow>
              (length selfIps \<noteq> 0 \<and> source_reaches a (shDestination ssh) src (Some (mUser dest))) \<or>
              (length otherIps \<noteq> 0 \<and> source_reaches a (shDestination ssh) src None)) (plSSH a))"

section \<open>Filter rules\<close>

record CapGrant =
  cgDsts :: "Prefix list"
  cgCapMap :: PeerCapMap

record FilterRule =
  frSrcIPs :: "string list"
  frDstPorts :: "NetPortRange list"
  frIPProto :: "int list"
  frCapGrant :: "CapGrant list"

definition normalizeSSHRecordersToDestinationAliases :: "string list \<Rightarrow> string list" where
  "normalizeSSHRecordersToDestinationAliases recorders =
     map (\<lambda>alias. alias @ '':80'') (filter (\<lambda>alias. HasPrefix alias ''tag:'') recorders)"

definition prepareFilterRulesFromSSH :: "ACLPolicy \<Rightarrow> Machine \<Rightarrow> ACLSSH \<Rightarrow> FilterRule list" where
  "prepareFilterRulesFromSSH a candidate entry =
     (case translateDestinationAliasesToMachineNetPortRanges a
             (normalizeSSHRecordersToDestinationAliases (shRecorder entry)) candidate of
        (_, otherDstPorts) \<Rightarrow>
          if length otherDstPorts \<noteq> 0 then
            [\<lparr>frSrcIPs = [], frDstPorts = otherDstPorts, frIPProto = [6], frCapGrant = []\<rparr>]
          else [])"

definition prepareFilterRulesFromACL ::
    "ACLPolicy \<Rightarrow> Machine \<Rightarrow> ACLEntry \<Rightarrow> FilterRule list \<times> FilterRule list" where
  "prepareFilterRulesFromACL a candidate acl =
     (let proto = parseProtocol (aeProtocol acl);
          mk = (\<lambda>ports. if length ports \<noteq> 0 then
                 [\<lparr>frSrcIPs = [], frDstPorts = ports, frIPProto = proto, frCapGrant = []\<rparr>] else [])
      in case translateDestinationAliasesToMachineNetPortRanges a (aeDestination acl) candidate of
           (selfDstPorts, otherDstPorts) \<Rightarrow> (mk selfDstPorts, mk otherDstPorts))"

definition app_translate :: "Machine \<Rightarrow> string list \<Rightarrow> Prefix list" where
  "app_translate m ips =
     concat (map (\<lambda>ip.
       if ip = ''*'' then [PrefixFrom (mIPv4 m) 32, PrefixFrom (mIPv6 m) 128]
       else case ParseAddr ip of
              None \<Rightarrow> []
            | Some addr \<Rightarrow>
                if HasIP m addr then
                  (if Is4 addr then [PrefixFrom addr 32] else [PrefixFrom addr 128])
                else []) ips)"

definition appGrantDstIpsToPrefixes ::
    "Machine \<Rightarrow> string list \<Rightarrow> string list \<Rightarrow> Prefix list \<times> Prefix list" where
  "appGrantDstIpsToPrefixes m self other = (app_translate m self, app_translate m other)"

definition grant_port_rule :: "string list \<Rightarrow> ProtoPortRange \<Rightarrow> FilterRule list" where
  "grant_port_rule ips ip =
     (if length ips \<noteq> 0 then
        [\<lparr>frSrcIPs = [], frDstPorts = map (\<lambda>s. \<lparr>npIP = s, npPorts = pprPorts ip\<rparr>) ips,
          frIPProto = (if pprProto ip \<noteq> 0 then [pprProto ip] else []), frCapGrant = []\<rparr>]
      else [])"

definition grant_cap_rule :: "Prefix list \<Rightarrow> PeerCapMap \<Rightarrow> FilterRule list" where
  "grant_cap_rule prefixes app =
     (if length prefixes \<noteq> 0 then
        [\<lparr>frSrcIPs = [], frDstPorts = [], frIPProto = [],
          frCapGrant = [\<lparr>cgDsts = prefixes, cgCapMap = app\<rparr>]\<rparr>]
      else [])"

definition prepareFilterRulesFromGrant ::
    "ACLPolicy \<Rightarrow> Machine \<Rightarrow> ACLGrant \<Rightarrow> FilterRule list \<times> FilterRule list" where
  "prepareFilterRulesFromGrant a candidate grant =
     (case translateDestinationAliasesToMachineIPs a (agDestination grant) candidate of
        (selfIPs, otherIPs) \<Rightarrow>
          (case appGrantDstIpsToPrefixes candidate selfIPs otherIPs of
             (selfPrefixes, otherPrefixes) \<Rightarrow>
               (concat (map (grant_port_rule selfIPs) (agIP grant)) @
                  (if length (agApp grant) \<noteq> 0 then grant_cap_rule selfPrefixes (agApp grant) else []),
                concat (map (grant_port_rule otherIPs) (agIP grant)) @
                  (if length (agApp grant) \<noteq> 0 then grant_cap_rule otherPrefixes (agApp grant) else []))))"

definition matchSourceAndAppendRule ::
    "ACLPolicy \<Rightarrow> Machine list \<Rightarrow> FilterRule list \<Rightarrow> string list \<Rightarrow> FilterRule list \<Rightarrow> User option
     \<Rightarrow> FilterRule list" where
  "matchSourceAndAppendRule a peers rules aliases preparedRules u =
     (if length preparedRules = 0 then rules
      else
        let allSrcIPsSet = fold (\<lambda>alias s. fold (\<lambda>peer s.
              StringSet_Add s (translateSourceAliasToMachineIPs a alias peer u)) peers s) aliases []
        in if StringSet_Empty allSrcIPsSet then rules
           else
             let allSrcIPs = StringSet_Items allSrcIPsSet
             in if length allSrcIPs = 0 then rules
                else rules @ map (\<lambda>pr. \<lparr>frSrcIPs = allSrcIPs, frDstPorts = frDstPorts pr,
                       frIPProto = frIPProto pr, frCapGrant = frCapGrant pr\<rparr>) preparedRules)"

definition BuildFilterRules :: "ACLPolicy \<Rightarrow> Machine list \<Rightarrow> Machine \<Rightarrow> FilterRule list" where
  "BuildFilterRules a peers dst =
     (let rules0 = [];
          rules1 = fold (\<lambda>acl rules.
            case prepareFilterRulesFromACL a dst acl of
              (self, other) \<Rightarrow>
                matchSourceAndAppendRule a peers
                  (matchSourceAndAppendRule a peers rules (aeSource acl) self (Some (mUser dst)))
                  (aeSource acl) other None) (plACLs a) rules0;
          rules2 = fold (\<lambda>acl rules.
            case prepareFilterRulesFromGrant a dst acl of
              (self, other) \<Rightarrow>
                matchSourceAndAppendRule a peers
                  (matchSourceAndAppendRule a peers rules (agSource acl) self (Some (mUser dst)))
                  (agSource acl) other None) (plGrants a) rules1
      in fold (\<lambda>acl rules.
           matchSourceAndAppendRule a peers rules (shDestination acl)
             (prepareFilterRulesFromSSH a dst acl) None) (plSSH a) rules2)"

section \<open>The rules as a comprehension\<close>

text \<open>
  The specification of the filter: the addresses that a list of source aliases stands for
  on a set of peers, and the rules stamped with them.
\<close>

definition source_ips :: "ACLPolicy \<Rightarrow> Machine list \<Rightarrow> string list \<Rightarrow> User option \<Rightarrow> string list" where
  "source_ips a peers aliases u =
     sorted_list_of_set (\<Union>alias\<in>set aliases. \<Union>p\<in>set peers. set (translateSourceAliasToMachineIPs a alias p u))"

definition stamp :: "string list \<Rightarrow> FilterRule list \<Rightarrow> FilterRule list" where
  "stamp ips prepared = (if ips = [] then [] else map (\<lambda>pr. pr\<lparr>frSrcIPs := ips\<rparr>) prepared)"

definition filter_spec :: "ACLPolicy \<Rightarrow> Machine list \<Rightarrow> Machine \<Rightarrow> FilterRule list" where
  "filter_spec a peers dst =
     concat (map (\<lambda>acl.
       stamp (source_ips a peers (aeSource acl) (Some (mUser dst))) (fst (prepareFilterRulesFromACL a dst acl)) @
       stamp (source_ips a peers (aeSource acl) None) (snd (prepareFilterRulesFromACL a dst acl))) (plACLs a)) @
     concat (map (\<lambda>grant.
       stamp (source_ips a peers (agSource grant) (Some (mUser dst))) (fst (prepareFilterRulesFromGrant a dst grant)) @
       stamp (source_ips a peers (agSource grant) None) (snd (prepareFilterRulesFromGrant a dst grant))) (plGrants a)) @
     concat (map (\<lambda>ssh.
       stamp (source_ips a peers (shDestination ssh) None) (prepareFilterRulesFromSSH a dst ssh)) (plSSH a))"

lemma fold_nested: "fold (\<lambda>x. fold (f x) ys) xs s = fold (\<lambda>(x, y). f x y) (List.product xs ys) s"
  by (induction xs arbitrary: s) (simp_all add: fold_map comp_def)

lemma fold_append_concat: "fold (\<lambda>x acc. acc @ f x) xs acc = acc @ concat (map f xs)"
  by (induction xs arbitrary: acc) simp_all

lemma collected_ips:
  "StringSet_Items (fold (\<lambda>alias s. fold (\<lambda>peer s.
      StringSet_Add s (translateSourceAliasToMachineIPs a alias peer u)) peers s) aliases []) =
   source_ips a peers aliases u"
proof -
  let ?g = "\<lambda>(alias, peer). translateSourceAliasToMachineIPs a alias peer u"
  have "(\<lambda>alias. fold (\<lambda>peer s. StringSet_Add s (translateSourceAliasToMachineIPs a alias peer u)) peers) =
        (\<lambda>alias. fold ((\<lambda>alias peer s. StringSet_Add s (?g (alias, peer))) alias) peers)" by simp
  then have "fold (\<lambda>alias. fold (\<lambda>peer s. StringSet_Add s (translateSourceAliasToMachineIPs a alias peer u)) peers) aliases [] =
        fold (\<lambda>x s. StringSet_Add s (?g x)) (List.product aliases peers) []"
    by (simp only: fold_nested case_prod_unfold prod.collapse)
  then show ?thesis
    by (simp add: StringSet_Items_collect source_ips_def) (rule arg_cong[where f = sorted_list_of_set], auto)
qed

lemma StringSet_Empty_Items: "StringSet_Empty s \<longleftrightarrow> StringSet_Items s = []"
  by (simp add: StringSet_Empty_def StringSet_Items_def flip: length_0_conv)

lemma matchSourceAndAppendRule_eq:
  "matchSourceAndAppendRule a peers rules aliases prepared u =
   rules @ stamp (source_ips a peers aliases u) prepared"
  by (auto simp: matchSourceAndAppendRule_def StringSet_Empty_Items collected_ips stamp_def Let_def)

lemma BuildFilterRules_eq: "BuildFilterRules a peers dst = filter_spec a peers dst"
  by (simp add: BuildFilterRules_def filter_spec_def matchSourceAndAppendRule_eq Let_def
    case_prod_unfold fold_append_concat)


section \<open>Sources are valid peers\<close>

lemma stamp_cong:
  "(prepared \<noteq> [] \<Longrightarrow> ips = ips') \<Longrightarrow> stamp ips prepared = stamp ips' prepared"
  by (cases prepared) (auto simp: stamp_def)

lemma source_ips_filter:
  assumes "\<And>p. p \<in> set peers \<Longrightarrow> source_reaches a aliases p u \<Longrightarrow> P p"
  shows "source_ips a peers aliases u = source_ips a (filter P peers) aliases u"
proof -
  have "(\<Union>alias\<in>set aliases. \<Union>p\<in>set peers. set (translateSourceAliasToMachineIPs a alias p u)) =
        (\<Union>alias\<in>set aliases. \<Union>p\<in>set (filter P peers). set (translateSourceAliasToMachineIPs a alias p u))"
    using assms by (fastforce simp: source_reaches_def list_ex_iff)
  then show ?thesis by (simp add: source_ips_def)
qed

lemma prepared_ACL_ports:
  "fst (prepareFilterRulesFromACL a dst acl) \<noteq> [] \<longleftrightarrow>
     fst (translateDestinationAliasesToMachineNetPortRanges a (aeDestination acl) dst) \<noteq> []"
  "snd (prepareFilterRulesFromACL a dst acl) \<noteq> [] \<longleftrightarrow>
     snd (translateDestinationAliasesToMachineNetPortRanges a (aeDestination acl) dst) \<noteq> []"
  by (auto simp: prepareFilterRulesFromACL_def Let_def case_prod_unfold)

lemma grant_rules_empty: "grant_port_rule [] p = []" "grant_cap_rule (app_translate m []) app = []"
  by (auto simp: grant_port_rule_def grant_cap_rule_def app_translate_def)

lemma prepared_Grant_ips:
  "fst (prepareFilterRulesFromGrant a dst g) \<noteq> [] \<Longrightarrow>
     fst (translateDestinationAliasesToMachineIPs a (agDestination g) dst) \<noteq> []"
  "snd (prepareFilterRulesFromGrant a dst g) \<noteq> [] \<Longrightarrow>
     snd (translateDestinationAliasesToMachineIPs a (agDestination g) dst) \<noteq> []"
  by (auto simp: prepareFilterRulesFromGrant_def appGrantDstIpsToPrefixes_def case_prod_unfold grant_rules_empty
      split: if_splits)

lemma dest_ips_other:
  "set (snd (translateDestinationAliasesToMachineIPs a aliases m)) =
   (\<Union>alias \<in> {x \<in> set aliases. x \<noteq> AutoGroupSelf}. set (translateDestinationAliasToMachineIPs a alias m))"
proof -
  have "distinct s \<Longrightarrow> distinct t \<Longrightarrow>
    set (snd (fold (\<lambda>alias (self, other).
         let ips = translateDestinationAliasToMachineIPs a alias m
         in if alias = AutoGroupSelf then (StringSet_Add self ips, other)
            else (self, StringSet_Add other ips)) aliases (s, t))) =
    set t \<union> (\<Union>alias \<in> {x \<in> set aliases. x \<noteq> AutoGroupSelf}. set (translateDestinationAliasToMachineIPs a alias m))" for s t
    by (induction aliases arbitrary: s t) (auto simp: Let_def StringSet_Add_def)
  from this[of "[]" "[]"] show ?thesis
    by (simp add: translateDestinationAliasesToMachineIPs_def case_prod_unfold StringSet_Items_def)
qed

lemma dest_ranges_other:
  "set (snd (translateDestinationAliasesToMachineNetPortRanges a aliases m)) =
   (\<Union>alias \<in> {x \<in> set aliases. \<not> HasPrefix x AutoGroupSelf}. set (translationDestinationAliasToMachineNetPortRanges a alias m))"
proof -
  have "set (snd (fold (\<lambda>alias (self, other).
       let ranges = translationDestinationAliasToMachineNetPortRanges a alias m
       in if HasPrefix alias AutoGroupSelf then (self @ ranges, other) else (self, other @ ranges)) aliases (s, t))) =
    set t \<union> (\<Union>alias \<in> {x \<in> set aliases. \<not> HasPrefix x AutoGroupSelf}. set (translationDestinationAliasToMachineNetPortRanges a alias m))" for s t
    by (induction aliases arbitrary: s t) (auto simp: Let_def)
  from this[of "[]" "[]"] show ?thesis
    by (simp add: translateDestinationAliasesToMachineNetPortRanges_def)
qed

lemma recorder_range_ips:
  assumes "translationDestinationAliasToMachineNetPortRanges a (al @ '':80'') m \<noteq> []"
  shows "translateDestinationAliasToMachineIPs a al m \<noteq> []"
  using assms CutLast_append[of "CHR '':''" "''80''" al]
  by (auto simp: translationDestinationAliasToMachineNetPortRanges_def Let_def split: option.splits if_splits)

lemma prepared_SSH_ips:
  assumes "prepareFilterRulesFromSSH a dst ssh \<noteq> []"
  shows "snd (translateDestinationAliasesToMachineIPs a (shRecorder ssh) dst) \<noteq> []"
proof -
  let ?rs = "normalizeSSHRecordersToDestinationAliases (shRecorder ssh)"
  from assms have "set (snd (translateDestinationAliasesToMachineNetPortRanges a ?rs dst)) \<noteq> {}"
    by (auto simp: prepareFilterRulesFromSSH_def case_prod_unfold split: if_splits)
  then obtain x where al: "x \<in> set (shRecorder ssh)" "HasPrefix x ''tag:''"
    "translationDestinationAliasToMachineNetPortRanges a (x @ '':80'') dst \<noteq> []"
    by (auto simp: dest_ranges_other normalizeSSHRecordersToDestinationAliases_def)
  then have "x \<noteq> AutoGroupSelf" by (auto simp: HasPrefix_def AutoGroupSelf_def)
  with al recorder_range_ips[OF al(3)]
  have "set (snd (translateDestinationAliasesToMachineIPs a (shRecorder ssh) dst)) \<noteq> {}"
    unfolding dest_ips_other by auto
  then show ?thesis by auto
qed

lemma valid_by_ACL:
  assumes "acl \<in> set (plACLs a)"
  shows "fst (translateDestinationAliasesToMachineNetPortRanges a (aeDestination acl) dst) \<noteq> [] \<Longrightarrow>
         source_reaches a (aeSource acl) p (Some (mUser dst)) \<Longrightarrow> IsValidPeer a p dst"
    and "snd (translateDestinationAliasesToMachineNetPortRanges a (aeDestination acl) dst) \<noteq> [] \<Longrightarrow>
         source_reaches a (aeSource acl) p None \<Longrightarrow> IsValidPeer a p dst"
  using assms by (auto simp: IsValidPeer_def list_ex_iff case_prod_unfold)

lemma valid_by_Grant:
  assumes "g \<in> set (plGrants a)"
  shows "fst (translateDestinationAliasesToMachineIPs a (agDestination g) dst) \<noteq> [] \<Longrightarrow>
         source_reaches a (agSource g) p (Some (mUser dst)) \<Longrightarrow> IsValidPeer a p dst"
    and "snd (translateDestinationAliasesToMachineIPs a (agDestination g) dst) \<noteq> [] \<Longrightarrow>
         source_reaches a (agSource g) p None \<Longrightarrow> IsValidPeer a p dst"
  using assms by (auto simp: IsValidPeer_def list_ex_iff case_prod_unfold)

lemma valid_by_SSH:
  assumes "ssh \<in> set (plSSH a)"
    and "snd (translateDestinationAliasesToMachineIPs a (shRecorder ssh) dst) \<noteq> []"
    and "source_reaches a (shDestination ssh) p None"
  shows "IsValidPeer a p dst"
  using assms by (auto simp: IsValidPeer_def list_ex_iff case_prod_unfold)

text \<open>
  C1. Visibility and filtering agree: a machine that the policy does not make a valid peer of
  the destination contributes nothing to the destination's packet filter, so the filter is
  the same when it is built from the valid peers alone.
\<close>

theorem BuildFilterRules_valid_peers:
  "BuildFilterRules a peers dst = BuildFilterRules a (filter (\<lambda>p. IsValidPeer a p dst) peers) dst"
proof -
  let ?ok = "filter (\<lambda>p. IsValidPeer a p dst) peers"
  have "stamp (source_ips a peers (aeSource acl) (Some (mUser dst))) (fst (prepareFilterRulesFromACL a dst acl)) =
        stamp (source_ips a ?ok (aeSource acl) (Some (mUser dst))) (fst (prepareFilterRulesFromACL a dst acl))"
       "stamp (source_ips a peers (aeSource acl) None) (snd (prepareFilterRulesFromACL a dst acl)) =
        stamp (source_ips a ?ok (aeSource acl) None) (snd (prepareFilterRulesFromACL a dst acl))"
    if "acl \<in> set (plACLs a)" for acl
    using valid_by_ACL[OF that]
    by (auto intro!: stamp_cong source_ips_filter simp: prepared_ACL_ports)
  moreover
  have "stamp (source_ips a peers (agSource g) (Some (mUser dst))) (fst (prepareFilterRulesFromGrant a dst g)) =
        stamp (source_ips a ?ok (agSource g) (Some (mUser dst))) (fst (prepareFilterRulesFromGrant a dst g))"
       "stamp (source_ips a peers (agSource g) None) (snd (prepareFilterRulesFromGrant a dst g)) =
        stamp (source_ips a ?ok (agSource g) None) (snd (prepareFilterRulesFromGrant a dst g))"
    if "g \<in> set (plGrants a)" for g
    using valid_by_Grant[OF that]
    by (auto intro!: stamp_cong source_ips_filter dest: prepared_Grant_ips)
  moreover
  have "stamp (source_ips a peers (shDestination ssh) None) (prepareFilterRulesFromSSH a dst ssh) =
        stamp (source_ips a ?ok (shDestination ssh) None) (prepareFilterRulesFromSSH a dst ssh)"
    if "ssh \<in> set (plSSH a)" for ssh
    using valid_by_SSH[OF that]
    by (auto intro!: stamp_cong source_ips_filter dest: prepared_SSH_ips)
  ultimately show ?thesis
    by (simp add: BuildFilterRules_eq filter_spec_def cong: map_cong)
qed

end
