(* ===== verification/SSHPolicy.thy ===== *)
theory SSHPolicy
  imports FilterRules
begin

text \<open>
  \<open>internal/domain/acl_ssh_policy.go\<close>: the SSH policy a machine enforces. The map from
  requested users to local users is a HOL map; it is compared with nil through \<open>len\<close>, so
  an absent map and an empty one behave alike.
\<close>

section \<open>Source and destination aliases\<close>

definition expandSSHSrcAlias :: "ACLPolicy \<Rightarrow> Machine \<Rightarrow> string \<Rightarrow> User option \<Rightarrow> string list" where
  "expandSSHSrcAlias a m alias dstUser =
     (case dstUser of
        Some u \<Rightarrow>
          (if \<not> HasUser m (uName u) \<or> HasTags m then []
           else if alias = AutoGroupMember \<or> alias = AutoGroupMembers then IPs m
           else if isUserAlias a alias \<and> HasUser m alias then IPs m
           else if HasPrefix alias ''group:'' \<and> isGroupMember a alias m then IPs m
           else [])
      | None \<Rightarrow>
          (if (alias = AutoGroupMember \<or> alias = AutoGroupMembers) \<and> \<not> HasTags m then IPs m
           else if machineOwnedBy a alias m then IPs m
           else if HasPrefix alias ''group:'' \<and> \<not> HasTags m \<and> isGroupMember a alias m then IPs m
           else if HasPrefix alias ''tag:'' \<and> HasTag m alias then IPs m
           else []))"

definition buildSSHUsers :: "string list \<Rightarrow> (string \<rightharpoonup> string)" where
  "buildSSHUsers users =
     (let (m, autogroupNonRoot) =
        fold (\<lambda>u (m, nr). if u = ''autogroup:nonroot'' then (m(''*'' \<mapsto> ''=''), True)
                          else (m(u \<mapsto> u), nr)) users (Map.empty, False)
      in if m ''root'' = None \<and> autogroupNonRoot then m(''root'' \<mapsto> []) else m)"

text \<open>\<open>None\<close> is the nil map of a destination that does not concern the machine.\<close>

definition expandSSHDstToSSHUsers ::
    "Machine \<Rightarrow> ACLSSH \<Rightarrow> (string \<rightharpoonup> string) option \<times> (string \<rightharpoonup> string) option" where
  "expandSSHDstToSSHUsers m rule =
     (let users = buildSSHUsers (shUsers rule)
      in fold (\<lambda>d (selfUsers, otherUsers).
           let otherUsers' = (if HasPrefix d ''tag:'' \<and> HasTag m d then Some users else otherUsers);
               selfUsers' = (if HasUser m d \<or> d = AutoGroupSelf then Some users else selfUsers)
           in (selfUsers', otherUsers')) (shDestination rule) (None, None))"

definition safeCheckPeriod :: "string \<Rightarrow> string" where
  "safeCheckPeriod period = (if period = [] then ''always'' else period)"

text \<open>
  \<open>len\<close> of the users map is 0 for nil and for a rule without users: every user of the list
  adds a key.
\<close>

definition ssh_users_nonempty :: "ACLSSH \<Rightarrow> (string \<rightharpoonup> string) option \<Rightarrow> bool" where
  "ssh_users_nonempty rule users \<longleftrightarrow> users \<noteq> None \<and> shUsers rule \<noteq> []"

section \<open>The policy\<close>

record SSHRecorderFailureAction =
  rfRejectSessionWithMessage :: string
  rfTerminateSessionWithMessage :: string

record SSHAction =
  saAccept :: bool
  saAllowAgentForwarding :: bool
  saAllowLocalPortForwarding :: bool
  saHoldAndDelegate :: string
  saRecorders :: "(Addr \<times> nat) list"
  saMessage :: string
  saOnRecordingFailure :: "SSHRecorderFailureAction option"

record SSHRule =
  srPrincipals :: "string list"
  srSSHUsers :: "string \<rightharpoonup> string"
  srAction :: SSHAction

definition expandSrcAliases ::
    "ACLPolicy \<Rightarrow> Machine list \<Rightarrow> string list \<Rightarrow> string \<Rightarrow> User option \<Rightarrow> string list" where
  "expandSrcAliases a srcs aliases action u =
     StringSet_Items
       (fold (\<lambda>alias s.
          if HasPrefix alias ''tag:'' \<and> action = ''check'' then s
          else fold (\<lambda>src s. StringSet_Add s (expandSSHSrcAlias a src alias u)) srcs s) aliases [])"

definition expandRecorderAliases :: "Machine list \<Rightarrow> Machine \<Rightarrow> string list \<Rightarrow> (Addr \<times> nat) list" where
  "expandRecorderAliases srcs dst aliases =
     concat (map (\<lambda>alias.
       map (\<lambda>src. (mIPv4 src, 80)) (filter (\<lambda>src. HasTag src alias) (srcs @ [dst]))) aliases)"

definition ssh_base_action :: "ACLSSH \<Rightarrow> SSHAction" where
  "ssh_base_action rule =
     (if shAction rule = ''check'' then
        \<lparr>saAccept = False, saAllowAgentForwarding = False, saAllowLocalPortForwarding = False,
         saHoldAndDelegate = ''https://unused/machine/ssh/action/$SRC_NODE_ID/to/$DST_NODE_ID/'' @
           safeCheckPeriod (shCheckPeriod rule),
         saRecorders = [], saMessage = [], saOnRecordingFailure = None\<rparr>
      else
        \<lparr>saAccept = True, saAllowAgentForwarding = True, saAllowLocalPortForwarding = True,
         saHoldAndDelegate = [], saRecorders = [], saMessage = [], saOnRecordingFailure = None\<rparr>)"

definition ssh_action :: "Machine list \<Rightarrow> Machine \<Rightarrow> ACLSSH \<Rightarrow> SSHAction" where
  "ssh_action srcs dst rule =
     (let action = ssh_base_action rule
      in if length (shRecorder rule) \<noteq> 0 then
           action\<lparr>saRecorders := expandRecorderAliases srcs dst (shRecorder rule),
                  saMessage := ''# This session is being recorded.'' @ [CHR 0x0A],
                  saOnRecordingFailure :=
                    (if shEnforceRecorder rule then
                       Some \<lparr>rfRejectSessionWithMessage = ''# Session rejected: failed to start session recording.'',
                             rfTerminateSessionWithMessage = ''# Session terminated: failed to record session.''\<rparr>
                     else None)\<rparr>
         else action)"

definition ssh_rule_of ::
    "ACLPolicy \<Rightarrow> Machine list \<Rightarrow> Machine \<Rightarrow> ACLSSH \<Rightarrow> (string \<rightharpoonup> string) option \<Rightarrow> User option \<Rightarrow> SSHRule list" where
  "ssh_rule_of a srcs dst rule users u =
     (if ssh_users_nonempty rule users then
        (let principals = expandSrcAliases a srcs (shSource rule) (shAction rule) u
         in if length principals \<noteq> 0 then
              [\<lparr>srPrincipals = principals, srSSHUsers = the users, srAction = ssh_action srcs dst rule\<rparr>]
            else [])
      else [])"

definition BuildSSHPolicy :: "ACLPolicy \<Rightarrow> Machine list \<Rightarrow> Machine \<Rightarrow> SSHRule list" where
  "BuildSSHPolicy a srcs dst =
     concat (map (\<lambda>rule.
       if shAction rule \<noteq> ''accept'' \<and> shAction rule \<noteq> ''check'' then []
       else case expandSSHDstToSSHUsers dst rule of
              (selfUsers, otherUsers) \<Rightarrow>
                ssh_rule_of a srcs dst rule selfUsers (Some (mUser dst)) @
                ssh_rule_of a srcs dst rule otherUsers None) (plSSH a))"

section \<open>Root and the users map\<close>

lemma ssh_users_fold:
  "fold (\<lambda>u (m, nr). if u = ''autogroup:nonroot'' then (m(''*'' \<mapsto> ''=''), True) else (m(u \<mapsto> u), nr)) users (m0, nr0) =
   (m, nr) \<Longrightarrow>
   (nr \<longleftrightarrow> nr0 \<or> ''autogroup:nonroot'' \<in> set users) \<and>
   (\<forall>k. k \<noteq> ''*'' \<longrightarrow> m k = (if k \<in> set users \<and> k \<noteq> ''autogroup:nonroot'' then Some k else m0 k))"
proof (induction users arbitrary: m0 nr0)
  case (Cons u us)
  show ?case
  proof (cases "u = ''autogroup:nonroot''")
    case True
    with Cons.prems have "fold (\<lambda>u (m, nr). if u = ''autogroup:nonroot'' then (m(''*'' \<mapsto> ''=''), True) else (m(u \<mapsto> u), nr)) us
      (m0(''*'' \<mapsto> ''=''), True) = (m, nr)" by simp
    from Cons.IH[OF this] True show ?thesis by auto
  next
    case False
    with Cons.prems have "fold (\<lambda>u (m, nr). if u = ''autogroup:nonroot'' then (m(''*'' \<mapsto> ''=''), True) else (m(u \<mapsto> u), nr)) us
      (m0(u \<mapsto> u), nr0) = (m, nr)" by simp
    from Cons.IH[OF this] False show ?thesis by auto
  qed
qed simp

text \<open>
  Logging in as root over SSH takes an explicit entry: a rule maps the user root to root
  exactly when it lists root, maps it to the empty string (refused) when it only lists
  \<open>autogroup:nonroot\<close>, and does not mention it otherwise.
\<close>

theorem buildSSHUsers_root:
  "buildSSHUsers users ''root'' =
     (if ''root'' \<in> set users then Some ''root''
      else if ''autogroup:nonroot'' \<in> set users then Some []
      else None)"
proof -
  obtain m nr where f: "fold (\<lambda>u (m, nr). if u = ''autogroup:nonroot'' then (m(''*'' \<mapsto> ''=''), True)
                          else (m(u \<mapsto> u), nr)) users (Map.empty, False) = (m, nr)"
    by fastforce
  from ssh_users_fold[OF f] show ?thesis by (auto simp: buildSSHUsers_def f Let_def)
qed

section \<open>Principals\<close>

lemma expandSrcAliases_set:
  "set (expandSrcAliases a srcs aliases action u) =
   (\<Union>alias \<in> {x \<in> set aliases. \<not> (HasPrefix x ''tag:'' \<and> action = ''check'')}. \<Union>m \<in> set srcs. set (expandSSHSrcAlias a m alias u))"
proof -
  let ?g = "\<lambda>x. if HasPrefix x ''tag:'' \<and> action = ''check'' then [] else concat (map (\<lambda>m. expandSSHSrcAlias a m x u) srcs)"
  have inner: "fold (\<lambda>src s. StringSet_Add s (expandSSHSrcAlias a src x u)) srcs s =
        StringSet_Add s (concat (map (\<lambda>m. expandSSHSrcAlias a m x u) srcs))" for x s
    by (induction srcs arbitrary: s) (simp_all add: StringSet_Add_def)
  have outer: "(\<lambda>alias s. if HasPrefix alias ''tag:'' \<and> action = ''check'' then s
          else fold (\<lambda>src s. StringSet_Add s (expandSSHSrcAlias a src alias u)) srcs s) = (\<lambda>x s. StringSet_Add s (?g x))"
    by (intro ext) (simp add: inner, simp add: StringSet_Add_def)
  have all: "set (expandSrcAliases a srcs aliases action u) = (\<Union>x\<in>set aliases. set (?g x))"
    unfolding expandSrcAliases_def outer by (rule string_set.items_collect)
  have one: "set (?g x) = {y. \<not> (HasPrefix x ''tag:'' \<and> action = ''check'') \<and> (\<exists>m\<in>set srcs. y \<in> set (expandSSHSrcAlias a m x u))}" for x
    by auto
  show ?thesis unfolding all one by auto
qed

lemma expandSSHSrcAlias_IPs: "ip \<in> set (expandSSHSrcAlias a m alias u) \<Longrightarrow> ip \<in> set (IPs m)"
  by (auto simp: expandSSHSrcAlias_def split: option.splits if_splits)

lemma expandSSHSrcAlias_self:
  "ip \<in> set (expandSSHSrcAlias a m alias (Some u)) \<Longrightarrow> HasUser m (uName u) \<and> \<not> HasTags m"
  by (auto simp: expandSSHSrcAlias_def split: if_splits)

lemma expandSSHDst_other:
  "fold (\<lambda>d (selfUsers, otherUsers).
           (if HasUser m d \<or> d = AutoGroupSelf then Some users else selfUsers,
            if HasPrefix d ''tag:'' \<and> HasTag m d then Some users else otherUsers)) ds (s0, o0) = (s, ot) \<Longrightarrow>
   ot \<noteq> None \<Longrightarrow> o0 \<noteq> None \<or> HasTags m"
proof (induction ds arbitrary: s0 o0)
  case (Cons d ds)
  from Cons.IH[of "if HasUser m d \<or> d = AutoGroupSelf then Some users else s0"
      "if HasPrefix d ''tag:'' \<and> HasTag m d then Some users else o0"] Cons.prems
  show ?case by (cases "mTags m") (auto simp: Let_def HasTag_def HasTags_def split: if_splits)
qed simp

text \<open>
  C33. SSH access crosses users only towards tagged machines: a principal admitted by the
  policy of an untagged machine is an address of an untagged machine of the same user.
\<close>

theorem BuildSSHPolicy_untagged_same_user:
  assumes "\<not> HasTags dst" and "r \<in> set (BuildSSHPolicy a srcs dst)" and "ip \<in> set (srPrincipals r)"
  shows "\<exists>m \<in> set srcs. ip \<in> set (IPs m) \<and> \<not> HasTags m \<and> HasUser m (uName (mUser dst))"
proof -
  from assms(2) obtain rule where
    "r \<in> set (ssh_rule_of a srcs dst rule (fst (expandSSHDstToSSHUsers dst rule)) (Some (mUser dst))) \<or>
     r \<in> set (ssh_rule_of a srcs dst rule (snd (expandSSHDstToSSHUsers dst rule)) None)"
    by (auto simp: BuildSSHPolicy_def case_prod_unfold split: if_splits)
  moreover obtain s ot where e: "expandSSHDstToSSHUsers dst rule = (s, ot)" by fastforce
  ultimately have r: "r \<in> set (ssh_rule_of a srcs dst rule s (Some (mUser dst))) \<or>
    r \<in> set (ssh_rule_of a srcs dst rule ot None)" by simp
  from e assms(1) have "ot = None"
    by (auto simp: expandSSHDstToSSHUsers_def Let_def dest: expandSSHDst_other)
  with r have "ip \<in> set (expandSrcAliases a srcs (shSource rule) (shAction rule) (Some (mUser dst)))"
    using assms(3) by (auto simp: ssh_rule_of_def ssh_users_nonempty_def Let_def split: if_splits)
  then obtain x m where "m \<in> set srcs" "ip \<in> set (expandSSHSrcAlias a m x (Some (mUser dst)))"
    unfolding expandSrcAliases_set by blast
  with expandSSHSrcAlias_IPs expandSSHSrcAlias_self show ?thesis by blast
qed

theorem BuildSSHPolicy_untagged_same_user_witness:
  "\<exists>m \<in> set [sample_laptop]. ''100.64.0.1'' \<in> set (IPs m) \<and> \<not> HasTags m \<and>
     HasUser m (uName (mUser sample_laptop))"
proof (rule BuildSSHPolicy_untagged_same_user)
  let ?rule = "\<lparr>shAction = ''accept'', shSource = [''alice''], shDestination = [''autogroup:self''],
    shUsers = [''root''], shCheckPeriod = [], shRecorder = [], shEnforceRecorder = False\<rparr>"
  let ?r = "\<lparr>srPrincipals = expandSrcAliases (sample_policy\<lparr>plSSH := [?rule]\<rparr>) [sample_laptop] [''alice''] ''accept'' (Some sample_alice),
    srSSHUsers = buildSSHUsers [''root''], srAction = ssh_action [sample_laptop] sample_laptop ?rule\<rparr>"
  have ip: "''100.64.0.1'' \<in> set (expandSrcAliases (sample_policy\<lparr>plSSH := [?rule]\<rparr>) [sample_laptop] [''alice''] ''accept'' (Some sample_alice))"
    by (simp add: expandSrcAliases_set expandSSHSrcAlias_def sample_defs HasUser_def HasTags_def IPs_def isUserAlias_def
      autogroup_defs parse_eval print_eval)
  then have "length (expandSrcAliases (sample_policy\<lparr>plSSH := [?rule]\<rparr>) [sample_laptop] [''alice''] ''accept'' (Some sample_alice)) \<noteq> 0"
    by auto
  moreover have "mUser sample_laptop = sample_alice" by (simp add: sample_defs)
  ultimately show "?r \<in> set (BuildSSHPolicy (sample_policy\<lparr>plSSH := [?rule]\<rparr>) [sample_laptop] sample_laptop)"
    by (simp add: BuildSSHPolicy_def expandSSHDstToSSHUsers_def ssh_rule_of_def ssh_users_nonempty_def Let_def HasUser_def
      HasPrefix_def AutoGroupSelf_def)
  show "''100.64.0.1'' \<in> set (srPrincipals ?r)" using ip by simp
qed (simp add: HasTags_def sample_laptop_def)

end
