(* ===== verification/Integrity.thy ===== *)
theory Integrity
  imports Repository
begin

text \<open>
  Integrity of the stored data: which relations hold between the rows of the tables, and
  that the operations of the repository keep them. The services and the handlers of the
  coordination protocol build on these facts.

  \<open>quiet\<close> is the frame of the computations that only read: the tables, the clock and the
  sessions are as before (identifiers, random numbers and the fault sequence move on).
\<close>

section \<open>Computations that only read\<close>

definition quiet :: "world \<Rightarrow> world \<Rightarrow> bool" where
  "quiet w w' \<longleftrightarrow> wDB w' = wDB w \<and> wNow w' = wNow w \<and> wSessions w' = wSessions w \<and>
     wIDs w' = wIDs w \<and> wNextID w \<le> wNextID w'"

interpretation quiet: frame quiet
  by unfold_locales (auto simp: quiet_def)

lemma quiet_db_query: "within quiet (db_query q)"
  by (auto simp: within_def quiet_def db_query_def db_stmt_def split: list.splits bool.splits)

lemma quiet_time_Now: "within quiet time_Now"
  unfolding time_Now_def by (rule quiet.within_getsM)

lemma quiet_NextID: "within quiet NextID"
  by (simp add: within_def quiet_def NextID_def)

lemma quiet_rand_int: "within quiet (rand_int n)"
  by (simp add: within_def quiet_def rand_int_def)

lemma quiet_RandStringBytes: "within quiet (RandStringBytes n)"
  unfolding RandStringBytes_def by (intro quiet.within_intros quiet_rand_int)

lemma quiet_new_key_parts: "within quiet (new_key_parts e)"
  unfolding new_key_parts_def by (intro quiet.within_intros quiet_RandStringBytes quiet_NextID)

lemmas quiet_intros = quiet.within_intros quiet_db_query quiet_time_Now quiet_NextID quiet_rand_int
  quiet_RandStringBytes quiet_new_key_parts

lemma quiet_CreateAuthKey: "within quiet (CreateAuthKey e t u eph pre tags x)"
  unfolding CreateAuthKey_def by (intro quiet_intros)

lemma quietD:
  assumes "within quiet m" and "m w = (r, w')"
  shows "wDB w' = wDB w" "wNow w' = wNow w" "wSessions w' = wSessions w" "wIDs w' = wIDs w" "wNextID w \<le> wNextID w'"
  using withinD[OF assms] by (simp_all add: quiet_def)

context db_frame
begin

lemma within_quiet: "within quiet m \<Longrightarrow> within (on_db R) m"
  by (simp add: within_def quiet_def on_db_def R_refl)

lemma stays_quiet: "within quiet m \<Longrightarrow> stays (on_db R) m w"
  by (rule stays_within) (rule within_quiet)

lemma stays_quiet_bindM:
  assumes "within quiet m" and "\<And>x w'. m w = (Inr x, w') \<Longrightarrow> quiet w w' \<Longrightarrow> stays (on_db R) (f x) w'"
  shows "stays (on_db R) (bindM m f) w"
  by (rule stays_bindM) (auto intro: stays_quiet[OF assms(1)] assms(2) withinD[OF assms(1)])

lemma stays_quiet_seqM:
  assumes "within quiet m" and "\<And>x w'. m w = (Inr x, w') \<Longrightarrow> quiet w w' \<Longrightarrow> stays (on_db R) k w'"
  shows "stays (on_db R) (seqM m k) w"
  unfolding seqM_def using assms by (rule stays_quiet_bindM)

lemma stays_notifyM: "stays (on_db R) (notifyM t) w"
  by (rule stays_within) (rule within_notifyM)

lemma stays_db_stmt: "R (wDB w) (snd (f (wDB w))) \<Longrightarrow> stays (on_db R) (db_stmt f) w"
  by (auto simp: stays_def on_db_def db_stmt_def R_refl split: list.splits bool.splits prod.splits)

lemma stays_db_exec: "R (wDB w) (f (wDB w)) \<Longrightarrow> stays (on_db R) (db_exec f) w"
  unfolding db_exec_def by (rule stays_db_stmt) simp

lemma stays_db_exec_unique: "(ok (wDB w) \<Longrightarrow> R (wDB w) (f (wDB w))) \<Longrightarrow> stays (on_db R) (db_exec_unique ok f) w"
  unfolding db_exec_unique_def by (rule stays_db_stmt) (simp add: R_refl)

lemma stays_Transaction:
  assumes "\<And>x w1 w2. wDB w1 = wDB w \<Longrightarrow> m w1 = (Inr x, w2) \<Longrightarrow> R (wDB w) (wDB w2)"
  shows "stays (on_db R) (Transaction m) w"
proof -
  have "R (wDB w) (wDB w')" if "m (w\<lparr>wFaults := fs\<rparr>) = (Inr x, w')" for fs x w'
    using assms[of "w\<lparr>wFaults := fs\<rparr>" x w'] that by simp
  then show ?thesis
    by (auto simp: Transaction_def stays_def on_db_def R_refl split: list.splits bool.splits prod.splits sum.splits)
qed

lemma forM_chain:
  assumes "forM xs f w = (Inr u, w')" and "\<And>x w w' u. x \<in> set xs \<Longrightarrow> f x w = (Inr u, w') \<Longrightarrow> R (wDB w) (wDB w')"
  shows "R (wDB w) (wDB w')"
  using assms
proof (induction xs arbitrary: w)
  case (Cons x xs)
  from Cons.prems(1) obtain u1 w1 where step: "f x w = (Inr u1, w1)" and rest: "forM xs f w1 = (Inr u, w')"
    by (auto simp: go_success)
  from Cons.prems(2)[OF _ step] have "R (wDB w) (wDB w1)" by simp
  moreover have "R (wDB w1) (wDB w')" by (rule Cons.IH[OF rest]) (rule Cons.prems(2), auto)
  ultimately show ?case by (rule R_trans)
qed (simp add: R_refl)

end

lemma tryM_run:
  "tryM m s = (Inr r, s') \<Longrightarrow> m s = (case r of Inl e \<Rightarrow> (Inl e, s') | Inr x \<Rightarrow> (Inr x, s'))"
  by (auto simp: tryM_def split: prod.splits sum.splits if_splits)

lemma db_exec_run: "db_exec f w = (Inr x, w') \<Longrightarrow> wDB w' = f (wDB w)"
  by (auto simp: db_exec_def db_stmt_def split: list.splits bool.splits)

lemma db_exec_unique_run: "db_exec_unique ok f w = (Inr x, w') \<Longrightarrow> ok (wDB w) \<and> wDB w' = f (wDB w)"
  by (auto simp: db_exec_unique_def db_stmt_def split: list.splits bool.splits if_splits)

lemma db_delete_by_id_run: "db_delete_by_id b f w = (Inr x, w') \<Longrightarrow> b \<and> wDB w' = f (wDB w)"
  by (auto simp: db_delete_by_id_def dest: db_exec_run split: if_splits)

section \<open>Integrity of the tables\<close>

text \<open>
  A row that refers to a user refers to one of the same tailnet, a user belongs to a tailnet
  that exists, primary keys and the unique indexes are unique.
\<close>

definition owned :: "db \<Rightarrow> uint64 \<Rightarrow> uint64 \<Rightarrow> bool" where
  "owned d userID tailnetID \<longleftrightarrow> (\<exists>u \<in> set (dbUsers d). uID u = userID \<and> uTailnetID u = tailnetID)"

definition keys_ok :: "db \<Rightarrow> bool" where
  "keys_ok d \<longleftrightarrow>
     distinct (map tID (dbTailnets d)) \<and> distinct (map tName (dbTailnets d)) \<and> (\<forall>t \<in> set (dbTailnets d). tID t \<noteq> 0) \<and>
     distinct (map uID (dbUsers d)) \<and> distinct (map mID (dbMachines d)) \<and>
     distinct (map (\<lambda>m. (mTailnetID m, mName m, mNameIdx m)) (dbMachines d)) \<and>
     distinct (map akID (dbAuthKeys d)) \<and> distinct (map apID (dbApiKeys d))"

definition refs_ok :: "db \<Rightarrow> bool" where
  "refs_ok d \<longleftrightarrow>
     (\<forall>u \<in> set (dbUsers d). \<exists>t \<in> set (dbTailnets d). tID t = uTailnetID u) \<and>
     (\<forall>m \<in> set (dbMachines d). owned d (mUserID m) (mTailnetID m)) \<and>
     (\<forall>k \<in> set (dbAuthKeys d). owned d (akUserID k) (akTailnetID k)) \<and>
     (\<forall>k \<in> set (dbApiKeys d). owned d (apUserID k) (apTailnetID k))"

definition db_ok :: "db \<Rightarrow> bool" where
  "db_ok d \<longleftrightarrow> keys_ok d \<and> refs_ok d"

lemma distinct_save_row: "distinct (map key rows) \<Longrightarrow> distinct (map key (save_row key r rows))"
proof -
  assume d: "distinct (map key rows)"
  have "map (key \<circ> (\<lambda>x. if key x = key r then r else x)) rows = map key rows" by simp
  with d show ?thesis unfolding save_row_def by (auto simp: list_ex_iff simp del: map_eq_conv)
qed

lemma distinct_save_row_index:
  assumes "distinct (map idx rows)" and "distinct (map key rows)"
    and "\<And>x. x \<in> set rows \<Longrightarrow> key x \<noteq> key r \<Longrightarrow> idx x \<noteq> idx r"
  shows "distinct (map idx (save_row key r rows))"
  using assms
proof (induction rows)
  case (Cons x rows)
  have notin: "idx x \<notin> idx ` set (save_row key r rows)" if "key x \<noteq> key r"
    using Cons.prems that by (auto simp: set_save_row)
  show ?case
  proof (cases "key x = key r")
    case True
    with Cons.prems(2) have "map (\<lambda>x. if key x = key r then r else x) rows = rows"
      by (auto intro!: map_idI simp: image_iff)
    moreover have "idx r \<noteq> idx y" if "y \<in> set rows" for y
    proof -
      from Cons.prems(2) True that have "key y \<noteq> key r" by (metis distinct.simps(2) image_eqI list.set_map list.simps(9))
      with Cons.prems(3)[of y] that show ?thesis by simp
    qed
    ultimately show ?thesis using Cons.prems(1) True by (auto simp: save_row_def)
  next
    case False
    with Cons notin have "distinct (idx x # map idx (save_row key r rows))" by auto
    moreover have "save_row key r (x # rows) = x # save_row key r rows" using False by (simp add: save_row_def)
    ultimately show ?thesis by simp
  qed
qed (simp add: save_row_def)

lemma distinct_filter_map: "distinct (map f xs) \<Longrightarrow> distinct (map f (filter P xs))"
  by (induction xs) auto

lemma owned_dbUsers_cong [simp]:
  "owned (dbTailnets_update f d) = owned d" "owned (dbMachines_update g d) = owned d"
  "owned (dbAuthKeys_update h d) = owned d" "owned (dbApiKeys_update i d) = owned d"
  "owned (dbAccounts_update j d) = owned d" "owned (dbTKAStates_update k d) = owned d"
  "owned (dbTKAAums_update l d) = owned d"
  by (simp_all add: owned_def fun_eq_iff)

lemma db_ok_save_tailnet:
  assumes "db_ok d" and "\<not> other_row tID t (\<lambda>x. tName x = tName t) (dbTailnets d)" and "tID t \<noteq> 0"
  shows "db_ok (d\<lparr>dbTailnets := save_row tID t (dbTailnets d)\<rparr>)"
proof -
  from assms have "distinct (map tName (save_row tID t (dbTailnets d)))"
    by (intro distinct_save_row_index) (auto simp: db_ok_def keys_ok_def other_row_def list_ex_iff)
  moreover have "\<exists>t' \<in> set (save_row tID t (dbTailnets d)). tID t' = tID x" if "x \<in> set (dbTailnets d)" for x
    using that by (auto simp: set_save_row)
  ultimately show ?thesis
    using assms(1,3) by (force simp: db_ok_def keys_ok_def refs_ok_def distinct_save_row set_save_row)
qed

lemma db_ok_save_machine:
  assumes "db_ok d" and "\<not> machine_name_taken m d" and "owned d (mUserID m) (mTailnetID m)"
  shows "db_ok (d\<lparr>dbMachines := save_row mID (machine_row m) (dbMachines d)\<rparr>)"
proof -
  have "distinct (map (\<lambda>m. (mTailnetID m, mName m, mNameIdx m)) (save_row mID (machine_row m) (dbMachines d)))"
    using assms by (intro distinct_save_row_index)
      (auto simp: db_ok_def keys_ok_def machine_name_taken_def other_row_def list_ex_iff machine_row_def)
  with assms show ?thesis
    by (auto simp: db_ok_def keys_ok_def refs_ok_def distinct_save_row set_save_row machine_row_def)
qed

lemma db_ok_save_auth_key:
  assumes "db_ok d" and "owned d (akUserID k) (akTailnetID k)"
  shows "db_ok (d\<lparr>dbAuthKeys := save_row akID (auth_key_row k) (dbAuthKeys d)\<rparr>)"
  using assms by (auto simp: db_ok_def keys_ok_def refs_ok_def distinct_save_row set_save_row auth_key_row_def)

lemma db_ok_save_api_key:
  assumes "db_ok d" and "owned d (apUserID k) (apTailnetID k)"
  shows "db_ok (d\<lparr>dbApiKeys := save_row apID (api_key_row k) (dbApiKeys d)\<rparr>)"
  using assms by (auto simp: db_ok_def keys_ok_def refs_ok_def distinct_save_row set_save_row api_key_row_def)

lemma owned_append: "owned d u t \<Longrightarrow> owned (d\<lparr>dbUsers := dbUsers d @ us\<rparr>) u t"
  by (auto simp: owned_def)

lemma db_ok_insert_user:
  assumes "db_ok d" and "\<not> list_ex (\<lambda>x. uID x = uID u) (dbUsers d)" and "t \<in> set (dbTailnets d)" "tID t = uTailnetID u"
  shows "db_ok (d\<lparr>dbUsers := dbUsers d @ [user_row u]\<rparr>)"
  using assms by (auto simp: db_ok_def keys_ok_def refs_ok_def user_row_def list_ex_iff intro!: owned_append)

lemma owned_map: "(\<And>u. uID (f u) = uID u \<and> uTailnetID (f u) = uTailnetID u) \<Longrightarrow>
  owned (d\<lparr>dbUsers := map f (dbUsers d)\<rparr>) = owned d"
  by (auto simp: owned_def fun_eq_iff)

lemma db_ok_map_users:
  assumes "db_ok d" and "\<And>u. uID (f u) = uID u \<and> uTailnetID (f u) = uTailnetID u"
  shows "db_ok (d\<lparr>dbUsers := map f (dbUsers d)\<rparr>)"
  using assms by (auto simp: db_ok_def keys_ok_def refs_ok_def owned_map comp_def)

lemma db_ok_map_machines:
  assumes "db_ok d" and "\<And>m. mID (f m) = mID m \<and> mTailnetID (f m) = mTailnetID m \<and> mUserID (f m) = mUserID m \<and>
    mName (f m) = mName m \<and> mNameIdx (f m) = mNameIdx m"
  shows "db_ok (d\<lparr>dbMachines := map f (dbMachines d)\<rparr>)"
  using assms by (auto simp: db_ok_def keys_ok_def refs_ok_def comp_def)

lemma db_ok_filter:
  assumes "db_ok d"
  shows "db_ok (d\<lparr>dbMachines := filter P (dbMachines d)\<rparr>)"
    "db_ok (d\<lparr>dbAuthKeys := filter Q (dbAuthKeys d)\<rparr>)"
    "db_ok (d\<lparr>dbApiKeys := filter S (dbApiKeys d)\<rparr>)"
  using assms by (auto simp: db_ok_def keys_ok_def refs_ok_def distinct_filter_map)

lemma db_ok_other_tables:
  "db_ok (dbAccounts_update a d) = db_ok d" "db_ok (dbSystemApiKeys_update b d) = db_ok d"
  "db_ok (dbRegistrationRequests_update c d) = db_ok d" "db_ok (dbAuthenticationRequests_update e d) = db_ok d"
  "db_ok (dbSSHActionRequests_update f d) = db_ok d" "db_ok (dbTKAStates_update g d) = db_ok d"
  "db_ok (dbTKAAums_update h d) = db_ok d" "db_ok (dbServerConfigs_update i d) = db_ok d"
  by (simp_all add: db_ok_def keys_ok_def refs_ok_def owned_def)

lemma owned_delete:
  "owned d i t \<Longrightarrow> (\<And>u. u \<in> set (dbUsers d) \<Longrightarrow> uID u = i \<Longrightarrow> P u) \<Longrightarrow> owned (d\<lparr>dbUsers := filter P (dbUsers d)\<rparr>) i t"
  by (auto simp: owned_def)

lemma db_ok_delete_users:
  assumes ok: "db_ok d"
    and m: "\<And>m u. m \<in> set (dbMachines d) \<Longrightarrow> u \<in> set (dbUsers d) \<Longrightarrow> uID u = mUserID m \<Longrightarrow> P u"
    and ak: "\<And>k u. k \<in> set (dbAuthKeys d) \<Longrightarrow> u \<in> set (dbUsers d) \<Longrightarrow> uID u = akUserID k \<Longrightarrow> P u"
    and ap: "\<And>k u. k \<in> set (dbApiKeys d) \<Longrightarrow> u \<in> set (dbUsers d) \<Longrightarrow> uID u = apUserID k \<Longrightarrow> P u"
  shows "db_ok (d\<lparr>dbUsers := filter P (dbUsers d)\<rparr>)"
proof -
  have "\<forall>x \<in> set (dbMachines d). owned (d\<lparr>dbUsers := filter P (dbUsers d)\<rparr>) (mUserID x) (mTailnetID x)"
    using ok m by (auto simp: db_ok_def refs_ok_def intro!: owned_delete)
  moreover have "\<forall>x \<in> set (dbAuthKeys d). owned (d\<lparr>dbUsers := filter P (dbUsers d)\<rparr>) (akUserID x) (akTailnetID x)"
    using ok ak by (auto simp: db_ok_def refs_ok_def intro!: owned_delete)
  moreover have "\<forall>x \<in> set (dbApiKeys d). owned (d\<lparr>dbUsers := filter P (dbUsers d)\<rparr>) (apUserID x) (apTailnetID x)"
    using ok ap by (auto simp: db_ok_def refs_ok_def intro!: owned_delete)
  ultimately show ?thesis using ok by (simp add: db_ok_def keys_ok_def refs_ok_def distinct_filter_map)
qed

lemma db_ok_delete_tailnets:
  assumes "db_ok d" and "\<And>u t. u \<in> set (dbUsers d) \<Longrightarrow> t \<in> set (dbTailnets d) \<Longrightarrow> tID t = uTailnetID u \<Longrightarrow> P t"
  shows "db_ok (d\<lparr>dbTailnets := filter P (dbTailnets d)\<rparr>)"
  using assms by (fastforce simp: db_ok_def keys_ok_def refs_ok_def distinct_filter_map)

lemma owned_unique:
  "db_ok d \<Longrightarrow> owned d u t \<Longrightarrow> x \<in> set (dbUsers d) \<Longrightarrow> uID x = u \<Longrightarrow> uTailnetID x = t"
  by (auto simp: db_ok_def keys_ok_def owned_def distinct_map dest: inj_onD)

section \<open>Computations with one write\<close>

text \<open>
  Most handlers read, decide, and write once. \<open>writes P m w\<close>: started in \<open>w\<close>, the computation
  \<open>m\<close> leaves the tables as they are or leaves tables with \<open>P\<close>, whatever it returns.
\<close>

definition writes :: "(db \<Rightarrow> bool) \<Rightarrow> 'a m \<Rightarrow> world \<Rightarrow> bool" where
  "writes P m w \<longleftrightarrow> wDB (snd (m w)) = wDB w \<or> P (wDB (snd (m w)))"

lemma writesD: "writes P m w \<Longrightarrow> m w = (r, w') \<Longrightarrow> wDB w' = wDB w \<or> P (wDB w')"
  by (simp add: writes_def)

lemma writes_mono: "writes P m w \<Longrightarrow> (\<And>d. P d \<Longrightarrow> Q d) \<Longrightarrow> writes Q m w"
  by (auto simp: writes_def)

lemma writes_quiet: "within quiet m \<Longrightarrow> writes P m w"
  by (simp add: writes_def within_def quiet_def)

lemma writes_bindM:
  assumes "within quiet m" and "\<And>x w'. m w = (Inr x, w') \<Longrightarrow> quiet w w' \<Longrightarrow> writes P (f x) w'"
  shows "writes P (bindM m f) w"
proof -
  obtain r w' where m: "m w = (r, w')" by fastforce
  with withinD[OF assms(1)] have "quiet w w'" by blast
  with m assms(2)[of _ w'] show ?thesis by (cases r) (auto simp: writes_def quiet_def)
qed

lemma writes_seqM:
  "within quiet m \<Longrightarrow> (\<And>x w'. m w = (Inr x, w') \<Longrightarrow> quiet w w' \<Longrightarrow> writes P k w') \<Longrightarrow> writes P (seqM m k) w"
  unfolding seqM_def by (rule writes_bindM)

lemma writes_then:
  assumes "writes P m w" and "\<And>x. within (on_db (=)) (f x)"
  shows "writes P (bindM m f) w"
proof -
  obtain r w' where m: "m w = (r, w')" by fastforce
  with assms(1) have "wDB w' = wDB w \<or> P (wDB w')" by (rule writesD)
  moreover have "wDB (snd (f x w')) = wDB w'" for x using assms(2)[of x] by (simp add: within_def on_db_def)
  ultimately show ?thesis using m by (cases r) (auto simp: writes_def)
qed

lemma writes_then_seqM: "writes P m w \<Longrightarrow> within (on_db (=)) k \<Longrightarrow> writes P (seqM m k) w"
  unfolding seqM_def by (rule writes_then)

lemma writes_tryM: "writes P m w \<Longrightarrow> writes P (tryM m) w"
  by (auto simp: writes_def tryM_def split: prod.splits sum.splits)

lemma writes_db_stmt: "P (snd (f (wDB w))) \<Longrightarrow> writes P (db_stmt f) w"
  by (auto simp: writes_def db_stmt_def split: list.splits bool.splits prod.splits)

lemma writes_db_exec: "P (f (wDB w)) \<Longrightarrow> writes P (db_exec f) w"
  unfolding db_exec_def by (rule writes_db_stmt) simp

lemma writes_db_exec_unique: "(ok (wDB w) \<Longrightarrow> P (f (wDB w))) \<Longrightarrow> writes P (db_exec_unique ok f) w"
  by (auto simp: writes_def db_exec_unique_def db_stmt_def split: list.splits bool.splits)

lemma writes_Transaction:
  assumes "\<And>x w1 w2. wDB w1 = wDB w \<Longrightarrow> m w1 = (Inr x, w2) \<Longrightarrow> P (wDB w2)"
  shows "writes P (Transaction m) w"
proof (cases "Transaction m w")
  case (Pair r w')
  then show ?thesis
  proof (cases r)
    case (Inl e)
    with Pair Transaction_failed[of m w e w'] show ?thesis by (simp add: writes_def)
  next
    case (Inr x)
    with Pair have "Transaction m w = (Inr x, w')" by simp
    then obtain w1 w2 where "wDB w1 = wDB w" "m w1 = (Inr x, w2)" "wDB w' = wDB w2" by (rule Transaction_run)
    with assms Pair show ?thesis by (auto simp: writes_def)
  qed
qed

lemma quiet_trans: "quiet w w1 \<Longrightarrow> quiet w1 w2 \<Longrightarrow> quiet w w2"
  by (rule quiet.frame_trans)

end
