(* ===== verification/Interceptors.thy ===== *)
theory Interceptors
  imports Integrity
begin

text \<open>
  Who is calling: \<open>internal/service/interceptors.go\<close>, \<open>internal/token/token.go\<close> and the
  validation of the configured service tokens (\<open>internal/config/config.go\<close>).

  A bearer token is exchanged for a principal: the short-lived token of the system
  administrator, a static service token of the configuration, a user's API key or a system
  API key. What the code takes from libraries (SHA-256, base58, base64, NaCl boxes, JSON)
  and from the configuration file is the record \<open>svc_env\<close>.
\<close>

section \<open>Configuration and libraries\<close>

record ServiceToken =
  stName :: string
  stToken :: string

record token_info =
  tiNonce :: string
  tiCreationTime :: instant

record svc_env =
  svEnv :: env
  svSystemAdminKey :: "string option"
  svServiceTokens :: "ServiceToken list"
  svSha256 :: "string \<Rightarrow> string"
  svBase58Encode :: "string \<Rightarrow> string"
  svBase58Decode :: "string \<Rightarrow> string option"
  svBase64Encode :: "string \<Rightarrow> string"
  svBase64Decode :: "string \<Rightarrow> string option"
  svSeal :: "string \<Rightarrow> string \<Rightarrow> string"
  svOpen :: "string \<Rightarrow> string \<Rightarrow> string option"
  svMarshalInfo :: "token_info \<Rightarrow> string"
  svUnmarshalInfo :: "string \<Rightarrow> token_info option"
  svValidHostname :: "string \<Rightarrow> bool"
  svGrammarParse :: "string \<Rightarrow> bool"
  svUnmarshalDERPMap :: "string \<Rightarrow> string option"
  svMarshalDERPMap :: "string \<Rightarrow> string"
  svDefaultDERPMap :: DERPMap
  svDefaultACLPolicy :: string
  svMachineAuthorization :: bool
  svDNSProvider :: bool
  svAuthProvider :: bool
  svCreateUrl :: "string \<Rightarrow> string"

section \<open>Service tokens in the configuration\<close>

definition ServiceTokenPrefix :: string where
  "ServiceTokenPrefix = ''svc_''"

definition minServiceTokenSecretLength :: nat where
  "minServiceTokenSecretLength = 32"

primrec validate_service_tokens :: "string list \<Rightarrow> string list \<Rightarrow> ServiceToken list \<Rightarrow> error option" where
  "validate_service_tokens names vals [] = None"
| "validate_service_tokens names vals (st # sts) =
     (if TrimSpace (stName st) = [] then Some (Err ''name is required'')
      else if stName st \<in> set names then Some (Err ''duplicate name'')
      else if \<not> HasPrefix (stToken st) ServiceTokenPrefix then Some (Err ''token must start with prefix'')
      else if int (length (stToken st)) - int (length ServiceTokenPrefix) < int minServiceTokenSecretLength
        then Some (Err ''token must have at least 32 characters after the prefix'')
      else if stToken st \<in> set vals then Some (Err ''token is already used by another service'')
      else validate_service_tokens (stName st # names) (stToken st # vals) sts)"

definition validateServiceTokens :: "ServiceToken list \<Rightarrow> error option" where
  "validateServiceTokens tokens = validate_service_tokens [] [] tokens"

section \<open>Looking a service token up\<close>

record serviceTokenEntry =
  steName :: string
  steDigest :: string

definition newServiceTokens :: "svc_env \<Rightarrow> ServiceToken list \<Rightarrow> serviceTokenEntry list" where
  "newServiceTokens v tokens = map (\<lambda>t. \<lparr>steName = stName t, steDigest = svSha256 v (stToken t)\<rparr>) tokens"

text \<open>Every entry is compared, so the last match is the answer.\<close>

definition lookup_token :: "svc_env \<Rightarrow> serviceTokenEntry list \<Rightarrow> string \<Rightarrow> string option" where
  "lookup_token v entries value =
     fold (\<lambda>e found. if svSha256 v value = steDigest e then Some (steName e) else found) entries None"

section \<open>The system administrator's token\<close>

definition systemAdminTokenPrefix :: string where
  "systemAdminTokenPrefix = ''st_''"

definition nonceLength :: nat where
  "nonceLength = 16"

definition driftCompensation :: duration where
  "driftCompensation = Minute"

definition IsSystemAdminToken :: "string \<Rightarrow> bool" where
  "IsSystemAdminToken token \<longleftrightarrow> HasPrefix token systemAdminTokenPrefix"

definition token_unmarshal :: "svc_env \<Rightarrow> string \<Rightarrow> string \<Rightarrow> error + token_info" where
  "token_unmarshal v msg privKey =
     (case svOpen v privKey msg of
        None \<Rightarrow> Inl (Err ''unable to decrypt payload'')
      | Some decrypted \<Rightarrow>
          (case svUnmarshalInfo v decrypted of None \<Rightarrow> Inl (Err ''json'') | Some info \<Rightarrow> Inr info))"

definition ParseSystemAdminToken :: "svc_env \<Rightarrow> instant \<Rightarrow> string \<Rightarrow> string \<Rightarrow> error + token_info" where
  "ParseSystemAdminToken v now privKey versionedToken0 =
     (let versionedToken = TrimSpace versionedToken0
      in if versionedToken = [] then Inl (Err ''empty token'')
         else if \<not> HasPrefix versionedToken systemAdminTokenPrefix then Inl (Err ''token has wrong format'')
         else
           (let token = TrimPrefix versionedToken systemAdminTokenPrefix
            in case svBase58Decode v token of
                 None \<Rightarrow> Inl (Err ''error base58-decoding token'')
               | Some blob \<Rightarrow>
                   if length blob = 0 then Inl (Err ''length zero after base58-decoding token'')
                   else (case token_unmarshal v blob privKey of
                     Inl err \<Rightarrow> Inl err
                   | Inr info \<Rightarrow>
                       (case svBase64Decode v (tiNonce info) of
                          None \<Rightarrow> Inl (Err ''error decoding nonce bytes'')
                        | Some nonceBytes \<Rightarrow>
                            if length nonceBytes \<noteq> nonceLength then Inl (Err ''nonce has incorrect length'')
                            else if IsZero (tiCreationTime info) then Inl (Err ''token creation time is zero'')
                            else if now + driftCompensation < tiCreationTime info then Inl (Err ''token creation time is invalid'')
                            else if tiCreationTime info < now - driftCompensation then Inl (Err ''token creation time is expired'')
                            else Inr info))))"

definition token_marshal :: "svc_env \<Rightarrow> token_info \<Rightarrow> string \<Rightarrow> string" where
  "token_marshal v info privKey = svSeal v privKey (svMarshalInfo v info)"

definition formatToken :: "svc_env \<Rightarrow> string \<Rightarrow> string \<Rightarrow> token_info \<Rightarrow> string" where
  "formatToken v privKey prefix info = prefix @ svBase58Encode v (token_marshal v info privKey)"

text \<open>The operating system's random source does not fail.\<close>

definition RandomBytes :: "nat \<Rightarrow> string m" where
  "RandomBytes n = mapM (\<lambda>_. bindM (rand_int 256) (\<lambda>b. returnM (char_of b))) [0..<n]"

definition GenerateSystemAdminToken :: "svc_env \<Rightarrow> string \<Rightarrow> string m" where
  "GenerateSystemAdminToken v privKey =
     bindM (RandomBytes nonceLength) (\<lambda>b.
     bindM time_Now (\<lambda>now.
     returnM (formatToken v privKey systemAdminTokenPrefix
       \<lparr>tiNonce = svBase64Encode v b, tiCreationTime = now\<rparr>)))"

section \<open>From a token to a principal\<close>

definition no_principal :: Principal where
  "no_principal = \<lparr>pSystemRole = [], pUser = None, pUserRole = [], pServiceName = []\<rparr>"

definition CurrentPrincipal :: "Principal option \<Rightarrow> Principal" where
  "CurrentPrincipal p =
     (case p of
        None \<Rightarrow> no_principal\<lparr>pSystemRole := [], pUserRole := UserRoleNone\<rparr>
      | Some q \<Rightarrow> q)"

definition api_key_principal :: "ApiKey \<Rightarrow> Principal m" where
  "api_key_principal apiKey =
     (case hjT (tIAMPolicy (apTailnet apiKey)) of
        None \<Rightarrow> throwM NilDeref
      | Some policy \<Rightarrow>
          returnM (no_principal\<lparr>pUser := Some (apUser apiKey), pUserRole := GetRole policy (apUser apiKey)\<rparr>))"

definition exchangeToken :: "svc_env \<Rightarrow> string \<Rightarrow> Principal option m" where
  "exchangeToken v value =
     (if length value = 0 then returnM None
      else bindM time_Now (\<lambda>now.
        if (case svSystemAdminKey v of
              None \<Rightarrow> False
            | Some k \<Rightarrow> IsSystemAdminToken value \<and> okM (ParseSystemAdminToken v now k value))
        then returnM (Some (no_principal\<lparr>pSystemRole := SystemRoleAdmin\<rparr>))
        else if HasPrefix value ServiceTokenPrefix then
          (case lookup_token v (newServiceTokens v (svServiceTokens v)) value of
             Some name \<Rightarrow> returnM (Some (no_principal\<lparr>pSystemRole := SystemRoleAdmin, pServiceName := name\<rparr>))
           | None \<Rightarrow> returnM None)
        else
          bindM (tryM (LoadApiKey (svEnv v) value)) (\<lambda>r1.
          case r1 of
            Inr (Some apiKey) \<Rightarrow> bindM (api_key_principal apiKey) (\<lambda>p. returnM (Some p))
          | _ \<Rightarrow>
              bindM (tryM (LoadSystemApiKey (svEnv v) value)) (\<lambda>r2.
              case r2 of
                Inr (Some _) \<Rightarrow> returnM (Some (no_principal\<lparr>pSystemRole := SystemRoleAdmin\<rparr>))
              | _ \<Rightarrow> returnM None))))"

definition AuthenticationInterceptor ::
    "svc_env \<Rightarrow> (Principal option \<Rightarrow> 'a m) \<Rightarrow> string \<Rightarrow> string \<Rightarrow> 'a m" where
  "AuthenticationInterceptor v handler procedure authorizationHeader =
     (if HasSuffix procedure ''/GetVersion'' then handler None
      else
        bindM (exchangeToken v (TrimPrefix authorizationHeader ''Bearer '')) (\<lambda>principal.
        case principal of
          Some p \<Rightarrow> handler (Some p)
        | None \<Rightarrow> throwM (Connect CodeUnauthenticated ''invalid token'')))"

text \<open>
  \<open>ErrorInterceptor.handleError\<close>: what is not an RPC error becomes an internal one. A panic
  is not an error value.
\<close>

definition handleError :: "error \<Rightarrow> error" where
  "handleError err =
     (case err of
        Connect c msg \<Rightarrow> Connect c msg
      | _ \<Rightarrow> if is_panic err then err else Connect CodeInternal ''internal server error'')"

definition WrapUnary :: "'a m \<Rightarrow> 'a m" where
  "WrapUnary next = (\<lambda>w. case next w of (Inl e, w') \<Rightarrow> (Inl (handleError e), w') | (Inr x, w') \<Rightarrow> (Inr x, w'))"

section \<open>The permission check of the handlers\<close>

text \<open>
  \<open>!principal.IsSystemAdmin() && !principal.IsTailnetAdmin(id)\<close>, with the panic of a
  principal without a user.
\<close>

definition permission_denied :: error where
  "permission_denied = Connect CodePermissionDenied ''permission denied''"

definition require_admin :: "Principal \<Rightarrow> uint64 \<Rightarrow> unit m" where
  "require_admin p tailnetID =
     (if IsSystemAdmin p then returnM ()
      else bindM (liftE (IsTailnetAdmin p tailnetID)) (\<lambda>b. requireM b permission_denied))"

definition require_system_admin :: "Principal \<Rightarrow> unit m" where
  "require_system_admin p = requireM (IsSystemAdmin p) permission_denied"

section \<open>Service tokens are told apart\<close>

lemma validate_service_tokens_ok:
  "validate_service_tokens names vals sts = None \<Longrightarrow>
     distinct (map stName sts) \<and> set (map stName sts) \<inter> set names = {} \<and>
     distinct (map stToken sts) \<and> set (map stToken sts) \<inter> set vals = {} \<and>
     (\<forall>st \<in> set sts. TrimSpace (stName st) \<noteq> [] \<and> HasPrefix (stToken st) ServiceTokenPrefix \<and> 36 \<le> length (stToken st))"
proof (induction sts arbitrary: names vals)
  case (Cons st sts)
  then have "validate_service_tokens (stName st # names) (stToken st # vals) sts = None"
    and st: "TrimSpace (stName st) \<noteq> []" "stName st \<notin> set names" "HasPrefix (stToken st) ServiceTokenPrefix"
      "36 \<le> length (stToken st)" "stToken st \<notin> set vals"
    by (auto simp: ServiceTokenPrefix_def minServiceTokenSecretLength_def split: if_splits)
  from Cons.IH[OF this(1)] st show ?case by auto
qed simp

lemma lookup_token_None: "lookup_token v es value = None \<longleftrightarrow> (\<forall>e \<in> set es. svSha256 v value \<noteq> steDigest e)"
proof (induction es rule: rev_induct)
  case (snoc e es)
  then show ?case by (auto simp: lookup_token_def)
qed (simp add: lookup_token_def)

lemma lookup_token_Some:
  "lookup_token v es value = Some name \<Longrightarrow> \<exists>e \<in> set es. steName e = name \<and> svSha256 v value = steDigest e"
proof (induction es rule: rev_induct)
  case (snoc e es)
  then show ?case by (auto simp: lookup_token_def split: if_splits)
qed (simp add: lookup_token_def)

text \<open>
  In a configuration that passes validation every service token identifies its own
  service: it is looked up to the name it was configured with and to no other. The
  hypothesis is that SHA-256 does not collide on the configured tokens.
\<close>

theorem service_token_identifies:
  assumes "validateServiceTokens tokens = None" and "st \<in> set tokens"
    and "inj_on (svSha256 v) (set (map stToken tokens))"
  shows "lookup_token v (newServiceTokens v tokens) (stToken st) = Some (stName st)"
proof -
  from validate_service_tokens_ok[of "[]" "[]" tokens] assms(1)
  have d: "distinct (map stToken tokens)" by (simp add: validateServiceTokens_def)
  from assms(2) have "lookup_token v (newServiceTokens v tokens) (stToken st) \<noteq> None"
    by (auto simp: lookup_token_None newServiceTokens_def)
  then obtain name where name: "lookup_token v (newServiceTokens v tokens) (stToken st) = Some name" by blast
  from lookup_token_Some[OF this] obtain st' where st': "st' \<in> set tokens" "stName st' = name"
    "svSha256 v (stToken st) = svSha256 v (stToken st')" by (auto simp: newServiceTokens_def)
  with assms(2,3) have "stToken st = stToken st'" by (auto dest: inj_onD)
  with d st'(1) assms(2) have "st = st'" by (auto simp: distinct_map dest: inj_onD)
  with name st' show ?thesis by simp
qed

section \<open>What a principal stands for\<close>

lemma quiet_LoadApiKey: "within quiet (LoadApiKey e secret)"
  unfolding LoadApiKey_def by (auto intro!: quiet_intros split: list.splits)

lemma quiet_LoadSystemApiKey: "within quiet (LoadSystemApiKey e secret)"
  unfolding LoadSystemApiKey_def by (auto intro!: quiet_intros split: list.splits option.splits)

lemma LoadApiKey_sound:
  assumes "LoadApiKey e secret w = (Inr (Some k), w')"
  shows "\<exists>key pwd row. Split CHR ''_'' secret = [key, pwd] \<and> row \<in> set (dbApiKeys (wDB w)) \<and>
      apKey row = key \<and> k = load_api_key (wDB w) row \<and> envCompareHash e (apHash row) pwd \<and>
      \<not> key_expired (apExpiresAt row) (wNow w)"
  using assms
  by (auto simp: LoadApiKey_def bindM_def db_query_def db_stmt_def time_Now_def load_api_key_def
      split: list.splits bool.splits option.splits if_splits dest!: find_SomeD)

lemma LoadSystemApiKey_sound:
  assumes "LoadSystemApiKey e secret w = (Inr (Some k), w')"
  shows "\<exists>key pwd row x. Split CHR ''_'' secret = [''sk'', key, pwd] \<and> row \<in> set (dbSystemApiKeys (wDB w)) \<and>
      skKey row = key \<and> envCompareHash e (skHash row) pwd \<and> skExpiresAt row = Some x \<and> \<not> key_expired (Some x) (wNow w)"
  using assms
  by (auto simp: LoadSystemApiKey_def bindM_def db_query_def db_stmt_def time_Now_def load_system_api_key_def key_expired_def
      split: list.splits bool.splits option.splits if_splits dest!: find_SomeD)

text \<open>What entitles a token to the principal it is exchanged for.\<close>

definition admin_token :: "svc_env \<Rightarrow> instant \<Rightarrow> string \<Rightarrow> bool" where
  "admin_token v now value \<longleftrightarrow>
     (\<exists>k. svSystemAdminKey v = Some k \<and> IsSystemAdminToken value \<and> okM (ParseSystemAdminToken v now k value))"

definition service_token :: "svc_env \<Rightarrow> string \<Rightarrow> string \<Rightarrow> bool" where
  "service_token v value name \<longleftrightarrow>
     HasPrefix value ServiceTokenPrefix \<and>
     (\<exists>st \<in> set (svServiceTokens v). stName st = name \<and> svSha256 v value = svSha256 v (stToken st))"

definition system_key :: "svc_env \<Rightarrow> db \<Rightarrow> instant \<Rightarrow> string \<Rightarrow> bool" where
  "system_key v d now value \<longleftrightarrow>
     (\<exists>key pwd row x. Split CHR ''_'' value = [''sk'', key, pwd] \<and> row \<in> set (dbSystemApiKeys d) \<and>
        skKey row = key \<and> envCompareHash (svEnv v) (skHash row) pwd \<and> skExpiresAt row = Some x \<and>
        \<not> key_expired (Some x) now)"

definition user_key :: "svc_env \<Rightarrow> db \<Rightarrow> instant \<Rightarrow> string \<Rightarrow> Principal \<Rightarrow> bool" where
  "user_key v d now value p \<longleftrightarrow>
     (\<exists>key pwd row policy. Split CHR ''_'' value = [key, pwd] \<and> row \<in> set (dbApiKeys d) \<and> apKey row = key \<and>
        envCompareHash (svEnv v) (apHash row) pwd \<and> \<not> key_expired (apExpiresAt row) now \<and>
        hjT (tIAMPolicy (tailnet_of d (apTailnetID row))) = Some policy \<and>
        p = no_principal\<lparr>pUser := Some (user_of d (apUserID row)), pUserRole := GetRole policy (user_of d (apUserID row))\<rparr>)"

lemma quiet_exchangeToken: "within quiet (exchangeToken v value)"
  unfolding exchangeToken_def api_key_principal_def
  by (auto intro!: quiet_intros quiet_LoadApiKey quiet_LoadSystemApiKey split: option.splits sum.splits)

lemma exchangeToken_sound:
  assumes "exchangeToken v value w = (Inr (Some p), w')"
  shows "p = no_principal\<lparr>pSystemRole := SystemRoleAdmin\<rparr> \<and> (admin_token v (wNow w) value \<or> system_key v (wDB w) (wNow w) value) \<or>
      (\<exists>name. p = no_principal\<lparr>pSystemRole := SystemRoleAdmin, pServiceName := name\<rparr> \<and> service_token v value name) \<or>
      user_key v (wDB w) (wNow w) value p"
proof -
  consider "admin_token v (wNow w) value" | "\<not> admin_token v (wNow w) value" "HasPrefix value ServiceTokenPrefix"
    | "\<not> admin_token v (wNow w) value" "\<not> HasPrefix value ServiceTokenPrefix" by blast
  then show ?thesis
  proof cases
    case 1
    with assms show ?thesis
      by (auto simp: exchangeToken_def bindM_def time_Now_def admin_token_def split: if_splits)
  next
    case 2
    with assms obtain name where "lookup_token v (newServiceTokens v (svServiceTokens v)) value = Some name"
      "p = no_principal\<lparr>pSystemRole := SystemRoleAdmin, pServiceName := name\<rparr>"
      by (auto simp: exchangeToken_def bindM_def time_Now_def admin_token_def split: if_splits option.splits)
    moreover from this(1) 2 have "service_token v value name"
      by (fastforce simp: service_token_def newServiceTokens_def dest!: lookup_token_Some)
    ultimately show ?thesis by blast
  next
    case 3
    with assms obtain r1 w1 where r1: "tryM (LoadApiKey (svEnv v) value) w = (Inr r1, w1)"
      and rest: "(case r1 of
            Inr (Some apiKey) \<Rightarrow> bindM (api_key_principal apiKey) (\<lambda>p. returnM (Some p))
          | _ \<Rightarrow>
              bindM (tryM (LoadSystemApiKey (svEnv v) value)) (\<lambda>r2.
              case r2 of
                Inr (Some _) \<Rightarrow> returnM (Some (no_principal\<lparr>pSystemRole := SystemRoleAdmin\<rparr>))
              | _ \<Rightarrow> returnM None)) w1 = (Inr (Some p), w')"
      by (auto simp: exchangeToken_def go_success time_Now_def admin_token_def split: if_splits option.splits)
    note q = quietD[OF quiet.within_tryM[OF quiet_LoadApiKey] r1]
    show ?thesis
    proof (cases "\<exists>k. r1 = Inr (Some k)")
      case True
      then obtain k where "r1 = Inr (Some k)" by blast
      with r1 rest have "user_key v (wDB w) (wNow w) value p"
        by (fastforce simp: user_key_def api_key_principal_def go_success load_api_key_def
            split: option.splits dest!: tryM_run LoadApiKey_sound)
      then show ?thesis by blast
    next
      case False
      with rest have "bindM (tryM (LoadSystemApiKey (svEnv v) value)) (\<lambda>r2.
              case r2 of
                Inr (Some _) \<Rightarrow> returnM (Some (no_principal\<lparr>pSystemRole := SystemRoleAdmin\<rparr>))
              | _ \<Rightarrow> returnM None) w1 = (Inr (Some p), w')"
        by (cases r1; cases "projr r1") auto
      then obtain k w2 where "tryM (LoadSystemApiKey (svEnv v) value) w1 = (Inr (Inr (Some k)), w2)"
        "p = no_principal\<lparr>pSystemRole := SystemRoleAdmin\<rparr>"
        by (auto simp: bindM_def split: prod.splits sum.splits option.splits)
      with q show ?thesis
        by (auto simp: system_key_def dest!: tryM_run LoadSystemApiKey_sound)
    qed
  qed
qed

text \<open>
  C9. No token is worth more than what it stands for: a token is exchanged for a system
  administrator only if it is a fresh token sealed with the administrator's key, a service
  token of the configuration or an unexpired system API key with the right secret, and for
  anybody else only if it is the unexpired API key of that user, with the role the policy
  of the key's tailnet gives to that user.
\<close>

theorem principal_entitled:
  assumes "exchangeToken v value w = (Inr (Some p), w')"
  shows "if IsSystemAdmin p
    then admin_token v (wNow w) value \<or> service_token v value (pServiceName p) \<or> system_key v (wDB w) (wNow w) value
    else user_key v (wDB w) (wNow w) value p"
  using exchangeToken_sound[OF assms]
  by (auto simp: IsSystemAdmin_def SystemRole_IsAdmin_def no_principal_def user_key_def SystemRoleAdmin_def)

text \<open>A principal that came out of a token is safe to ask for its role.\<close>

definition principal_ok :: "Principal \<Rightarrow> bool" where
  "principal_ok p \<longleftrightarrow> IsSystemAdmin p \<or> pUser p \<noteq> None"

lemma exchangeToken_principal_ok: "exchangeToken v value w = (Inr (Some p), w') \<Longrightarrow> principal_ok p"
  by (drule exchangeToken_sound)
    (auto simp: principal_ok_def IsSystemAdmin_def SystemRole_IsAdmin_def no_principal_def user_key_def SystemRoleAdmin_def)

lemma service_token_not_admin_token: "HasPrefix value ServiceTokenPrefix \<Longrightarrow> \<not> IsSystemAdminToken value"
  by (auto simp: HasPrefix_iff ServiceTokenPrefix_def IsSystemAdminToken_def systemAdminTokenPrefix_def)

text \<open>
  A value with the prefix of a service token is only ever compared with the
  configuration: nothing of the server's state is read or changed, whatever the value, and
  an unknown one is refused.
\<close>

theorem service_token_no_database:
  assumes "HasPrefix value ServiceTokenPrefix"
  shows "exchangeToken v value w =
    (Inr (map_option (\<lambda>name. no_principal\<lparr>pSystemRole := SystemRoleAdmin, pServiceName := name\<rparr>)
       (lookup_token v (newServiceTokens v (svServiceTokens v)) value)), w)"
proof -
  from assms have "value \<noteq> []" by (auto simp: HasPrefix_iff ServiceTokenPrefix_def)
  with assms service_token_not_admin_token[OF assms] show ?thesis
    by (simp add: exchangeToken_def bindM_def time_Now_def split: option.splits)
qed

section \<open>The administrator's token\<close>

lemma RandomBytes_ok: "\<exists>s. RandomBytes n w = (Inr s, w\<lparr>wNextRand := wNextRand w + n\<rparr>) \<and> length s = n"
proof -
  have "\<exists>y. bindM (rand_int 256) (\<lambda>b. returnM (char_of b)) w = (Inr (y::char), w\<lparr>wNextRand := wNextRand w + 1\<rparr>) \<and> True" for w
    by (simp add: bindM_def rand_int_def)
  from mapM_const_run[of "bindM (rand_int 256) (\<lambda>b. returnM (char_of b))", OF this, of "[0..<n]" w]
  obtain ys where ys: "RandomBytes n w = (Inr ys, w\<lparr>wNextRand := wNextRand w + n\<rparr>)"
    by (auto simp: RandomBytes_def funpow_rand)
  have "length ys = length xs" if "mapM f xs s = (Inr ys, s')" for f and xs :: "nat list" and ys :: string and s s' :: world
    using that by (induction xs arbitrary: ys s) (auto simp: go_success)
  from this[OF ys[unfolded RandomBytes_def]] ys show ?thesis by simp
qed

text \<open>
  C27. The administrator's token is good for one minute around its creation and no longer: a
  generated token parses at every clock reading within the drift allowed, and is refused
  as expired after it. The hypotheses are the inverse laws of the encodings and of the
  sealed box, and that base58 produces no white space.
\<close>

theorem system_admin_token_lifetime:
  assumes b58: "\<And>x. svBase58Decode v (svBase58Encode v x) = Some x" "\<And>x. \<forall>c \<in> set (svBase58Encode v x). \<not> is_space c"
    and b64: "\<And>x. svBase64Decode v (svBase64Encode v x) = Some x"
    and box: "\<And>x. svOpen v k (svSeal v k x) = Some x" "\<And>x. svSeal v k x \<noteq> []"
    and json: "\<And>x. svUnmarshalInfo v (svMarshalInfo v x) = Some x"
    and gen: "GenerateSystemAdminToken v k w = (Inr tok, w')" and "wNow w \<noteq> 0"
  shows "okM (ParseSystemAdminToken v now k tok) \<longleftrightarrow> wNow w - Minute \<le> now \<and> now \<le> wNow w + Minute"
proof -
  obtain b where b: "RandomBytes nonceLength w = (Inr b, w\<lparr>wNextRand := wNextRand w + nonceLength\<rparr>)" "length b = nonceLength"
    using RandomBytes_ok by blast
  let ?info = "\<lparr>tiNonce = svBase64Encode v b, tiCreationTime = wNow w\<rparr>"
  let ?enc = "svBase58Encode v (svSeal v k (svMarshalInfo v ?info))"
  from gen have tok: "tok = ''st_'' @ ?enc"
    by (simp add: GenerateSystemAdminToken_def bindM_def b time_Now_def formatToken_def token_marshal_def systemAdminTokenPrefix_def)
  have clean: "\<not> is_space c" if "c \<in> set tok" for c
    using that b58(2) by (auto simp: tok is_space_def)
  have drop: "dropWhile is_space s = s" if "\<forall>c \<in> set s. \<not> is_space c" for s
    using that by (cases s) auto
  from clean have "TrimSpace tok = tok" by (simp add: TrimSpace_def drop)
  moreover have "TrimPrefix tok ''st_'' = ?enc" unfolding tok by (rule TrimPrefix_append)
  moreover have "HasPrefix tok ''st_''" unfolding tok by (rule HasPrefix_append)
  ultimately show ?thesis
    using assms(8) b(2)
    by (auto simp: ParseSystemAdminToken_def systemAdminTokenPrefix_def b58 b64 box json token_unmarshal_def okM_def
        driftCompensation_def tok Let_def)
qed

section \<open>Instances\<close>

definition sample_service_token :: ServiceToken where
  "sample_service_token = \<lparr>stName = ''backend'', stToken = ''svc_0123456789abcdef0123456789abcdef''\<rparr>"

text \<open>Encodings that satisfy the laws: two letters per byte, and unary numbers.\<close>

definition hex_encode :: "string \<Rightarrow> string" where
  "hex_encode s = concat (map (\<lambda>c. [char_of (65 + of_char c div 16 :: nat), char_of (65 + of_char c mod 16 :: nat)]) s)"

fun hex_decode :: "string \<Rightarrow> string" where
  "hex_decode (a # b # s) = char_of ((of_char a - 65) * 16 + (of_char b - 65) :: nat) # hex_decode s"
| "hex_decode _ = []"

definition info_encode :: "token_info \<Rightarrow> string" where
  "info_encode i = replicate (length (tiNonce i)) CHR ''n'' @ ''|'' @ tiNonce i @
     (if tiCreationTime i < 0 then ''-'' else ''+'') @ replicate (nat (abs (tiCreationTime i))) CHR ''x''"

definition info_decode :: "string \<Rightarrow> token_info" where
  "info_decode s =
     (let n = length (takeWhile (\<lambda>c. c = CHR ''n'') s); r = drop (n + 1) s; t = drop n r
      in \<lparr>tiNonce = take n r, tiCreationTime = (if hd t = CHR ''-'' then - 1 else 1) * int (length t - 1)\<rparr>)"

lemma nibble: "(65 + of_char c div 16) mod 256 = 65 + of_char c div (16::nat)" "(65 + of_char c mod 16) mod 256 = 65 + of_char c mod (16::nat)"
proof -
  have "of_char c div 16 < (16::nat)" using nat_of_char_less_256[of c] by (simp only: less_mult_imp_div_less)
  then show "(65 + of_char c div 16) mod 256 = 65 + of_char c div (16::nat)" by (intro mod_less) linarith
qed simp

lemma hex_roundtrip: "hex_decode (hex_encode s) = s"
  by (induction s) (simp_all add: hex_encode_def nibble)

lemma hex_no_space: "c \<in> set (hex_encode s) \<Longrightarrow> \<not> is_space c"
  by (auto simp: hex_encode_def is_space_def nibble)

lemma info_roundtrip: "info_decode (info_encode i) = i"
proof -
  have "takeWhile (\<lambda>c. c = CHR ''n'') (replicate n CHR ''n'' @ CHR ''|'' # s) = replicate n CHR ''n''" for n s
    by (induction n) simp_all
  then show ?thesis by (simp add: info_encode_def info_decode_def Let_def)
qed

definition sample_svc :: svc_env where
  "sample_svc = \<lparr>svEnv = sample_env, svSystemAdminKey = Some ''k'', svServiceTokens = [sample_service_token],
     svSha256 = (\<lambda>s. s), svBase58Encode = hex_encode, svBase58Decode = (\<lambda>s. Some (hex_decode s)),
     svBase64Encode = (\<lambda>s. s), svBase64Decode = Some, svSeal = (\<lambda>k s. CHR ''b'' # s), svOpen = (\<lambda>k s. Some (tl s)),
     svMarshalInfo = info_encode, svUnmarshalInfo = (\<lambda>s. Some (info_decode s)),
     svValidHostname = (\<lambda>_. True), svGrammarParse = (\<lambda>_. True), svUnmarshalDERPMap = Some, svMarshalDERPMap = (\<lambda>s. s),
     svDefaultDERPMap = \<lparr>dmChecksum = ''c'', dmDERPMap = ''{}''\<rparr>, svDefaultACLPolicy = [], svMachineAuthorization = False,
     svDNSProvider = False, svAuthProvider = True, svCreateUrl = (\<lambda>s. s)\<rparr>"

theorem service_token_identifies_witness:
  "lookup_token sample_svc (newServiceTokens sample_svc [sample_service_token]) (stToken sample_service_token) = Some ''backend''"
  using service_token_identifies[of "[sample_service_token]" sample_service_token sample_svc]
  by (simp add: validateServiceTokens_def sample_service_token_def TrimSpace_def is_space_def HasPrefix_def
      ServiceTokenPrefix_def minServiceTokenSecretLength_def)

theorem service_token_no_database_witness:
  "exchangeToken sample_svc ''svc_unknown'' sample_world = (Inr None, sample_world)"
  using service_token_no_database[of "''svc_unknown''" sample_svc sample_world]
  by (simp add: HasPrefix_def ServiceTokenPrefix_def lookup_token_def newServiceTokens_def sample_svc_def sample_service_token_def)

theorem principal_entitled_witness:
  "service_token sample_svc (stToken sample_service_token) ''backend''"
proof -
  have "exchangeToken sample_svc (stToken sample_service_token) sample_world =
     (Inr (Some (no_principal\<lparr>pSystemRole := SystemRoleAdmin, pServiceName := ''backend''\<rparr>)), sample_world)"
    by (simp add: exchangeToken_def bindM_def time_Now_def sample_svc_def sample_service_token_def IsSystemAdminToken_def
        systemAdminTokenPrefix_def HasPrefix_def ServiceTokenPrefix_def lookup_token_def newServiceTokens_def)
  from principal_entitled[OF this] show ?thesis
    by (auto simp: no_principal_def IsSystemAdmin_def SystemRole_IsAdmin_def SystemRoleAdmin_def admin_token_def
        system_key_def sample_service_token_def IsSystemAdminToken_def systemAdminTokenPrefix_def HasPrefix_def)
qed

theorem system_admin_token_lifetime_witness:
  "\<exists>tok w'. GenerateSystemAdminToken sample_svc ''k'' sample_world = (Inr tok, w') \<and>
     okM (ParseSystemAdminToken sample_svc 2000 ''k'' tok) \<and> \<not> okM (ParseSystemAdminToken sample_svc (Hour + 1000) ''k'' tok)"
proof -
  obtain b where "RandomBytes nonceLength sample_world = (Inr b, sample_world\<lparr>wNextRand := wNextRand sample_world + nonceLength\<rparr>)"
    using RandomBytes_ok by blast
  then obtain tok w' where gen: "GenerateSystemAdminToken sample_svc ''k'' sample_world = (Inr tok, w')"
    by (simp add: GenerateSystemAdminToken_def bindM_def time_Now_def)
  have "okM (ParseSystemAdminToken sample_svc now ''k'' tok) \<longleftrightarrow> wNow sample_world - Minute \<le> now \<and> now \<le> wNow sample_world + Minute" for now
    by (rule system_admin_token_lifetime[OF _ _ _ _ _ _ gen])
      (simp_all add: sample_svc_def hex_roundtrip hex_no_space info_roundtrip sample_world_def)
  with gen show ?thesis by (simp add: sample_world_def Minute_def Hour_def Second_def)
qed

end
