(* ===== verification/TailnetService.thy ===== *)
theory TailnetService
  imports Interceptors
begin

text \<open>
  The RPC handlers about a tailnet: \<open>internal/service/tailnet.go\<close>, \<open>dns.go\<close>, \<open>acl.go\<close>,
  \<open>iam.go\<close>, \<open>derp_map.go\<close> and the policy validation of \<open>service.go\<close>.

  A handler takes the principal of the request and the request message; the RPC error it
  returns, or the response, comes with the state it leaves. A handler whose name is also
  the name of a repository function carries the suffix \<open>_rpc\<close>. Writing the audit log and
  the process log has no effect on this state.
\<close>

section \<open>Messages\<close>

record ApiDNSConfig =
  adMagicDns :: bool
  adHttpsCerts :: bool
  adMagicDnsSuffix :: string
  adOverrideLocalDns :: bool
  adNameservers :: "string list"
  adRoutes :: "(string \<times> string list) list"
  adSearchDomains :: "string list"
  adExtraRecords :: "DNSRecord option list"

record ApiTailnet =
  atId :: uint64
  atName :: string
  atOrganization :: string
  atIamPolicy :: string
  atAclPolicy :: string
  atDnsConfig :: "ApiDNSConfig option"
  atServiceCollectionEnabled :: bool
  atFileSharingEnabled :: bool
  atSshEnabled :: bool
  atMachineAuthorizationEnabled :: bool
  atTailnetLockEnabled :: bool

record CreateTailnetRequest =
  ctName :: string
  ctOrganization :: string
  ctIamPolicy :: string
  ctAclPolicy :: string
  ctDnsConfig :: "ApiDNSConfig option"
  ctServiceCollectionEnabled :: bool
  ctFileSharingEnabled :: bool
  ctSshEnabled :: bool
  ctMachineAuthorizationEnabled :: bool

record UpdateTailnetRequest =
  utTailnetId :: uint64
  utName :: string
  utIamPolicy :: string
  utAclPolicy :: string
  utDnsConfig :: "ApiDNSConfig option"
  utServiceCollectionEnabled :: "bool option"
  utFileSharingEnabled :: "bool option"
  utSshEnabled :: "bool option"
  utMachineAuthorizationEnabled :: "bool option"

record NodeLockState =
  nlMachineId :: uint64
  nlName :: string
  nlSigned :: bool

record TailnetLockStatus =
  lsCapabilityEnabled :: bool
  lsAuthorityActive :: bool
  lsAuthorityDisabled :: bool
  lsHead :: string
  lsNodes :: "NodeLockState list"

section \<open>Policies and DNS settings\<close>

definition validateIamPolicy :: "svc_env \<Rightarrow> IAMPolicy \<Rightarrow> error option" where
  "validateIamPolicy v p =
     (if list_ex (\<lambda>e. \<not> svGrammarParse v e) (iamFilters p) then Some (Err ''grammar'') else None)"

definition validate_record :: "svc_env \<Rightarrow> DNSRecord option \<Rightarrow> error option" where
  "validate_record v r0 =
     (case r0 of
        None \<Rightarrow> Some (Err ''record is empty'')
      | Some r \<Rightarrow>
          if TrimSpace (drName r) = [] then Some (Err ''name is required'')
          else if \<not> svValidHostname v (drName r) then Some (Err ''invalid name'')
          else (case ParseAddr (drValue r) of
                  None \<Rightarrow> Some (Err ''value is not an IP address'')
                | Some addr \<Rightarrow>
                    (let ty = ToUpper (drType r)
                     in if ty = [] then None
                        else if ty = ''A'' then
                          (if \<not> Is4 addr then Some (Err ''an A record needs an IPv4 address'') else None)
                        else if ty = ''AAAA'' then
                          (if \<not> Is6 addr then Some (Err ''an AAAA record needs an IPv6 address'') else None)
                        else Some (Err ''unsupported type''))))"

primrec validate_records :: "svc_env \<Rightarrow> DNSRecord option list \<Rightarrow> error option" where
  "validate_records v [] = None"
| "validate_records v (r # rs) =
     (case validate_record v r of Some err \<Rightarrow> Some err | None \<Rightarrow> validate_records v rs)"

definition validateDNSConfig :: "svc_env \<Rightarrow> ApiDNSConfig option \<Rightarrow> error option" where
  "validateDNSConfig v dnsConfig =
     (case dnsConfig of None \<Rightarrow> None | Some c \<Rightarrow> validate_records v (adExtraRecords c))"

definition apiRecordsToDomainRecords :: "DNSRecord option list \<Rightarrow> DNSRecord list" where
  "apiRecordsToDomainRecords records =
     List.map_filter (map_option (\<lambda>r. \<lparr>drName = drName r, drType = ToUpper (drType r), drValue = drValue r\<rparr>)) records"

definition domainRecordsToApiRecords :: "DNSRecord list \<Rightarrow> DNSRecord option list" where
  "domainRecordsToApiRecords records =
     map (\<lambda>r. Some \<lparr>drName = drName r, drType = drType r, drValue = drValue r\<rparr>) records"

definition domainRoutesToApiRoutes :: "(string \<times> string list) list \<Rightarrow> (string \<times> string list) list" where
  "domainRoutesToApiRoutes routes = map (\<lambda>(k, v). (k, v)) routes"

definition apiRoutesToDomainRoutes :: "(string \<times> string list) list \<Rightarrow> (string \<times> string list) list" where
  "apiRoutesToDomainRoutes routes = map (\<lambda>(k, v). (k, v)) routes"

definition apiDNSConfigToDomainDNSConfig :: "ApiDNSConfig option \<Rightarrow> DNSConfig" where
  "apiDNSConfigToDomainDNSConfig dnsConfig =
     (case dnsConfig of
        None \<Rightarrow> zero_dns
      | Some c \<Rightarrow>
          \<lparr>dcHttpsCertsEnabled = adHttpsCerts c, dcMagicDNS = adMagicDns c, dcOverrideLocalDNS = adOverrideLocalDns c,
           dcNameservers = adNameservers c, dcRoutes = apiRoutesToDomainRoutes (adRoutes c),
           dcSearchDomains = adSearchDomains c, dcExtraRecords = apiRecordsToDomainRecords (adExtraRecords c)\<rparr>)"

definition domainDNSConfigToApiDNSConfig :: "env \<Rightarrow> Tailnet \<Rightarrow> ApiDNSConfig" where
  "domainDNSConfigToApiDNSConfig e tailnet =
     (let c = tDNSConfig tailnet
      in \<lparr>adMagicDns = dcMagicDNS c, adHttpsCerts = dcHttpsCertsEnabled c,
          adMagicDnsSuffix = SanitizeTailnetName e (tName tailnet) @ ''.'' @ envMagicDNSSuffix e,
          adOverrideLocalDns = dcOverrideLocalDNS c, adNameservers = dcNameservers c,
          adRoutes = domainRoutesToApiRoutes (dcRoutes c), adSearchDomains = dcSearchDomains c,
          adExtraRecords = domainRecordsToApiRecords (dcExtraRecords c)\<rparr>)"

text \<open>\<open>pkg/defaults\<close>\<close>

definition DefaultACLPolicy :: ACLPolicy where
  "DefaultACLPolicy =
     \<lparr>plGroups = Map.empty, plHosts = Map.empty,
      plACLs = [\<lparr>aeAction = ''accept'', aeProtocol = [], aeSource = [''*''], aeDestination = [''*:*'']\<rparr>],
      plTagOwners = Map.empty, plAutoApprovers = None,
      plSSH = [\<lparr>shAction = ''check'', shSource = [''autogroup:member''], shDestination = [''autogroup:self''],
                shUsers = [''autogroup:nonroot'', ''root''], shCheckPeriod = [], shRecorder = [], shEnforceRecorder = False\<rparr>],
      plNodeAttrs = [], plGrants = []\<rparr>"

definition DefaultDNSConfig :: ApiDNSConfig where
  "DefaultDNSConfig =
     \<lparr>adMagicDns = True, adHttpsCerts = False, adMagicDnsSuffix = [], adOverrideLocalDns = False,
      adNameservers = [], adRoutes = [], adSearchDomains = [], adExtraRecords = []\<rparr>"

definition zero_iam :: IAMPolicy where
  "zero_iam = \<lparr>iamSubs = [], iamEmails = [], iamFilters = [], iamRoles = Map.empty\<rparr>"

definition domainTailnetToApiTailnet :: "env \<Rightarrow> Tailnet \<Rightarrow> ApiTailnet" where
  "domainTailnetToApiTailnet e t =
     \<lparr>atId = tID t, atName = tName t, atOrganization = tOrganization t, atIamPolicy = hjV (tIAMPolicy t),
      atAclPolicy = hjV (tACLPolicy t), atDnsConfig = Some (domainDNSConfigToApiDNSConfig e t),
      atServiceCollectionEnabled = tServiceCollectionEnabled t, atFileSharingEnabled = tFileSharingEnabled t,
      atSshEnabled = tSSHEnabled t, atMachineAuthorizationEnabled = tMachineAuthorizationEnabled t,
      atTailnetLockEnabled = tTailnetLockEnabled t\<rparr>"

definition brief_tailnet :: "uint64 \<Rightarrow> string \<Rightarrow> string \<Rightarrow> ApiTailnet" where
  "brief_tailnet i name organization =
     \<lparr>atId = i, atName = name, atOrganization = organization, atIamPolicy = [], atAclPolicy = [],
      atDnsConfig = None, atServiceCollectionEnabled = False, atFileSharingEnabled = False,
      atSshEnabled = False, atMachineAuthorizationEnabled = False, atTailnetLockEnabled = False\<rparr>"

definition invalid_argument :: "error \<Rightarrow> error" where
  "invalid_argument err = Connect CodeInvalidArgument (case err of Err s \<Rightarrow> s | _ \<Rightarrow> [])"

definition checkM :: "error option \<Rightarrow> unit m" where
  "checkM err = (case err of None \<Rightarrow> returnM () | Some x \<Rightarrow> throwM (invalid_argument x))"

text \<open>An IAM policy in a request: parsed, then its filters checked.\<close>

definition parse_iam :: "svc_env \<Rightarrow> string \<Rightarrow> IAMPolicy HuJSON m" where
  "parse_iam v s =
     (case ParseIAMHuJson (svEnv v) s of
        Inl err \<Rightarrow> throwM (invalid_argument err)
      | Inr newPolicy \<Rightarrow>
          (case hjT newPolicy of
             None \<Rightarrow> throwM NilDeref
           | Some p \<Rightarrow> seqM (checkM (validateIamPolicy v p)) (returnM newPolicy)))"

definition parse_acl :: "svc_env \<Rightarrow> string \<Rightarrow> ACLPolicy HuJSON m" where
  "parse_acl v s =
     (case ParseACLHuJson (svEnv v) s of
        Inl err \<Rightarrow> throwM (invalid_argument err)
      | Inr newPolicy \<Rightarrow> returnM newPolicy)"

section \<open>Creating and changing a tailnet\<close>

definition CreateTailnet :: "svc_env \<Rightarrow> Principal \<Rightarrow> CreateTailnetRequest \<Rightarrow> ApiTailnet m" where
  "CreateTailnet v p req =
     seqM (require_system_admin p) (
     seqM (requireM (ctName req \<noteq> []) (Connect CodeInvalidArgument ''name is required'')) (
     bindM (GetTailnetByName (ctName req)) (\<lambda>check.
     seqM (requireM (check = None) (Connect CodeAlreadyExists ''tailnet with name already exists'')) (
     seqM (whenM (ctOrganization req \<noteq> [])
            (bindM (GetTailnetByOrganization (ctOrganization req)) (\<lambda>existing.
             requireM (existing = None) (Connect CodeAlreadyExists ''a tailnet for organization already exists'')))) (
     seqM (checkM (validateDNSConfig v (ctDnsConfig req))) (
     bindM (if svDefaultACLPolicy v \<noteq> [] then liftE (ParseACLHuJson (svEnv v) (svDefaultACLPolicy v))
            else returnM (NewACLHuJSON (svEnv v) DefaultACLPolicy)) (\<lambda>defaultAcl.
     bindM (if ctIamPolicy req \<noteq> [] then parse_iam v (ctIamPolicy req)
            else returnM (NewIAMHuJSON (svEnv v) zero_iam)) (\<lambda>iamPolicy.
     bindM (if ctAclPolicy req \<noteq> [] then parse_acl v (ctAclPolicy req) else returnM defaultAcl) (\<lambda>aclPolicy.
     let dnsConfig = (case ctDnsConfig req of None \<Rightarrow> Some DefaultDNSConfig | Some c \<Rightarrow> Some c) in
     bindM NextID (\<lambda>id.
     let tailnet = zero_tailnet\<lparr>tID := id, tName := ctName req, tOrganization := ctOrganization req,
           tIAMPolicy := iamPolicy, tACLPolicy := aclPolicy, tDNSConfig := apiDNSConfigToDomainDNSConfig dnsConfig,
           tServiceCollectionEnabled := ctServiceCollectionEnabled req, tFileSharingEnabled := ctFileSharingEnabled req,
           tSSHEnabled := ctSshEnabled req,
           tMachineAuthorizationEnabled := (ctMachineAuthorizationEnabled req \<or> svMachineAuthorization v)\<rparr> in
     seqM (SaveTailnet tailnet) (
     returnM (domainTailnetToApiTailnet (svEnv v) tailnet))))))))))))"

definition get_tailnet_or_fail :: "uint64 \<Rightarrow> string \<Rightarrow> Tailnet m" where
  "get_tailnet_or_fail tailnetID message =
     bindM (GetTailnet tailnetID) (\<lambda>tailnet.
     case tailnet of None \<Rightarrow> throwM (Connect CodeNotFound message) | Some t \<Rightarrow> returnM t)"

text \<open>The opening of the handlers for one tailnet: the permission, then the row.\<close>

definition admin_tailnet :: "Principal \<Rightarrow> uint64 \<Rightarrow> Tailnet m" where
  "admin_tailnet p tailnetID =
     seqM (require_admin p tailnetID) (get_tailnet_or_fail tailnetID ''tailnet not found'')"

definition set_flag :: "bool option \<Rightarrow> bool \<Rightarrow> bool" where
  "set_flag new old = option_or new old"

text \<open>What \<open>UpdateTailnet\<close> puts into the row, the name apart.\<close>

definition update_fields :: "svc_env \<Rightarrow> UpdateTailnetRequest \<Rightarrow> Tailnet \<Rightarrow> Tailnet m" where
  "update_fields v req t =
     bindM (if utIamPolicy req \<noteq> [] then parse_iam v (utIamPolicy req) else returnM (tIAMPolicy t)) (\<lambda>iam.
     bindM (if utAclPolicy req \<noteq> [] then parse_acl v (utAclPolicy req) else returnM (tACLPolicy t)) (\<lambda>acl.
     bindM (case utDnsConfig req of
              None \<Rightarrow> returnM (tDNSConfig t)
            | Some c \<Rightarrow> seqM (checkM (validateDNSConfig v (Some c))) (returnM (apiDNSConfigToDomainDNSConfig (Some c)))) (\<lambda>dns.
     returnM (t\<lparr>tIAMPolicy := iam, tACLPolicy := acl, tDNSConfig := dns,
       tServiceCollectionEnabled := set_flag (utServiceCollectionEnabled req) (tServiceCollectionEnabled t),
       tFileSharingEnabled := set_flag (utFileSharingEnabled req) (tFileSharingEnabled t),
       tSSHEnabled := set_flag (utSshEnabled req) (tSSHEnabled t),
       tMachineAuthorizationEnabled := set_flag (utMachineAuthorizationEnabled req) (tMachineAuthorizationEnabled t)\<rparr>))))"

definition UpdateTailnet :: "svc_env \<Rightarrow> Principal \<Rightarrow> UpdateTailnetRequest \<Rightarrow> ApiTailnet m" where
  "UpdateTailnet v p req =
     bindM (admin_tailnet p (utTailnetId req)) (\<lambda>t0.
     bindM (update_fields v req t0) (\<lambda>t1.
     bindM (if utName req \<noteq> [] \<and> utName req \<noteq> tName t1 then
              seqM (requireM (IsSystemAdmin p) (Connect CodePermissionDenied ''renaming a tailnet requires system admin'')) (
              bindM (GetTailnetByName (utName req)) (\<lambda>check.
              seqM (requireM (check = None) (Connect CodeAlreadyExists ''tailnet with name already exists''))
                (returnM (t1\<lparr>tName := utName req\<rparr>))))
            else returnM t1) (\<lambda>t2.
     seqM (SaveTailnet t2) (
     seqM (notifyM (tID t2)) (
     returnM (domainTailnetToApiTailnet (svEnv v) t2))))))"

definition GetTailnet_rpc :: "svc_env \<Rightarrow> Principal \<Rightarrow> uint64 \<Rightarrow> ApiTailnet m" where
  "GetTailnet_rpc v p tailnetID =
     bindM (admin_tailnet p tailnetID) (\<lambda>t. returnM (domainTailnetToApiTailnet (svEnv v) t))"

definition GetTailnetByOrganization_rpc :: "svc_env \<Rightarrow> Principal \<Rightarrow> string \<Rightarrow> ApiTailnet m" where
  "GetTailnetByOrganization_rpc v p organization =
     seqM (require_system_admin p) (
     seqM (requireM (organization \<noteq> []) (Connect CodeInvalidArgument ''organization is required'')) (
     bindM (GetTailnetByOrganization organization) (\<lambda>tailnet.
     case tailnet of
       None \<Rightarrow> throwM (Connect CodeNotFound ''no tailnet for organization'')
     | Some t \<Rightarrow> returnM (domainTailnetToApiTailnet (svEnv v) t))))"

definition ListTailnets_rpc :: "Principal \<Rightarrow> string \<Rightarrow> ApiTailnet list m" where
  "ListTailnets_rpc p organization =
     (if organization \<noteq> [] then
        seqM (require_system_admin p) (
        bindM (ListTailnetsByOrganization organization) (\<lambda>ts.
        returnM (map (\<lambda>t. brief_tailnet (tID t) (tName t) (tOrganization t)) ts)))
      else
        bindM (if IsSystemAdmin p then
                 bindM ListTailnets (\<lambda>ts. returnM (map (\<lambda>t. brief_tailnet (tID t) (tName t) (tOrganization t)) ts))
               else returnM []) (\<lambda>admin.
        case pUser p of
          None \<Rightarrow> returnM admin
        | Some u \<Rightarrow>
            bindM (GetTailnet (uTailnetID u)) (\<lambda>tailnet.
            case tailnet of
              None \<Rightarrow> throwM NilDeref
            | Some t \<Rightarrow> returnM (admin @ [brief_tailnet (tID t) (tName t) []]))))"

definition DeleteTailnet :: "Principal \<Rightarrow> uint64 \<Rightarrow> bool \<Rightarrow> unit m" where
  "DeleteTailnet p tailnetID force =
     seqM (require_system_admin p) (
     bindM (CountMachineByTailnet tailnetID) (\<lambda>count.
     seqM (requireM (\<not> (\<not> force \<and> count > 0)) (Connect CodeInvalidArgument ''tailnet is not empty'')) (
     seqM (Transaction (
       seqM (DeleteMachineByTailnet tailnetID) (
       seqM (DeleteApiKeysByTailnet tailnetID) (
       seqM (DeleteAuthKeysByTailnet tailnetID) (
       seqM (DeleteUsersByTailnet tailnetID) (
       seqM (DeleteTKAByTailnet tailnetID) (
       DeleteTailnet_row tailnetID))))))) (
     notifyM tailnetID))))"

section \<open>DERP maps\<close>

definition SetDERPMap :: "svc_env \<Rightarrow> Principal \<Rightarrow> uint64 \<Rightarrow> string \<Rightarrow> string m" where
  "SetDERPMap v p tailnetID value =
     seqM (require_admin p tailnetID) (
     case svUnmarshalDERPMap v value of
       None \<Rightarrow> throwM (Err ''json'')
     | Some derpMap \<Rightarrow>
         bindM (get_tailnet_or_fail tailnetID ''tailnet not found'') (\<lambda>t.
         seqM (SaveTailnet (t\<lparr>tDERPMap := \<lparr>dmChecksum = envChecksum (svEnv v) derpMap, dmDERPMap = derpMap\<rparr>\<rparr>)) (
         seqM (notifyM (tID t)) (
         returnM (svMarshalDERPMap v derpMap)))))"

definition ResetDERPMap :: "Principal \<Rightarrow> uint64 \<Rightarrow> unit m" where
  "ResetDERPMap p tailnetID =
     bindM (admin_tailnet p tailnetID) (\<lambda>t.
     seqM (SaveTailnet (t\<lparr>tDERPMap := \<lparr>dmChecksum = [], dmDERPMap = []\<rparr>\<rparr>)) (notifyM (tID t)))"

definition GetDERPMap_rpc :: "svc_env \<Rightarrow> Principal \<Rightarrow> uint64 \<Rightarrow> string m" where
  "GetDERPMap_rpc v p tailnetID =
     bindM (admin_tailnet p tailnetID) (\<lambda>t.
     returnM (svMarshalDERPMap v (dmDERPMap (GetDERPMap t (svDefaultDERPMap v)))))"

definition GetDefaultDERPMap :: "svc_env \<Rightarrow> Principal \<Rightarrow> string m" where
  "GetDefaultDERPMap v p =
     seqM (require_system_admin p) (returnM (svMarshalDERPMap v (dmDERPMap (svDefaultDERPMap v))))"

section \<open>Features\<close>

definition EnableFileSharing :: "Principal \<Rightarrow> uint64 \<Rightarrow> unit m" where
  "EnableFileSharing p tailnetID =
     bindM (admin_tailnet p tailnetID) (\<lambda>t.
     whenM (\<not> tFileSharingEnabled t) (seqM (SaveTailnet (t\<lparr>tFileSharingEnabled := True\<rparr>)) (notifyM (tID t))))"

definition DisableFileSharing :: "Principal \<Rightarrow> uint64 \<Rightarrow> unit m" where
  "DisableFileSharing p tailnetID =
     bindM (admin_tailnet p tailnetID) (\<lambda>t.
     whenM (tFileSharingEnabled t) (seqM (SaveTailnet (t\<lparr>tFileSharingEnabled := False\<rparr>)) (notifyM (tID t))))"

definition EnableServiceCollection :: "Principal \<Rightarrow> uint64 \<Rightarrow> unit m" where
  "EnableServiceCollection p tailnetID =
     bindM (admin_tailnet p tailnetID) (\<lambda>t.
     whenM (\<not> tServiceCollectionEnabled t) (seqM (SaveTailnet (t\<lparr>tServiceCollectionEnabled := True\<rparr>)) (notifyM (tID t))))"

definition DisableServiceCollection :: "Principal \<Rightarrow> uint64 \<Rightarrow> unit m" where
  "DisableServiceCollection p tailnetID =
     bindM (admin_tailnet p tailnetID) (\<lambda>t.
     whenM (tServiceCollectionEnabled t) (seqM (SaveTailnet (t\<lparr>tServiceCollectionEnabled := False\<rparr>)) (notifyM (tID t))))"

definition EnableSSH :: "Principal \<Rightarrow> uint64 \<Rightarrow> unit m" where
  "EnableSSH p tailnetID =
     bindM (admin_tailnet p tailnetID) (\<lambda>t.
     whenM (\<not> tSSHEnabled t) (seqM (SaveTailnet (t\<lparr>tSSHEnabled := True\<rparr>)) (notifyM (tID t))))"

definition DisableSSH :: "Principal \<Rightarrow> uint64 \<Rightarrow> unit m" where
  "DisableSSH p tailnetID =
     bindM (admin_tailnet p tailnetID) (\<lambda>t.
     whenM (tSSHEnabled t) (seqM (SaveTailnet (t\<lparr>tSSHEnabled := False\<rparr>)) (notifyM (tID t))))"

definition EnableMachineAuthorization :: "Principal \<Rightarrow> uint64 \<Rightarrow> unit m" where
  "EnableMachineAuthorization p tailnetID =
     bindM (admin_tailnet p tailnetID) (\<lambda>t.
     whenM (\<not> tMachineAuthorizationEnabled t) (SaveTailnet (t\<lparr>tMachineAuthorizationEnabled := True\<rparr>)))"

definition DisableMachineAuthorization :: "Principal \<Rightarrow> uint64 \<Rightarrow> unit m" where
  "DisableMachineAuthorization p tailnetID =
     bindM (admin_tailnet p tailnetID) (\<lambda>t.
     whenM (tMachineAuthorizationEnabled t) (SaveTailnet (t\<lparr>tMachineAuthorizationEnabled := False\<rparr>)))"

definition EnableTailnetLock :: "Principal \<Rightarrow> uint64 \<Rightarrow> unit m" where
  "EnableTailnetLock p tailnetID =
     bindM (admin_tailnet p tailnetID) (\<lambda>t.
     whenM (\<not> tTailnetLockEnabled t) (seqM (SaveTailnet (t\<lparr>tTailnetLockEnabled := True\<rparr>)) (notifyM (tID t))))"

definition GetTailnetLockStatus :: "Principal \<Rightarrow> uint64 \<Rightarrow> TailnetLockStatus m" where
  "GetTailnetLockStatus p tailnetID =
     bindM (admin_tailnet p tailnetID) (\<lambda>t.
     bindM (GetTailnetTKAState tailnetID) (\<lambda>state.
     bindM (ListMachineByTailnet tailnetID) (\<lambda>machines.
     returnM \<lparr>lsCapabilityEnabled = tTailnetLockEnabled t, lsAuthorityActive = tkEnabled state,
       lsAuthorityDisabled = tkDisabled state, lsHead = tkHead state,
       lsNodes = map (\<lambda>m. \<lparr>nlMachineId = mID m, nlName = mName m, nlSigned = (length (mKeySignature m) \<noteq> 0)\<rparr>) machines\<rparr>)))"

definition DisableTailnetLock :: "Principal \<Rightarrow> uint64 \<Rightarrow> unit m" where
  "DisableTailnetLock p tailnetID =
     bindM (admin_tailnet p tailnetID) (\<lambda>t.
     bindM (GetTailnetTKAState tailnetID) (\<lambda>state.
     seqM (requireM (\<not> tkEnabled state) (Connect CodeFailedPrecondition ''the key authority of the tailnet is active'')) (
     whenM (tTailnetLockEnabled t) (seqM (SaveTailnet (t\<lparr>tTailnetLockEnabled := False\<rparr>)) (notifyM (tID t))))))"

section \<open>DNS settings and policies\<close>

definition GetDNSConfig :: "svc_env \<Rightarrow> Principal \<Rightarrow> uint64 \<Rightarrow> ApiDNSConfig m" where
  "GetDNSConfig v p tailnetID =
     bindM (admin_tailnet p tailnetID) (\<lambda>t. returnM (domainDNSConfigToApiDNSConfig (svEnv v) t))"

definition SetDNSConfig :: "svc_env \<Rightarrow> Principal \<Rightarrow> uint64 \<Rightarrow> ApiDNSConfig option \<Rightarrow> ApiDNSConfig m" where
  "SetDNSConfig v p tailnetID dnsConfig =
     seqM (require_admin p tailnetID) (
     case dnsConfig of
       None \<Rightarrow> throwM (Connect CodeInvalidArgument ''config is required'')
     | Some c \<Rightarrow>
         seqM (checkM (validateDNSConfig v (Some c))) (
         seqM (requireM (\<not> (adHttpsCerts c \<and> \<not> adMagicDns c))
                (Connect CodeFailedPrecondition ''MagicDNS must be enabled when enabling HTTPS Certs'')) (
         seqM (requireM (\<not> (adHttpsCerts c \<and> \<not> svDNSProvider v))
                (Connect CodeFailedPrecondition ''A DNS provider must be configured when enabling HTTPS Certs'')) (
         bindM (get_tailnet_or_fail tailnetID ''tailnet not found'') (\<lambda>t.
         let newConfig = apiDNSConfigToDomainDNSConfig (Some c) in
         if DNSConfig_Equal (Some (tDNSConfig t)) (Some newConfig) then
           returnM (domainDNSConfigToApiDNSConfig (svEnv v) t)
         else
           (let t' = t\<lparr>tDNSConfig := newConfig\<rparr> in
            seqM (SaveTailnet t') (
            seqM (notifyM (tID t')) (
            returnM (domainDNSConfigToApiDNSConfig (svEnv v) t')))))))))"

definition GetACLPolicy :: "Principal \<Rightarrow> uint64 \<Rightarrow> string m" where
  "GetACLPolicy p tailnetID =
     seqM (require_admin p tailnetID) (
     bindM (get_tailnet_or_fail tailnetID ''tailnet does not exist'') (\<lambda>t. returnM (hjV (tACLPolicy t))))"

definition SetACLPolicy :: "svc_env \<Rightarrow> Principal \<Rightarrow> uint64 \<Rightarrow> string \<Rightarrow> unit m" where
  "SetACLPolicy v p tailnetID policy =
     seqM (require_admin p tailnetID) (
     bindM (get_tailnet_or_fail tailnetID ''tailnet does not exist'') (\<lambda>t.
     bindM (parse_acl v policy) (\<lambda>newPolicy.
     if HuJSON_Equal (Some (tACLPolicy t)) (Some newPolicy) then returnM ()
     else seqM (SaveTailnet (t\<lparr>tACLPolicy := newPolicy\<rparr>)) (notifyM (tID t)))))"

definition GetIAMPolicy :: "Principal \<Rightarrow> uint64 \<Rightarrow> string m" where
  "GetIAMPolicy p tailnetID =
     seqM (require_admin p tailnetID) (
     bindM (get_tailnet_or_fail tailnetID ''tailnet does not exist'') (\<lambda>t. returnM (hjV (tIAMPolicy t))))"

definition SetIAMPolicy :: "svc_env \<Rightarrow> Principal \<Rightarrow> uint64 \<Rightarrow> string \<Rightarrow> unit m" where
  "SetIAMPolicy v p tailnetID policy =
     seqM (require_admin p tailnetID) (
     bindM (get_tailnet_or_fail tailnetID ''tailnet does not exist'') (\<lambda>t.
     bindM (parse_iam v policy) (\<lambda>newPolicy.
     if HuJSON_Equal (Some (tIAMPolicy t)) (Some newPolicy) then returnM ()
     else SaveTailnet (t\<lparr>tIAMPolicy := newPolicy\<rparr>))))"

end
