(* ===== verification/MachineService.thy ===== *)
theory MachineService
  imports TailnetService
begin

text \<open>
  The RPC handlers about machines: \<open>internal/service/machine.go\<close>. Every one of them loads the
  machine, checks the permission for the machine's tailnet, and only then acts.
\<close>

section \<open>Messages\<close>

record MachineRoutes =
  roAdvertisedRoutes :: "string list"
  roEnabledRoutes :: "string list"
  roAdvertisedExitNode :: bool
  roEnabledExitNode :: bool

record ApiMachine =
  amId :: uint64
  amName :: string
  amIpv4 :: string
  amIpv6 :: string
  amEphemeral :: bool
  amTags :: "string list"
  amLastSeen :: "instant option"
  amCreatedAt :: instant
  amExpiresAt :: instant
  amKeyExpiryDisabled :: bool
  amConnected :: bool
  amOs :: string
  amClientVersion :: string
  amTailnet :: "uint64 \<times> string"
  amUser :: "uint64 \<times> string"
  amEndpoints :: "string list"
  amRoutes :: MachineRoutes
  amAuthorized :: bool

definition machine_routes :: "Machine \<Rightarrow> MachineRoutes" where
  "machine_routes m =
     \<lparr>roAdvertisedRoutes = AdvertisedPrefixes m, roEnabledRoutes = AllowedPrefixes m,
      roAdvertisedExitNode = IsAdvertisedExitNode m, roEnabledExitNode = IsAllowedExitNode m\<rparr>"

definition machineToApi :: "pollMapSessionManager \<Rightarrow> Machine \<Rightarrow> ApiMachine" where
  "machineToApi sm m =
     \<lparr>amId = mID m,
      amName = (if mNameIdx m \<noteq> 0 then mName m @ ''-'' @ Itoa (unat (mNameIdx m)) else mName m),
      amIpv4 = Addr_String (mIPv4 m), amIpv6 = Addr_String (mIPv6 m), amEphemeral = mEphemeral m, amTags = mTags m,
      amLastSeen = mLastSeen m, amCreatedAt = mCreatedAt m, amExpiresAt = mExpiresAt m,
      amKeyExpiryDisabled = mKeyExpiryDisabled m, amConnected = HasSession (mTailnetID m) (mID m) sm,
      amOs = hiOS (mHostInfo m), amClientVersion = hiIPNVersion (mHostInfo m),
      amTailnet = (tID (mTailnet m), tName (mTailnet m)), amUser = (uID (mUser m), uName (mUser m)),
      amEndpoints = mEndpoints m, amRoutes = machine_routes m, amAuthorized = mAuthorized m\<rparr>"

section \<open>Handlers\<close>

definition ListMachines :: "Principal \<Rightarrow> uint64 \<Rightarrow> ApiMachine list m" where
  "ListMachines p tailnetID =
     bindM (admin_tailnet p tailnetID) (\<lambda>t.
     bindM (ListMachineByTailnet (tID t)) (\<lambda>machines.
     bindM (getsM wSessions) (\<lambda>sm.
     returnM (map (machineToApi sm) machines))))"

text \<open>The opening of the handlers for one machine.\<close>

definition admin_machine :: "Principal \<Rightarrow> uint64 \<Rightarrow> Machine m" where
  "admin_machine p machineID =
     bindM (GetMachine_row machineID) (\<lambda>m.
     case m of
       None \<Rightarrow> throwM (Connect CodeNotFound ''machine not found'')
     | Some m \<Rightarrow> seqM (require_admin p (mTailnetID m)) (returnM m))"

definition GetMachine :: "Principal \<Rightarrow> uint64 \<Rightarrow> ApiMachine m" where
  "GetMachine p machineID =
     bindM (admin_machine p machineID) (\<lambda>m.
     bindM (getsM wSessions) (\<lambda>sm. returnM (machineToApi sm m)))"

definition DeleteMachine :: "Principal \<Rightarrow> uint64 \<Rightarrow> unit m" where
  "DeleteMachine p machineID =
     bindM (admin_machine p machineID) (\<lambda>m.
     seqM (DeleteMachine_row machineID) (notifyM (mTailnetID m)))"

definition save_and_notify :: "Machine \<Rightarrow> unit m" where
  "save_and_notify m = seqM (SaveMachine m) (notifyM (mTailnetID m))"

definition ExpireMachine :: "Principal \<Rightarrow> uint64 \<Rightarrow> unit m" where
  "ExpireMachine p machineID =
     bindM (admin_machine p machineID) (\<lambda>m.
     save_and_notify (m\<lparr>mExpiresAt := time_Unix 123, mKeyExpiryDisabled := False\<rparr>))"

definition SetMachineName :: "env \<Rightarrow> Principal \<Rightarrow> uint64 \<Rightarrow> string \<Rightarrow> bool \<Rightarrow> unit m" where
  "SetMachineName e p machineID name useOsHostname =
     bindM (admin_machine p machineID) (\<lambda>m.
     if useOsHostname then
       (let sanitizeHostname = envSanitizeHostname e (hiHostname (mHostInfo m)) in
        bindM (GetNextMachineNameIndex (mTailnetID m) sanitizeHostname) (\<lambda>nameIdx.
        save_and_notify (m\<lparr>mName := sanitizeHostname, mNameIdx := nameIdx, mUseOSHostname := True\<rparr>)))
     else if TrimSpace name = [] then
       throwM (Connect CodeInvalidArgument ''machine name is required when not using os hostname'')
     else
       (let sanitizeHostname = envSanitizeHostname e name in
        if sanitizeHostname = mName m then returnM ()
        else
          bindM (GetNextMachineNameIndex (mTailnetID m) sanitizeHostname) (\<lambda>nameIdx.
          seqM (requireM (\<not> nameIdx > 0) (Connect CodeAlreadyExists ''machine name already in use'')) (
          save_and_notify (m\<lparr>mName := sanitizeHostname, mNameIdx := 0, mUseOSHostname := False\<rparr>)))))"

definition AuthorizeMachine :: "Principal \<Rightarrow> uint64 \<Rightarrow> unit m" where
  "AuthorizeMachine p machineID =
     bindM (admin_machine p machineID) (\<lambda>m.
     seqM (whenM (\<not> mAuthorized m) (SaveMachine (m\<lparr>mAuthorized := True\<rparr>))) (
     notifyM (mTailnetID m)))"

definition GetMachineRoutes :: "Principal \<Rightarrow> uint64 \<Rightarrow> (uint64 \<times> MachineRoutes) m" where
  "GetMachineRoutes p machineID =
     bindM (admin_machine p machineID) (\<lambda>m. returnM (mID m, machine_routes m))"

text \<open>The routes of a request: all of them parse, or the request fails.\<close>

primrec parse_routes :: "string list \<Rightarrow> (Prefix list) m" where
  "parse_routes [] = returnM []"
| "parse_routes (r # rs) =
     (case ParsePrefix r of
        None \<Rightarrow> throwM (Err ''netip.ParsePrefix'')
      | Some prefix \<Rightarrow> bindM (parse_routes rs) (\<lambda>ps. returnM (prefix # ps)))"

definition save_routes :: "Machine \<Rightarrow> (uint64 \<times> MachineRoutes) m" where
  "save_routes m = seqM (save_and_notify m) (returnM (mID m, machine_routes m))"

definition EnableMachineRoutes :: "Principal \<Rightarrow> uint64 \<Rightarrow> string list \<Rightarrow> bool \<Rightarrow> (uint64 \<times> MachineRoutes) m" where
  "EnableMachineRoutes p machineID routes replace =
     bindM (admin_machine p machineID) (\<lambda>m.
     let allowIPs = (if replace then NewAllowIPsSet [] else NewAllowIPsSet (mAllowIPs m));
         autoAllowIPs = (if replace then NewAllowIPsSet [] else NewAllowIPsSet (mAutoAllowIPs m)) in
     bindM (parse_routes routes) (\<lambda>prefixes.
     save_routes (m\<lparr>mAllowIPs := AllowIPsSet_Items (fold (\<lambda>q s. AllowIPsSet_Add s [q]) prefixes allowIPs),
                    mAutoAllowIPs := AllowIPsSet_Items autoAllowIPs\<rparr>)))"

definition DisableMachineRoutes :: "Principal \<Rightarrow> uint64 \<Rightarrow> string list \<Rightarrow> (uint64 \<times> MachineRoutes) m" where
  "DisableMachineRoutes p machineID routes =
     bindM (admin_machine p machineID) (\<lambda>m.
     bindM (parse_routes routes) (\<lambda>prefixes.
     save_routes (m\<lparr>
       mAllowIPs := AllowIPsSet_Items (fold (\<lambda>q s. AllowIPsSet_Remove s [q]) prefixes (NewAllowIPsSet (mAllowIPs m))),
       mAutoAllowIPs := AllowIPsSet_Items (fold (\<lambda>q s. AllowIPsSet_Remove s [q]) prefixes (NewAllowIPsSet (mAutoAllowIPs m)))\<rparr>)))"

definition EnableExitNode :: "Principal \<Rightarrow> uint64 \<Rightarrow> (uint64 \<times> MachineRoutes) m" where
  "EnableExitNode p machineID =
     bindM (admin_machine p machineID) (\<lambda>m.
     seqM (requireM (IsAdvertisedExitNode m) (Connect CodeInvalidArgument ''machine is not a valid exit node'')) (
     save_routes (m\<lparr>mAllowIPs := AllowIPsSet_Items (AllowIPsSet_Add (NewAllowIPsSet (mAllowIPs m)) [prefix4_all, prefix6_all])\<rparr>)))"

definition DisableExitNode :: "Principal \<Rightarrow> uint64 \<Rightarrow> (uint64 \<times> MachineRoutes) m" where
  "DisableExitNode p machineID =
     bindM (admin_machine p machineID) (\<lambda>m.
     seqM (requireM (IsAdvertisedExitNode m) (Connect CodeInvalidArgument ''machine is not a valid exit node'')) (
     save_routes (m\<lparr>
       mAllowIPs := AllowIPsSet_Items (AllowIPsSet_Remove (NewAllowIPsSet (mAllowIPs m)) [prefix4_all, prefix6_all]),
       mAutoAllowIPs := AllowIPsSet_Items (AllowIPsSet_Remove (NewAllowIPsSet (mAutoAllowIPs m)) [prefix4_all, prefix6_all])\<rparr>)))"

definition SetMachineKeyExpiry :: "Principal \<Rightarrow> uint64 \<Rightarrow> bool \<Rightarrow> unit m" where
  "SetMachineKeyExpiry p machineID disabled =
     bindM (admin_machine p machineID) (\<lambda>m. save_and_notify (m\<lparr>mKeyExpiryDisabled := disabled\<rparr>))"

end
