(* ===== verification/AccountService.thy ===== *)
theory AccountService
  imports TailnetService ACL
begin

text \<open>
  The RPC handlers about people and their keys: \<open>internal/service/users.go\<close>,
  \<open>auth_keys.go\<close> and \<open>auth.go\<close>.
\<close>

section \<open>Users\<close>

record ApiUser =
  auId :: uint64
  auName :: string
  auRole :: string
  auExternalId :: string

primrec users_to_api :: "Tailnet \<Rightarrow> User list \<Rightarrow> error + ApiUser list" where
  "users_to_api t [] = Inr []"
| "users_to_api t (u # us) =
     (case hjT (tIAMPolicy t) of
        None \<Rightarrow> Inl NilDeref
      | Some policy \<Rightarrow>
          (case users_to_api t us of
             Inl err \<Rightarrow> Inl err
           | Inr rest \<Rightarrow>
               Inr (\<lparr>auId = uID u, auName = uName u, auRole = GetRole policy u,
                     auExternalId = (case uAccount u of None \<Rightarrow> [] | Some a \<Rightarrow> acExternalID a)\<rparr> # rest)))"

definition ListUsers :: "Principal \<Rightarrow> uint64 \<Rightarrow> ApiUser list m" where
  "ListUsers p tailnetID =
     bindM (get_tailnet_or_fail tailnetID ''tailnet not found'') (\<lambda>t.
     seqM (require_admin p (tID t)) (
     bindM (ListUsers_of (tID t)) (\<lambda>users.
     liftE (users_to_api t users))))"

text \<open>Everything a user has: machines, API keys, auth keys, then the user.\<close>

definition delete_user_rows :: "uint64 \<Rightarrow> unit m" where
  "delete_user_rows userID =
     seqM (DeleteMachineByUser userID) (
     seqM (DeleteApiKeysByUser userID) (
     seqM (DeleteAuthKeysByUser userID) (
     DeleteUser_row userID)))"

definition DeleteUser :: "Principal \<Rightarrow> uint64 \<Rightarrow> unit m" where
  "DeleteUser p userID =
     seqM (if IsSystemAdmin p then returnM ()
           else bindM (liftE (UserMatches p userID)) (\<lambda>self.
                requireM (\<not> self) (Connect CodeInvalidArgument ''unable to delete yourself''))) (
     bindM (GetUser userID) (\<lambda>user.
     case user of
       None \<Rightarrow> throwM (Connect CodeNotFound ''user not found'')
     | Some u \<Rightarrow>
         seqM (require_admin p (uTailnetID u)) (
         seqM (requireM (uUserType u \<noteq> UserTypeService) (Connect CodeInvalidArgument ''unable delete service account'')) (
         seqM (Transaction (delete_user_rows userID)) (
         notifyM (uTailnetID u))))))"

primrec users_of_accounts :: "Account list \<Rightarrow> User list m" where
  "users_of_accounts [] = returnM []"
| "users_of_accounts (a # as) =
     bindM (ListUsersByAccount (acID a)) (\<lambda>us.
     bindM (users_of_accounts as) (\<lambda>rest. returnM (us @ rest)))"

definition to_revoke :: "string \<Rightarrow> User \<Rightarrow> bool" where
  "to_revoke organization u \<longleftrightarrow>
     \<not> uUserType u = UserTypeService \<and> \<not> (organization \<noteq> [] \<and> tOrganization (uTailnet u) \<noteq> organization)"

definition RevokeAccount :: "Principal \<Rightarrow> string \<Rightarrow> string \<Rightarrow> uint64 list m" where
  "RevokeAccount p externalId organization =
     seqM (require_system_admin p) (
     seqM (requireM (externalId \<noteq> []) (Connect CodeInvalidArgument ''external_id is required'')) (
     bindM (ListAccountsByExternalID externalId) (\<lambda>accounts.
     if length accounts = 0 then returnM []
     else
       bindM (users_of_accounts accounts) (\<lambda>users.
       let revoke = filter (to_revoke organization) users;
           tailnetIDs = map uTailnetID revoke in
       seqM (Transaction (forM revoke (\<lambda>u. delete_user_rows (uID u)))) (
       seqM (forM tailnetIDs notifyM) (
       returnM tailnetIDs))))))"

section \<open>Auth keys\<close>

record ApiAuthKey =
  aaId :: uint64
  aaKey :: string
  aaEphemeral :: bool
  aaTags :: "string list"
  aaCreatedAt :: instant
  aaExpiresAt :: "instant option"
  aaTailnet :: "uint64 \<times> string"

definition auth_key_to_api :: "AuthKey \<Rightarrow> ApiAuthKey" where
  "auth_key_to_api k =
     \<lparr>aaId = akID k, aaKey = akKey k, aaEphemeral = akEphemeral k, aaTags = akTags k, aaCreatedAt = akCreatedAt k,
      aaExpiresAt = akExpiresAt k, aaTailnet = (tID (akTailnet k), tName (akTailnet k))\<rparr>"

definition admin_auth_key :: "Principal \<Rightarrow> uint64 \<Rightarrow> AuthKey m" where
  "admin_auth_key p authKeyID =
     bindM (GetAuthKey_row authKeyID) (\<lambda>key.
     case key of
       None \<Rightarrow> throwM (Connect CodeNotFound ''auth key not found'')
     | Some k \<Rightarrow> seqM (require_admin p (akTailnetID k)) (returnM k))"

definition GetAuthKey :: "Principal \<Rightarrow> uint64 \<Rightarrow> ApiAuthKey m" where
  "GetAuthKey p authKeyID = bindM (admin_auth_key p authKeyID) (\<lambda>k. returnM (auth_key_to_api k))"

definition mapAuthKeysToApi :: "AuthKey list \<Rightarrow> ApiAuthKey list" where
  "mapAuthKeysToApi authKeys = map auth_key_to_api authKeys"

definition ListAuthKeys :: "Principal \<Rightarrow> uint64 \<Rightarrow> ApiAuthKey list m" where
  "ListAuthKeys p tailnetID =
     bindM (admin_tailnet p tailnetID) (\<lambda>t.
     if IsSystemAdmin p then
       bindM (ListAuthKeys_of tailnetID) (\<lambda>ks. returnM (mapAuthKeysToApi ks))
     else
       case pUser p of
         Some u \<Rightarrow> bindM (ListAuthKeysByTailnetAndUser tailnetID (uID u)) (\<lambda>ks. returnM (mapAuthKeysToApi ks))
       | None \<Rightarrow> returnM [])"

record CreateAuthKeyRequest =
  cqTailnetId :: uint64
  cqEphemeral :: bool
  cqPreAuthorized :: bool
  cqTags :: "string list"
  cqExpiry :: "duration option"

definition check_tag_owners :: "Principal \<Rightarrow> Tailnet \<Rightarrow> string list \<Rightarrow> unit m" where
  "check_tag_owners p t tags =
     (if IsSystemAdmin p then returnM ()
      else case hjT (tACLPolicy t) of
             None \<Rightarrow> throwM NilDeref
           | Some policy \<Rightarrow>
               (case pUser p of
                  Some u \<Rightarrow> checkM (CheckTagOwners policy tags u)
                | None \<Rightarrow> if tags = [] then returnM () else throwM NilDeref))"

definition CreateAuthKey_rpc :: "svc_env \<Rightarrow> Principal \<Rightarrow> CreateAuthKeyRequest \<Rightarrow> (string \<times> ApiAuthKey) m" where
  "CreateAuthKey_rpc v p req =
     seqM (require_admin p (cqTailnetId req)) (
     seqM (requireM (\<not> (pUser p = None \<and> length (cqTags req) = 0))
            (Connect CodeInvalidArgument ''at least one tag is required when creating an auth key'')) (
     seqM (checkM (CheckTags (svEnv v) (cqTags req))) (
     bindM (get_tailnet_or_fail (cqTailnetId req) ''tailnet not found'') (\<lambda>t.
     seqM (check_tag_owners p t (cqTags req)) (
     bindM time_Now (\<lambda>now.
     let expiresAt = map_option (\<lambda>d. now + d) (cqExpiry req) in
     bindM (case pUser p of
              Some u \<Rightarrow> returnM u
            | None \<Rightarrow> bindM (GetOrCreateServiceUser t) (\<lambda>(u, _). returnM u)) (\<lambda>user.
     bindM (CreateAuthKey (svEnv v) t user (cqEphemeral req) (cqPreAuthorized req) (SanitizeTags (cqTags req)) expiresAt) (\<lambda>(secret, k).
     seqM (SaveAuthKey k) (
     returnM (secret, (auth_key_to_api k)\<lparr>aaTailnet := (tID t, tName t)\<rparr>))))))))))"

definition DeleteAuthKey :: "Principal \<Rightarrow> uint64 \<Rightarrow> unit m" where
  "DeleteAuthKey p authKeyID =
     bindM (admin_auth_key p authKeyID) (\<lambda>k.
     seqM (DeleteAuthKey_row authKeyID) (returnM ()))"

section \<open>The command line's login\<close>

text \<open>
  \<open>Authenticate\<close> streams to the client until the browser has answered. A round is one tick
  of the timer; \<open>connected\<close> says, for each round, whether the client is still there and
  its messages can be sent. A client that never answers and never leaves keeps the stream
  open, so the rounds are a list; \<open>Meanwhile\<close> stands for what the rest of the server does
  between two of them, the login in the browser among it.
\<close>

datatype auth_outcome = StreamOpen | StreamClosed | StreamToken string "uint64 option"

definition authenticate_round :: "string \<Rightarrow> bool \<Rightarrow> auth_outcome m" where
  "authenticate_round key canSend =
     bindM (GetAuthenticationRequest key) (\<lambda>m.
     case m of
       None \<Rightarrow> throwM (Connect CodeInvalidArgument ''invalid authentication request'')
     | Some r \<Rightarrow>
         if length (aqToken r) \<noteq> 0 then
           (if canSend then returnM (StreamToken (aqToken r) (aqTailnetID r)) else throwM (Err ''stream''))
         else if length (aqError r) \<noteq> 0 then throwM (Connect CodePermissionDenied (aqError r))
         else if canSend then returnM StreamOpen else throwM (Err ''stream''))"

datatype auth_event = Tick bool | Done | Meanwhile "world \<Rightarrow> world"

primrec authenticate_loop :: "string \<Rightarrow> auth_event list \<Rightarrow> auth_outcome m" where
  "authenticate_loop key [] = returnM StreamOpen"
| "authenticate_loop key (ev # evs) =
     (case ev of
        Done \<Rightarrow> returnM StreamClosed
      | Meanwhile f \<Rightarrow> seqM (modifyM f) (authenticate_loop key evs)
      | Tick canSend \<Rightarrow>
          bindM (authenticate_round key canSend) (\<lambda>r.
          case r of StreamOpen \<Rightarrow> authenticate_loop key evs | _ \<Rightarrow> returnM r))"

text \<open>The deferred deletion runs on every way out, with its error ignored.\<close>

definition with_cleanup :: "'a m \<Rightarrow> unit m \<Rightarrow> 'a m" where
  "with_cleanup m c = (\<lambda>w. case m w of (r, w') \<Rightarrow> (r, snd (ignoreM c w')))"

definition Authenticate :: "svc_env \<Rightarrow> bool \<Rightarrow> auth_event list \<Rightarrow> auth_outcome m" where
  "Authenticate v canSend evs =
     seqM (requireM (svAuthProvider v) (Connect CodeFailedPrecondition ''no authentication method available'')) (
     bindM (RandStringBytes 8) (\<lambda>key.
     bindM time_Now (\<lambda>now.
     seqM (SaveAuthenticationRequest \<lparr>aqKey = key, aqToken = [], aqTailnetID = None, aqError = [], aqCreatedAt = now\<rparr>) (
     seqM (requireM canSend (Err ''stream'')) (
     with_cleanup (authenticate_loop key evs) (DeleteAuthenticationRequest key))))))"

end
