(* ===== verification/Authorization.thy ===== *)
theory Authorization
  imports MachineService AccountService
begin

text \<open>
  What the RPC interface as a whole can do to the stored data.

  \<open>rpc\<close> lists the requests of the interface in five groups, \<open>run_rpc\<close> is the handler of each, and
  \<open>serve\<close> the whole request: the error interceptor around the authentication interceptor
  around the handler. \<open>admin_change p\<close> is the abstract specification: the elementary
  changes that a principal \<open>p\<close> is entitled to. Every request refines it: it leaves the
  tables where a sequence of such changes leads. The properties of the interface, integrity
  of the tables, isolation of the tailnets, one tailnet per organization, are then
  properties of the elementary changes.
\<close>

section \<open>The interface\<close>

datatype tailnet_rpc =
    RCreateTailnet CreateTailnetRequest
  | RUpdateTailnet UpdateTailnetRequest
  | RGetTailnet uint64
  | RGetTailnetByOrganization string
  | RListTailnets string
  | RDeleteTailnet uint64 bool

datatype feature_rpc =
    REnableFileSharing uint64
  | RDisableFileSharing uint64
  | REnableServiceCollection uint64
  | RDisableServiceCollection uint64
  | REnableSSH uint64
  | RDisableSSH uint64
  | REnableMachineAuthorization uint64
  | RDisableMachineAuthorization uint64
  | REnableTailnetLock uint64
  | RGetTailnetLockStatus uint64
  | RDisableTailnetLock uint64

datatype settings_rpc =
    RSetDERPMap uint64 string
  | RResetDERPMap uint64
  | RGetDERPMap uint64
  | RGetDefaultDERPMap
  | RGetDNSConfig uint64
  | RSetDNSConfig uint64 "ApiDNSConfig option"
  | RGetACLPolicy uint64
  | RSetACLPolicy uint64 string
  | RGetIAMPolicy uint64
  | RSetIAMPolicy uint64 string

datatype machine_rpc =
    RListMachines uint64
  | RGetMachine uint64
  | RDeleteMachine uint64
  | RExpireMachine uint64
  | RSetMachineName uint64 string bool
  | RAuthorizeMachine uint64
  | RGetMachineRoutes uint64
  | REnableMachineRoutes uint64 "string list" bool
  | RDisableMachineRoutes uint64 "string list"
  | REnableExitNode uint64
  | RDisableExitNode uint64
  | RSetMachineKeyExpiry uint64 bool

datatype account_rpc =
    RListUsers uint64
  | RDeleteUser uint64
  | RRevokeAccount string string
  | RGetAuthKey uint64
  | RListAuthKeys uint64
  | RCreateAuthKey CreateAuthKeyRequest
  | RDeleteAuthKey uint64

datatype rpc =
    TailnetRpc tailnet_rpc
  | FeatureRpc feature_rpc
  | SettingsRpc settings_rpc
  | MachineRpc machine_rpc
  | AccountRpc account_rpc

definition void :: "'a m \<Rightarrow> unit m" where
  "void m = bindM m (\<lambda>_. returnM ())"

primrec run_tailnet_rpc :: "svc_env \<Rightarrow> Principal \<Rightarrow> tailnet_rpc \<Rightarrow> unit m" where
  "run_tailnet_rpc v p (RCreateTailnet r) = void (CreateTailnet v p r)"
| "run_tailnet_rpc v p (RUpdateTailnet r) = void (UpdateTailnet v p r)"
| "run_tailnet_rpc v p (RGetTailnet t) = void (GetTailnet_rpc v p t)"
| "run_tailnet_rpc v p (RGetTailnetByOrganization g) = void (GetTailnetByOrganization_rpc v p g)"
| "run_tailnet_rpc v p (RListTailnets g) = void (ListTailnets_rpc p g)"
| "run_tailnet_rpc v p (RDeleteTailnet t f) = void (DeleteTailnet p t f)"

primrec run_feature_rpc :: "svc_env \<Rightarrow> Principal \<Rightarrow> feature_rpc \<Rightarrow> unit m" where
  "run_feature_rpc v p (REnableFileSharing t) = void (EnableFileSharing p t)"
| "run_feature_rpc v p (RDisableFileSharing t) = void (DisableFileSharing p t)"
| "run_feature_rpc v p (REnableServiceCollection t) = void (EnableServiceCollection p t)"
| "run_feature_rpc v p (RDisableServiceCollection t) = void (DisableServiceCollection p t)"
| "run_feature_rpc v p (REnableSSH t) = void (EnableSSH p t)"
| "run_feature_rpc v p (RDisableSSH t) = void (DisableSSH p t)"
| "run_feature_rpc v p (REnableMachineAuthorization t) = void (EnableMachineAuthorization p t)"
| "run_feature_rpc v p (RDisableMachineAuthorization t) = void (DisableMachineAuthorization p t)"
| "run_feature_rpc v p (REnableTailnetLock t) = void (EnableTailnetLock p t)"
| "run_feature_rpc v p (RGetTailnetLockStatus t) = void (GetTailnetLockStatus p t)"
| "run_feature_rpc v p (RDisableTailnetLock t) = void (DisableTailnetLock p t)"

primrec run_settings_rpc :: "svc_env \<Rightarrow> Principal \<Rightarrow> settings_rpc \<Rightarrow> unit m" where
  "run_settings_rpc v p (RSetDERPMap t s) = void (SetDERPMap v p t s)"
| "run_settings_rpc v p (RResetDERPMap t) = void (ResetDERPMap p t)"
| "run_settings_rpc v p (RGetDERPMap t) = void (GetDERPMap_rpc v p t)"
| "run_settings_rpc v p RGetDefaultDERPMap = void (GetDefaultDERPMap v p)"
| "run_settings_rpc v p (RGetDNSConfig t) = void (GetDNSConfig v p t)"
| "run_settings_rpc v p (RSetDNSConfig t c) = void (SetDNSConfig v p t c)"
| "run_settings_rpc v p (RGetACLPolicy t) = void (GetACLPolicy p t)"
| "run_settings_rpc v p (RSetACLPolicy t s) = void (SetACLPolicy v p t s)"
| "run_settings_rpc v p (RGetIAMPolicy t) = void (GetIAMPolicy p t)"
| "run_settings_rpc v p (RSetIAMPolicy t s) = void (SetIAMPolicy v p t s)"

primrec run_machine_rpc :: "svc_env \<Rightarrow> Principal \<Rightarrow> machine_rpc \<Rightarrow> unit m" where
  "run_machine_rpc v p (RListMachines t) = void (ListMachines p t)"
| "run_machine_rpc v p (RGetMachine m) = void (GetMachine p m)"
| "run_machine_rpc v p (RDeleteMachine m) = void (DeleteMachine p m)"
| "run_machine_rpc v p (RExpireMachine m) = void (ExpireMachine p m)"
| "run_machine_rpc v p (RSetMachineName m s b) = void (SetMachineName (svEnv v) p m s b)"
| "run_machine_rpc v p (RAuthorizeMachine m) = void (AuthorizeMachine p m)"
| "run_machine_rpc v p (RGetMachineRoutes m) = void (GetMachineRoutes p m)"
| "run_machine_rpc v p (REnableMachineRoutes m rs b) = void (EnableMachineRoutes p m rs b)"
| "run_machine_rpc v p (RDisableMachineRoutes m rs) = void (DisableMachineRoutes p m rs)"
| "run_machine_rpc v p (REnableExitNode m) = void (EnableExitNode p m)"
| "run_machine_rpc v p (RDisableExitNode m) = void (DisableExitNode p m)"
| "run_machine_rpc v p (RSetMachineKeyExpiry m b) = void (SetMachineKeyExpiry p m b)"

primrec run_account_rpc :: "svc_env \<Rightarrow> Principal \<Rightarrow> account_rpc \<Rightarrow> unit m" where
  "run_account_rpc v p (RListUsers t) = void (ListUsers p t)"
| "run_account_rpc v p (RDeleteUser u) = void (DeleteUser p u)"
| "run_account_rpc v p (RRevokeAccount x g) = void (RevokeAccount p x g)"
| "run_account_rpc v p (RGetAuthKey k) = void (GetAuthKey p k)"
| "run_account_rpc v p (RListAuthKeys t) = void (ListAuthKeys p t)"
| "run_account_rpc v p (RCreateAuthKey r) = void (CreateAuthKey_rpc v p r)"
| "run_account_rpc v p (RDeleteAuthKey k) = void (DeleteAuthKey p k)"

primrec run_rpc :: "svc_env \<Rightarrow> Principal \<Rightarrow> rpc \<Rightarrow> unit m" where
  "run_rpc v p (TailnetRpc r) = run_tailnet_rpc v p r"
| "run_rpc v p (FeatureRpc r) = run_feature_rpc v p r"
| "run_rpc v p (SettingsRpc r) = run_settings_rpc v p r"
| "run_rpc v p (MachineRpc r) = run_machine_rpc v p r"
| "run_rpc v p (AccountRpc r) = run_account_rpc v p r"

definition serve :: "svc_env \<Rightarrow> string \<Rightarrow> rpc \<Rightarrow> unit m" where
  "serve v authorizationHeader r =
     WrapUnary (AuthenticationInterceptor v (\<lambda>p. run_rpc v (CurrentPrincipal p) r) ''/rpc'' authorizationHeader)"

section \<open>The changes a principal is entitled to\<close>

definition allowed :: "Principal \<Rightarrow> uint64 \<Rightarrow> bool" where
  "allowed p t \<longleftrightarrow> IsSystemAdmin p \<or> IsTailnetAdmin p t = Inr True"

definition delete_user_from :: "uint64 \<Rightarrow> db \<Rightarrow> db" where
  "delete_user_from i d =
     d\<lparr>dbMachines := filter (\<lambda>m. mUserID m \<noteq> i) (dbMachines d),
       dbApiKeys := filter (\<lambda>k. apUserID k \<noteq> i) (dbApiKeys d),
       dbAuthKeys := filter (\<lambda>k. akUserID k \<noteq> i) (dbAuthKeys d),
       dbUsers := filter (\<lambda>u. uID u \<noteq> i) (dbUsers d)\<rparr>"

definition delete_tailnet_from :: "uint64 \<Rightarrow> db \<Rightarrow> db" where
  "delete_tailnet_from i d =
     d\<lparr>dbMachines := filter (\<lambda>m. mTailnetID m \<noteq> i) (dbMachines d),
       dbApiKeys := filter (\<lambda>k. apTailnetID k \<noteq> i) (dbApiKeys d),
       dbAuthKeys := filter (\<lambda>k. akTailnetID k \<noteq> i) (dbAuthKeys d),
       dbUsers := filter (\<lambda>u. uTailnetID u \<noteq> i) (dbUsers d),
       dbTKAAums := filter (\<lambda>a. taTailnetID a \<noteq> i) (dbTKAAums d),
       dbTKAStates := filter (\<lambda>s. tkTailnetID s \<noteq> i) (dbTKAStates d),
       dbTailnets := filter (\<lambda>t. tID t \<noteq> i) (dbTailnets d)\<rparr>"

inductive admin_change :: "Principal \<Rightarrow> db \<Rightarrow> db \<Rightarrow> bool" for p where
  change_machine:
    "\<lbrakk>row \<in> set (dbMachines d); allowed p (mTailnetID row); mID m = mID row; mTailnetID m = mTailnetID row;
      mUserID m = mUserID row; \<not> machine_name_taken m d\<rbrakk> \<Longrightarrow>
     admin_change p d (d\<lparr>dbMachines := save_row mID (machine_row m) (dbMachines d)\<rparr>)"
| remove_machine:
    "\<lbrakk>row \<in> set (dbMachines d); allowed p (mTailnetID row)\<rbrakk> \<Longrightarrow>
     admin_change p d (d\<lparr>dbMachines := filter (\<lambda>m. mID m \<noteq> mID row) (dbMachines d)\<rparr>)"
| change_tailnet:
    "\<lbrakk>t0 \<in> set (dbTailnets d); allowed p (tID t0); tID t = tID t0; tOrganization t = tOrganization t0;
      tName t = tName t0 \<or> IsSystemAdmin p; \<not> other_row tID t (\<lambda>x. tName x = tName t) (dbTailnets d)\<rbrakk> \<Longrightarrow>
     admin_change p d (d\<lparr>dbTailnets := save_row tID t (dbTailnets d)\<rparr>)"
| new_tailnet:
    "\<lbrakk>IsSystemAdmin p; tOrganization t = [] \<or> (\<forall>x \<in> set (dbTailnets d). tOrganization x \<noteq> tOrganization t);
      \<not> other_row tID t (\<lambda>x. tName x = tName t) (dbTailnets d); tID t \<noteq> 0\<rbrakk> \<Longrightarrow>
     admin_change p d (d\<lparr>dbTailnets := save_row tID t (dbTailnets d)\<rparr>)"
| remove_tailnet: "IsSystemAdmin p \<Longrightarrow> admin_change p d (delete_tailnet_from i d)"
| remove_user:
    "\<lbrakk>IsSystemAdmin p \<or> (\<exists>u \<in> set (dbUsers d). uID u = i \<and> allowed p (uTailnetID u) \<and> uUserType u \<noteq> UserTypeService)\<rbrakk> \<Longrightarrow>
     admin_change p d (delete_user_from i d)"
| new_service_user:
    "\<lbrakk>t \<in> set (dbTailnets d); allowed p (tID t); uTailnetID u = tID t; uUserType u = UserTypeService;
      \<not> list_ex (\<lambda>x. uID x = uID u) (dbUsers d)\<rbrakk> \<Longrightarrow>
     admin_change p d (d\<lparr>dbUsers := dbUsers d @ [user_row u]\<rparr>)"
| new_auth_key:
    "\<lbrakk>allowed p (akTailnetID k); owned d (akUserID k) (akTailnetID k); \<forall>x \<in> set (dbAuthKeys d). akID x \<noteq> akID k\<rbrakk> \<Longrightarrow>
     admin_change p d (d\<lparr>dbAuthKeys := save_row akID (auth_key_row k) (dbAuthKeys d)\<rparr>)"
| remove_auth_key:
    "\<lbrakk>k \<in> set (dbAuthKeys d); allowed p (akTailnetID k)\<rbrakk> \<Longrightarrow>
     admin_change p d (d\<lparr>dbAuthKeys := filter (\<lambda>x. akID x \<noteq> akID k) (dbAuthKeys d)\<rparr>)"

abbreviation (input) changes :: "Principal \<Rightarrow> db \<Rightarrow> db \<Rightarrow> bool" where
  "changes p \<equiv> (admin_change p)\<^sup>*\<^sup>*"

interpretation entitled: db_frame "changes p" for p
  by unfold_locales auto

section \<open>Refinement\<close>

lemma require_admin_run: "require_admin p t w = (Inr x, w') \<Longrightarrow> w' = w \<and> allowed p t"
  by (cases "IsTailnetAdmin p t")
    (auto simp: require_admin_def allowed_def go_success permission_denied_def split: if_splits)

lemma require_system_admin_run: "require_system_admin p w = (Inr x, w') \<Longrightarrow> w' = w \<and> IsSystemAdmin p"
  by (auto simp: require_system_admin_def split: if_splits)

lemma quiet_require: "within quiet (require_admin p t)" "within quiet (require_system_admin p)"
  unfolding require_admin_def require_system_admin_def by (auto intro!: quiet_intros)

lemma db_query_ids: "db_query q w = (Inr x, w') \<Longrightarrow> wIDs w' = wIDs w \<and> wNextID w' = wNextID w"
  by (auto simp: db_query_def db_stmt_def split: list.splits bool.splits)

lemma get_tailnet_or_fail_run:
  assumes "get_tailnet_or_fail i msg w = (Inr t, w')"
  shows "wDB w' = wDB w \<and> wIDs w' = wIDs w \<and> wNextID w' = wNextID w \<and> t \<in> set (dbTailnets (wDB w)) \<and> tID t = i"
proof -
  from assms have q: "db_query (\<lambda>d. find (\<lambda>t. tID t = i) (dbTailnets d)) w = (Inr (Some t), w')"
    by (auto simp: get_tailnet_or_fail_def GetTailnet_def go_success split: option.splits)
  from db_query_run[OF q] db_query_ids[OF q] show ?thesis
    using find_SomeD[of "\<lambda>t. tID t = i" "dbTailnets (wDB w)" t] by simp
qed

lemma admin_tailnet_run:
  "admin_tailnet p i w = (Inr t, w') \<Longrightarrow> wDB w' = wDB w \<and> t \<in> set (dbTailnets (wDB w)) \<and> tID t = i \<and> allowed p i"
  by (auto simp: admin_tailnet_def go_success dest!: require_admin_run get_tailnet_or_fail_run)

lemma admin_machine_run:
  assumes "admin_machine p i w = (Inr m, w')"
  shows "wDB w' = wDB w \<and> (\<exists>row \<in> set (dbMachines (wDB w)). m = load_machine_account (wDB w) row \<and> mID row = i \<and> allowed p (mTailnetID row))"
proof -
  from assms obtain r w1 where r: "GetMachine_row i w = (Inr r, w1)"
    and c: "(case r of None \<Rightarrow> throwM (Connect CodeNotFound ''machine not found'')
      | Some m \<Rightarrow> seqM (require_admin p (mTailnetID m)) (returnM m)) w1 = (Inr m, w')"
    unfolding admin_machine_def go_success by blast
  from c obtain y where y: "r = Some y" by (cases r) simp_all
  from c have "seqM (require_admin p (mTailnetID y)) (returnM y) w1 = (Inr m, w')" by (simp only: y option.case)
  then have "y = m" "w1 = w'" "allowed p (mTailnetID m)" by (auto simp: go_success dest: require_admin_run)
  with r y have q: "db_query (\<lambda>d. map_option (load_machine_account d) (find (\<lambda>m. mID m = i) (dbMachines d))) w = (Inr (Some m), w')"
    and a: "allowed p (mTailnetID m)"
    by (simp_all add: GetMachine_row_def)
  from db_query_run(1)[OF q] obtain row where "find (\<lambda>m. mID m = i) (dbMachines (wDB w)) = Some row"
    "m = load_machine_account (wDB w) row" by (auto simp: map_option_case split: option.splits)
  with a db_query_run(2)[OF q] find_SomeD[of "\<lambda>m. mID m = i" "dbMachines (wDB w)" row]
  show ?thesis by (auto simp: load_machine_account_def)
qed

lemma admin_auth_key_run:
  assumes "admin_auth_key p i w = (Inr k, w')"
  shows "wDB w' = wDB w \<and> (\<exists>row \<in> set (dbAuthKeys (wDB w)). akID row = i \<and> akTailnetID row = akTailnetID k \<and> allowed p (akTailnetID row))"
proof -
  from assms obtain r w1 where r: "GetAuthKey_row i w = (Inr r, w1)"
    and c: "(case r of None \<Rightarrow> throwM (Connect CodeNotFound ''auth key not found'')
      | Some k \<Rightarrow> seqM (require_admin p (akTailnetID k)) (returnM k)) w1 = (Inr k, w')"
    unfolding admin_auth_key_def go_success by blast
  from c obtain y where y: "r = Some y" by (cases r) simp_all
  from c have "seqM (require_admin p (akTailnetID y)) (returnM y) w1 = (Inr k, w')" by (simp only: y option.case)
  then have "y = k" "w1 = w'" "allowed p (akTailnetID k)" by (auto simp: go_success dest: require_admin_run)
  with r y have q: "db_query (\<lambda>d. map_option (load_auth_key d) (find (\<lambda>k. akID k = i) (dbAuthKeys d))) w = (Inr (Some k), w')"
    and a: "allowed p (akTailnetID k)"
    by (simp_all add: GetAuthKey_row_def)
  from db_query_run(1)[OF q] obtain row where "find (\<lambda>k. akID k = i) (dbAuthKeys (wDB w)) = Some row"
    "k = load_auth_key (wDB w) row" by (auto simp: map_option_case split: option.splits)
  with a db_query_run(2)[OF q] find_SomeD[of "\<lambda>k. akID k = i" "dbAuthKeys (wDB w)" row]
  show ?thesis by (auto simp: load_auth_key_def)
qed

lemma quiet_openings: "within quiet (get_tailnet_or_fail i msg)" "within quiet (admin_tailnet p i)"
  "within quiet (admin_machine p m)" "within quiet (admin_auth_key p k)"
  unfolding get_tailnet_or_fail_def admin_tailnet_def admin_machine_def admin_auth_key_def GetTailnet_def
    GetMachine_row_def GetAuthKey_row_def
  by (auto intro!: quiet_intros quiet_require)

lemma quiet_checks: "within quiet (checkM e)" "within quiet (parse_iam v s)" "within quiet (parse_acl v s)"
  "within quiet (check_tag_owners p t tags)" "within quiet (parse_routes rs)"
proof -
  show c: "within quiet (checkM e)" for e unfolding checkM_def by (auto intro!: quiet_intros)
  show "within quiet (parse_iam v s)" unfolding parse_iam_def by (auto intro!: quiet_intros c)
  show "within quiet (parse_acl v s)" unfolding parse_acl_def by (auto intro!: quiet_intros)
  show "within quiet (check_tag_owners p t tags)" unfolding check_tag_owners_def by (auto intro!: quiet_intros c)
  show "within quiet (parse_routes rs)"
  proof (induction rs)
    case Nil
    show ?case unfolding parse_routes.simps by (rule quiet.within_returnM)
  next
    case (Cons r rs)
    then show ?case unfolding parse_routes.simps by (intro quiet_intros)
  qed
qed

lemmas reads = GetTailnet_def GetTailnetByName_def GetTailnetByOrganization_def ListTailnets_def
  ListTailnetsByOrganization_def CountMachineByTailnet_def GetTailnetTKAState_def ListMachineByTailnet_def
  GetNextMachineNameIndex_def GetUser_def ListUsers_of_def ListUsersByAccount_def ListAccountsByExternalID_def
  ListAuthKeys_of_def ListAuthKeysByTailnetAndUser_def

lemmas quiet_rules = quiet_intros quiet_require quiet_openings quiet_checks

text \<open>The requests that only read.\<close>

lemma quiet_requests:
  "within quiet (GetTailnet_rpc v p t)" "within quiet (GetTailnetByOrganization_rpc v p g)"
  "within quiet (ListTailnets_rpc p g)" "within quiet (GetDERPMap_rpc v p t)" "within quiet (GetDefaultDERPMap v p)"
  "within quiet (GetTailnetLockStatus p t)" "within quiet (GetDNSConfig v p t)" "within quiet (GetACLPolicy p t)"
  "within quiet (GetIAMPolicy p t)" "within quiet (ListMachines p t)" "within quiet (GetMachine p i)"
  "within quiet (GetMachineRoutes p i)" "within quiet (ListUsers p t)" "within quiet (GetAuthKey p i)"
  "within quiet (ListAuthKeys p t)"
  unfolding GetTailnet_rpc_def GetTailnetByOrganization_rpc_def ListTailnets_rpc_def GetDERPMap_rpc_def
    GetDefaultDERPMap_def GetTailnetLockStatus_def GetDNSConfig_def GetACLPolicy_def GetIAMPolicy_def ListMachines_def
    GetMachine_def GetMachineRoutes_def ListUsers_def GetAuthKey_def ListAuthKeys_def reads
  by (auto intro!: quiet_rules)

text \<open>The elementary changes as the handlers make them.\<close>

lemma stays_SaveTailnet:
  "\<lbrakk>t0 \<in> set (dbTailnets (wDB w)); allowed p (tID t0); tID t = tID t0; tOrganization t = tOrganization t0;
    tName t = tName t0 \<or> IsSystemAdmin p\<rbrakk> \<Longrightarrow> stays (on_db (changes p)) (SaveTailnet t) w"
  unfolding SaveTailnet_def
  by (rule entitled.stays_db_exec_unique) (blast intro: r_into_rtranclp admin_change.change_tailnet)

lemma stays_SaveMachine:
  "\<lbrakk>row \<in> set (dbMachines (wDB w)); allowed p (mTailnetID row); mID m = mID row; mTailnetID m = mTailnetID row;
    mUserID m = mUserID row\<rbrakk> \<Longrightarrow> stays (on_db (changes p)) (SaveMachine m) w"
  unfolding SaveMachine_def
  by (rule entitled.stays_db_exec_unique) (blast intro: r_into_rtranclp admin_change.change_machine)

lemma stays_admin_tailnet:
  assumes "\<And>t w'. wDB w' = wDB w \<Longrightarrow> t \<in> set (dbTailnets (wDB w')) \<Longrightarrow> tID t = i \<Longrightarrow> allowed p (tID t) \<Longrightarrow>
    stays (on_db (changes p)) (f t) w'"
  shows "stays (on_db (changes p)) (bindM (admin_tailnet p i) f) w"
  by (rule entitled.stays_quiet_bindM[OF quiet_openings(2)]) (auto dest!: admin_tailnet_run intro!: assms)

lemma stays_get_tailnet:
  assumes "allowed p i" and "\<And>t w'. wDB w' = wDB w \<Longrightarrow> t \<in> set (dbTailnets (wDB w')) \<Longrightarrow> tID t = i \<Longrightarrow> allowed p (tID t) \<Longrightarrow>
    stays (on_db (changes p)) (f t) w'"
  shows "stays (on_db (changes p)) (bindM (get_tailnet_or_fail i msg) f) w"
  using assms(1) by (intro entitled.stays_quiet_bindM[OF quiet_openings(1)]) (auto dest!: get_tailnet_or_fail_run intro!: assms(2))

lemma stays_require_admin:
  assumes "allowed p i \<Longrightarrow> stays (on_db (changes p)) k w"
  shows "stays (on_db (changes p)) (seqM (require_admin p i) k) w"
  by (rule entitled.stays_quiet_seqM[OF quiet_require(1)]) (auto dest!: require_admin_run intro!: assms)

lemma stays_admin_machine:
  assumes "\<And>row m w'. wDB w' = wDB w \<Longrightarrow> row \<in> set (dbMachines (wDB w')) \<Longrightarrow> allowed p (mTailnetID row) \<Longrightarrow>
    mID m = i \<Longrightarrow> mID m = mID row \<Longrightarrow> mTailnetID m = mTailnetID row \<Longrightarrow> mUserID m = mUserID row \<Longrightarrow>
    stays (on_db (changes p)) (f m) w'"
  shows "stays (on_db (changes p)) (bindM (admin_machine p i) f) w"
proof (rule entitled.stays_quiet_bindM[OF quiet_openings(3)])
  fix m w'
  assume "admin_machine p i w = (Inr m, w')"
  from admin_machine_run[OF this] obtain row where "wDB w' = wDB w" "row \<in> set (dbMachines (wDB w'))"
    "m = load_machine_account (wDB w) row" "mID row = i" "allowed p (mTailnetID row)" by auto
  then show "stays (on_db (changes p)) (f m) w'" by (intro assms[of w' row m]) (simp_all add: load_machine_account_def)
qed

lemma stays_whenM: "(b \<Longrightarrow> stays (on_db (changes p)) m w) \<Longrightarrow> stays (on_db (changes p)) (whenM b m) w"
  by (cases b) (simp_all add: whenM_def entitled.stays_refl)

lemma stays_save_tailnet_notify:
  "\<lbrakk>t0 \<in> set (dbTailnets (wDB w)); allowed p (tID t0); tID t = tID t0; tOrganization t = tOrganization t0;
    tName t = tName t0 \<or> IsSystemAdmin p\<rbrakk> \<Longrightarrow> stays (on_db (changes p)) (seqM (SaveTailnet t) (notifyM i)) w"
  by (rule entitled.stays_seqM) (auto intro: stays_SaveTailnet entitled.stays_notifyM)

lemma stays_save_and_notify:
  "\<lbrakk>row \<in> set (dbMachines (wDB w)); allowed p (mTailnetID row); mID m = mID row; mTailnetID m = mTailnetID row;
    mUserID m = mUserID row\<rbrakk> \<Longrightarrow> stays (on_db (changes p)) (save_and_notify m) w"
  unfolding save_and_notify_def by (rule entitled.stays_seqM) (auto intro: stays_SaveMachine entitled.stays_notifyM)

lemma stays_save_routes:
  "\<lbrakk>row \<in> set (dbMachines (wDB w)); allowed p (mTailnetID row); mID m = mID row; mTailnetID m = mTailnetID row;
    mUserID m = mUserID row\<rbrakk> \<Longrightarrow> stays (on_db (changes p)) (save_routes m) w"
  unfolding save_routes_def by (rule entitled.stays_seqM) (auto intro: stays_save_and_notify entitled.stays_refl)

lemma stays_void: "stays (on_db (changes p)) m w \<Longrightarrow> stays (on_db (changes p)) (void m) w"
  unfolding void_def by (rule entitled.stays_bindM) (simp_all add: entitled.stays_refl)

lemma stays_save_tailnet_reply:
  "\<lbrakk>t0 \<in> set (dbTailnets (wDB w)); allowed p (tID t0); tID t = tID t0; tOrganization t = tOrganization t0;
    tName t = tName t0 \<or> IsSystemAdmin p\<rbrakk> \<Longrightarrow>
   stays (on_db (changes p)) (seqM (SaveTailnet t) (seqM (notifyM i) (returnM z))) w"
  by (intro entitled.stays_seqM) (auto intro: stays_SaveTailnet entitled.stays_notifyM entitled.stays_refl)

lemmas stays_reads = quiet_requests[THEN entitled.stays_quiet]

section \<open>Every request\<close>

lemma stays_features:
  "stays (on_db (changes p)) (EnableFileSharing p t) w" "stays (on_db (changes p)) (DisableFileSharing p t) w"
  "stays (on_db (changes p)) (EnableServiceCollection p t) w" "stays (on_db (changes p)) (DisableServiceCollection p t) w"
  "stays (on_db (changes p)) (EnableSSH p t) w" "stays (on_db (changes p)) (DisableSSH p t) w"
  "stays (on_db (changes p)) (EnableMachineAuthorization p t) w" "stays (on_db (changes p)) (DisableMachineAuthorization p t) w"
  "stays (on_db (changes p)) (EnableTailnetLock p t) w" "stays (on_db (changes p)) (ResetDERPMap p t) w"
  unfolding EnableFileSharing_def DisableFileSharing_def EnableServiceCollection_def DisableServiceCollection_def
    EnableSSH_def DisableSSH_def EnableMachineAuthorization_def DisableMachineAuthorization_def EnableTailnetLock_def
    ResetDERPMap_def
  by (intro stays_admin_tailnet stays_whenM; auto intro: stays_save_tailnet_notify stays_SaveTailnet)+

lemma stays_DisableTailnetLock: "stays (on_db (changes p)) (DisableTailnetLock p t) w"
proof -
  have q: "within quiet (GetTailnetTKAState t)" unfolding GetTailnetTKAState_def by (rule quiet_db_query)
  show ?thesis
    unfolding DisableTailnetLock_def
    by (intro stays_admin_tailnet entitled.stays_quiet_bindM[OF q] entitled.stays_quiet_seqM[OF quiet.within_requireM] stays_whenM)
      (auto simp: quiet_def intro: stays_save_tailnet_notify)
qed

lemma stays_feature_rpc: "stays (on_db (changes p)) (run_feature_rpc v p r) w"
  by (cases r) (auto intro!: stays_void stays_features stays_DisableTailnetLock stays_reads)

lemma stays_SetDERPMap: "stays (on_db (changes p)) (SetDERPMap v p t s) w"
proof (cases "svUnmarshalDERPMap v s")
  case None
  then show ?thesis unfolding SetDERPMap_def by (intro stays_require_admin) (simp add: entitled.stays_refl)
next
  case (Some x)
  then show ?thesis unfolding SetDERPMap_def
    by (intro stays_require_admin, simp) (rule stays_get_tailnet, auto intro: stays_save_tailnet_reply)
qed

lemma stays_SetDNSConfig: "stays (on_db (changes p)) (SetDNSConfig v p t c) w"
proof (cases c)
  case None
  then show ?thesis unfolding SetDNSConfig_def by (intro stays_require_admin) (simp add: entitled.stays_refl)
next
  case (Some x)
  then show ?thesis unfolding SetDNSConfig_def
    by (intro stays_require_admin, simp)
      (intro entitled.stays_quiet_seqM[OF quiet_checks(1)] entitled.stays_quiet_seqM[OF quiet.within_requireM] stays_get_tailnet,
        auto simp: Let_def intro!: entitled.stays_refl intro: stays_save_tailnet_reply)
qed

lemma stays_SetPolicies:
  "stays (on_db (changes p)) (SetACLPolicy v p t s) w" "stays (on_db (changes p)) (SetIAMPolicy v p t s) w"
  unfolding SetACLPolicy_def SetIAMPolicy_def
  by (intro stays_require_admin stays_get_tailnet entitled.stays_quiet_bindM[OF quiet_checks(3)]
        entitled.stays_quiet_bindM[OF quiet_checks(2)];
      auto simp: quiet_def intro!: entitled.stays_refl intro: stays_save_tailnet_notify stays_SaveTailnet)+

lemma stays_settings_rpc: "stays (on_db (changes p)) (run_settings_rpc v p r) w"
  by (cases r) (auto intro!: stays_void stays_features stays_SetDERPMap stays_SetDNSConfig stays_SetPolicies
      stays_reads)

lemma stays_machine_changes:
  "stays (on_db (changes p)) (ExpireMachine p i) w" "stays (on_db (changes p)) (SetMachineKeyExpiry p i b) w"
  unfolding ExpireMachine_def SetMachineKeyExpiry_def
  by (rule stays_admin_machine, rule stays_save_and_notify; simp)+

lemma stays_DeleteMachine: "stays (on_db (changes p)) (DeleteMachine p i) w"
proof -
  have "stays (on_db (changes p)) (DeleteMachine_row (mID row)) w'"
    if "row \<in> set (dbMachines (wDB w'))" "allowed p (mTailnetID row)" for row w'
    unfolding DeleteMachine_row_def using that
    by (intro entitled.stays_db_stmt) (simp add: r_into_rtranclp admin_change.remove_machine)
  then show ?thesis unfolding DeleteMachine_def
    by (intro stays_admin_machine entitled.stays_seqM entitled.stays_notifyM) auto
qed

lemma stays_AuthorizeMachine: "stays (on_db (changes p)) (AuthorizeMachine p i) w"
  unfolding AuthorizeMachine_def
  by (intro stays_admin_machine entitled.stays_seqM stays_whenM entitled.stays_notifyM) (rule stays_SaveMachine; simp)

lemma stays_SetMachineName: "stays (on_db (changes p)) (SetMachineName e p i s b) w"
proof -
  have q: "within quiet (GetNextMachineNameIndex t n)" for t n unfolding GetNextMachineNameIndex_def by (rule quiet_db_query)
  have save: "stays (on_db (changes p)) (save_and_notify (m\<lparr>mName := n, mNameIdx := x, mUseOSHostname := u\<rparr>)) w2"
    if "row \<in> set (dbMachines (wDB w2))" "allowed p (mTailnetID row)" "mID m = mID row" "mTailnetID m = mTailnetID row" "mUserID m = mUserID row"
    for row m n x u w2
    using that by (intro stays_save_and_notify) simp_all
  show ?thesis
    unfolding SetMachineName_def Let_def
    by (rule stays_admin_machine)
      (auto simp: quiet_def intro!: entitled.stays_refl entitled.stays_quiet_bindM[OF q] entitled.stays_quiet_seqM[OF quiet.within_requireM] intro: save)
qed

lemma stays_routes:
  "stays (on_db (changes p)) (EnableMachineRoutes p i rs b) w" "stays (on_db (changes p)) (DisableMachineRoutes p i rs) w"
  "stays (on_db (changes p)) (EnableExitNode p i) w" "stays (on_db (changes p)) (DisableExitNode p i) w"
  unfolding EnableMachineRoutes_def DisableMachineRoutes_def EnableExitNode_def DisableExitNode_def Let_def
  by (rule stays_admin_machine, (rule entitled.stays_quiet_bindM[OF quiet_checks(5)] | rule entitled.stays_quiet_seqM[OF quiet.within_requireM]),
      rule stays_save_routes; simp add: quiet_def)+

lemma stays_machine_rpc: "stays (on_db (changes p)) (run_machine_rpc v p r) w"
  by (cases r) (auto intro!: stays_void stays_machine_changes stays_DeleteMachine stays_AuthorizeMachine
      stays_SetMachineName stays_routes stays_reads)

text \<open>Identifiers that have not been handed out are not in use, and not zero.\<close>

definition ids_ok :: "world \<Rightarrow> bool" where
  "ids_ok w \<longleftrightarrow> (\<forall>n \<ge> wNextID w. wIDs w n \<noteq> 0 \<and> (\<forall>k \<in> set (dbAuthKeys (wDB w)). akID k \<noteq> wIDs w n))"

lemma ids_ok_quiet: "ids_ok w \<Longrightarrow> quiet w w' \<Longrightarrow> ids_ok w'"
  by (auto simp: ids_ok_def quiet_def)

lemma first_by_None: "first_by key P rows = None \<longleftrightarrow> (\<forall>x \<in> set rows. \<not> P x)"
  using filter_empty_conv[of P rows] by (auto simp: first_by_def split: list.splits)

lemma stays_SaveTailnet_new:
  "\<lbrakk>IsSystemAdmin p; tOrganization t = [] \<or> (\<forall>x \<in> set (dbTailnets (wDB w)). tOrganization x \<noteq> tOrganization t); tID t \<noteq> 0\<rbrakk> \<Longrightarrow>
   stays (on_db (changes p)) (SaveTailnet t) w"
  unfolding SaveTailnet_def
  by (rule entitled.stays_db_exec_unique) (blast intro: r_into_rtranclp admin_change.new_tailnet)

lemma stays_require_system_admin:
  assumes "IsSystemAdmin p \<Longrightarrow> stays (on_db (changes p)) k w"
  shows "stays (on_db (changes p)) (seqM (require_system_admin p) k) w"
  by (rule entitled.stays_quiet_seqM[OF quiet_require(2)]) (auto dest!: require_system_admin_run intro!: assms)

lemma org_check_run:
  assumes "bindM (GetTailnetByOrganization g) (\<lambda>existing. requireM (existing = None) e) w = (Inr x, w')"
  shows "\<forall>t \<in> set (dbTailnets (wDB w)). tOrganization t \<noteq> g"
proof -
  from assms obtain w1 where "db_query (\<lambda>d. first_by tID (\<lambda>t. tOrganization t = g) (dbTailnets d)) w = (Inr None, w1)"
    by (auto simp: GetTailnetByOrganization_def go_success split: if_splits)
  from db_query_run(1)[OF this] have "first_by tID (\<lambda>t. tOrganization t = g) (dbTailnets (wDB w)) = None" by simp
  then show ?thesis unfolding first_by_None by blast
qed

lemma stays_new_tailnet:
  assumes "IsSystemAdmin p" "ids_ok w" "org = [] \<or> (\<forall>x \<in> set (dbTailnets (wDB w)). tOrganization x \<noteq> org)"
    "\<And>id. tID (f id) = id \<and> tOrganization (f id) = org"
  shows "stays (on_db (changes p)) (bindM NextID (\<lambda>id. seqM (SaveTailnet (f id)) (returnM (h id)))) w"
  using assms
  by (intro entitled.stays_quiet_bindM[OF quiet_NextID] entitled.stays_seqM stays_SaveTailnet_new entitled.stays_refl)
    (auto simp: NextID_def ids_ok_def)

lemma stays_CreateTailnet:
  assumes "ids_ok w"
  shows "stays (on_db (changes p)) (CreateTailnet v p r) w"
proof -
  have q: "within quiet (GetTailnetByName n)"
    "within quiet (whenM (g \<noteq> []) (bindM (GetTailnetByOrganization g) (\<lambda>existing. requireM (existing = None) e)))"
    "within quiet (if b then liftE x else returnM y)"
    "within quiet (if b' then parse_iam v s else returnM z)" "within quiet (if b' then parse_acl v s else returnM z')"
    for n g e b b' x y z z' s
    unfolding GetTailnetByName_def GetTailnetByOrganization_def by (intro quiet_rules)+
  show ?thesis
    unfolding CreateTailnet_def Let_def
    by (intro stays_require_system_admin entitled.stays_quiet_seqM[OF quiet.within_requireM] entitled.stays_quiet_bindM[OF q(1)]
      entitled.stays_quiet_seqM[OF q(2)] entitled.stays_quiet_seqM[OF quiet_checks(1)] entitled.stays_quiet_bindM[OF q(3)]
      entitled.stays_quiet_bindM[OF q(4)] entitled.stays_quiet_bindM[OF q(5)] stays_new_tailnet[where org = "ctOrganization r"])
      (use assms in \<open>auto simp: quiet_def ids_ok_def dest!: org_check_run\<close>)
qed

lemma update_fields_run:
  "update_fields v req t w = (Inr t', w') \<Longrightarrow> tID t' = tID t \<and> tOrganization t' = tOrganization t \<and> tName t' = tName t"
  by (auto simp: update_fields_def go_success)

lemma quiet_update_fields: "within quiet (update_fields v req t)"
  unfolding update_fields_def by (intro quiet_rules)

lemma rename_run:
  assumes "(if c then seqM (requireM (IsSystemAdmin p) e) (bindM (GetTailnetByName n) (\<lambda>check.
       seqM (requireM (check = None) e') (returnM (t\<lparr>tName := n\<rparr>)))) else returnM t) w = (Inr t', w')"
  shows "tID t' = tID t \<and> tOrganization t' = tOrganization t \<and> (tName t' = tName t \<or> IsSystemAdmin p)"
  using assms by (auto simp: go_success split: if_splits)

lemma stays_UpdateTailnet: "stays (on_db (changes p)) (UpdateTailnet v p req) w"
proof -
  have q: "within quiet (if c then seqM (requireM b e) (bindM (GetTailnetByName n) (\<lambda>check.
       seqM (requireM (check = None) e') (returnM (t\<lparr>tName := n\<rparr>)))) else returnM t)" for b c e e' n t
    unfolding GetTailnetByName_def by (intro quiet_rules)
  show ?thesis unfolding UpdateTailnet_def
    by (intro stays_admin_tailnet entitled.stays_quiet_bindM[OF quiet_update_fields] entitled.stays_quiet_bindM[OF q])
      (auto simp: quiet_def intro!: stays_save_tailnet_reply dest!: update_fields_run rename_run)
qed

lemma delete_tailnet_run:
  assumes "seqM (DeleteMachineByTailnet i) (seqM (DeleteApiKeysByTailnet i) (seqM (DeleteAuthKeysByTailnet i)
      (seqM (DeleteUsersByTailnet i) (seqM (DeleteTKAByTailnet i) (DeleteTailnet_row i))))) w = (Inr x, w')"
  shows "wDB w' = delete_tailnet_from i (wDB w)"
  using assms
  by (auto simp: go_success DeleteMachineByTailnet_def DeleteApiKeysByTailnet_def DeleteAuthKeysByTailnet_def
      DeleteUsersByTailnet_def DeleteTKAByTailnet_def DeleteTailnet_row_def delete_tailnet_from_def
      dest!: db_exec_run db_delete_by_id_run)

lemma stays_DeleteTailnet: "stays (on_db (changes p)) (DeleteTailnet p i force) w"
proof -
  have q: "within quiet (CountMachineByTailnet i)" unfolding CountMachineByTailnet_def by (rule quiet_db_query)
  show ?thesis unfolding DeleteTailnet_def
    by (intro stays_require_system_admin entitled.stays_quiet_bindM[OF q] entitled.stays_quiet_seqM[OF quiet.within_requireM]
        entitled.stays_seqM entitled.stays_Transaction entitled.stays_notifyM)
      (auto simp: quiet_def dest!: delete_tailnet_run intro!: r_into_rtranclp admin_change.remove_tailnet)
qed

lemma stays_tailnet_rpc: "ids_ok w \<Longrightarrow> stays (on_db (changes p)) (run_tailnet_rpc v p r) w"
  by (cases r) (auto intro!: stays_void stays_CreateTailnet stays_UpdateTailnet stays_DeleteTailnet stays_reads)

lemma delete_user_rows_run: "delete_user_rows i w = (Inr x, w') \<Longrightarrow> wDB w' = delete_user_from i (wDB w)"
  by (auto simp: go_success delete_user_rows_def DeleteMachineByUser_def DeleteApiKeysByUser_def DeleteAuthKeysByUser_def
      DeleteUser_row_def delete_user_from_def dest!: db_exec_run db_delete_by_id_run)

lemma GetUser_run:
  assumes "GetUser i w = (Inr (Some u), w')"
  shows "\<exists>row \<in> set (dbUsers (wDB w)). uID row = i \<and> uTailnetID u = uTailnetID row \<and> uUserType u = uUserType row"
proof -
  note q = db_query_run(1)[OF assms[unfolded GetUser_def]]
  then obtain row where "find (\<lambda>u. uID u = i) (dbUsers (wDB w)) = Some row"
    "u = row\<lparr>uTailnet := tailnet_of (wDB w) (uTailnetID row), uAccount := account_of (wDB w) (uAccountID row)\<rparr>"
    by (auto simp: map_option_case split: option.splits)
  with find_SomeD[of "\<lambda>u. uID u = i" "dbUsers (wDB w)" row] show ?thesis by auto
qed

lemma stays_DeleteUser: "stays (on_db (changes p)) (DeleteUser p i) w"
proof -
  have q: "within quiet (if IsSystemAdmin p then returnM () else bindM (liftE (UserMatches p i)) (\<lambda>self. requireM (\<not> self) e))"
    "within quiet (GetUser i)" for e unfolding GetUser_def by (intro quiet_rules)+
  have del: "stays (on_db (changes p)) (seqM (require_admin p (uTailnetID u)) (
         seqM (requireM (uUserType u \<noteq> UserTypeService) e) (
         seqM (Transaction (delete_user_rows i)) (notifyM (uTailnetID u))))) w2"
    if "GetUser i w1 = (Inr (Some u), w2)" "quiet w1 w2" for e u w1 w2
    using GetUser_run[OF that(1)] that(2)
    by (intro stays_require_admin entitled.stays_quiet_seqM[OF quiet.within_requireM] entitled.stays_seqM
        entitled.stays_Transaction entitled.stays_notifyM)
      (auto simp: quiet_def split: if_splits dest!: delete_user_rows_run intro!: r_into_rtranclp admin_change.remove_user)
  show ?thesis unfolding DeleteUser_def
    by (intro entitled.stays_quiet_seqM[OF q(1)] entitled.stays_quiet_bindM[OF q(2)])
      (auto intro: entitled.stays_refl del split: option.split)
qed

lemma quiet_users_of_accounts: "within quiet (users_of_accounts as)"
proof (induction as)
  case Nil
  show ?case unfolding users_of_accounts.simps by (rule quiet.within_returnM)
next
  case (Cons a as)
  then show ?case unfolding users_of_accounts.simps ListUsersByAccount_def by (intro quiet_intros)
qed

lemma stays_RevokeAccount: "stays (on_db (changes p)) (RevokeAccount p x g) w"
proof -
  have q: "within quiet (ListAccountsByExternalID x)" unfolding ListAccountsByExternalID_def by (rule quiet_db_query)
  have t: "stays (on_db (changes p)) (Transaction (forM us (\<lambda>u. delete_user_rows (uID u)))) w'" if "IsSystemAdmin p" for us w'
  proof (rule entitled.stays_Transaction)
    fix y w1 w2
    assume eq: "wDB w1 = wDB w'" and run: "forM us (\<lambda>u. delete_user_rows (uID u)) w1 = (Inr y, w2)"
    have "changes p (wDB w1) (wDB w2)"
      by (rule entitled.forM_chain[OF run]) (use that in \<open>auto dest!: delete_user_rows_run intro!: r_into_rtranclp admin_change.remove_user\<close>)
    with eq show "changes p (wDB w') (wDB w2)" by simp
  qed
  have n: "stays (on_db (changes p)) (forM ts notifyM) w'" for ts w'
    by (intro entitled.stays_within entitled.within_forM entitled.within_notifyM)
  have "stays (on_db (changes p)) (if length as = 0 then returnM [] else bindM (users_of_accounts as) (\<lambda>users.
       let revoke = filter (to_revoke g) users; tailnetIDs = map uTailnetID revoke in
       seqM (Transaction (forM revoke (\<lambda>u. delete_user_rows (uID u)))) (
       seqM (forM tailnetIDs notifyM) (returnM tailnetIDs)))) w'" if "IsSystemAdmin p" for as w'
    unfolding Let_def using that
    by (auto intro!: entitled.stays_refl entitled.stays_quiet_bindM[OF quiet_users_of_accounts] entitled.stays_seqM t n)
  then show ?thesis unfolding RevokeAccount_def
    by (intro stays_require_system_admin entitled.stays_quiet_seqM[OF quiet.within_requireM] entitled.stays_quiet_bindM[OF q])
qed

text \<open>The principal of a request is the one of a stored user, or a system administrator.\<close>

definition principal_in :: "db \<Rightarrow> Principal \<Rightarrow> bool" where
  "principal_in d p \<longleftrightarrow>
     (case pUser p of None \<Rightarrow> IsSystemAdmin p | Some u \<Rightarrow> \<not> IsSystemAdmin p \<and> owned d (uID u) (uTailnetID u))"

definition service_user :: "Tailnet \<Rightarrow> world \<Rightarrow> User" where
  "service_user t w = zero_user\<lparr>uID := wIDs w (wNextID w), uName := tName t, uUserType := UserTypeService, uTailnetID := tID t\<rparr>"

lemma insert_user_tables:
  assumes "insert_user u w = (i, w')"
  shows "wIDs w' = wIDs w \<and> wNextID w' = wNextID w \<and>
    (wDB w' = wDB w \<and> i \<noteq> Inr () \<or>
     \<not> list_ex (\<lambda>x. uID x = uID u) (dbUsers (wDB w)) \<and> wDB w' = (wDB w)\<lparr>dbUsers := dbUsers (wDB w) @ [user_row u]\<rparr>)"
  using assms by (auto simp: insert_user_def db_exec_unique_def db_stmt_def split: list.splits bool.splits if_splits)

lemma GetOrCreateServiceUser_tables:
  assumes "GetOrCreateServiceUser t w = (r, w')"
  shows "wIDs w' = wIDs w \<and> wNextID w \<le> wNextID w' \<and>
    (wDB w' = wDB w \<and> (\<forall>u c. r = Inr (u, c) \<longrightarrow> u \<in> set (dbUsers (wDB w)) \<and> uTailnetID u = tID t \<or> tID t = 0) \<or>
     \<not> list_ex (\<lambda>x. uID x = uID (service_user t w)) (dbUsers (wDB w)) \<and>
     wDB w' = (wDB w)\<lparr>dbUsers := dbUsers (wDB w) @ [user_row (service_user t w)]\<rparr> \<and> (\<forall>u c. r = Inr (u, c) \<longrightarrow> u = service_user t w))"
proof -
  let ?w1 = "w\<lparr>wNextID := wNextID w + 1\<rparr>"
  obtain f w2 where q: "db_query (\<lambda>d. first_by uID (service_user_query t) (dbUsers d)) ?w1 = (f, w2)" by fastforce
  note q' = quietD[OF quiet_db_query q]
  show ?thesis
  proof (cases f)
    case (Inl e)
    with assms q q' show ?thesis by (auto simp: GetOrCreateServiceUser_def NextID_def)
  next
    case (Inr found)
    show ?thesis
    proof (cases found)
      case (Some u')
      from db_query_run(1)[OF q[unfolded Inr]] Some have "u' \<in> set (dbUsers (wDB w))" "service_user_query t u'"
        using first_by_SomeD[of uID "service_user_query t" "dbUsers (wDB w)" u'] by auto
      with Some Inr assms q q' show ?thesis
        by (auto simp: GetOrCreateServiceUser_def NextID_def service_user_query_def)
    next
      case None
      obtain i w3 where ins: "insert_user (service_user t w) w2 = (i, w3)" by fastforce
      have "w' = w3" "\<forall>u c. r = Inr (u, c) \<longrightarrow> i = Inr () \<and> u = service_user t w"
        using None Inr assms q ins
        by (auto simp: GetOrCreateServiceUser_def NextID_def Let_def seqM_def bindM_def service_user_def split: sum.splits)
      with insert_user_tables[OF ins] q' show ?thesis by auto
    qed
  qed
qed

lemma GetOrCreateServiceUser_changes:
  assumes "GetOrCreateServiceUser t w = (r, w')" "t \<in> set (dbTailnets (wDB w))" "allowed p (tID t)"
  shows "changes p (wDB w) (wDB w')"
proof -
  have "changes p (wDB w) ((wDB w)\<lparr>dbUsers := dbUsers (wDB w) @ [user_row (service_user t w)]\<rparr>)"
    if "\<not> list_ex (\<lambda>x. uID x = uID (service_user t w)) (dbUsers (wDB w))"
    using that assms(2,3) by (intro r_into_rtranclp admin_change.new_service_user[of t]) (auto simp: service_user_def)
  with GetOrCreateServiceUser_tables[OF assms(1)] show ?thesis by auto
qed

lemma GetOrCreateServiceUser_owned:
  assumes "GetOrCreateServiceUser t w = (Inr (u, c), w')" "tID t \<noteq> 0"
  shows "owned (wDB w') (uID u) (tID t)"
  using GetOrCreateServiceUser_tables[OF assms(1)] assms(2) by (auto simp: owned_def user_row_def service_user_def)

lemma CreateAuthKey_result:
  assumes "CreateAuthKey e t u eph pre tags x w = (Inr (secret, k), w')"
  shows "akTailnetID k = tID t \<and> akUserID k = uID u \<and> akID k = wIDs w (wNextID w)"
proof -
  obtain a where a: "RandStringBytes 12 w = (Inr a, w\<lparr>wNextRand := wNextRand w + 12\<rparr>)" using RandStringBytes_ok by blast
  obtain b where b: "RandStringBytes 22 (w\<lparr>wNextRand := wNextRand w + 12\<rparr>) =
      (Inr b, w\<lparr>wNextRand := wNextRand w + 12\<rparr>\<lparr>wNextRand := wNextRand (w\<lparr>wNextRand := wNextRand w + 12\<rparr>) + 22\<rparr>)"
    using RandStringBytes_ok by blast
  from assms show ?thesis by (auto simp: CreateAuthKey_def new_key_parts_def go_success a b NextID_def time_Now_def)
qed

lemma stays_SaveAuthKey:
  "\<lbrakk>allowed p (akTailnetID k); owned (wDB w) (akUserID k) (akTailnetID k); \<forall>x \<in> set (dbAuthKeys (wDB w)). akID x \<noteq> akID k\<rbrakk> \<Longrightarrow>
   stays (on_db (changes p)) (SaveAuthKey k) w"
  unfolding SaveAuthKey_def
  by (rule entitled.stays_db_exec_unique) (blast intro: r_into_rtranclp admin_change.new_auth_key)

lemma stays_key_tail:
  assumes "allowed p (tID t)" "owned (wDB w) (uID u) (tID t)" "\<forall>x \<in> set (dbAuthKeys (wDB w)). akID x \<noteq> wIDs w (wNextID w)"
  shows "stays (on_db (changes p)) (bindM (CreateAuthKey e t u eph pre tags x) (\<lambda>(secret, k). seqM (SaveAuthKey k) (returnM (f secret k)))) w"
  using assms
  by (intro entitled.stays_quiet_bindM[OF quiet_CreateAuthKey])
    (auto simp: quiet_def intro!: entitled.stays_seqM stays_SaveAuthKey entitled.stays_refl dest!: CreateAuthKey_result)

lemma stays_key_user:
  assumes p: "principal_in (wDB w) p" and t: "t \<in> set (dbTailnets (wDB w))" "allowed p (tID t)" "tID t \<noteq> 0" and ids: "ids_ok w"
    and k: "\<And>u w'. owned (wDB w') (uID u) (tID t) \<Longrightarrow> \<forall>x \<in> set (dbAuthKeys (wDB w')). akID x \<noteq> wIDs w' (wNextID w') \<Longrightarrow>
      stays (on_db (changes p)) (f u) w'"
  shows "stays (on_db (changes p)) (bindM (case pUser p of Some u \<Rightarrow> returnM u
            | None \<Rightarrow> bindM (GetOrCreateServiceUser t) (\<lambda>(u, _). returnM u)) f) w"
proof (cases "pUser p")
  case None
  have "stays (on_db (changes p)) (bindM (bindM (GetOrCreateServiceUser t) (\<lambda>(u, _). returnM u)) f) w"
  proof (rule entitled.stays_bindM)
    obtain r w' where g: "GetOrCreateServiceUser t w = (r, w')" by fastforce
    from GetOrCreateServiceUser_changes[OF g t(1,2)] g show "stays (on_db (changes p)) (bindM (GetOrCreateServiceUser t) (\<lambda>(u, _). returnM u)) w"
      by (cases r) (auto simp: stays_def on_db_def)
    fix u w2
    assume "bindM (GetOrCreateServiceUser t) (\<lambda>(u, _). returnM u) w = (Inr u, w2)"
    with g obtain c where r: "r = Inr (u, c)" "w2 = w'" by (auto simp: go_success)
    from GetOrCreateServiceUser_tables[OF g] ids have "\<forall>x \<in> set (dbAuthKeys (wDB w')). akID x \<noteq> wIDs w' (wNextID w')"
      by (auto simp: ids_ok_def)
    with GetOrCreateServiceUser_owned[OF g[unfolded r(1)] t(3)] r(2) show "stays (on_db (changes p)) (f u) w2" by (auto intro: k)
  qed
  with None show ?thesis by simp
next
  case (Some u)
  with p t(2) have "uTailnetID u = tID t" "owned (wDB w) (uID u) (uTailnetID u)"
    by (auto simp: principal_in_def allowed_def IsTailnetAdmin_def)
  with ids have "stays (on_db (changes p)) (f u) w" by (auto simp: ids_ok_def intro: k)
  with Some show ?thesis by (simp add: stays_def)
qed

lemma stays_CreateAuthKey:
  assumes "principal_in (wDB w) p" "ids_ok w" "keys_ok (wDB w)"
  shows "stays (on_db (changes p)) (CreateAuthKey_rpc v p req) w"
proof -
  have "tID t \<noteq> 0" if "t \<in> set (dbTailnets (wDB w))" for t using assms(3) that by (simp add: keys_ok_def)
  with assms(1,2) show ?thesis
    unfolding CreateAuthKey_rpc_def Let_def
    by (intro stays_require_admin entitled.stays_quiet_seqM[OF quiet.within_requireM] entitled.stays_quiet_seqM[OF quiet_checks(1)]
        entitled.stays_quiet_bindM[OF quiet_openings(1)] entitled.stays_quiet_seqM[OF quiet_checks(4)]
        entitled.stays_quiet_bindM[OF quiet_time_Now] stays_key_user stays_key_tail)
      (auto simp: quiet_def ids_ok_def dest!: get_tailnet_or_fail_run)
qed

lemma stays_DeleteAuthKey: "stays (on_db (changes p)) (DeleteAuthKey p i) w"
proof -
  have "stays (on_db (changes p)) (seqM (DeleteAuthKey_row (akID row)) (returnM ())) w'"
    if "row \<in> set (dbAuthKeys (wDB w'))" "allowed p (akTailnetID row)" for row w'
    unfolding DeleteAuthKey_row_def using that
    by (intro entitled.stays_seqM entitled.stays_db_stmt entitled.stays_refl) (simp add: r_into_rtranclp admin_change.remove_auth_key)
  then show ?thesis unfolding DeleteAuthKey_def
    by (intro entitled.stays_quiet_bindM[OF quiet_openings(4)]) (auto dest!: admin_auth_key_run)
qed

lemma stays_account_rpc:
  "\<lbrakk>principal_in (wDB w) p; ids_ok w; keys_ok (wDB w)\<rbrakk> \<Longrightarrow> stays (on_db (changes p)) (run_account_rpc v p r) w"
  by (cases r) (auto intro!: stays_void stays_DeleteUser stays_RevokeAccount stays_CreateAuthKey stays_DeleteAuthKey stays_reads)

lemma stays_run_rpc:
  "\<lbrakk>principal_in (wDB w) p; ids_ok w; keys_ok (wDB w)\<rbrakk> \<Longrightarrow> stays (on_db (changes p)) (run_rpc v p r) w"
  by (cases r) (simp_all add: stays_tailnet_rpc stays_feature_rpc stays_settings_rpc stays_machine_rpc stays_account_rpc)

end
