(* ===== verification/NetMap.thy ===== *)
theory NetMap
  imports Repository SSHPolicy
begin

text \<open>
  \<open>internal/mapping\<close>: the network map a node receives (\<open>mapping.go\<close>, \<open>poll_net_mapper.go\<close>).

  \<open>CreateMapResponse\<close> runs in the world monad and returns the response with the state the
  mapper keeps for the next one. When it fails, the poll handler ends the session and the
  mapper is dropped, so no mapper is returned then. The unmarshalling of the key types and the
  names of the capabilities belong to the Tailscale libraries: they are the fields of
  \<open>tail_env\<close>.
\<close>

section \<open>Library values\<close>

record tail_env =
  teUnmarshalNode :: "string \<Rightarrow> string option"
  teUnmarshalMachine :: "string \<Rightarrow> string option"
  teUnmarshalDisco :: "string \<Rightarrow> string option"
  teCapabilityAdmin :: string
  teCapabilityFileSharing :: string
  teCapabilitySSH :: string
  teCapabilityHTTPS :: string
  teCapabilityTailnetLock :: string
  teNodeAttrFunnel :: string
  teTCP :: string
  teUDP :: string

definition with_prefix :: "string \<Rightarrow> string \<Rightarrow> string" where
  "with_prefix pre key = (if HasPrefix key pre then key else pre @ key)"

definition ParseMachinePublicKey :: "tail_env \<Rightarrow> string \<Rightarrow> string option" where
  "ParseMachinePublicKey k machineKey = teUnmarshalMachine k (with_prefix ''mkey:'' machineKey)"

definition ParseNodePublicKey :: "tail_env \<Rightarrow> string \<Rightarrow> string option" where
  "ParseNodePublicKey k machineKey = teUnmarshalNode k (with_prefix ''nodekey:'' machineKey)"

definition ParseDiscoPublicKey :: "tail_env \<Rightarrow> string \<Rightarrow> string option" where
  "ParseDiscoPublicKey k machineKey = teUnmarshalDisco k (with_prefix ''discokey:'' machineKey)"

section \<open>Nodes and profiles\<close>

record UserProfile =
  upID :: uint64
  upLoginName :: string
  upDisplayName :: string

record TailUser =
  tuID :: uint64
  tuDisplayName :: string

record Login =
  lgID :: uint64
  lgLoginName :: string
  lgDisplayName :: string

definition ToUserProfile :: "User \<Rightarrow> UserProfile" where
  "ToUserProfile u = \<lparr>upID = uID u, upLoginName = uName u, upDisplayName = uName u\<rparr>"

definition ToUser :: "User \<Rightarrow> TailUser \<times> Login" where
  "ToUser u =
     (\<lparr>tuID = uID u, tuDisplayName = uName u\<rparr>,
      \<lparr>lgID = uID u, lgLoginName = uName u, lgDisplayName = uName u\<rparr>)"

definition filterServices :: "tail_env \<Rightarrow> Service list \<Rightarrow> Service list" where
  "filterServices k services =
     filter (\<lambda>s. \<not> (svProto s = teTCP k \<or> svProto s = teUDP k)) services"

record Node =
  nID :: uint64
  nStableID :: string
  nName :: string
  nKey :: string
  nMachine :: string
  nDiscoKey :: string
  nAddresses :: "Prefix list"
  nAllowedIPs :: "Prefix list"
  nEndpoints :: "string list"
  nHomeDERP :: int
  nLegacyDERPString :: string
  nHostinfo :: HostInfo
  nCreated :: instant
  nMachineAuthorized :: bool
  nUser :: uint64
  nKeySignature :: string
  nCapMap :: "string list option"
  nCapabilities :: "string list"
  nKeyExpiry :: instant
  nExpired :: bool
  nOnline :: bool
  nLastSeen :: "instant option"
  nTags :: "string list"

text \<open>\<open>netip.Addr.Prefix\<close>: the masked prefix, an error when there are too many bits.\<close>

definition addr_Prefix :: "Addr \<Rightarrow> nat \<Rightarrow> Prefix option" where
  "addr_Prefix a b =
     (if b \<le> BitLen a then Some (Prefix (mask_addr b (withoutZone a)) (b + 1)) else None)"

text \<open>
  \<open>primaryRoutesCollector.filter\<close>: the routes of a machine that no earlier machine took.
\<close>

definition route_step :: "Prefix \<Rightarrow> Prefix list \<times> Prefix list \<Rightarrow> Prefix list \<times> Prefix list" where
  "route_step r = (\<lambda>(result, flagged).
     if Bits r \<noteq> 0 \<and> r \<notin> set flagged then (result @ [r], r # flagged) else (result, flagged))"

definition primary_routes :: "Machine \<Rightarrow> Prefix list \<Rightarrow> Prefix list \<times> Prefix list" where
  "primary_routes m flagged = fold route_step (mAutoAllowIPs m) (fold route_step (mAllowIPs m) ([], flagged))"

text \<open>
  The capabilities of the node itself. The map from capability to (empty) values is the list
  of its keys.
\<close>

definition node_capabilities :: "tail_env \<Rightarrow> Machine \<Rightarrow> Tailnet \<Rightarrow> ACLPolicy \<Rightarrow> string \<Rightarrow> string list" where
  "node_capabilities k m tailnet policy role =
     filter (\<lambda>c. c \<noteq> teNodeAttrFunnel k)
       (NodeCapabilities policy m @
        (if \<not> HasTags m \<and> role = UserRoleAdmin then [teCapabilityAdmin k] else []) @
        (if tFileSharingEnabled tailnet then [teCapabilityFileSharing k] else []) @
        (if tSSHEnabled tailnet then [teCapabilitySSH k] else []) @
        (if dcHttpsCertsEnabled (tDNSConfig tailnet) then [teCapabilityHTTPS k] else []) @
        (if tTailnetLockEnabled tailnet then [teCapabilityTailnetLock k] else []))"

definition node_addresses :: "Machine \<Rightarrow> error + Prefix list" where
  "node_addresses m =
     (let v4 = (if IsValid (mIPv4 m) then map_option (\<lambda>p. [p]) (addr_Prefix (mIPv4 m) 32) else Some []);
          v6 = (if IsValid (mIPv6 m) then map_option (\<lambda>p. [p]) (addr_Prefix (mIPv6 m) 128) else Some [])
      in case (v4, v6) of
           (Some a, Some b) \<Rightarrow> Inr (a @ b)
         | _ \<Rightarrow> Inl (Err ''prefix length''))"

definition node_hostinfo :: "tail_env \<Rightarrow> HostInfo \<Rightarrow> HostInfo" where
  "node_hostinfo k hostinfo =
     \<lparr>hiHostname = hiHostname hostinfo, hiOS = hiOS hostinfo, hiIPNVersion = [],
      hiRoutableIPs = [], hiRequestTags = [], hiServices = filterServices k (hiServices hostinfo),
      hiNetInfo = None, hiSSH_HostKeys = hiSSH_HostKeys hostinfo\<rparr>"

definition node_derp :: "HostInfo \<Rightarrow> int \<times> string" where
  "node_derp hostinfo =
     (let derp = (case hiNetInfo hostinfo of Some ni \<Rightarrow> niPreferredDERP ni | None \<Rightarrow> 0)
      in (derp, ''127.3.3.40:'' @ (if derp < 0 then ''-'' @ Itoa (nat (- derp)) else Itoa (nat derp))))"

text \<open>
  The node and profile of a machine, once its keys have parsed: \<open>caps\<close> are the node's own
  capabilities and \<open>routes\<close> the routes it is the primary router of.
\<close>

definition node_record ::
    "env \<Rightarrow> tail_env \<Rightarrow> instant \<Rightarrow> int \<Rightarrow> Machine \<Rightarrow> User \<Rightarrow> bool \<Rightarrow> bool \<Rightarrow> string \<Rightarrow> string \<Rightarrow> string
     \<Rightarrow> Prefix list \<Rightarrow> Prefix list \<Rightarrow> string list \<Rightarrow> Node" where
  "node_record e k now capVer m taggedDevicesUser peer connected nodeKey machineKey discoKey addrs routes caps =
     \<lparr>nID = mID m, nStableID = Itoa (unat (mID m)),
      nName = CompleteName m @ ''.'' @ SanitizeTailnetName e (tName (mTailnet m)) @ ''.'' @ envMagicDNSSuffix e @ ''.'',
      nKey = nodeKey, nMachine = machineKey, nDiscoKey = discoKey, nAddresses = addrs,
      nAllowedIPs = addrs @ routes @ (if IsAllowedExitNode m then [prefix4_all, prefix6_all] else []),
      nEndpoints = mEndpoints m, nHomeDERP = fst (node_derp (mHostInfo m)),
      nLegacyDERPString = snd (node_derp (mHostInfo m)),
      nHostinfo = node_hostinfo k (mHostInfo m),
      nCreated = mCreatedAt m, nMachineAuthorized = mAuthorized m,
      nUser = (if HasTags m then uID taggedDevicesUser else mUserID m),
      nKeySignature = mKeySignature m,
      nCapMap = (if \<not> peer \<and> capVer \<ge> 74 then Some (remdups caps) else None),
      nCapabilities = (if \<not> peer \<and> \<not> capVer \<ge> 74 then caps else []),
      nKeyExpiry = (if mKeyExpiryDisabled m then 0 else mExpiresAt m),
      nExpired = IsExpired now m, nOnline = connected,
      nLastSeen = (if \<not> connected then mLastSeen m else None),
      nTags = (if HasTags m then mTags m else [])\<rparr>"

definition node_profile :: "Machine \<Rightarrow> User \<Rightarrow> UserProfile" where
  "node_profile m taggedDevicesUser =
     (if HasTags m then
        \<lparr>upID = uID taggedDevicesUser, upLoginName = ''tagged-devices'', upDisplayName = ''Tagged Devices''\<rparr>
      else ToUserProfile (mUser m))"

definition ToNode ::
    "env \<Rightarrow> tail_env \<Rightarrow> instant \<Rightarrow> int \<Rightarrow> Machine \<Rightarrow> Tailnet \<Rightarrow> User \<Rightarrow> bool \<Rightarrow> bool \<Rightarrow> Prefix list
     \<Rightarrow> error + (Node \<times> UserProfile \<times> Prefix list)" where
  "ToNode e k now capVer m tailnet taggedDevicesUser peer connected flagged =
     (case hjT (tIAMPolicy tailnet) of
        None \<Rightarrow> Inl NilDeref
      | Some iam \<Rightarrow>
     (case ParseNodePublicKey k (mNodeKey m) of
        None \<Rightarrow> Inl (Err ''node key'')
      | Some nodeKey \<Rightarrow>
     (case ParseMachinePublicKey k (mMachineKey m) of
        None \<Rightarrow> Inl (Err ''machine key'')
      | Some machineKey \<Rightarrow>
     (case (if mDiscoKey m \<noteq> [] then ParseDiscoPublicKey k (mDiscoKey m) else Some []) of
        None \<Rightarrow> Inl (Err ''disco key'')
      | Some discoKey \<Rightarrow>
     (case node_addresses m of
        Inl err \<Rightarrow> Inl err
      | Inr addrs \<Rightarrow>
     (if \<not> peer \<and> hjT (tACLPolicy tailnet) = None then Inl NilDeref
      else
        (let rf = (if connected then primary_routes m flagged else ([], flagged));
             caps = (if peer then []
                     else node_capabilities k m tailnet (the (hjT (tACLPolicy tailnet))) (GetRole iam (mUser m)))
         in Inr (node_record e k now capVer m taggedDevicesUser peer connected nodeKey machineKey discoKey addrs (fst rf) caps,
                 node_profile m taggedDevicesUser, snd rf))))))))"

section \<open>DNS\<close>

record TailDNSConfig =
  tdResolvers :: "string list"
  tdRoutes :: "(string \<rightharpoonup> string list) option"
  tdFallbackResolvers :: "string list"
  tdDomains :: "string list"
  tdProxied :: bool
  tdCertDomains :: "string list"
  tdExtraRecords :: "DNSRecord list"
  tdExitNodeFilteredSet :: "string list"

definition ToDNSConfig :: "env \<Rightarrow> Machine \<Rightarrow> Tailnet \<Rightarrow> DNSConfig \<Rightarrow> TailDNSConfig" where
  "ToDNSConfig e m tailnet c =
     (let certsEnabled = dcHttpsCertsEnabled c \<and> envDNSProviderConfigured e;
          tailnetDomain = SanitizeTailnetName e (tName tailnet) @ ''.'' @ envMagicDNSSuffix e;
          routes0 = (if dcMagicDNS c then [tailnetDomain \<mapsto> []] else Map.empty);
          domains = (if dcMagicDNS c then [tailnetDomain] else []);
          certDomains = (if dcMagicDNS c \<and> certsEnabled then [CompleteName m @ ''.'' @ tailnetDomain] else []);
          routes1 = fold (\<lambda>r rs. if rs (drName r) = None then rs(drName r \<mapsto> []) else rs) (dcExtraRecords c) routes0;
          routes2 = fold (\<lambda>(r, s) rs. rs(r \<mapsto> s)) (dcRoutes c) routes1
      in \<lparr>tdResolvers = (if dcOverrideLocalDNS c then dcNameservers c else []),
          tdRoutes = (if length (dcRoutes c) \<noteq> 0 \<or> length (dcExtraRecords c) \<noteq> 0 \<or> certsEnabled
                      then Some routes2 else None),
          tdFallbackResolvers = (if dcOverrideLocalDNS c then [] else dcNameservers c),
          tdDomains = domains @ dcSearchDomains c,
          tdProxied = dcMagicDNS c,
          tdCertDomains = certDomains,
          tdExtraRecords = dcExtraRecords c,
          tdExitNodeFilteredSet = [''.'' @ envMagicDNSSuffix e]\<rparr>)"

section \<open>The map response\<close>

record TKAInfo =
  tiHead :: string
  tiDisabled :: bool

record MapResponse =
  mrNode :: Node
  mrDNSConfig :: TailDNSConfig
  mrPacketFilter :: "FilterRule list"
  mrSSHPolicy :: "SSHRule list option"
  mrDERPMap :: "string option"
  mrDomain :: string
  mrPeers :: "Node list"
  mrPeersChanged :: "Node list"
  mrPeersRemoved :: "uint64 list"
  mrUserProfiles :: "UserProfile list"
  mrControlTime :: instant
  mrCollectServices :: bool
  mrTKAInfo :: "TKAInfo option"
  mrDisableLogTail :: bool

record MapRequest =
  mqVersion :: int
  mqOmitPeers :: bool

record PollNetMapper =
  pmReq :: MapRequest
  pmMachineID :: uint64
  pmPrevSyncedPeerIDs :: "uint64 list"
  pmPrevDerpMapChecksum :: string
  pmPrevTKAChecksum :: string

definition NewPollNetMapper :: "MapRequest \<Rightarrow> uint64 \<Rightarrow> PollNetMapper" where
  "NewPollNetMapper req machineID =
     \<lparr>pmReq = req, pmMachineID = machineID, pmPrevSyncedPeerIDs = [], pmPrevDerpMapChecksum = [],
      pmPrevTKAChecksum = []\<rparr>"

definition filterQuarantined :: "instant \<Rightarrow> Machine list \<Rightarrow> Tailnet \<Rightarrow> Machine list" where
  "filterQuarantined now machines tailnet =
     filter (\<lambda>m. \<not> IsQuarantined now m (Some tailnet)) machines"

text \<open>
  The loop over the candidate peers: the nodes, the profiles not sent yet, the routes taken.
\<close>

record peer_acc =
  pxNodes :: "Node list"
  pxUsers :: "UserProfile list"
  pxSynced :: "uint64 list"
  pxPrev :: "uint64 list"
  pxUserIDs :: "uint64 list"
  pxFlagged :: "Prefix list"

definition is_peer_of :: "ACLPolicy \<Rightarrow> Machine \<Rightarrow> Machine \<Rightarrow> bool" where
  "is_peer_of policies m peer \<longleftrightarrow> IsValidPeer policies m peer \<or> IsValidPeer policies peer m"

definition add_peer ::
    "env \<Rightarrow> tail_env \<Rightarrow> instant \<Rightarrow> int \<Rightarrow> Machine \<Rightarrow> Tailnet \<Rightarrow> ACLPolicy \<Rightarrow> User \<Rightarrow> pollMapSessionManager
     \<Rightarrow> Machine \<Rightarrow> peer_acc \<Rightarrow> error + peer_acc" where
  "add_peer e k now capVer m tailnet policies serviceUser sm peer acc =
     (if \<not> is_peer_of policies m peer then Inr acc
      else
        case ToNode e k now capVer peer tailnet serviceUser True (HasSession (mTailnetID peer) (mID peer) sm) (pxFlagged acc) of
          Inl err \<Rightarrow> Inl err
        | Inr (n, u, flagged) \<Rightarrow>
            Inr \<lparr>pxNodes = pxNodes acc @ [n],
                 pxUsers = (if upID u \<in> set (pxUserIDs acc) then pxUsers acc else pxUsers acc @ [u]),
                 pxSynced = List.insert (mID peer) (pxSynced acc),
                 pxPrev = removeAll (mID peer) (pxPrev acc),
                 pxUserIDs = List.insert (upID u) (pxUserIDs acc),
                 pxFlagged = flagged\<rparr>)"

primrec add_peers ::
    "env \<Rightarrow> tail_env \<Rightarrow> instant \<Rightarrow> int \<Rightarrow> Machine \<Rightarrow> Tailnet \<Rightarrow> ACLPolicy \<Rightarrow> User \<Rightarrow> pollMapSessionManager
     \<Rightarrow> Machine list \<Rightarrow> peer_acc \<Rightarrow> error + peer_acc" where
  "add_peers e k now capVer m tailnet policies serviceUser sm [] acc = Inr acc"
| "add_peers e k now capVer m tailnet policies serviceUser sm (p # ps) acc =
     (case add_peer e k now capVer m tailnet policies serviceUser sm p acc of
        Inl err \<Rightarrow> Inl err
      | Inr acc' \<Rightarrow> add_peers e k now capVer m tailnet policies serviceUser sm ps acc')"

definition tka_info :: "TailnetTKAState \<Rightarrow> TKAInfo option \<times> string" where
  "tka_info s =
     (if tkEnabled s then (Some \<lparr>tiHead = tkHead s, tiDisabled = False\<rparr>, ''enabled:'' @ tkHead s)
      else if tkDisabled s then (Some \<lparr>tiHead = [], tiDisabled = True\<rparr>, ''disabled'')
      else (None, []))"

text \<open>The part of the response about the peers.\<close>

record peer_part =
  ppChanged :: "Node list"
  ppUsers :: "UserProfile list"
  ppSynced :: "uint64 list"
  ppRemoved :: "uint64 list"
  ppFilter :: "FilterRule list"
  ppSSH :: "SSHRule list option"

definition peers_part ::
    "env \<Rightarrow> tail_env \<Rightarrow> instant \<Rightarrow> int \<Rightarrow> Machine \<Rightarrow> User \<Rightarrow> UserProfile \<Rightarrow> Prefix list \<Rightarrow> uint64 list \<Rightarrow> peer_part m" where
  "peers_part e k now capVer m serviceUser user flagged prev =
     (let tailnet = mTailnet m; quarantined = IsQuarantined now m (Some tailnet) in
      bindM (ListMachinePeers (mTailnetID m) (mID m)) (\<lambda>all.
      let candidatePeers = (if quarantined then [] else filterQuarantined now all tailnet) in
      case hjT (tACLPolicy tailnet) of
        None \<Rightarrow> throwM NilDeref
      | Some policies \<Rightarrow>
          bindM (getsM wSessions) (\<lambda>sm.
          bindM (liftE (add_peers e k now capVer m tailnet policies serviceUser sm candidatePeers
                   \<lparr>pxNodes = [], pxUsers = [user], pxSynced = [], pxPrev = prev,
                    pxUserIDs = [upID user], pxFlagged = flagged\<rparr>)) (\<lambda>acc.
          returnM \<lparr>ppChanged = pxNodes acc, ppUsers = pxUsers acc, ppSynced = pxSynced acc, ppRemoved = pxPrev acc,
            ppFilter = (if \<not> quarantined then BuildFilterRules policies candidatePeers m else []),
            ppSSH = (if \<not> quarantined \<and> tSSHEnabled tailnet \<and> envTailscaleSSHEnabled e (mHostInfo m)
                     then Some (BuildSSHPolicy policies candidatePeers m) else None)\<rparr>))))"

definition no_peers_part :: "UserProfile \<Rightarrow> peer_part" where
  "no_peers_part user = \<lparr>ppChanged = [], ppUsers = [user], ppSynced = [], ppRemoved = [], ppFilter = [], ppSSH = None\<rparr>"

definition map_response ::
    "env \<Rightarrow> bool \<Rightarrow> PollNetMapper \<Rightarrow> Machine \<Rightarrow> DERPMap \<Rightarrow> TKAInfo option \<Rightarrow> string \<Rightarrow> instant \<Rightarrow> Node \<Rightarrow> peer_part \<Rightarrow> MapResponse" where
  "map_response e delta h m derpMap tkaInfo tkaChecksum now node pp =
     (let tailnet = mTailnet m; omit = mqOmitPeers (pmReq h) in
      \<lparr>mrNode = node, mrDNSConfig = ToDNSConfig e m tailnet (tDNSConfig tailnet),
       mrPacketFilter = ppFilter pp, mrSSHPolicy = ppSSH pp,
       mrDERPMap = (if \<not> delta \<or> pmPrevDerpMapChecksum h \<noteq> dmChecksum derpMap then Some (dmDERPMap derpMap) else None),
       mrDomain = SanitizeTailnetName e (tName tailnet),
       mrPeers = (if \<not> delta \<and> \<not> omit then ppChanged pp else []),
       mrPeersChanged = (if delta \<and> \<not> omit then ppChanged pp else []),
       mrPeersRemoved = (if delta \<and> \<not> omit then ppRemoved pp else []),
       mrUserProfiles = ppUsers pp, mrControlTime = now,
       mrCollectServices = tServiceCollectionEnabled tailnet,
       mrTKAInfo = (if \<not> delta \<or> pmPrevTKAChecksum h \<noteq> tkaChecksum then tkaInfo else None),
       mrDisableLogTail = \<not> delta\<rparr>)"

definition CreateMapResponse ::
    "env \<Rightarrow> tail_env \<Rightarrow> DERPMap \<Rightarrow> bool \<Rightarrow> PollNetMapper \<Rightarrow> (MapResponse \<times> PollNetMapper) m" where
  "CreateMapResponse e k defaultDERPMap delta h =
     bindM (GetMachine_row (pmMachineID h)) (\<lambda>mopt.
     case mopt of
       None \<Rightarrow> throwM NilDeref
     | Some m \<Rightarrow>
         bindM (GetOrCreateServiceUser (mTailnet m)) (\<lambda>(serviceUser, _).
         bindM (GetTailnetTKAState (mTailnetID m)) (\<lambda>tkaState.
         bindM time_Now (\<lambda>now.
         bindM (liftE (ToNode e k now (mqVersion (pmReq h)) m (mTailnet m) serviceUser False True [])) (\<lambda>(node, user, flagged).
         bindM (if mqOmitPeers (pmReq h) then returnM (no_peers_part user)
                else peers_part e k now (mqVersion (pmReq h)) m serviceUser user flagged (pmPrevSyncedPeerIDs h)) (\<lambda>pp.
         let derpMap = GetDERPMap (mTailnet m) defaultDERPMap
         in returnM
              (map_response e delta h m derpMap (fst (tka_info tkaState)) (snd (tka_info tkaState)) now node pp,
               h\<lparr>pmPrevSyncedPeerIDs := ppSynced pp, pmPrevDerpMapChecksum := dmChecksum derpMap,
                 pmPrevTKAChecksum := snd (tka_info tkaState)\<rparr>)))))))"

section \<open>What a node contains\<close>

lemma ToNode_result:
  assumes "ToNode e k now capVer m tailnet su peer connected flagged = Inr (n, u, flagged')"
  shows "nID n = mID m"
    and "flagged' = snd (if connected then primary_routes m flagged else ([], flagged))"
    and "teNodeAttrFunnel k \<notin> set (nCapabilities n) \<union> set (option_or (nCapMap n) [])"
    and "peer \<Longrightarrow> nCapabilities n = [] \<and> nCapMap n = None"
proof -
  from assms obtain nk mk dk addrs routes iam where
      n: "n = node_record e k now capVer m su peer connected nk mk dk addrs routes
            (if peer then [] else node_capabilities k m tailnet (the (hjT (tACLPolicy tailnet))) (GetRole iam (mUser m)))"
    and fl: "flagged' = snd (if connected then primary_routes m flagged else ([], flagged))"
    by (auto simp: ToNode_def Let_def split: option.splits sum.splits if_splits)
  show "nID n = mID m" "peer \<Longrightarrow> nCapabilities n = [] \<and> nCapMap n = None" by (simp_all add: n node_record_def)
  show "flagged' = snd (if connected then primary_routes m flagged else ([], flagged))" by (rule fl)
  show "teNodeAttrFunnel k \<notin> set (nCapabilities n) \<union> set (option_or (nCapMap n) [])"
    by (auto simp: n node_record_def node_capabilities_def)
qed

lemma add_peers_spec:
  assumes "add_peers e k now capVer m tailnet policies su sm ps acc = Inr acc'"
  shows "map nID (pxNodes acc') = map nID (pxNodes acc) @ map mID (filter (is_peer_of policies m) ps) \<and>
    set (pxSynced acc') = set (pxSynced acc) \<union> mID ` set (filter (is_peer_of policies m) ps) \<and>
    set (pxPrev acc') = set (pxPrev acc) - mID ` set (filter (is_peer_of policies m) ps)"
  using assms
proof (induction ps arbitrary: acc)
  case (Cons p ps)
  then obtain acc1 where a: "add_peer e k now capVer m tailnet policies su sm p acc = Inr acc1"
    and rest: "add_peers e k now capVer m tailnet policies su sm ps acc1 = Inr acc'"
    by (auto split: sum.splits)
  show ?case
  proof (cases "is_peer_of policies m p")
    case True
    from a True have "map nID (pxNodes acc1) = map nID (pxNodes acc) @ [mID p]"
      "set (pxSynced acc1) = insert (mID p) (set (pxSynced acc))" "set (pxPrev acc1) = set (pxPrev acc) - {mID p}"
      by (auto simp: add_peer_def dest: ToNode_result(1) split: sum.splits)
    with True Cons.IH[OF rest] show ?thesis by auto
  next
    case False
    with a have "acc1 = acc" by (simp add: add_peer_def)
    with False Cons.IH[OF rest] show ?thesis by simp
  qed
qed simp

section \<open>Primary routes\<close>

lemma route_step_apply:
  "route_step r (res, fl) = (if Bits r \<noteq> 0 \<and> r \<notin> set fl then (res @ [r], r # fl) else (res, fl))"
  by (simp add: route_step_def)

lemma fold_route_step:
  assumes "fold route_step rs (res, fl) = (res', fl')"
  shows "\<exists>new. res' = res @ new \<and> set fl' = set fl \<union> set new \<and> set new \<inter> set fl = {} \<and>
    set new \<subseteq> {r \<in> set rs. Bits r \<noteq> 0}"
  using assms
proof (induction rs arbitrary: res fl)
  case (Cons r rs)
  show ?case
  proof (cases "Bits r \<noteq> 0 \<and> r \<notin> set fl")
    case True
    with Cons.prems have "fold route_step rs (res @ [r], r # fl) = (res', fl')" by (simp add: route_step_apply)
    from Cons.IH[OF this] obtain new where "res' = (res @ [r]) @ new" "set fl' = set (r # fl) \<union> set new"
      "set new \<inter> set (r # fl) = {}" "set new \<subseteq> {r \<in> set rs. Bits r \<noteq> 0}" by blast
    with True show ?thesis by (intro exI[of _ "r # new"]) auto
  next
    case False
    with Cons.prems have "fold route_step rs (res, fl) = (res', fl')" by (auto simp: route_step_apply)
    from Cons.IH[OF this] show ?thesis by auto
  qed
qed simp

lemma primary_routes_spec:
  assumes "primary_routes m fl = (rs, fl')"
  shows "set rs \<inter> set fl = {}" "set fl' = set fl \<union> set rs" "set rs \<subseteq> {r \<in> set (mAllowIPs m) \<union> set (mAutoAllowIPs m). Bits r \<noteq> 0}"
proof -
  obtain r1 f1 where 1: "fold route_step (mAllowIPs m) ([], fl) = (r1, f1)" by fastforce
  with assms have 2: "fold route_step (mAutoAllowIPs m) (r1, f1) = (rs, fl')" by (simp add: primary_routes_def)
  from fold_route_step[OF 1] fold_route_step[OF 2]
  show "set rs \<inter> set fl = {}" "set fl' = set fl \<union> set rs" "set rs \<subseteq> {r \<in> set (mAllowIPs m) \<union> set (mAutoAllowIPs m). Bits r \<noteq> 0}"
    by auto
qed

text \<open>The subnet routes of a node: what it may carry beyond its addresses and the exit routes.\<close>

definition node_routes :: "Node \<Rightarrow> Prefix set" where
  "node_routes n = set (nAllowedIPs n) - set (nAddresses n) - {prefix4_all, prefix6_all}"

definition routes_apart :: "Node list \<Rightarrow> Prefix list \<Rightarrow> bool" where
  "routes_apart ns fl \<longleftrightarrow> sorted_wrt (\<lambda>a b. node_routes a \<inter> node_routes b = {}) ns \<and>
     (\<forall>n \<in> set ns. node_routes n \<subseteq> set fl)"

lemma ToNode_routes:
  assumes "ToNode e k now capVer m tailnet su peer connected fl = Inr (n, u, fl')"
  shows "node_routes n \<inter> set fl = {}" "set fl' = set fl \<union> (set fl' - set fl)" "node_routes n \<subseteq> set fl'" "set fl \<subseteq> set fl'"
proof -
  let ?rf = "if connected then primary_routes m fl else ([], fl)"
  from assms have n: "node_routes n \<subseteq> set (fst ?rf)" and fl': "fl' = snd ?rf"
    by (auto simp: ToNode_def node_record_def node_routes_def Let_def split: option.splits sum.splits if_splits)
  obtain rs f where p: "primary_routes m fl = (rs, f)" by fastforce
  from n fl' primary_routes_spec[OF p] p
  show "node_routes n \<inter> set fl = {}" "set fl' = set fl \<union> (set fl' - set fl)" "node_routes n \<subseteq> set fl'" "set fl \<subseteq> set fl'"
    by (auto split: if_splits)
qed

lemma add_peers_routes:
  assumes "add_peers e k now capVer m tailnet policies su sm ps acc = Inr acc'"
    and "routes_apart (ns @ pxNodes acc) (pxFlagged acc)"
  shows "routes_apart (ns @ pxNodes acc') (pxFlagged acc')"
  using assms
proof (induction ps arbitrary: acc)
  case (Cons p ps)
  then obtain acc1 where a: "add_peer e k now capVer m tailnet policies su sm p acc = Inr acc1"
    and rest: "add_peers e k now capVer m tailnet policies su sm ps acc1 = Inr acc'"
    by (auto split: sum.splits)
  have "routes_apart (ns @ pxNodes acc1) (pxFlagged acc1)"
  proof (cases "is_peer_of policies m p")
    case True
    with a obtain n u fl where n: "ToNode e k now capVer p tailnet su True (HasSession (mTailnetID p) (mID p) sm) (pxFlagged acc) = Inr (n, u, fl)"
      and acc1: "pxNodes acc1 = pxNodes acc @ [n]" "pxFlagged acc1 = fl"
      by (auto simp: add_peer_def split: sum.splits)
    note rts = ToNode_routes[OF n]
    from Cons.prems(2) have old: "\<forall>x \<in> set (ns @ pxNodes acc). node_routes x \<subseteq> set (pxFlagged acc)"
      and sorted: "sorted_wrt (\<lambda>a b. node_routes a \<inter> node_routes b = {}) (ns @ pxNodes acc)"
      unfolding routes_apart_def by blast+
    from old rts(1) have "\<forall>x \<in> set (ns @ pxNodes acc). node_routes x \<inter> node_routes n = {}" by blast
    with sorted have "sorted_wrt (\<lambda>a b. node_routes a \<inter> node_routes b = {}) ((ns @ pxNodes acc) @ [n])"
      unfolding sorted_wrt_append[of _ "ns @ pxNodes acc"] by simp
    moreover from old rts(3,4) have "\<forall>x \<in> set ((ns @ pxNodes acc) @ [n]). node_routes x \<subseteq> set fl" by auto
    ultimately show ?thesis by (simp add: routes_apart_def acc1)
  next
    case False
    with a Cons.prems(2) show ?thesis by (simp add: add_peer_def)
  qed
  from Cons.IH[OF rest this] show ?case .
qed simp

section \<open>What a response contains\<close>

lemma insert_user_run:
  assumes "insert_user u w = (Inr x, w')"
  shows "wDB w' = (wDB w)\<lparr>dbUsers := dbUsers (wDB w) @ [user_row u]\<rparr>" "wNow w' = wNow w" "wSessions w' = wSessions w"
  using assms by (auto simp: insert_user_def db_exec_unique_def db_stmt_def split: list.splits bool.splits if_splits)

lemma GetOrCreateServiceUser_run:
  assumes "GetOrCreateServiceUser t w = (Inr (u, c), w')"
  shows "\<exists>us. wDB w' = (wDB w)\<lparr>dbUsers := dbUsers (wDB w) @ us\<rparr>" "wNow w' = wNow w" "wSessions w' = wSessions w"
proof -
  from assms obtain found w2 where f: "db_query (\<lambda>d. first_by uID (service_user_query t) (dbUsers d))
      (w\<lparr>wNextID := wNextID w + 1\<rparr>) = (Inr found, w2)"
    and r: "\<exists>user. (case found of Some u \<Rightarrow> returnM u | None \<Rightarrow>
       (let u = zero_user\<lparr>uID := wIDs w (wNextID w), uName := tName t, uUserType := UserTypeService, uTailnetID := tID t\<rparr>
        in seqM (insert_user u) (returnM u))) w2 = (Inr user, w')"
    by (auto simp: GetOrCreateServiceUser_def go_success NextID_def)
  note q = db_query_run[OF f]
  have "(\<exists>us. wDB w' = (wDB w2)\<lparr>dbUsers := dbUsers (wDB w2) @ us\<rparr>) \<and> wNow w' = wNow w2 \<and> wSessions w' = wSessions w2"
  proof (cases found)
    case None
    with r obtain x where x: "insert_user (zero_user\<lparr>uID := wIDs w (wNextID w), uName := tName t, uUserType := UserTypeService, uTailnetID := tID t\<rparr>) w2 = (Inr x, w')"
      by (auto simp: go_success Let_def)
    from insert_user_run[OF x] show ?thesis by blast
  next
    case (Some u)
    with r have "w' = w2" by simp
    moreover have "wDB w2 = (wDB w2)\<lparr>dbUsers := dbUsers (wDB w2) @ []\<rparr>" by simp
    ultimately show ?thesis by blast
  qed
  with q show "\<exists>us. wDB w' = (wDB w)\<lparr>dbUsers := dbUsers (wDB w) @ us\<rparr>" "wNow w' = wNow w" "wSessions w' = wSessions w"
    by auto
qed

text \<open>The machines that a machine gets to see.\<close>

definition peer_candidates :: "db \<Rightarrow> uint64 \<Rightarrow> uint64 \<Rightarrow> Machine list" where
  "peer_candidates d tailnetID machineID =
     map (load_machine_account d)
       (sort_key mID (filter (\<lambda>m. mTailnetID m = tailnetID \<and> mID m \<noteq> machineID) (dbMachines d)))"

definition visible_peers :: "instant \<Rightarrow> ACLPolicy \<Rightarrow> Machine \<Rightarrow> Machine list \<Rightarrow> Machine list" where
  "visible_peers now policies m all =
     (if IsQuarantined now m (Some (mTailnet m)) then []
      else filter (is_peer_of policies m) (filterQuarantined now all (mTailnet m)))"

lemma CreateMapResponse_run:
  assumes run: "CreateMapResponse e k derp delta h w = (Inr (r, h'), w')"
    and peers: "\<not> mqOmitPeers (pmReq h)"
  obtains row m policies candidates
  where "find (\<lambda>x. mID x = pmMachineID h) (dbMachines (wDB w)) = Some row"
    and "m = load_machine_account (wDB w) row" "hjT (tACLPolicy (mTailnet m)) = Some policies"
    and "candidates = peer_candidates (wDB w') (mTailnetID m) (mID m)"
    and "\<exists>us. wDB w' = (wDB w)\<lparr>dbUsers := dbUsers (wDB w) @ us\<rparr>"
    and "map nID (if delta then mrPeersChanged r else mrPeers r) = map mID (visible_peers (wNow w) policies m candidates)"
    and "set (mrPeersRemoved r) = (if delta then set (pmPrevSyncedPeerIDs h) -
           mID ` set (visible_peers (wNow w) policies m candidates) else {})"
    and "set (pmPrevSyncedPeerIDs h') = mID ` set (visible_peers (wNow w) policies m candidates)"
    and "pmReq h' = pmReq h" "pmMachineID h' = pmMachineID h"
    and "mrPacketFilter r = (if IsQuarantined (wNow w) m (Some (mTailnet m)) then []
           else BuildFilterRules policies (filterQuarantined (wNow w) candidates (mTailnet m)) m)"
    and "IsQuarantined (wNow w) m (Some (mTailnet m)) \<Longrightarrow> mrSSHPolicy r = None"
    and "\<exists>su u flagged. ToNode e k (wNow w) (mqVersion (pmReq h)) m (mTailnet m) su False True [] = Inr (mrNode r, u, flagged)"
    and "sorted_wrt (\<lambda>a b. node_routes a \<inter> node_routes b = {}) (mrNode r # (if delta then mrPeersChanged r else mrPeers r))"
proof -
  from run obtain m w1 su c w2 tka w3 w4 node u fl pp where
      m: "GetMachine_row (pmMachineID h) w = (Inr (Some m), w1)"
    and su: "GetOrCreateServiceUser (mTailnet m) w1 = (Inr (su, c), w2)"
    and tka: "GetTailnetTKAState (mTailnetID m) w2 = (Inr tka, w3)"
    and node: "ToNode e k (wNow w3) (mqVersion (pmReq h)) m (mTailnet m) su False True [] = Inr (node, u, fl)"
    and pp: "peers_part e k (wNow w3) (mqVersion (pmReq h)) m su u fl (pmPrevSyncedPeerIDs h) w3 = (Inr pp, w')"
    and r: "r = map_response e delta h m (GetDERPMap (mTailnet m) derp) (fst (tka_info tka)) (snd (tka_info tka)) (wNow w3) node pp"
    and h': "h' = h\<lparr>pmPrevSyncedPeerIDs := ppSynced pp, pmPrevDerpMapChecksum := dmChecksum (GetDERPMap (mTailnet m) derp),
                 pmPrevTKAChecksum := snd (tka_info tka)\<rparr>"
    using peers by (auto simp: CreateMapResponse_def go_success time_Now_def Let_def split: option.splits)
  note m' = db_query_run[OF m[unfolded GetMachine_row_def]]
  note su' = GetOrCreateServiceUser_run[OF su]
  note tka' = db_query_run[OF tka[unfolded GetTailnetTKAState_def]]
  have now: "wNow w3 = wNow w" using m' su' tka' by simp
  from m'(1) obtain row where row: "find (\<lambda>x. mID x = pmMachineID h) (dbMachines (wDB w)) = Some row"
    "m = load_machine_account (wDB w) row"
    by (auto simp: map_option_case split: option.splits)
  from pp obtain all policies acc where
      all: "ListMachinePeers (mTailnetID m) (mID m) w3 = (Inr all, w')"
    and pol: "hjT (tACLPolicy (mTailnet m)) = Some policies"
    and acc: "add_peers e k (wNow w) (mqVersion (pmReq h)) m (mTailnet m) policies su (wSessions w')
        (if IsQuarantined (wNow w) m (Some (mTailnet m)) then [] else filterQuarantined (wNow w) all (mTailnet m))
        \<lparr>pxNodes = [], pxUsers = [u], pxSynced = [], pxPrev = pmPrevSyncedPeerIDs h, pxUserIDs = [upID u], pxFlagged = fl\<rparr> = Inr acc"
    and ppeq: "ppChanged pp = pxNodes acc" "ppSynced pp = pxSynced acc" "ppRemoved pp = pxPrev acc"
      "ppFilter pp = (if IsQuarantined (wNow w) m (Some (mTailnet m)) then []
         else BuildFilterRules policies (filterQuarantined (wNow w) all (mTailnet m)) m)"
      "IsQuarantined (wNow w) m (Some (mTailnet m)) \<Longrightarrow> ppSSH pp = None"
    by (auto simp: peers_part_def go_success now Let_def split: option.splits)
  note all' = db_query_run[OF all[unfolded ListMachinePeers_def]]
  have cand: "all = peer_candidates (wDB w') (mTailnetID m) (mID m)"
    using all' by (simp add: peer_candidates_def)
  have vis: "filter (is_peer_of policies m) (if IsQuarantined (wNow w) m (Some (mTailnet m)) then [] else filterQuarantined (wNow w) all (mTailnet m)) =
      visible_peers (wNow w) policies m all" by (simp add: visible_peers_def)
  note spec = add_peers_spec[OF acc, unfolded vis]
  have "routes_apart ([node] @ pxNodes acc) (pxFlagged acc)"
    by (rule add_peers_routes[OF acc]) (use ToNode_routes[OF node] in \<open>simp add: routes_apart_def\<close>)
  then have apart: "sorted_wrt (\<lambda>a b. node_routes a \<inter> node_routes b = {}) (node # pxNodes acc)"
    by (simp add: routes_apart_def)
  show ?thesis
  proof (rule that[OF row pol cand])
    show "\<exists>us. wDB w' = (wDB w)\<lparr>dbUsers := dbUsers (wDB w) @ us\<rparr>" using m' su' tka' all' by auto
    show "\<exists>su u flagged. ToNode e k (wNow w) (mqVersion (pmReq h)) m (mTailnet m) su False True [] = Inr (mrNode r, u, flagged)"
      using node now by (auto simp: r map_response_def Let_def)
    show "sorted_wrt (\<lambda>a b. node_routes a \<inter> node_routes b = {}) (mrNode r # (if delta then mrPeersChanged r else mrPeers r))"
      using apart peers ppeq by (simp add: r map_response_def Let_def)
  qed (use spec peers ppeq in \<open>auto simp: r h' map_response_def Let_def\<close>)
qed

lemma load_machine_account_simps [simp]:
  "mID (load_machine_account d p) = mID p" "mTailnetID (load_machine_account d p) = mTailnetID p"
  "mTailnet (load_machine_account d p) = tailnet_of d (mTailnetID p)"
  by (simp_all add: load_machine_account_def)

lemma IsQuarantined_load [simp]: "IsQuarantined now (load_machine_account d p) t = IsQuarantined now p t"
  by (cases t) (simp_all add: IsQuarantined_def IsExpired_def load_machine_account_def)

lemma quarantined_cut_off:
  assumes run: "CreateMapResponse e k derp delta h w = (Inr (r, h'), w')"
    and peers: "\<not> mqOmitPeers (pmReq h)"
    and row: "find (\<lambda>x. mID x = pmMachineID h) (dbMachines (wDB w)) = Some row"
    and quarantined: "IsQuarantined (wNow w) row (Some (tailnet_of (wDB w) (mTailnetID row)))"
  shows "mrPeers r = [] \<and> mrPeersChanged r = [] \<and> mrPacketFilter r = [] \<and> mrSSHPolicy r = None \<and>
    set (mrPeersRemoved r) = (if delta then set (pmPrevSyncedPeerIDs h) else {})"
proof -
  have q: "IsQuarantined (wNow w) (load_machine_account (wDB w) row) (Some (mTailnet (load_machine_account (wDB w) row)))"
    using quarantined by simp
  have full: "\<not> delta \<Longrightarrow> mrPeersChanged r = []" and part: "delta \<Longrightarrow> mrPeers r = []"
    using run by (auto simp: CreateMapResponse_def go_success map_response_def Let_def split: option.splits)
  from run peers show ?thesis
    by (rule CreateMapResponse_run) (use row q full part in \<open>auto simp: visible_peers_def split: if_splits\<close>)
qed

text \<open>
  C3. A machine whose key has expired, or that waits for authorization, is cut off: the map it
  is sent names no peer, carries an empty packet filter and no SSH policy, and an update
  takes back every peer it was sent before.
\<close>

theorem quarantined_machine_cut_off:
  assumes run: "CreateMapResponse e k derp delta h w = (Inr (r, h'), w')"
    and peers: "\<not> mqOmitPeers (pmReq h)"
    and row: "find (\<lambda>x. mID x = pmMachineID h) (dbMachines (wDB w)) = Some row"
    and quarantined: "IsQuarantined (wNow w) row (Some (tailnet_of (wDB w) (mTailnetID row)))"
  shows "mrPeers r = [] \<and> mrPeersChanged r = [] \<and> mrPacketFilter r = [] \<and> mrSSHPolicy r = None \<and>
    set (mrPeersRemoved r) = (if delta then set (pmPrevSyncedPeerIDs h) else {})"
  using assms by (rule quarantined_cut_off)

text \<open>
  C4. The peers in a map are exactly the machines of the same tailnet that are not
  quarantined and that the access policy connects to the machine in one direction or the
  other; a quarantined machine is in nobody's map.
\<close>

theorem map_peers_exact:
  assumes run: "CreateMapResponse e k derp delta h w = (Inr (r, h'), w')"
    and peers: "\<not> mqOmitPeers (pmReq h)"
    and row: "find (\<lambda>x. mID x = pmMachineID h) (dbMachines (wDB w)) = Some row"
    and m: "m = load_machine_account (wDB w) row"
    and policy: "hjT (tACLPolicy (mTailnet m)) = Some policies"
    and live: "\<not> IsQuarantined (wNow w) m (Some (mTailnet m))"
  shows "nID ` set (if delta then mrPeersChanged r else mrPeers r) =
    {mID p | p. p \<in> set (dbMachines (wDB w)) \<and> mTailnetID p = mTailnetID row \<and> mID p \<noteq> mID row \<and>
       \<not> IsQuarantined (wNow w) p (Some (mTailnet m)) \<and>
       is_peer_of policies m (load_machine_account (wDB w') p)}"
proof -
  from run peers obtain us where db: "wDB w' = (wDB w)\<lparr>dbUsers := dbUsers (wDB w) @ us\<rparr>"
    and ns: "map nID (if delta then mrPeersChanged r else mrPeers r) =
       map mID (visible_peers (wNow w) policies m (peer_candidates (wDB w') (mTailnetID m) (mID m)))"
    by (rule CreateMapResponse_run) (use row m policy in auto)
  have "nID ` set (if delta then mrPeersChanged r else mrPeers r) =
      mID ` set (visible_peers (wNow w) policies m (peer_candidates (wDB w') (mTailnetID m) (mID m)))"
    using arg_cong[OF ns, of set] by simp
  also have "set (visible_peers (wNow w) policies m (peer_candidates (wDB w') (mTailnetID m) (mID m))) =
      load_machine_account (wDB w') ` {p \<in> set (dbMachines (wDB w)). mTailnetID p = mTailnetID row \<and> mID p \<noteq> mID row \<and>
       \<not> IsQuarantined (wNow w) p (Some (mTailnet m)) \<and> is_peer_of policies m (load_machine_account (wDB w') p)}"
    using live by (auto simp: visible_peers_def filterQuarantined_def peer_candidates_def db m)
  also have "mID ` \<dots> = {mID p | p. p \<in> set (dbMachines (wDB w)) \<and> mTailnetID p = mTailnetID row \<and> mID p \<noteq> mID row \<and>
       \<not> IsQuarantined (wNow w) p (Some (mTailnet m)) \<and> is_peer_of policies m (load_machine_account (wDB w') p)}"
    by (auto simp: image_image)
  finally show ?thesis .
qed

text \<open>
  No route has two owners in a map: the subnet routes of any two nodes of a response, the
  node itself and its peers, are disjoint.
\<close>

theorem primary_routes_unique:
  assumes "CreateMapResponse e k derp delta h w = (Inr (r, h'), w')" and "\<not> mqOmitPeers (pmReq h)"
  shows "sorted_wrt (\<lambda>a b. node_routes a \<inter> node_routes b = {})
    (mrNode r # (if delta then mrPeersChanged r else mrPeers r))"
  using assms by (rule CreateMapResponse_run)

text \<open>
  Funnel is never granted: whatever attributes the policy assigns, the node of a response
  does not carry the funnel attribute, neither as a capability nor in its capability map.
\<close>

theorem funnel_never_granted:
  assumes "CreateMapResponse e k derp delta h w = (Inr (r, h'), w')"
  shows "teNodeAttrFunnel k \<notin> set (nCapabilities (mrNode r)) \<union> set (option_or (nCapMap (mrNode r)) [])"
proof -
  from assms obtain m now su u fl where "ToNode e k now (mqVersion (pmReq h)) m (mTailnet m) su False True [] = Inr (mrNode r, u, fl)"
    by (auto simp: CreateMapResponse_def go_success map_response_def Let_def split: option.splits)
  then show ?thesis by (rule ToNode_result(3))
qed

section \<open>The client's view\<close>

text \<open>
  A client that streams: it starts from a full response and applies the updates it is sent.
  Between two responses the server's state is arbitrary.
\<close>

inductive client_view :: "env \<Rightarrow> tail_env \<Rightarrow> DERPMap \<Rightarrow> PollNetMapper \<Rightarrow> uint64 set \<Rightarrow> bool"
  for e k derp where
  start: "CreateMapResponse e k derp False (NewPollNetMapper req mid) w = (Inr (r, h'), w') \<Longrightarrow>
    \<not> mqOmitPeers req \<Longrightarrow> client_view e k derp h' (nID ` set (mrPeers r))"
| update: "client_view e k derp h c \<Longrightarrow> CreateMapResponse e k derp True h w = (Inr (r, h'), w') \<Longrightarrow>
    client_view e k derp h' ((c \<union> nID ` set (mrPeersChanged r)) - set (mrPeersRemoved r))"

lemma client_view_synced:
  "client_view e k derp h c \<Longrightarrow> \<not> mqOmitPeers (pmReq h) \<and> c = set (pmPrevSyncedPeerIDs h)"
proof (induction rule: client_view.induct)
  case (start req mid w r h' w')
  have "\<not> mqOmitPeers (pmReq (NewPollNetMapper req mid))" using start(2) by (simp add: NewPollNetMapper_def)
  with start(1) show ?case
  proof (rule CreateMapResponse_run)
    fix row m policies candidates
    assume a: "map nID (if False then mrPeersChanged r else mrPeers r) = map mID (visible_peers (wNow w) policies m candidates)"
      "set (pmPrevSyncedPeerIDs h') = mID ` set (visible_peers (wNow w) policies m candidates)"
      "pmReq h' = pmReq (NewPollNetMapper req mid)"
    from arg_cong[OF a(1), of set] a(2,3) start(2) show ?thesis by (simp add: NewPollNetMapper_def)
  qed
next
  case (update h c w r h' w')
  then have c: "\<not> mqOmitPeers (pmReq h)" "c = set (pmPrevSyncedPeerIDs h)" by auto
  from update(2) c(1) show ?case
  proof (rule CreateMapResponse_run)
    fix row m policies candidates
    assume a: "map nID (if True then mrPeersChanged r else mrPeers r) = map mID (visible_peers (wNow w) policies m candidates)"
      "set (mrPeersRemoved r) = (if True then set (pmPrevSyncedPeerIDs h) -
           mID ` set (visible_peers (wNow w) policies m candidates) else {})"
      "set (pmPrevSyncedPeerIDs h') = mID ` set (visible_peers (wNow w) policies m candidates)"
      "pmReq h' = pmReq h"
    from arg_cong[OF a(1), of set] a(2,3,4) c show ?thesis by auto
  qed
qed

text \<open>
  Incremental updates lose nothing: after any number of them, whatever happened to the
  server's state in between, the set of peers the client has accumulated is the set the last
  response was computed from; no machine that vanished stays behind.
\<close>

theorem client_view_exact:
  assumes "client_view e k derp h c" and "CreateMapResponse e k derp True h w = (Inr (r, h'), w')"
  shows "(c \<union> nID ` set (mrPeersChanged r)) - set (mrPeersRemoved r) = nID ` set (mrPeersChanged r)"
proof -
  from client_view_synced[OF assms(1)] have c: "\<not> mqOmitPeers (pmReq h)" "c = set (pmPrevSyncedPeerIDs h)" by auto
  from assms(2) c(1) show ?thesis
  proof (rule CreateMapResponse_run)
    fix row m policies candidates
    assume a: "map nID (if True then mrPeersChanged r else mrPeers r) = map mID (visible_peers (wNow w) policies m candidates)"
      "set (mrPeersRemoved r) = (if True then set (pmPrevSyncedPeerIDs h) -
           mID ` set (visible_peers (wNow w) policies m candidates) else {})"
    from arg_cong[OF a(1), of set] a(2) c show ?thesis by auto
  qed
qed

section \<open>A map is always produced\<close>

definition machine_ok :: "tail_env \<Rightarrow> Machine \<Rightarrow> bool" where
  "machine_ok k m \<longleftrightarrow> ParseNodePublicKey k (mNodeKey m) \<noteq> None \<and> ParseMachinePublicKey k (mMachineKey m) \<noteq> None \<and>
     (mDiscoKey m = [] \<or> ParseDiscoPublicKey k (mDiscoKey m) \<noteq> None) \<and> Is4 (mIPv4 m) \<and> Is6 (mIPv6 m)"

definition tailnet_ok :: "Tailnet \<Rightarrow> bool" where
  "tailnet_ok t \<longleftrightarrow> hjT (tIAMPolicy t) \<noteq> None \<and> hjT (tACLPolicy t) \<noteq> None"

lemma node_addresses_returns: "Is4 (mIPv4 m) \<Longrightarrow> Is6 (mIPv6 m) \<Longrightarrow> \<exists>as. node_addresses m = Inr as"
  by (cases "mIPv4 m"; cases "mIPv6 m") (auto simp: node_addresses_def addr_Prefix_def)

lemma ToNode_returns:
  assumes "machine_ok k m" and "tailnet_ok t"
  shows "\<exists>n u fl'. ToNode e k now capVer m t su peer connected fl = Inr (n, u, fl')"
proof -
  from assms obtain as where "node_addresses m = Inr as" using node_addresses_returns by (auto simp: machine_ok_def)
  with assms show ?thesis by (auto simp: ToNode_def machine_ok_def tailnet_ok_def Let_def)
qed

lemma add_peers_returns:
  assumes "\<And>p. p \<in> set ps \<Longrightarrow> machine_ok k p" and "tailnet_ok t"
  shows "\<exists>acc'. add_peers e k now capVer m t policies su sm ps acc = Inr acc'"
  using assms(1)
proof (induction ps arbitrary: acc)
  case (Cons p ps)
  have "\<exists>acc1. add_peer e k now capVer m t policies su sm p acc = Inr acc1"
    using ToNode_returns[OF Cons.prems[of p] assms(2), of e now capVer su True "HasSession (mTailnetID p) (mID p) sm" "pxFlagged acc"]
    by (auto simp: add_peer_def)
  with Cons.IH Cons.prems show ?case by fastforce
qed simp

lemma GetOrCreateServiceUser_returns:
  assumes "wFaults w = []" and "wIDs w (wNextID w) \<notin> uID ` set (dbUsers (wDB w))"
  shows "\<exists>u c w'. GetOrCreateServiceUser t w = (Inr (u, c), w') \<and> wFaults w' = []"
proof (cases "first_by uID (service_user_query t) (dbUsers (wDB w))")
  case None
  with assms show ?thesis
    by (auto simp: GetOrCreateServiceUser_def bindM_def seqM_def run_ok insert_user_def zero_user_def Let_def list_ex_iff image_iff)
next
  case (Some u)
  with assms show ?thesis by (simp add: GetOrCreateServiceUser_def bindM_def run_ok)
qed

lemma machine_ok_load [simp]: "machine_ok k (load_machine_account d m) = machine_ok k m"
  by (simp add: machine_ok_def load_machine_account_def)

lemma CreateMapResponse_returns:
  assumes "wFaults w = []" and "wIDs w (wNextID w) \<notin> uID ` set (dbUsers (wDB w))"
    and "find (\<lambda>x. mID x = pmMachineID h) (dbMachines (wDB w)) = Some row"
    and "tailnet_ok (tailnet_of (wDB w) (mTailnetID row))"
    and "\<And>p. p \<in> set (dbMachines (wDB w)) \<Longrightarrow> machine_ok k p"
  shows "\<exists>r h' w'. CreateMapResponse e k derp delta h w = (Inr (r, h'), w')"
proof -
  let ?m = "load_machine_account (wDB w) row"
  have row: "machine_ok k ?m" using assms(3,5) find_SomeD by fastforce
  from GetOrCreateServiceUser_returns[OF assms(1,2)] obtain su c w1 where
    su: "GetOrCreateServiceUser (tailnet_of (wDB w) (mTailnetID row)) w = (Inr (su, c), w1)" "wFaults w1 = []" by blast
  from GetOrCreateServiceUser_run[OF su(1)] obtain us where
    w1: "wDB w1 = (wDB w)\<lparr>dbUsers := dbUsers (wDB w) @ us\<rparr>" by blast
  from ToNode_returns[OF row, of "mTailnet ?m" e "wNow w1" "mqVersion (pmReq h)" su False True "[]"] assms(4)
  obtain n u fl where n: "ToNode e k (wNow w1) (mqVersion (pmReq h)) ?m (mTailnet ?m) su False True [] = Inr (n, u, fl)"
    by auto
  from assms(4) obtain pol where pol: "hjT (tACLPolicy (tailnet_of (wDB w) (mTailnetID row))) = Some pol"
    by (auto simp: tailnet_ok_def)
  have "\<exists>pp. peers_part e k (wNow w1) (mqVersion (pmReq h)) ?m su u fl (pmPrevSyncedPeerIDs h) w1 = (Inr pp, w1)"
  proof -
    let ?cs = "if IsQuarantined (wNow w1) ?m (Some (mTailnet ?m)) then []
      else filterQuarantined (wNow w1) (peer_candidates (wDB w1) (mTailnetID ?m) (mID ?m)) (mTailnet ?m)"
    have "\<exists>acc'. add_peers e k (wNow w1) (mqVersion (pmReq h)) ?m (mTailnet ?m) pol su (wSessions w1) ?cs
        \<lparr>pxNodes = [], pxUsers = [u], pxSynced = [], pxPrev = pmPrevSyncedPeerIDs h, pxUserIDs = [upID u], pxFlagged = fl\<rparr> = Inr acc'"
      using assms(4,5) by (intro add_peers_returns) (auto simp: filterQuarantined_def peer_candidates_def w1 split: if_splits)
    then show ?thesis
      using pol by (auto simp: peers_part_def ListMachinePeers_def db_query_ok su(2) peer_candidates_def Let_def split: if_splits)
  qed
  then show ?thesis
    using n by (auto simp: CreateMapResponse_def GetMachine_row_def GetTailnetTKAState_def db_query_ok assms(1,3) su time_Now_def Let_def)
qed

text \<open>
  C28. A registered machine always gets its map: when the statements succeed, the machine is in
  the table, its tailnet has its two policies, and the keys and addresses stored for the
  machines of the tailnet are well formed, a response is produced; no nil pointer is
  followed and no peer can spoil it.
\<close>

theorem CreateMapResponse_total:
  assumes "wFaults w = []" and "wIDs w (wNextID w) \<notin> uID ` set (dbUsers (wDB w))"
    and "find (\<lambda>x. mID x = pmMachineID h) (dbMachines (wDB w)) = Some row"
    and "tailnet_ok (tailnet_of (wDB w) (mTailnetID row))"
    and "\<And>p. p \<in> set (dbMachines (wDB w)) \<Longrightarrow> machine_ok k p"
  shows "\<exists>r h' w'. CreateMapResponse e k derp delta h w = (Inr (r, h'), w')"
  using assms by (rule CreateMapResponse_returns)

section \<open>Visibility is mutual\<close>

lemma user_of_append: "(\<exists>u \<in> set (dbUsers d). uID u = i) \<Longrightarrow> user_of (d\<lparr>dbUsers := dbUsers d @ us\<rparr>) i = user_of d i"
  by (auto simp: user_of_def find_append find_None_iff split: option.splits)

lemma load_machine_append:
  "(\<exists>u \<in> set (dbUsers d). uID u = mUserID p) \<Longrightarrow>
   load_machine_account (d\<lparr>dbUsers := dbUsers d @ us\<rparr>) p = load_machine_account d p"
  by (cases "uAccountID (user_of d (mUserID p))")
    (simp_all add: load_machine_account_def user_of_append tailnet_of_def user_with_account_def account_of_def)

definition sees :: "instant \<Rightarrow> db \<Rightarrow> Machine \<Rightarrow> Machine \<Rightarrow> bool" where
  "sees now d a b \<longleftrightarrow> mTailnetID a = mTailnetID b \<and> mID a \<noteq> mID b \<and>
     (let t = tailnet_of d (mTailnetID a)
      in \<not> IsQuarantined now a (Some t) \<and> \<not> IsQuarantined now b (Some t) \<and>
         (case hjT (tACLPolicy t) of None \<Rightarrow> False
          | Some policies \<Rightarrow> is_peer_of policies (load_machine_account d a) (load_machine_account d b)))"

lemma sees_sym: "sees now d a b = sees now d b a"
  by (auto simp: sees_def is_peer_of_def Let_def split: option.splits)

lemma response_peers_sees:
  assumes run: "CreateMapResponse e k derp delta h w = (Inr (r, h'), w')" and peers: "\<not> mqOmitPeers (pmReq h)"
    and row: "find (\<lambda>x. mID x = pmMachineID h) (dbMachines (wDB w)) = Some a"
    and users: "\<And>p. p \<in> set (dbMachines (wDB w)) \<Longrightarrow> \<exists>u \<in> set (dbUsers (wDB w)). uID u = mUserID p"
  shows "nID ` set (if delta then mrPeersChanged r else mrPeers r) = mID ` {b \<in> set (dbMachines (wDB w)). sees (wNow w) (wDB w) a b}"
proof -
  let ?m = "load_machine_account (wDB w) a"
  from run peers obtain policies us where pol: "hjT (tACLPolicy (mTailnet ?m)) = Some policies"
    and db: "wDB w' = (wDB w)\<lparr>dbUsers := dbUsers (wDB w) @ us\<rparr>"
    and ns: "map nID (if delta then mrPeersChanged r else mrPeers r) =
       map mID (visible_peers (wNow w) policies ?m (peer_candidates (wDB w') (mTailnetID ?m) (mID ?m)))"
    by (rule CreateMapResponse_run) (use row in auto)
  have eq: "set (visible_peers (wNow w) policies ?m (peer_candidates (wDB w') (mTailnetID ?m) (mID ?m))) =
      load_machine_account (wDB w) ` {b \<in> set (dbMachines (wDB w)). sees (wNow w) (wDB w) a b}"
    using pol users by (auto simp: visible_peers_def filterQuarantined_def peer_candidates_def db load_machine_append sees_def Let_def)
  have "nID ` set (if delta then mrPeersChanged r else mrPeers r) = mID ` set (visible_peers (wNow w) policies ?m (peer_candidates (wDB w') (mTailnetID ?m) (mID ?m)))"
    using arg_cong[OF ns, of set] by simp
  then show ?thesis unfolding eq by (auto simp: image_image)
qed

text \<open>
  C5. Visibility is mutual: in the full maps of two machines made from the same state, one has
  the other as a peer exactly when the other has the one.
\<close>

theorem visibility_mutual:
  assumes run1: "CreateMapResponse e k derp False h1 w = (Inr (r1, h1'), w1)" and "\<not> mqOmitPeers (pmReq h1)"
    and run2: "CreateMapResponse e k derp False h2 w = (Inr (r2, h2'), w2)" and "\<not> mqOmitPeers (pmReq h2)"
    and ids: "distinct (map mID (dbMachines (wDB w)))"
    and users: "\<And>p. p \<in> set (dbMachines (wDB w)) \<Longrightarrow> \<exists>u \<in> set (dbUsers (wDB w)). uID u = mUserID p"
  shows "pmMachineID h2 \<in> nID ` set (mrPeers r1) \<longleftrightarrow> pmMachineID h1 \<in> nID ` set (mrPeers r2)"
proof -
  from run1 assms(2) obtain a where a: "find (\<lambda>x. mID x = pmMachineID h1) (dbMachines (wDB w)) = Some a"
    by (rule CreateMapResponse_run)
  from run2 assms(4) obtain b where b: "find (\<lambda>x. mID x = pmMachineID h2) (dbMachines (wDB w)) = Some b"
    by (rule CreateMapResponse_run)
  note a' = find_SomeD[OF a] and b' = find_SomeD[OF b]
  have inj: "inj_on mID (set (dbMachines (wDB w)))" using ids by (simp add: distinct_map)
  have mem: "mID y \<in> mID ` {x \<in> set (dbMachines (wDB w)). P x} \<longleftrightarrow> P y" if "y \<in> set (dbMachines (wDB w))" for y P
    using inj that by (auto dest: inj_onD)
  have "pmMachineID h2 \<in> nID ` set (mrPeers r1) \<longleftrightarrow> sees (wNow w) (wDB w) a b"
    using response_peers_sees[OF run1 assms(2) a users] mem[of b "sees (wNow w) (wDB w) a"] b' by simp
  moreover have "pmMachineID h1 \<in> nID ` set (mrPeers r2) \<longleftrightarrow> sees (wNow w) (wDB w) b a"
    using response_peers_sees[OF run2 assms(4) b users] mem[of a "sees (wNow w) (wDB w) b"] a' by simp
  ultimately show ?thesis by (simp add: sees_sym)
qed

section \<open>Instances\<close>

definition sample_tail :: tail_env where
  "sample_tail = \<lparr>teUnmarshalNode = Some, teUnmarshalMachine = Some, teUnmarshalDisco = Some,
     teCapabilityAdmin = ''is-admin'', teCapabilityFileSharing = ''file-sharing'', teCapabilitySSH = ''ssh'',
     teCapabilityHTTPS = ''https'', teCapabilityTailnetLock = ''tailnet-lock'', teNodeAttrFunnel = ''funnel'',
     teTCP = ''tcp'', teUDP = ''udp''\<rparr>"

definition sample_request :: MapRequest where
  "sample_request = \<lparr>mqVersion = 90, mqOmitPeers = False\<rparr>"

definition sample_mapper :: "uint64 \<Rightarrow> PollNetMapper" where
  "sample_mapper i = NewPollNetMapper sample_request i"

definition sample_derp :: DERPMap where
  "sample_derp = \<lparr>dmChecksum = ''c'', dmDERPMap = ''{}''\<rparr>"

lemmas key_parsers = ParseNodePublicKey_def ParseMachinePublicKey_def ParseDiscoPublicKey_def

text \<open>The sample server with the laptop's key expired.\<close>

definition expired_laptop :: Machine where
  "expired_laptop = (machine_row sample_laptop)\<lparr>mExpiresAt := 5\<rparr>"

definition expired_world :: world where
  "expired_world = sample_world\<lparr>wDB := sample_db\<lparr>dbMachines := [expired_laptop, machine_row sample_server]\<rparr>\<rparr>"

lemma sample_run:
  assumes "w = sample_world \<or> w = expired_world" and "i = 101 \<or> i = 102"
  shows "\<exists>r h' w'. CreateMapResponse sample_env sample_tail sample_derp delta
    ((sample_mapper i)\<lparr>pmPrevSyncedPeerIDs := prev\<rparr>) w = (Inr (r, h'), w')"
proof -
  have "\<exists>row. find (\<lambda>x. mID x = i) (dbMachines (wDB w)) = Some row \<and> mTailnetID row = 1"
    using assms by (auto simp: sample_world_def expired_world_def expired_laptop_def sample_db_def machine_row_def sample_defs)
  then obtain row where row: "find (\<lambda>x. mID x = i) (dbMachines (wDB w)) = Some row" "mTailnetID row = 1" by blast
  have "tailnet_of (wDB w) 1 = sample_tailnet"
    using assms by (auto simp: tailnet_of_def sample_world_def expired_world_def sample_db_def sample_tailnet_def)
  moreover have "tailnet_ok sample_tailnet" by (simp add: tailnet_ok_def sample_tailnet_def)
  moreover have "wFaults w = []" "wIDs w (wNextID w) \<notin> uID ` set (dbUsers (wDB w))"
    using assms by (auto simp: sample_world_def expired_world_def sample_db_def user_row_def sample_defs)
  moreover have "machine_ok sample_tail p" if "p \<in> set (dbMachines (wDB w))" for p
    using assms that by (auto simp: sample_world_def expired_world_def expired_laptop_def sample_db_def machine_row_def sample_defs
        machine_ok_def key_parsers sample_tail_def)
  ultimately show ?thesis
    using row by (intro CreateMapResponse_returns[where row = row]) (simp_all add: sample_mapper_def NewPollNetMapper_def)
qed

lemma sample_mapper_simps [simp]:
  "\<not> mqOmitPeers (pmReq (sample_mapper i))" "pmMachineID (sample_mapper i) = i"
  "(sample_mapper i)\<lparr>pmPrevSyncedPeerIDs := []\<rparr> = sample_mapper i"
  by (simp_all add: sample_mapper_def NewPollNetMapper_def sample_request_def)

lemma sample_users_exist: "p \<in> set (dbMachines (wDB sample_world)) \<Longrightarrow> \<exists>u \<in> set (dbUsers (wDB sample_world)). uID u = mUserID p"
  by (auto simp: sample_world_def sample_db_def machine_row_def user_row_def sample_defs)

lemma sample_world_laptop:
  "find (\<lambda>x. mID x = 101) (dbMachines (wDB sample_world)) = Some (machine_row sample_laptop)"
  "tailnet_of (wDB sample_world) (mTailnetID (machine_row sample_laptop)) = sample_tailnet"
  "hjT (tACLPolicy sample_tailnet) = Some sample_policy"
  by (simp_all add: sample_world_def sample_db_def machine_row_def tailnet_of_def sample_laptop_def sample_tailnet_def)

theorem CreateMapResponse_total_witness:
  "\<exists>r h' w'. CreateMapResponse sample_env sample_tail sample_derp False (sample_mapper 101) sample_world = (Inr (r, h'), w')"
  by (rule CreateMapResponse_total[where row = "machine_row sample_laptop"])
    (auto simp: sample_world_def tailnet_ok_def machine_ok_def key_parsers sample_tail_def
      machine_row_def sample_db_def user_row_def tailnet_of_def sample_defs)

theorem quarantined_machine_cut_off_witness:
  "\<exists>r h' w'. CreateMapResponse sample_env sample_tail sample_derp True ((sample_mapper 101)\<lparr>pmPrevSyncedPeerIDs := [102]\<rparr>) expired_world = (Inr (r, h'), w') \<and>
     mrPeersChanged r = [] \<and> set (mrPeersRemoved r) = {102}"
proof -
  obtain r h' w' where run: "CreateMapResponse sample_env sample_tail sample_derp True ((sample_mapper 101)\<lparr>pmPrevSyncedPeerIDs := [102]\<rparr>) expired_world = (Inr (r, h'), w')"
    using sample_run[of expired_world 101] by blast
  have "mrPeers r = [] \<and> mrPeersChanged r = [] \<and> mrPacketFilter r = [] \<and> mrSSHPolicy r = None \<and>
    set (mrPeersRemoved r) = (if True then set (pmPrevSyncedPeerIDs ((sample_mapper 101)\<lparr>pmPrevSyncedPeerIDs := [102]\<rparr>)) else {})"
    by (rule quarantined_machine_cut_off[OF run, where row = expired_laptop])
      (simp_all add: expired_world_def expired_laptop_def sample_world_def machine_row_def sample_laptop_def IsQuarantined_def IsExpired_def)
  with run show ?thesis by auto
qed

theorem map_peers_exact_witness:
  "\<exists>r h' w'. CreateMapResponse sample_env sample_tail sample_derp False (sample_mapper 101) sample_world = (Inr (r, h'), w') \<and>
     nID ` set (mrPeers r) \<subseteq> {102, 103}"
proof -
  obtain r h' w' where run: "CreateMapResponse sample_env sample_tail sample_derp False (sample_mapper 101) sample_world = (Inr (r, h'), w')"
    using sample_run[of sample_world 101 False "[]"] by auto
  have live: "\<not> IsQuarantined (wNow sample_world) (machine_row sample_laptop) (Some sample_tailnet)"
    by (simp add: IsQuarantined_def IsExpired_def sample_world_def machine_row_def sample_defs)
  have "nID ` set (if False then mrPeersChanged r else mrPeers r) =
    {mID p | p. p \<in> set (dbMachines (wDB sample_world)) \<and> mTailnetID p = mTailnetID (machine_row sample_laptop) \<and> mID p \<noteq> mID (machine_row sample_laptop) \<and>
       \<not> IsQuarantined (wNow sample_world) p (Some (mTailnet (load_machine_account (wDB sample_world) (machine_row sample_laptop)))) \<and>
       is_peer_of sample_policy (load_machine_account (wDB sample_world) (machine_row sample_laptop)) (load_machine_account (wDB w') p)}"
    by (rule map_peers_exact[OF run, where row = "machine_row sample_laptop" and policies = sample_policy])
      (simp_all add: live sample_world_laptop)
  then have "nID ` set (mrPeers r) \<subseteq> {102, 103}"
    by (auto simp: sample_world_def sample_db_def machine_row_def sample_defs)
  with run show ?thesis by blast
qed

theorem primary_routes_unique_witness:
  "\<exists>r h' w'. CreateMapResponse sample_env sample_tail sample_derp False (sample_mapper 101) sample_world = (Inr (r, h'), w') \<and>
     sorted_wrt (\<lambda>a b. node_routes a \<inter> node_routes b = {}) (mrNode r # mrPeers r)"
proof -
  obtain r h' w' where run: "CreateMapResponse sample_env sample_tail sample_derp False (sample_mapper 101) sample_world = (Inr (r, h'), w')"
    using sample_run[of sample_world 101 False "[]"] by auto
  from primary_routes_unique[OF run] run show ?thesis by auto
qed

theorem funnel_never_granted_witness:
  "''funnel'' \<in> set (NodeCapabilities sample_policy sample_laptop) \<and>
   (\<exists>r h' w'. CreateMapResponse sample_env sample_tail sample_derp False (sample_mapper 101) sample_world = (Inr (r, h'), w') \<and>
     ''funnel'' \<notin> set (option_or (nCapMap (mrNode r)) []))"
proof -
  obtain r h' w' where run: "CreateMapResponse sample_env sample_tail sample_derp False (sample_mapper 101) sample_world = (Inr (r, h'), w')"
    using sample_run[of sample_world 101 False "[]"] by auto
  have "''funnel'' \<in> set (NodeCapabilities sample_policy sample_laptop)"
    by (simp add: NodeCapabilities_set sample_policy_def attr_matches_def)
  with funnel_never_granted[OF run] run show ?thesis by (auto simp: sample_tail_def)
qed

theorem client_view_exact_witness:
  "\<exists>h c r h' w'. client_view sample_env sample_tail sample_derp h c \<and>
     CreateMapResponse sample_env sample_tail sample_derp True h sample_world = (Inr (r, h'), w') \<and>
     (c \<union> nID ` set (mrPeersChanged r)) - set (mrPeersRemoved r) = nID ` set (mrPeersChanged r)"
proof -
  obtain r0 h0 w0 where run0: "CreateMapResponse sample_env sample_tail sample_derp False (sample_mapper 101) sample_world = (Inr (r0, h0), w0)"
    using sample_run[of sample_world 101 False "[]"] by auto
  then have view: "client_view sample_env sample_tail sample_derp h0 (nID ` set (mrPeers r0))"
    unfolding sample_mapper_def by (rule client_view.start) (simp add: sample_request_def)
  have h0: "pmMachineID h0 = 101" using run0 by (rule CreateMapResponse_run) simp_all
  have "\<exists>r h' w'. CreateMapResponse sample_env sample_tail sample_derp True h0 sample_world = (Inr (r, h'), w')"
    by (rule CreateMapResponse_returns[where row = "machine_row sample_laptop"])
      (auto simp: h0 sample_world_def tailnet_ok_def machine_ok_def key_parsers sample_tail_def
      machine_row_def sample_db_def user_row_def tailnet_of_def sample_defs)
  then obtain r h' w' where run: "CreateMapResponse sample_env sample_tail sample_derp True h0 sample_world = (Inr (r, h'), w')" by blast
  from client_view_exact[OF view run] view run show ?thesis by blast
qed

theorem visibility_mutual_witness:
  "\<exists>r1 r2 h1 h2 w1 w2.
     CreateMapResponse sample_env sample_tail sample_derp False (sample_mapper 101) sample_world = (Inr (r1, h1), w1) \<and>
     CreateMapResponse sample_env sample_tail sample_derp False (sample_mapper 102) sample_world = (Inr (r2, h2), w2) \<and>
     (102 \<in> nID ` set (mrPeers r1)) = (101 \<in> nID ` set (mrPeers r2))"
proof -
  obtain r1 h1 w1 where run1: "CreateMapResponse sample_env sample_tail sample_derp False (sample_mapper 101) sample_world = (Inr (r1, h1), w1)"
    using sample_run[of sample_world 101 False "[]"] by auto
  obtain r2 h2 w2 where run2: "CreateMapResponse sample_env sample_tail sample_derp False (sample_mapper 102) sample_world = (Inr (r2, h2), w2)"
    using sample_run[of sample_world 102 False "[]"] by auto
  have "distinct (map mID (dbMachines (wDB sample_world)))"
    by (simp add: sample_world_def sample_db_def machine_row_def sample_defs)
  from visibility_mutual[OF run1 _ run2 _ this sample_users_exist] run1 run2 show ?thesis by auto
qed

end
