(* ===== verification/Tenancy.thy ===== *)
theory Tenancy
  imports Authorization NetMap
begin

text \<open>
  The properties of the RPC interface as a whole, all of them consequences of the
  refinement of \<open>Authorization\<close>: a request moves the tables only along the changes that
  its sender is entitled to. The last section is about the requests that cut off a machine,
  a person or a tailnet.
\<close>

section \<open>A request, from the token to the tables\<close>

text \<open>The principal that a request comes from.\<close>

definition requester :: "svc_env \<Rightarrow> string \<Rightarrow> world \<Rightarrow> Principal option" where
  "requester v authorizationHeader w =
     (case exchangeToken v (TrimPrefix authorizationHeader ''Bearer '') w of (Inr p, _) \<Rightarrow> p | (Inl _, _) \<Rightarrow> None)"

lemma WrapUnary_run: "WrapUnary m w = (res, w') \<Longrightarrow> \<exists>r. m w = (r, w') \<and> (r = Inr () \<longleftrightarrow> res = Inr ())"
  by (auto simp: WrapUnary_def split: prod.splits sum.splits)

lemma serve_None:
  assumes "serve v h r w = (res, w')" and "requester v h w = None"
  shows "wDB w' = wDB w \<and> res \<noteq> Inr ()"
proof -
  obtain x w1 where x: "exchangeToken v (TrimPrefix h ''Bearer '') w = (x, w1)" by fastforce
  note q = quietD[OF quiet_exchangeToken x]
  from WrapUnary_run[OF assms(1)[unfolded serve_def]] obtain y where
    "AuthenticationInterceptor v (\<lambda>p. run_rpc v (CurrentPrincipal p) r) ''/rpc'' h w = (y, w')" "y = Inr () \<longleftrightarrow> res = Inr ()" by blast
  with x assms(2) have "w' = w1 \<and> y \<noteq> Inr ()"
    by (auto simp: AuthenticationInterceptor_def HasSuffix_def HasPrefix_def requester_def bindM_def split: sum.splits option.splits)
  with q \<open>y = Inr () \<longleftrightarrow> res = Inr ()\<close> show ?thesis by simp
qed

lemma serve_Some:
  assumes "serve v h r w = (res, w')" and "requester v h w = Some p"
  obtains y w1 where "quiet w w1" "run_rpc v p r w1 = (y, w')" "y = Inr () \<longleftrightarrow> res = Inr ()"
proof -
  from assms(2) obtain w1 where x: "exchangeToken v (TrimPrefix h ''Bearer '') w = (Inr (Some p), w1)"
    by (auto simp: requester_def split: prod.splits sum.splits)
  with quiet_exchangeToken[of v "TrimPrefix h ''Bearer ''"] have "quiet w w1" by (simp add: within_def) (metis snd_conv)
  moreover from WrapUnary_run[OF assms(1)[unfolded serve_def]] obtain y where
    "AuthenticationInterceptor v (\<lambda>p. run_rpc v (CurrentPrincipal p) r) ''/rpc'' h w = (y, w')" "y = Inr () \<longleftrightarrow> res = Inr ()" by blast
  moreover from this x have "run_rpc v p r w1 = (y, w')"
    by (simp add: AuthenticationInterceptor_def HasSuffix_def HasPrefix_def bindM_def CurrentPrincipal_def)
  ultimately show ?thesis using that by blast
qed

lemma requester_in:
  assumes "db_ok (wDB w)" and "requester v h w = Some p"
  shows "principal_in (wDB w) p"
proof -
  from assms(2) obtain w1 where "exchangeToken v (TrimPrefix h ''Bearer '') w = (Inr (Some p), w1)"
    by (auto simp: requester_def split: prod.splits sum.splits)
  from exchangeToken_sound[OF this] show ?thesis
  proof (elim disjE exE conjE)
    assume "user_key v (wDB w) (wNow w) (TrimPrefix h ''Bearer '') p"
    then obtain k where k: "k \<in> set (dbApiKeys (wDB w))" "pUser p = Some (user_of (wDB w) (apUserID k))" "\<not> IsSystemAdmin p"
      by (auto simp: user_key_def no_principal_def IsSystemAdmin_def SystemRole_IsAdmin_def SystemRoleAdmin_def)
    with assms(1) obtain u where "u \<in> set (dbUsers (wDB w))" "uID u = apUserID k"
      by (fastforce simp: db_ok_def refs_ok_def owned_def)
    then obtain u' where "find (\<lambda>u. uID u = apUserID k) (dbUsers (wDB w)) = Some u'"
      by (cases "find (\<lambda>u. uID u = apUserID k) (dbUsers (wDB w))") (auto simp: find_None_iff)
    with find_SomeD[OF this] k show ?thesis by (auto simp: principal_in_def user_of_def owned_def)
  qed (auto simp: principal_in_def no_principal_def IsSystemAdmin_def SystemRole_IsAdmin_def SystemRoleAdmin_def)
qed

section \<open>Elementary changes keep the tables in order\<close>

lemma db_ok_delete_user_from: "db_ok d \<Longrightarrow> db_ok (delete_user_from i d)"
proof -
  assume "db_ok d"
  then have "db_ok (d\<lparr>dbMachines := filter (\<lambda>m. mUserID m \<noteq> i) (dbMachines d),
       dbApiKeys := filter (\<lambda>k. apUserID k \<noteq> i) (dbApiKeys d), dbAuthKeys := filter (\<lambda>k. akUserID k \<noteq> i) (dbAuthKeys d)\<rparr>)" (is "db_ok ?d")
    by (auto simp: db_ok_def keys_ok_def refs_ok_def distinct_filter_map)
  from db_ok_delete_users[OF this, of "\<lambda>u. uID u \<noteq> i"] show ?thesis by (simp add: delete_user_from_def)
qed

lemma db_ok_delete_tailnet_from:
  assumes "db_ok d"
  shows "db_ok (delete_tailnet_from i d)"
proof -
  let ?d = "d\<lparr>dbMachines := filter (\<lambda>m. mTailnetID m \<noteq> i) (dbMachines d),
       dbApiKeys := filter (\<lambda>k. apTailnetID k \<noteq> i) (dbApiKeys d), dbAuthKeys := filter (\<lambda>k. akTailnetID k \<noteq> i) (dbAuthKeys d)\<rparr>"
  have ok: "db_ok ?d" using assms by (auto simp: db_ok_def keys_ok_def refs_ok_def distinct_filter_map)
  have "db_ok (?d\<lparr>dbUsers := filter (\<lambda>u. uTailnetID u \<noteq> i) (dbUsers ?d)\<rparr>)"
  proof (rule db_ok_delete_users[OF ok])
    show "uTailnetID u \<noteq> i" if "m \<in> set (dbMachines ?d)" "u \<in> set (dbUsers ?d)" "uID u = mUserID m" for m u
      using owned_unique[OF assms, of "mUserID m" "mTailnetID m" u] that assms by (simp add: db_ok_def refs_ok_def)
    show "uTailnetID u \<noteq> i" if "k \<in> set (dbAuthKeys ?d)" "u \<in> set (dbUsers ?d)" "uID u = akUserID k" for k u
      using owned_unique[OF assms, of "akUserID k" "akTailnetID k" u] that assms by (simp add: db_ok_def refs_ok_def)
    show "uTailnetID u \<noteq> i" if "k \<in> set (dbApiKeys ?d)" "u \<in> set (dbUsers ?d)" "uID u = apUserID k" for k u
      using owned_unique[OF assms, of "apUserID k" "apTailnetID k" u] that assms by (simp add: db_ok_def refs_ok_def)
  qed
  from db_ok_delete_tailnets[OF this, of "\<lambda>t. tID t \<noteq> i"] show ?thesis
    by (simp add: delete_tailnet_from_def db_ok_def keys_ok_def refs_ok_def owned_def)
qed

lemma admin_change_db_ok: "admin_change p d d' \<Longrightarrow> db_ok d \<Longrightarrow> db_ok d'"
proof (induction rule: admin_change.induct)
  case (change_machine row d m)
  then have "owned d (mUserID m) (mTailnetID m)" by (auto simp: db_ok_def refs_ok_def)
  with change_machine show ?case by (intro db_ok_save_machine)
next
  case (change_tailnet t0 d t)
  then have "tID t \<noteq> 0" by (auto simp: db_ok_def keys_ok_def)
  with change_tailnet show ?case by (intro db_ok_save_tailnet)
next
  case (remove_tailnet d i)
  then show ?case by (intro db_ok_delete_tailnet_from)
next
  case (new_service_user t d u)
  then show ?case by (intro db_ok_insert_user) auto
qed (auto intro: db_ok_save_tailnet db_ok_delete_user_from db_ok_save_auth_key db_ok_filter)

lemma changes_db_ok: "changes p d d' \<Longrightarrow> db_ok d \<Longrightarrow> db_ok d'"
  by (induction rule: rtranclp_induct) (auto intro: admin_change_db_ok)

text \<open>An invariant of the elementary changes, among tables in order, is one of their sequences.\<close>

lemma changes_invariant:
  assumes "changes p d d'" "db_ok d" "I d"
    and "\<And>d1 d2. admin_change p d1 d2 \<Longrightarrow> db_ok d1 \<Longrightarrow> I d1 \<Longrightarrow> I d2"
  shows "I d'"
proof -
  have "db_ok d' \<and> I d'" using assms(1-3) by (induction rule: rtranclp_induct) (auto intro: admin_change_db_ok assms(4))
  then show ?thesis ..
qed

lemma changes_kept:
  assumes "changes p d d'" "db_ok d" and "\<And>d1 d2. admin_change p d1 d2 \<Longrightarrow> db_ok d1 \<Longrightarrow> f d2 = f d1"
  shows "f d' = f d"
  by (rule changes_invariant[where I = "\<lambda>x. f x = f d", OF assms(1,2)]) (simp_all add: assms(3))

lemma serve_changes:
  assumes "serve v h r w = (res, w')" "db_ok (wDB w)" "ids_ok w"
  shows "case requester v h w of None \<Rightarrow> wDB w' = wDB w \<and> res \<noteq> Inr () | Some p \<Rightarrow> changes p (wDB w) (wDB w')"
proof (cases "requester v h w")
  case None
  with serve_None[OF assms(1)] show ?thesis by simp
next
  case (Some p)
  from serve_Some[OF assms(1) Some] obtain y w1 where y: "quiet w w1" "run_rpc v p r w1 = (y, w')" by blast
  from y(1) assms have "principal_in (wDB w1) p" "ids_ok w1" "keys_ok (wDB w1)"
    using requester_in[OF assms(2) Some] ids_ok_quiet[OF assms(3)] by (auto simp: quiet_def db_ok_def)
  from stays_run_rpc[OF this, of v r] y have "changes p (wDB w) (wDB w')" by (simp add: stays_def on_db_def quiet_def)
  with Some show ?thesis by simp
qed

section \<open>The interface as a whole\<close>


section \<open>Isolation of the tailnets\<close>

text \<open>Everything that is stored about one tailnet.\<close>

definition tailnet_rows :: "uint64 \<Rightarrow> db \<Rightarrow>
    Tailnet list \<times> User list \<times> Machine list \<times> AuthKey list \<times> ApiKey list \<times> TailnetTKAState list \<times> TKAAum list" where
  "tailnet_rows i d =
     (filter (\<lambda>t. tID t = i) (dbTailnets d), filter (\<lambda>u. uTailnetID u = i) (dbUsers d),
      filter (\<lambda>m. mTailnetID m = i) (dbMachines d), filter (\<lambda>k. akTailnetID k = i) (dbAuthKeys d),
      filter (\<lambda>k. apTailnetID k = i) (dbApiKeys d), filter (\<lambda>s. tkTailnetID s = i) (dbTKAStates d),
      filter (\<lambda>a. taTailnetID a = i) (dbTKAAums d))"

lemma filter_save_row:
  "\<not> P r \<Longrightarrow> (\<And>x. x \<in> set rows \<Longrightarrow> key x = key r \<Longrightarrow> \<not> P x) \<Longrightarrow> filter P (save_row key r rows) = filter P rows"
proof -
  assume r: "\<not> P r" and x: "\<And>x. x \<in> set rows \<Longrightarrow> key x = key r \<Longrightarrow> \<not> P x"
  have "filter P (map (\<lambda>x. if key x = key r then r else x) rows) = filter P rows"
    using x by (induction rows) (auto simp: r)
  with r show ?thesis by (simp add: save_row_def)
qed

lemma filter_irrelevant: "(\<And>x. x \<in> set xs \<Longrightarrow> P x \<Longrightarrow> Q x) \<Longrightarrow> filter P (filter Q xs) = filter P xs"
  by (auto simp: filter_filter intro: filter_cong)

lemma key_unique: "distinct (map key xs) \<Longrightarrow> x \<in> set xs \<Longrightarrow> y \<in> set xs \<Longrightarrow> key x = key y \<Longrightarrow> x = y"
  by (auto simp: distinct_map dest: inj_onD)

lemma admin_change_isolated:
  assumes "admin_change p d d'" "db_ok d" "\<not> allowed p i"
  shows "tailnet_rows i d' = tailnet_rows i d"
  using assms
proof (induction rule: admin_change.induct)
  case (change_machine row d m)
  have "mTailnetID x \<noteq> i" if "x \<in> set (dbMachines d)" "mID x = mID m" for x
    using key_unique[of mID "dbMachines d" x row] that change_machine by (auto simp: db_ok_def keys_ok_def)
  moreover have "mTailnetID m \<noteq> i" using change_machine by auto
  ultimately have "filter (\<lambda>m. mTailnetID m = i) (save_row mID (machine_row m) (dbMachines d)) = filter (\<lambda>m. mTailnetID m = i) (dbMachines d)"
    by (intro filter_save_row) (simp_all add: machine_row_def)
  then show ?case by (simp add: tailnet_rows_def)
next
  case (remove_machine row d)
  have "mID x \<noteq> mID row" if "x \<in> set (dbMachines d)" "mTailnetID x = i" for x
    using key_unique[of mID "dbMachines d" x row] that remove_machine by (auto simp: db_ok_def keys_ok_def)
  then show ?case by (auto simp: tailnet_rows_def intro!: filter_cong)
next
  case (change_tailnet t0 d t)
  then show ?case by (auto simp: tailnet_rows_def intro!: filter_save_row)
next
  case (remove_user d j)
  then obtain u where u: "u \<in> set (dbUsers d)" "uID u = j" "uTailnetID u \<noteq> i" by (auto simp: allowed_def)
  have "uTailnetID x = uTailnetID u" if "x \<in> set (dbUsers d)" "uID x = j" for x
  proof -
    from that have "owned d j (uTailnetID x)" by (auto simp: owned_def)
    from owned_unique[OF remove_user.prems(1) this u(1,2)] show ?thesis ..
  qed
  with u(3) have "\<forall>x \<in> set (dbUsers d). uTailnetID x = i \<longrightarrow> uID x \<noteq> j" by metis
  moreover have t: "\<not> owned d j i"
    using owned_unique[OF remove_user.prems(1) _ u(1,2)] u(3) by blast
  moreover have "\<forall>x \<in> set (dbMachines d). mTailnetID x = i \<longrightarrow> mUserID x \<noteq> j"
    using t remove_user.prems(1) by (auto simp: db_ok_def refs_ok_def)
  moreover have "\<forall>x \<in> set (dbAuthKeys d). akTailnetID x = i \<longrightarrow> akUserID x \<noteq> j"
    using t remove_user.prems(1) by (auto simp: db_ok_def refs_ok_def)
  moreover have "\<forall>x \<in> set (dbApiKeys d). apTailnetID x = i \<longrightarrow> apUserID x \<noteq> j"
    using t remove_user.prems(1) by (auto simp: db_ok_def refs_ok_def)
  ultimately show ?case by (simp add: tailnet_rows_def delete_user_from_def filter_irrelevant del: filter_filter)
next
  case (new_service_user t d u)
  then show ?case by (auto simp: tailnet_rows_def user_row_def)
next
  case (new_auth_key k d)
  then show ?case by (auto simp: tailnet_rows_def auth_key_row_def intro!: filter_save_row)
next
  case (remove_auth_key k d)
  have "akID x \<noteq> akID k" if "x \<in> set (dbAuthKeys d)" "akTailnetID x = i" for x
    using key_unique[of akID "dbAuthKeys d" x k] that remove_auth_key by (auto simp: db_ok_def keys_ok_def)
  then show ?case by (auto simp: tailnet_rows_def intro!: filter_cong)
qed (auto simp: allowed_def)

text \<open>
  C8. Tailnets are isolated from each other: a request of somebody who is neither a system
  administrator nor an administrator of tailnet \<open>i\<close> leaves every row of \<open>i\<close>, its
  settings, users, machines, keys and lock state, as it was.
\<close>

theorem tenant_isolation:
  assumes "serve v h r w = (res, w')" and "db_ok (wDB w)" "ids_ok w"
    and "\<And>p. requester v h w = Some p \<Longrightarrow> \<not> IsSystemAdmin p \<and> IsTailnetAdmin p i \<noteq> Inr True"
  shows "tailnet_rows i (wDB w') = tailnet_rows i (wDB w)"
proof (cases "requester v h w")
  case None
  with serve_changes[OF assms(1-3)] show ?thesis by simp
next
  case (Some p)
  with assms(4) have "\<not> allowed p i" by (simp add: allowed_def)
  from serve_changes[OF assms(1-3)] Some have "changes p (wDB w) (wDB w')" by simp
  from this assms(2) show ?thesis by (rule changes_kept) (rule admin_change_isolated[OF _ _ \<open>\<not> allowed p i\<close>])
qed

section \<open>System administration\<close>

definition tailnet_names :: "db \<Rightarrow> (uint64 \<times> string \<times> string) list" where
  "tailnet_names d = map (\<lambda>t. (tID t, tName t, tOrganization t)) (dbTailnets d)"

lemma map_save_row:
  "\<lbrakk>r0 \<in> set rows; key r = key r0; \<And>x. x \<in> set rows \<Longrightarrow> key x = key r \<Longrightarrow> f x = f r\<rbrakk> \<Longrightarrow> map f (save_row key r rows) = map f rows"
proof -
  assume "r0 \<in> set rows" "key r = key r0"
  then have e: "list_ex (\<lambda>x. key x = key r) rows" by (auto simp: list_ex_iff)
  assume x: "\<And>x. x \<in> set rows \<Longrightarrow> key x = key r \<Longrightarrow> f x = f r"
  from e x show ?thesis by (simp add: save_row_def)
qed

definition organizations_ok :: "db \<Rightarrow> bool" where
  "organizations_ok d \<longleftrightarrow>
     (\<forall>t \<in> set (dbTailnets d). \<forall>u \<in> set (dbTailnets d). tID t \<noteq> tID u \<longrightarrow> tOrganization t \<noteq> [] \<longrightarrow> tOrganization t \<noteq> tOrganization u)"

lemma admin_change_names:
  assumes "admin_change p d d'" "db_ok d" "\<not> IsSystemAdmin p"
  shows "tailnet_names d' = tailnet_names d"
  using assms
proof (induction rule: admin_change.induct)
  case (change_tailnet t0 d t)
  have "map (\<lambda>t. (tID t, tName t, tOrganization t)) (save_row tID t (dbTailnets d)) = map (\<lambda>t. (tID t, tName t, tOrganization t)) (dbTailnets d)"
  proof (rule map_save_row[OF change_tailnet.hyps(1,3)])
    fix x
    assume "x \<in> set (dbTailnets d)" "tID x = tID t"
    with key_unique[of tID "dbTailnets d" x t0] change_tailnet.hyps(1,3) change_tailnet.prems(1) have "x = t0"
      by (auto simp: db_ok_def keys_ok_def)
    with change_tailnet.hyps(3-5) change_tailnet.prems(2) show "(tID x, tName x, tOrganization x) = (tID t, tName t, tOrganization t)" by simp
  qed
  then show ?case unfolding tailnet_names_def by (simp del: map_eq_conv)
qed (simp_all add: tailnet_names_def delete_user_from_def)

lemma admin_change_organizations: "admin_change p d d' \<Longrightarrow> organizations_ok d \<Longrightarrow> organizations_ok d'"
proof (induction rule: admin_change.induct)
  case (change_tailnet t0 d t)
  then have "\<forall>x \<in> set (dbTailnets d). tID x = tID t \<or> tOrganization t = [] \<or> tOrganization x \<noteq> tOrganization t"
    unfolding organizations_ok_def by metis
  with change_tailnet.prems show ?case by (auto simp: organizations_ok_def set_save_row)
next
  case (new_tailnet t d)
  then show ?case by (auto simp: organizations_ok_def set_save_row)
qed (auto simp: organizations_ok_def delete_tailnet_from_def delete_user_from_def)

text \<open>
  Only a system administrator creates, removes or renames tailnets: a request of anybody
  else leaves the list of tailnets with their names and organizations as it was, and one of
  somebody who administers no tailnet changes no table at all.
\<close>

theorem system_administration_reserved:
  assumes "serve v h r w = (res, w')" and "db_ok (wDB w)" "ids_ok w"
    and "\<And>p. requester v h w = Some p \<Longrightarrow> \<not> IsSystemAdmin p"
  shows "tailnet_names (wDB w') = tailnet_names (wDB w) \<and>
    ((\<forall>p t. requester v h w = Some p \<longrightarrow> IsTailnetAdmin p t \<noteq> Inr True) \<longrightarrow> wDB w' = wDB w)"
proof (cases "requester v h w")
  case None
  with serve_changes[OF assms(1-3)] show ?thesis by simp
next
  case (Some p)
  with assms(4) have p: "\<not> IsSystemAdmin p" by simp
  from serve_changes[OF assms(1-3)] Some have ch: "changes p (wDB w) (wDB w')" by simp
  have "tailnet_names (wDB w') = tailnet_names (wDB w)"
    by (rule changes_kept[OF ch assms(2)]) (rule admin_change_names[OF _ _ p])
  moreover have "wDB w' = wDB w" if "\<forall>t. IsTailnetAdmin p t \<noteq> Inr True"
    using ch that p by (auto simp: allowed_def elim!: admin_change.cases elim: converse_rtranclpE)
  ultimately show ?thesis using Some by auto
qed

text \<open>
  An organization has at most one tailnet, and no request changes that. The unique index
  of the table does not promise it (organizations are not a unique column), the check of
  \<open>CreateTailnet\<close> does.
\<close>

theorem one_tailnet_per_organization:
  assumes "serve v h r w = (res, w')" and "db_ok (wDB w)" "ids_ok w" and "organizations_ok (wDB w)"
  shows "organizations_ok (wDB w')"
proof (cases "requester v h w")
  case None
  with serve_changes[OF assms(1-3)] assms(4) show ?thesis by simp
next
  case (Some p)
  with serve_changes[OF assms(1-3)] have "changes p (wDB w) (wDB w')" by simp
  from changes_invariant[where I = organizations_ok, OF this assms(2,4)] show ?thesis by (blast intro: admin_change_organizations)
qed

section \<open>Cutting off a machine, a person, a tailnet\<close>

lemma notifyM_run: "notifyM t w = (r, w') \<Longrightarrow> r = Inr () \<and> wDB w' = wDB w"
  by (auto simp: notifyM_def)

lemma ExpireMachine_run:
  assumes "ExpireMachine p i w = (Inr (), w')"
  obtains row m where "row \<in> set (dbMachines (wDB w))" "allowed p (mTailnetID row)"
    "m = row\<lparr>mExpiresAt := time_Unix 123, mKeyExpiryDisabled := False\<rparr>"
    "find (\<lambda>x. mID x = i) (dbMachines (wDB w')) = Some (machine_row m)"
proof -
  from assms obtain m w1 where m: "admin_machine p i w = (Inr m, w1)"
    and s: "save_and_notify (m\<lparr>mExpiresAt := time_Unix 123, mKeyExpiryDisabled := False\<rparr>) w1 = (Inr (), w')"
    by (auto simp: ExpireMachine_def go_success)
  from admin_machine_run[OF m] obtain row where row: "row \<in> set (dbMachines (wDB w))" "m = load_machine_account (wDB w) row"
    "mID row = i" "allowed p (mTailnetID row)" and db: "wDB w1 = wDB w" by auto
  let ?m = "row\<lparr>mExpiresAt := time_Unix 123, mKeyExpiryDisabled := False\<rparr>"
  have "machine_row (m\<lparr>mExpiresAt := time_Unix 123, mKeyExpiryDisabled := False\<rparr>) = machine_row ?m"
    using row(2) by (simp add: machine_row_def load_machine_account_def)
  with s db have "dbMachines (wDB w') = save_row mID (machine_row ?m) (dbMachines (wDB w))"
    by (auto simp: save_and_notify_def go_success SaveMachine_def dest!: db_exec_unique_run notifyM_run)
  then have "find (\<lambda>x. mID x = i) (dbMachines (wDB w')) = Some (machine_row ?m)"
    using row(3) by (simp add: find_save_row machine_row_def)
  with row that show ?thesis by blast
qed

text \<open>
  C25. Expiring a machine cuts it off: from the moment the request has succeeded, and until
  the machine is changed again, every network map made for it is without peers, packet
  filter and SSH policy, and takes back the peers that it had been sent.
\<close>

theorem expired_machine_cut_off:
  assumes "ExpireMachine p i w = (Inr (), w1)" and "wDB w2 = wDB w1" and "time_Unix 123 < wNow w2"
    and "CreateMapResponse e k derp delta h w2 = (Inr (r, h'), w3)" "pmMachineID h = i" "\<not> mqOmitPeers (pmReq h)"
  shows "mrPeers r = [] \<and> mrPeersChanged r = [] \<and> mrPacketFilter r = [] \<and> mrSSHPolicy r = None \<and>
    set (mrPeersRemoved r) = (if delta then set (pmPrevSyncedPeerIDs h) else {})"
proof -
  from ExpireMachine_run[OF assms(1)] obtain row where
    f: "find (\<lambda>x. mID x = i) (dbMachines (wDB w1)) = Some (machine_row (row\<lparr>mExpiresAt := time_Unix 123, mKeyExpiryDisabled := False\<rparr>))"
    by metis
  have q: "IsQuarantined (wNow w2) (machine_row (row\<lparr>mExpiresAt := time_Unix 123, mKeyExpiryDisabled := False\<rparr>)) t" for t
    using assms(3) by (simp add: IsQuarantined_def IsExpired_def machine_row_def time_Unix_def Second_def)
  show ?thesis
    by (rule quarantined_cut_off[OF assms(4,6)]) (use f assms(2,5) q in auto)
qed

lemma DeleteTailnet_run:
  assumes "DeleteTailnet p i force w = (Inr x, w')"
  shows "IsSystemAdmin p" "wDB w' = delete_tailnet_from i (wDB w)" "force \<or> (\<forall>m \<in> set (dbMachines (wDB w)). mTailnetID m \<noteq> i)"
proof -
  from assms obtain n w1 w2 where n: "CountMachineByTailnet i w = (Inr n, w1)" "force \<or> n = 0"
    and t: "Transaction (seqM (DeleteMachineByTailnet i) (seqM (DeleteApiKeysByTailnet i) (seqM (DeleteAuthKeysByTailnet i)
      (seqM (DeleteUsersByTailnet i) (seqM (DeleteTKAByTailnet i) (DeleteTailnet_row i)))))) w1 = (Inr (), w2)" and w: "wDB w' = wDB w2"
    by (auto simp: DeleteTailnet_def go_success require_system_admin_def split: if_splits dest: notifyM_run)
  from n(1) have "wDB w1 = wDB w" "n = 0 \<Longrightarrow> \<forall>m \<in> set (dbMachines (wDB w)). mTailnetID m \<noteq> i"
    using db_query_run[OF n(1)[unfolded CountMachineByTailnet_def]] by (auto simp: filter_empty_conv)
  moreover from t obtain w3 w4 where "wDB w3 = wDB w1" "seqM (DeleteMachineByTailnet i) (seqM (DeleteApiKeysByTailnet i) (seqM (DeleteAuthKeysByTailnet i)
      (seqM (DeleteUsersByTailnet i) (seqM (DeleteTKAByTailnet i) (DeleteTailnet_row i))))) w3 = (Inr (), w4)" "wDB w2 = wDB w4"
    by (rule Transaction_run)
  ultimately show "wDB w' = delete_tailnet_from i (wDB w)" and "force \<or> (\<forall>m \<in> set (dbMachines (wDB w)). mTailnetID m \<noteq> i)"
    using delete_tailnet_run[of i w3 "()" w4] w n(2) by auto
  show "IsSystemAdmin p" using assms by (auto simp: DeleteTailnet_def go_success require_system_admin_def split: if_splits)
qed

text \<open>
  C26. Deleting a tailnet is all or nothing: on success no row of the tailnet is left in any
  table and no row of another tailnet is touched, on failure the tables are as before.
  Without the force flag it succeeds only for a tailnet without machines.
\<close>

theorem DeleteTailnet_all_or_nothing:
  assumes "DeleteTailnet p i force w = (r, w')"
  shows "if r = Inr ()
    then tailnet_rows i (wDB w') = ([], [], [], [], [], [], []) \<and> (\<forall>j. j \<noteq> i \<longrightarrow> tailnet_rows j (wDB w') = tailnet_rows j (wDB w)) \<and>
      (force \<or> (\<forall>m \<in> set (dbMachines (wDB w)). mTailnetID m \<noteq> i))
    else wDB w' = wDB w"
proof (cases r)
  case (Inl e)
  have q: "wDB w1 = wDB w" if "CountMachineByTailnet i w = (x, w1)" for x w1
    using quietD[OF quiet_db_query that[unfolded CountMachineByTailnet_def]] by simp
  have "wDB w' = wDB w" using assms unfolding Inl DeleteTailnet_def
    by (auto simp: bindM_def seqM_def require_system_admin_def requireM_def throwM_def split: prod.splits sum.splits if_splits
        dest!: q Transaction_failed notifyM_run)
  with Inl show ?thesis by simp
next
  case (Inr x)
  note d = DeleteTailnet_run(2,3)[OF assms[unfolded Inr]]
  have "tailnet_rows j (delete_tailnet_from i (wDB w)) = tailnet_rows j (wDB w)" if "j \<noteq> i" for j
    using that by (auto simp: tailnet_rows_def delete_tailnet_from_def intro!: filter_cong)
  moreover have "tailnet_rows i (delete_tailnet_from i (wDB w)) = ([], [], [], [], [], [], [])"
    by (simp add: tailnet_rows_def delete_tailnet_from_def)
  ultimately show ?thesis using d Inr by simp
qed

lemma users_of_accounts_run:
  assumes "users_of_accounts as w = (Inr us, w')"
  shows "wDB w' = wDB w \<and> us = concat (map (\<lambda>a. map (\<lambda>u. u\<lparr>uTailnet := tailnet_of (wDB w) (uTailnetID u)\<rparr>)
    (filter (\<lambda>u. uAccountID u = Some (acID a)) (dbUsers (wDB w)))) as)"
  using assms
proof (induction as arbitrary: us w)
  case (Cons a as)
  then obtain us1 w1 rest where q: "ListUsersByAccount (acID a) w = (Inr us1, w1)"
    and rest: "users_of_accounts as w1 = (Inr rest, w')" "us = us1 @ rest"
    by (auto simp: go_success)
  from Cons.IH[OF rest(1)] db_query_run[OF q[unfolded ListUsersByAccount_def]] rest(2) show ?case by simp
qed simp

lemma delete_users_run:
  "forM us (\<lambda>u. delete_user_rows (uID u)) w = (Inr x, w') \<Longrightarrow> wDB w' = fold (\<lambda>u. delete_user_from (uID u)) us (wDB w)"
  by (induction us arbitrary: w) (auto simp: go_success dest!: delete_user_rows_run)

lemma fold_delete_user_from:
  "fold (\<lambda>u. delete_user_from (uID u)) us d =
    d\<lparr>dbMachines := filter (\<lambda>m. mUserID m \<notin> uID ` set us) (dbMachines d),
      dbApiKeys := filter (\<lambda>k. apUserID k \<notin> uID ` set us) (dbApiKeys d),
      dbAuthKeys := filter (\<lambda>k. akUserID k \<notin> uID ` set us) (dbAuthKeys d),
      dbUsers := filter (\<lambda>u. uID u \<notin> uID ` set us) (dbUsers d)\<rparr>"
proof (induction us arbitrary: d)
  case (Cons u us)
  show ?case by (simp add: Cons.IH) (auto simp: delete_user_from_def intro!: filter_cong)
qed simp

lemma notify_all_run: "forM ts notifyM w = (r, w') \<Longrightarrow> wDB w' = wDB w"
  by (induction ts arbitrary: w) (auto simp: seqM_def bindM_def split: prod.splits sum.splits dest!: notifyM_run)

lemma user_of_unique: "db_ok d \<Longrightarrow> u \<in> set (dbUsers d) \<Longrightarrow> user_of d (uID u) = u"
proof -
  assume ok: "db_ok d" and u: "u \<in> set (dbUsers d)"
  then obtain v where "find (\<lambda>x. uID x = uID u) (dbUsers d) = Some v"
    by (cases "find (\<lambda>x. uID x = uID u) (dbUsers d)") (auto simp: find_None_iff)
  with find_SomeD[OF this] key_unique[of uID "dbUsers d" v u] ok u show ?thesis
    by (simp add: user_of_def db_ok_def keys_ok_def)
qed

text \<open>Who is meant by an external identity and an organization.\<close>

definition identity_of :: "db \<Rightarrow> string \<Rightarrow> string \<Rightarrow> User \<Rightarrow> bool" where
  "identity_of d externalId organization u \<longleftrightarrow>
     (\<exists>a \<in> set (dbAccounts d). acExternalID a = externalId \<and> uAccountID u = Some (acID a)) \<and> uUserType u \<noteq> UserTypeService \<and>
     (organization = [] \<or> tOrganization (tailnet_of d (uTailnetID u)) = organization)"

text \<open>
  Revoking an account is complete and touches nobody else: when it succeeds, the users
  that an external identity has, in the organization given or in all of them, are gone
  together with their machines, API keys and auth keys, and the rows of everybody else are
  those of before.
\<close>

theorem RevokeAccount_complete:
  assumes "RevokeAccount p externalId organization w = (Inr ids, w')" and "db_ok (wDB w)"
  shows "wDB w' = (wDB w)
    \<lparr>dbMachines := filter (\<lambda>m. \<not> identity_of (wDB w) externalId organization (user_of (wDB w) (mUserID m))) (dbMachines (wDB w)),
     dbApiKeys := filter (\<lambda>k. \<not> identity_of (wDB w) externalId organization (user_of (wDB w) (apUserID k))) (dbApiKeys (wDB w)),
     dbAuthKeys := filter (\<lambda>k. \<not> identity_of (wDB w) externalId organization (user_of (wDB w) (akUserID k))) (dbAuthKeys (wDB w)),
     dbUsers := filter (\<lambda>u. \<not> identity_of (wDB w) externalId organization u) (dbUsers (wDB w))\<rparr>"
proof -
  let ?P = "identity_of (wDB w) externalId organization"
  from assms(1) obtain as w1 where q: "ListAccountsByExternalID externalId w = (Inr as, w1)"
    and k: "(if length as = 0 then returnM [] else bindM (users_of_accounts as) (\<lambda>users.
       let revoke = filter (to_revoke organization) users; tailnetIDs = map uTailnetID revoke in
       seqM (Transaction (forM revoke (\<lambda>u. delete_user_rows (uID u)))) (
       seqM (forM tailnetIDs notifyM) (returnM tailnetIDs)))) w1 = (Inr ids, w')"
    by (auto simp: RevokeAccount_def go_success split: if_splits dest!: require_system_admin_run)
  note as = db_query_run[OF q[unfolded ListAccountsByExternalID_def]]
  obtain us :: "User list" where us: "wDB w' = fold (\<lambda>u. delete_user_from (uID u)) us (wDB w)"
    "uID ` set us = uID ` {u \<in> set (dbUsers (wDB w)). ?P u}"
  proof (cases "length as = 0")
    case True
    with k as that[of "[]"] show ?thesis by (auto simp: identity_of_def filter_empty_conv)
  next
    case False
    with k obtain users w2 w3 where u: "users_of_accounts as w1 = (Inr users, w2)"
      and t: "Transaction (forM (filter (to_revoke organization) users) (\<lambda>u. delete_user_rows (uID u))) w2 = (Inr (), w3)"
      and n: "forM (map uTailnetID (filter (to_revoke organization) users)) notifyM w3 = (Inr (), w')"
      by (auto simp: go_success Let_def)
    from t obtain w4 w5 where w4: "wDB w4 = wDB w2" "wDB w3 = wDB w5"
      and del: "forM (filter (to_revoke organization) users) (\<lambda>u. delete_user_rows (uID u)) w4 = (Inr (), w5)"
      by (rule Transaction_run)
    from delete_users_run[OF del] w4 notify_all_run[OF n] users_of_accounts_run[OF u] as(2)
    have "wDB w' = fold (\<lambda>u. delete_user_from (uID u)) (filter (to_revoke organization) users) (wDB w)" by simp
    moreover have "uID ` set (filter (to_revoke organization) users) = uID ` {u \<in> set (dbUsers (wDB w)). ?P u}"
      using users_of_accounts_run[OF u] as by (force simp: identity_of_def to_revoke_def image_iff)
    ultimately show ?thesis using that[of "filter (to_revoke organization) users"] by blast
  qed
  have mem: "i \<in> uID ` set us \<longleftrightarrow> ?P (user_of (wDB w) i)" if own: "owned (wDB w) i t" for i t
  proof -
    from own obtain u where u: "u \<in> set (dbUsers (wDB w))" "uID u = i" by (auto simp: owned_def)
    have "v = u" if "v \<in> set (dbUsers (wDB w))" "uID v = i" for v
      using user_of_unique[OF assms(2) that(1)] user_of_unique[OF assms(2) u(1)] that(2) u(2) by simp
    with u(1) u(2)[symmetric] have "i \<in> uID ` {u \<in> set (dbUsers (wDB w)). ?P u} \<longleftrightarrow> ?P u" by blast
    with user_of_unique[OF assms(2) u(1)] u(2) us(2) show ?thesis by simp
  qed
  have "owned (wDB w) (uID u) (uTailnetID u)" if "u \<in> set (dbUsers (wDB w))" for u using that by (auto simp: owned_def)
  from mem[OF this] have "uID u \<in> uID ` set us \<longleftrightarrow> ?P u" if "u \<in> set (dbUsers (wDB w))" for u
    using that user_of_unique[OF assms(2) that] by simp
  moreover have refs: "\<forall>m \<in> set (dbMachines (wDB w)). owned (wDB w) (mUserID m) (mTailnetID m)"
    "\<forall>k \<in> set (dbApiKeys (wDB w)). owned (wDB w) (apUserID k) (apTailnetID k)"
    "\<forall>k \<in> set (dbAuthKeys (wDB w)). owned (wDB w) (akUserID k) (akTailnetID k)"
    using assms(2) by (simp_all add: db_ok_def refs_ok_def)
  then have "\<forall>m \<in> set (dbMachines (wDB w)). mUserID m \<in> uID ` set us \<longleftrightarrow> ?P (user_of (wDB w) (mUserID m))"
    "\<forall>k \<in> set (dbApiKeys (wDB w)). apUserID k \<in> uID ` set us \<longleftrightarrow> ?P (user_of (wDB w) (apUserID k))"
    "\<forall>k \<in> set (dbAuthKeys (wDB w)). akUserID k \<in> uID ` set us \<longleftrightarrow> ?P (user_of (wDB w) (akUserID k))"
    using mem[OF refs(1)[rule_format]] mem[OF refs(2)[rule_format]] mem[OF refs(3)[rule_format]] by simp_all
  ultimately show ?thesis
    unfolding us(1) fold_delete_user_from by (simp cong: filter_cong)
qed
section \<open>Instances\<close>

text \<open>Two tailnets; Alice administers the first with an API key, Carol is a user of the second.\<close>

definition sample_carol :: User where
  "sample_carol = sample_alice\<lparr>uID := 13, uName := ''carol'', uTailnetID := 2\<rparr>"

definition alice_key :: ApiKey where
  "alice_key = \<lparr>apID = 31, apKey = ''alice'', apHash = ''h:pwd'', apCreatedAt = 1, apExpiresAt = None,
     apTailnetID = 1, apTailnet = zero_tailnet, apUserID = 11, apUser = zero_user\<rparr>"

definition two_tailnets :: world where
  "two_tailnets = sample_world\<lparr>wDB := sample_db\<lparr>dbTailnets := [sample_tailnet, sample_tailnet\<lparr>tID := 2, tName := ''other'', tOrganization := []\<rparr>],
     dbUsers := [user_row sample_alice, user_row sample_bob, user_row sample_carol], dbApiKeys := [alice_key]\<rparr>\<rparr>"

lemmas two_tailnets_defs = two_tailnets_def sample_world_def sample_db_def sample_carol_def alice_key_def sample_defs
  user_row_def machine_row_def

lemma two_tailnets_ok: "db_ok (wDB two_tailnets)" "organizations_ok (wDB two_tailnets)"
  by (auto simp: two_tailnets_defs db_ok_def keys_ok_def refs_ok_def owned_def organizations_ok_def)

lemma two_tailnets_ids: "ids_ok two_tailnets"
proof -
  have "unat (word_of_nat (1000 + n mod 1000) :: 64 word) = 1000 + n mod 1000" for n
  proof -
    have "1000 + n mod 1000 < 2 ^ LENGTH(64)" using mod_less_divisor[of 1000 n] by simp
    then show ?thesis by (simp only: unat_of_nat mod_less)
  qed
  then have "(word_of_nat (1000 + n mod 1000) :: 64 word) \<noteq> 0" for n by (metis add_is_0 unat_0 zero_neq_numeral)
  then show ?thesis by (simp add: ids_ok_def two_tailnets_def sample_world_def sample_db_def)
qed

lemma alice_key_loaded:
  "LoadApiKey sample_env ''alice_pwd'' two_tailnets = (Inr (Some (load_api_key (wDB two_tailnets) alice_key)), two_tailnets)"
  by (simp add: LoadApiKey_def bindM_def db_query_ok time_Now_def two_tailnets_def sample_world_def sample_db_def sample_env_def
      load_api_key_def alice_key_def key_expired_def)

lemma alice_requests:
  "requester sample_svc ''Bearer alice_pwd'' two_tailnets =
     Some (no_principal\<lparr>pUser := Some (user_row sample_alice), pUserRole := ''admin''\<rparr>)"
proof -
  have "svEnv sample_svc = sample_env" by (simp add: sample_svc_def)
  moreover have "GetRole sample_iam (user_row sample_alice) = ''admin''" by (simp add: GetRole_def sample_iam_def user_row_def sample_alice_def)
  moreover have "apUser (load_api_key (wDB two_tailnets) alice_key) = user_row sample_alice"
    "hjT (tIAMPolicy (apTailnet (load_api_key (wDB two_tailnets) alice_key))) = Some sample_iam"
    by (simp_all add: load_api_key_def alice_key_def two_tailnets_def sample_db_def user_of_def tailnet_of_def user_row_def
        sample_alice_def sample_tailnet_def)
  ultimately show ?thesis
    using alice_key_loaded
    by (simp add: requester_def exchangeToken_def bindM_def time_Now_def tryM_def TrimPrefix_def HasPrefix_def sample_svc_def
        IsSystemAdminToken_def systemAdminTokenPrefix_def ServiceTokenPrefix_def api_key_principal_def)
qed

text \<open>Alice deletes a machine of her tailnet; then she tries the same on the other one.\<close>

abbreviation (input) after :: "rpc \<Rightarrow> world" where
  "after r \<equiv> snd (serve sample_svc ''Bearer alice_pwd'' r two_tailnets)"


theorem tenant_isolation_witness:
  "tailnet_rows 2 (wDB (after (SettingsRpc (RSetDERPMap 2 ''x'')))) = tailnet_rows 2 (wDB two_tailnets)"
  by (rule tenant_isolation[OF prod.collapse[symmetric] two_tailnets_ok(1) two_tailnets_ids])
    (auto simp: alice_requests IsSystemAdmin_def SystemRole_IsAdmin_def no_principal_def SystemRoleAdmin_def IsTailnetAdmin_def
      user_row_def sample_alice_def)

theorem system_administration_reserved_witness:
  "tailnet_names (wDB (after (TailnetRpc (RDeleteTailnet 2 True)))) = tailnet_names (wDB two_tailnets)"
  using system_administration_reserved[OF prod.collapse[symmetric] two_tailnets_ok(1) two_tailnets_ids,
      of sample_svc "''Bearer alice_pwd''" "TailnetRpc (RDeleteTailnet 2 True)"]
  by (simp add: alice_requests IsSystemAdmin_def SystemRole_IsAdmin_def no_principal_def SystemRoleAdmin_def)

theorem one_tailnet_per_organization_witness:
  "organizations_ok (wDB (after (TailnetRpc (RListTailnets ''acme''))))"
  by (rule one_tailnet_per_organization[OF prod.collapse[symmetric] two_tailnets_ok(1) two_tailnets_ids two_tailnets_ok(2)])

definition root_principal :: Principal where
  "root_principal = no_principal\<lparr>pSystemRole := SystemRoleAdmin\<rparr>"

lemma root_is_admin: "IsSystemAdmin root_principal"
  by (simp add: root_principal_def no_principal_def IsSystemAdmin_def SystemRole_IsAdmin_def SystemRoleAdmin_def)

theorem DeleteTailnet_all_or_nothing_witness:
  "\<exists>w'. DeleteTailnet root_principal 1 True two_tailnets = (Inr (), w') \<and> tailnet_rows 1 (wDB w') = ([], [], [], [], [], [], [])"
proof -
  have f: "wFaults two_tailnets = []" by (simp add: two_tailnets_def sample_world_def)
  obtain w' where run: "DeleteTailnet root_principal 1 True two_tailnets = (Inr (), w')"
    by (simp add: DeleteTailnet_def require_system_admin_def root_is_admin CountMachineByTailnet_def Transaction_def
        DeleteMachineByTailnet_def DeleteApiKeysByTailnet_def DeleteAuthKeysByTailnet_def DeleteUsersByTailnet_def
        DeleteTKAByTailnet_def DeleteTailnet_row_def db_delete_by_id_def db_query_ok db_exec_ok f bindM_def seqM_def notifyM_def)
  with DeleteTailnet_all_or_nothing[OF run] show ?thesis by simp
qed

theorem RevokeAccount_complete_witness:
  "\<exists>ids w'. RevokeAccount root_principal ''sub-1'' ''acme'' two_tailnets = (Inr ids, w') \<and> map uID (dbUsers (wDB w')) = [12, 13]"
proof -
  have f: "wFaults two_tailnets = []" by (simp add: two_tailnets_def sample_world_def)
  obtain ids w' where run: "RevokeAccount root_principal ''sub-1'' ''acme'' two_tailnets = (Inr ids, w')"
    by (simp add: RevokeAccount_def require_system_admin_def root_is_admin ListAccountsByExternalID_def ListUsersByAccount_def
        Transaction_def delete_user_rows_def DeleteMachineByUser_def DeleteApiKeysByUser_def DeleteAuthKeysByUser_def DeleteUser_row_def
        db_delete_by_id_def db_query_ok db_exec_ok f bindM_def seqM_def notifyM_def two_tailnets_defs sample_account_def to_revoke_def
        tailnet_of_def UserTypeService_def Let_def)
  from RevokeAccount_complete[OF run two_tailnets_ok(1)]
  have "map uID (dbUsers (wDB w')) = [12, 13]"
    by (simp add: two_tailnets_defs identity_of_def sample_account_def tailnet_of_def UserTypeService_def)
  with run show ?thesis by (intro exI conjI)
qed

theorem expired_machine_cut_off_witness:
  "\<exists>w1 r h' w3. ExpireMachine root_principal 101 sample_world = (Inr (), w1) \<and>
     CreateMapResponse sample_env sample_tail sample_derp False (sample_mapper 101) (w1\<lparr>wNow := time_Unix 200\<rparr>) = (Inr (r, h'), w3) \<and>
     mrPeers r = []"
proof -
  let ?m = "machine_row (sample_laptop\<lparr>mExpiresAt := time_Unix 123, mKeyExpiryDisabled := False\<rparr>)"
  let ?w = "sample_world\<lparr>wDB := sample_db\<lparr>dbMachines := [?m, machine_row sample_server, machine_row sample_phone]\<rparr>,
    wSessions := NotifyAll 1 [] (wSessions sample_world)\<rparr>"
  have e: "ExpireMachine root_principal 101 sample_world = (Inr (), ?w)"
    by (simp add: ExpireMachine_def admin_machine_def GetMachine_row_def save_and_notify_def SaveMachine_def require_admin_def
        root_is_admin db_query_ok db_exec_unique_ok bindM_def seqM_def notifyM_def sample_world_def sample_db_def machine_name_taken_def
        other_row_def save_row_def machine_row_def load_machine_account_def sample_defs)
  have "\<exists>r h' w3. CreateMapResponse sample_env sample_tail sample_derp False (sample_mapper 101) (?w\<lparr>wNow := time_Unix 200\<rparr>) = (Inr (r, h'), w3)"
    by (rule CreateMapResponse_returns[where row = ?m])
      (auto simp: sample_world_def sample_db_def machine_row_def user_row_def tailnet_of_def tailnet_ok_def machine_ok_def key_parsers
        sample_tail_def sample_defs)
  then obtain r h' w3 where c: "CreateMapResponse sample_env sample_tail sample_derp False (sample_mapper 101) (?w\<lparr>wNow := time_Unix 200\<rparr>) = (Inr (r, h'), w3)"
    by blast
  have "mrPeers r = [] \<and> mrPeersChanged r = [] \<and> mrPacketFilter r = [] \<and> mrSSHPolicy r = None \<and>
    set (mrPeersRemoved r) = (if False then set (pmPrevSyncedPeerIDs (sample_mapper 101)) else {})"
    by (rule expired_machine_cut_off[OF e _ _ c]) (simp_all add: time_Unix_def Second_def)
  with e c show ?thesis by blast
qed
end
