(* ===== verification/Worker.thy ===== *)
theory Worker
  imports Integrity
begin

text \<open>
  \<open>internal/core/worker.go\<close>: the two background loops, the removal of ephemeral machines that
  have gone away and the sweep that tells the peers of a machine that its key has expired.

  The loops run for ever, one round per tick of a timer; a run is given by the list of its
  ticks. The tailnets to notify are the keys of a map; they are notified here in the order
  in which they were found (a notification touches the channels of its own tailnet only).
\<close>

section \<open>The loops\<close>

definition ticker :: instant where
  "ticker = 10 * Minute"

definition inactivityTimeout :: instant where
  "inactivityTimeout = 30 * Minute"

definition expirySweepInterval :: instant where
  "expirySweepInterval = 1 * Minute"

definition notifyExpiredMachines :: "instant \<Rightarrow> instant \<Rightarrow> unit m" where
  "notifyExpiredMachines from to =
     bindM (tryM (ListMachinesExpiredBetween from to)) (\<lambda>r.
     case r of
       Inl _ \<Rightarrow> returnM ()
     | Inr machines \<Rightarrow> forM (remdups (map mTailnetID machines)) notifyM)"

primrec startExpirySweeper :: "instant \<Rightarrow> instant list \<Rightarrow> unit m" where
  "startExpirySweeper prev [] = returnM ()"
| "startExpirySweeper prev (now # ticks) = seqM (notifyExpiredMachines prev now) (startExpirySweeper now ticks)"

primrec delete_inactive :: "instant \<Rightarrow> Machine list \<Rightarrow> uint64 list \<Rightarrow> uint64 list m" where
  "delete_inactive now [] removedNodes = returnM removedNodes"
| "delete_inactive now (m # ms) removedNodes =
     (case mLastSeen m of
        None \<Rightarrow> throwM NilDeref
      | Some l \<Rightarrow>
          if l + inactivityTimeout < now then
            bindM (tryM (DeleteMachine_row (mID m))) (\<lambda>r.
            delete_inactive now ms (if r = Inr True then removedNodes @ [mTailnetID m] else removedNodes))
          else delete_inactive now ms removedNodes)"

definition deleteInactiveEphemeralNodes :: "unit m" where
  "deleteInactiveEphemeralNodes =
     bindM time_Now (\<lambda>now.
     bindM (tryM (ListInactiveEphemeralMachines (now - inactivityTimeout))) (\<lambda>r.
     case r of
       Inl _ \<Rightarrow> returnM ()
     | Inr machines \<Rightarrow>
         bindM (delete_inactive now machines []) (\<lambda>removedNodes.
         forM (remdups removedNodes) notifyM)))"

section \<open>Expired keys\<close>

text \<open>The intervals that the sweeper asks for.\<close>

primrec sweep_windows :: "instant \<Rightarrow> instant list \<Rightarrow> (instant \<times> instant) list" where
  "sweep_windows prev [] = []"
| "sweep_windows prev (now # ticks) = (prev, now) # sweep_windows now ticks"

lemma startExpirySweeper_windows:
  "startExpirySweeper prev ticks = forM (sweep_windows prev ticks) (\<lambda>(from, to). notifyExpiredMachines from to)"
  by (induction ticks arbitrary: prev) simp_all

lemma sweep_windows_later: "sorted_wrt (<) (prev # ticks) \<Longrightarrow> (from, to) \<in> set (sweep_windows prev ticks) \<Longrightarrow> prev \<le> from"
  by (induction ticks arbitrary: prev) force+

lemma sweep_window_exists:
  "sorted_wrt (<) (prev # ticks) \<Longrightarrow> prev < x \<Longrightarrow> ticks \<noteq> [] \<Longrightarrow> x \<le> last ticks \<Longrightarrow>
   \<exists>(from, to) \<in> set (sweep_windows prev ticks). from < x \<and> x \<le> to"
proof (induction ticks arbitrary: prev)
  case (Cons now ticks)
  show ?case
  proof (cases "x \<le> now")
    case False
    with Cons.prems have "ticks \<noteq> []" by auto
    with False Cons.prems Cons.IH[of now] show ?thesis by auto
  qed (use Cons.prems in auto)
qed simp

lemma sweep_window_unique:
  "sorted_wrt (<) (prev # ticks) \<Longrightarrow> distinct (sweep_windows prev ticks) \<and>
   (\<forall>(a, b) \<in> set (sweep_windows prev ticks). \<forall>(c, d) \<in> set (sweep_windows prev ticks).
      a < x \<longrightarrow> x \<le> b \<longrightarrow> c < x \<longrightarrow> x \<le> d \<longrightarrow> (a, b) = (c, d))"
proof (induction ticks arbitrary: prev)
  case (Cons now ticks)
  then have s: "sorted_wrt (<) (now # ticks)" "prev < now" by auto
  have l: "now \<le> a" if "(a, b) \<in> set (sweep_windows now ticks)" for a b
    using sweep_windows_later[OF s(1) that] .
  from Cons.IH[OF s(1)] l s(2) show ?case by force
qed simp

lemma fold_NotifyAll_owner:
  "session_owner t m (fold (\<lambda>i. NotifyAll i []) ts s) = session_owner t m s"
  by (induction ts arbitrary: s) (simp_all add: sessions.owner_notify)

lemma forM_notify: "forM ts notifyM w = (Inr (), w\<lparr>wSessions := fold (\<lambda>i. NotifyAll i []) ts (wSessions w)\<rparr>)"
  by (induction ts arbitrary: w) (simp_all add: seqM_def bindM_def notifyM_def modifyM_def)

text \<open>
  The channels of a well-formed session manager: what the polling protocol of \<open>Sessions\<close>
  keeps invariant, as far as waking up is concerned.
\<close>

definition sessions_live :: "pollMapSessionManager \<Rightarrow> bool" where
  "sessions_live s \<longleftrightarrow> (\<forall>t m. HasSession t m s \<longrightarrow> (\<exists>c. session_owner t m s = Some c)) \<and>
     (\<forall>t m c. session_owner t m s = Some c \<longrightarrow> \<not> chClosed (smChans s c) \<and> 0 < chCap (smChans s c))"

lemma sessions_live_NotifyAll: "sessions_live s \<Longrightarrow> sessions_live (NotifyAll t ign s)"
  by (simp add: sessions_live_def sessions.has_notify sessions.owner_notify NotifyAll_closed NotifyAll_cap)

lemma NotifyAll_woken:
  "sessions_live s \<Longrightarrow> session_owner t m s = Some c \<Longrightarrow> 0 < chLen (smChans (NotifyAll t [] s) c)"
  unfolding NotifyAll_def by (rule fold_try_send_woken[of m]) (auto simp: session_owner_def sessions_live_def dest: map_of_SomeD)

lemma NotifyAll_len: "chLen (smChans s c) \<le> chLen (smChans (NotifyAll t ign s) c)"
  unfolding NotifyAll_def by (rule fold_try_send_len)

lemma fold_NotifyAll_len: "chLen (smChans s c) \<le> chLen (smChans (fold (\<lambda>i. NotifyAll i []) ts s) c)"
  by (induction ts arbitrary: s) (auto intro: order_trans[OF NotifyAll_len])

lemma fold_NotifyAll_woken:
  "sessions_live s \<Longrightarrow> session_owner t m s = Some c \<Longrightarrow> t \<in> set ts \<Longrightarrow>
   0 < chLen (smChans (fold (\<lambda>i. NotifyAll i []) ts s) c)"
proof (induction ts arbitrary: s)
  case (Cons t' ts)
  show ?case
  proof (cases "t = t'")
    case True
    with NotifyAll_woken[OF Cons.prems(1,2)] fold_NotifyAll_len[of "NotifyAll t [] s" c ts] show ?thesis by simp
  next
    case False
    with Cons sessions_live_NotifyAll show ?thesis by (simp add: sessions.owner_notify)
  qed
qed simp


section \<open>Ephemeral machines\<close>

definition gone_away :: "instant \<Rightarrow> Machine \<Rightarrow> bool" where
  "gone_away now m \<longleftrightarrow> mEphemeral m \<and> (case mLastSeen m of None \<Rightarrow> False | Some l \<Rightarrow> l + inactivityTimeout < now)"

lemma DeleteMachine_row_result:
  "\<exists>r w'. DeleteMachine_row i w = (r, w') \<and> (\<forall>e. r = Inl e \<longrightarrow> e = DbError) \<and>
     (wDB w' = wDB w \<and> wFaults w \<noteq> [] \<or> wDB w' = (wDB w)\<lparr>dbMachines := filter (\<lambda>m. mID m \<noteq> i) (dbMachines (wDB w))\<rparr>) \<and>
     (wFaults w = [] \<longrightarrow> wFaults w' = []) \<and> wNow w' = wNow w"
  by (auto simp: DeleteMachine_row_def db_stmt_def split: list.splits bool.splits)

lemma delete_inactive_result:
  assumes "\<And>m. m \<in> set ms \<Longrightarrow> gone_away now m"
  shows "\<exists>removed' w'. delete_inactive now ms removed w = (Inr removed', w') \<and>
    (\<exists>D \<subseteq> mID ` set ms. wDB w' = (wDB w)\<lparr>dbMachines := filter (\<lambda>m. mID m \<notin> D) (dbMachines (wDB w))\<rparr> \<and>
       (wFaults w = [] \<longrightarrow> D = mID ` set ms))"
  using assms
proof (induction ms arbitrary: removed w)
  case (Cons m ms)
  from Cons.prems[of m] obtain l where l: "mLastSeen m = Some l" "l + inactivityTimeout < now"
    by (auto simp: gone_away_def split: option.splits)
  from DeleteMachine_row_result[of "mID m" w] obtain r w1 where r: "DeleteMachine_row (mID m) w = (r, w1)" "\<forall>e. r = Inl e \<longrightarrow> e = DbError"
    and w1: "wDB w1 = wDB w \<and> wFaults w \<noteq> [] \<or> wDB w1 = (wDB w)\<lparr>dbMachines := filter (\<lambda>x. mID x \<noteq> mID m) (dbMachines (wDB w))\<rparr>"
      "wFaults w = [] \<longrightarrow> wFaults w1 = []" by blast
  have "delete_inactive now (m # ms) removed w = delete_inactive now ms (if r = Inr True then removed @ [mTailnetID m] else removed) w1"
    using l r by (cases r) (auto simp: bindM_def tryM_def is_panic_def)
  moreover from Cons.IH[OF Cons.prems[OF list.set_intros(2)], of "if r = Inr True then removed @ [mTailnetID m] else removed" w1]
  obtain removed' w' D where
    "delete_inactive now ms (if r = Inr True then removed @ [mTailnetID m] else removed) w1 = (Inr removed', w')"
    "D \<subseteq> mID ` set ms" "wDB w' = (wDB w1)\<lparr>dbMachines := filter (\<lambda>m. mID m \<notin> D) (dbMachines (wDB w1))\<rparr>"
    "wFaults w1 = [] \<longrightarrow> D = mID ` set ms" by blast
  moreover have "\<exists>D' \<subseteq> mID ` set (m # ms). wDB w' = (wDB w)\<lparr>dbMachines := filter (\<lambda>m. mID m \<notin> D') (dbMachines (wDB w))\<rparr> \<and>
       (wFaults w = [] \<longrightarrow> D' = mID ` set (m # ms))"
  proof (cases "wDB w1 = wDB w \<and> wFaults w \<noteq> []")
    case True
    with calculation show ?thesis by (intro exI[of _ D]) auto
  next
    case False
    with calculation w1 show ?thesis by (intro exI[of _ "insert (mID m) D"]) (auto intro!: filter_cong)
  qed
  ultimately show ?case by metis
qed simp

lemma deleteInactive_result:
  "\<exists>w'. deleteInactiveEphemeralNodes w = (Inr (), w') \<and>
    (\<exists>D \<subseteq> mID ` {m \<in> set (dbMachines (wDB w)). gone_away (wNow w) m}.
       wDB w' = (wDB w)\<lparr>dbMachines := filter (\<lambda>m. mID m \<notin> D) (dbMachines (wDB w))\<rparr> \<and>
       (wFaults w = [] \<longrightarrow> D = mID ` {m \<in> set (dbMachines (wDB w)). gone_away (wNow w) m}))"
proof -
  let ?ms = "filter (\<lambda>m. mEphemeral m \<and> (case mLastSeen m of None \<Rightarrow> False | Some l \<Rightarrow> l < wNow w - inactivityTimeout)) (dbMachines (wDB w))"
  have gone: "set ?ms = {m \<in> set (dbMachines (wDB w)). gone_away (wNow w) m}"
    by (auto simp: gone_away_def split: option.splits)
  obtain r w1 where q: "ListInactiveEphemeralMachines (wNow w - inactivityTimeout) w = (r, w1)" by fastforce
  then have w1: "wDB w1 = wDB w" and r: "r = Inr ?ms \<or> r = Inl DbError \<and> wFaults w \<noteq> []" "wFaults w = [] \<Longrightarrow> wFaults w1 = []"
    by (auto simp: ListInactiveEphemeralMachines_def db_query_def db_stmt_def split: list.splits bool.splits)
  show ?thesis
  proof (cases "r = Inr ?ms")
    case True
    from delete_inactive_result[of ?ms "wNow w" "[]" w1] gone obtain removed w2 D where
      d: "delete_inactive (wNow w) ?ms [] w1 = (Inr removed, w2)" "D \<subseteq> mID ` set ?ms"
      "wDB w2 = (wDB w1)\<lparr>dbMachines := filter (\<lambda>m. mID m \<notin> D) (dbMachines (wDB w1))\<rparr>" "wFaults w1 = [] \<longrightarrow> D = mID ` set ?ms"
      by blast
    from True q d(1) have "deleteInactiveEphemeralNodes w = forM (remdups removed) notifyM w2"
      by (simp add: deleteInactiveEphemeralNodes_def bindM_def time_Now_def tryM_def)
    with d w1 r(2) gone show ?thesis by (auto simp: forM_notify)
  next
    case False
    with r(1) q have "deleteInactiveEphemeralNodes w = (Inr (), w1)"
      by (auto simp: deleteInactiveEphemeralNodes_def bindM_def time_Now_def tryM_def is_panic_def)
    with False r(1) w1 show ?thesis by (intro exI[of _ w1] conjI) auto
  qed
qed

text \<open>
  C24. The cleanup of ephemeral machines never fails, and removes nothing but ephemeral
  machines that have not been seen for half an hour, all of them when the database answers;
  a machine that was never seen stays.
\<close>

theorem ephemeral_cleanup_exact:
  assumes "distinct (map mID (dbMachines (wDB w)))"
  shows "\<exists>w'. deleteInactiveEphemeralNodes w = (Inr (), w') \<and>
    wDB w' = (wDB w)\<lparr>dbMachines := dbMachines (wDB w')\<rparr> \<and> set (dbMachines (wDB w')) \<subseteq> set (dbMachines (wDB w)) \<and>
    (\<forall>m \<in> set (dbMachines (wDB w)) - set (dbMachines (wDB w')). gone_away (wNow w) m) \<and>
    (wFaults w = [] \<longrightarrow> dbMachines (wDB w') = filter (\<lambda>m. \<not> gone_away (wNow w) m) (dbMachines (wDB w)))"
proof -
  from deleteInactive_result[of w] obtain w' D where w': "deleteInactiveEphemeralNodes w = (Inr (), w')"
    "wDB w' = (wDB w)\<lparr>dbMachines := filter (\<lambda>m. mID m \<notin> D) (dbMachines (wDB w))\<rparr>"
    and D: "D \<subseteq> mID ` {m \<in> set (dbMachines (wDB w)). gone_away (wNow w) m}"
    "wFaults w = [] \<longrightarrow> D = mID ` {m \<in> set (dbMachines (wDB w)). gone_away (wNow w) m}" by blast
  have mem: "mID m \<in> mID ` {m \<in> set (dbMachines (wDB w)). gone_away (wNow w) m} \<longleftrightarrow> gone_away (wNow w) m"
    if "m \<in> set (dbMachines (wDB w))" for m
    using assms that by (auto simp: distinct_map dest: inj_onD)
  with D(1) have "\<forall>m \<in> set (dbMachines (wDB w)). mID m \<in> D \<longrightarrow> gone_away (wNow w) m" by blast
  moreover have "wFaults w = [] \<longrightarrow> filter (\<lambda>m. mID m \<notin> D) (dbMachines (wDB w)) = filter (\<lambda>m. \<not> gone_away (wNow w) m) (dbMachines (wDB w))"
    using D(2) mem by (auto intro!: filter_cong)
  ultimately show ?thesis using w' by (intro exI[of _ w']) auto
qed

lemma ephemeral_cleanup_integrity: "db_ok (wDB w) \<Longrightarrow> db_ok (wDB (snd (deleteInactiveEphemeralNodes w)))"
  using deleteInactive_result[of w] by (auto intro: db_ok_filter(1))

section \<open>Instances\<close>


theorem ephemeral_cleanup_exact_witness:
  "\<exists>w'. deleteInactiveEphemeralNodes (sample_world\<lparr>wNow := 2 * Hour,
       wDB := sample_db\<lparr>dbMachines := [sample_laptop\<lparr>mEphemeral := True, mLastSeen := Some 5\<rparr>, sample_server]\<rparr>\<rparr>) = (Inr (), w') \<and>
     dbMachines (wDB w') = [sample_server]"
  using ephemeral_cleanup_exact[of "sample_world\<lparr>wNow := 2 * Hour,
       wDB := sample_db\<lparr>dbMachines := [sample_laptop\<lparr>mEphemeral := True, mLastSeen := Some 5\<rparr>, sample_server]\<rparr>\<rparr>"]
  by (auto simp: sample_world_def sample_laptop_def sample_server_def gone_away_def inactivityTimeout_def Minute_def Hour_def Second_def)
end
