(* ===== verification/TailnetLock.thy ===== *)
theory TailnetLock
  imports Integrity
begin

text \<open>
  Tailnet lock: the storage of the key authority (\<open>internal/domain/tka.go\<close>) and the handlers
  by which clients initialize, update, query and disable it (\<open>internal/handlers/tka.go\<close>).

  The authority itself is Tailscale's \<open>tka\<close> package. Its values, update messages,
  authorities, hashes and signatures, are opaque here, and its functions are the fields of
  \<open>lock_env\<close>. It reads the stored chain through the \<open>Chonk\<close> interface, here the record
  \<open>chonk\<close> of the repository's four reading methods, and writes it through the two others;
  what it wants written is a list of commands, carried out by the repository's methods.
  A node key is represented by its text form. The handlers of one tailnet exclude each other by a mutex, so each is one step.
\<close>

section \<open>The stored chain\<close>

record chonk =
  ckAUM :: "string \<Rightarrow> error + string"
  ckChildAUMs :: "string \<Rightarrow> error + string list"
  ckHeads :: "error + string list"
  ckLastActiveAncestor :: "error + string option"

datatype chonk_cmd = Commit "string list" | SetAncestor string

datatype missing = Missing "string list" | NoIntersection | MissingError error

record lock_env =
  leUnserialize :: "string \<Rightarrow> string option"
  leSerialize :: "string \<Rightarrow> string"
  leHash :: "string \<Rightarrow> string"
  leParent :: "string \<Rightarrow> string option"
  leMarshalHash :: "string \<Rightarrow> string"
  leUnmarshalHash :: "string \<Rightarrow> string option"
  leBootstrap :: "chonk \<Rightarrow> string \<Rightarrow> error + string \<times> chonk_cmd list"
  leOpen :: "chonk \<Rightarrow> error + string"
  leInform :: "chonk \<Rightarrow> string \<Rightarrow> string list \<Rightarrow> error + string \<times> chonk_cmd list"
  leHead :: "string \<Rightarrow> string"
  leNodeKeyAuthorized :: "string \<Rightarrow> string \<Rightarrow> string \<Rightarrow> bool"
  leValidDisablement :: "string \<Rightarrow> string \<Rightarrow> bool"
  leSyncOffer :: "chonk \<Rightarrow> string \<Rightarrow> error + string \<times> string list"
  leMissingAUMs :: "chonk \<Rightarrow> string \<Rightarrow> string \<times> string list \<Rightarrow> missing"
  leUnserializeSig :: "string \<Rightarrow> string option"
  leSigPubkey :: "string \<Rightarrow> string"
  leSigKeyID :: "string \<Rightarrow> string option"
  leUnmarshalNodeText :: "string \<Rightarrow> string option"
  leUnmarshalNodeBinary :: "string \<Rightarrow> string option"
  leNLVerifier :: "string \<Rightarrow> string option"

definition hashToString :: "lock_env \<Rightarrow> string \<Rightarrow> string" where
  "hashToString e h = leMarshalHash e h"

primrec decodeAUMs :: "lock_env \<Rightarrow> TKAAum list \<Rightarrow> error + string list" where
  "decodeAUMs e [] = Inr []"
| "decodeAUMs e (row # rows) =
     (case leUnserialize e (taData row) of
        None \<Rightarrow> Inl (Err ''unserialize'')
      | Some aum \<Rightarrow> (case decodeAUMs e rows of Inl err \<Rightarrow> Inl err | Inr aums \<Rightarrow> Inr (aum # aums)))"

definition chonk_AUM :: "lock_env \<Rightarrow> uint64 \<Rightarrow> db \<Rightarrow> string \<Rightarrow> error + string" where
  "chonk_AUM e tailnetID d h =
     (case find (\<lambda>a. taTailnetID a = tailnetID \<and> taHash a = hashToString e h) (dbTKAAums d) of
        None \<Rightarrow> Inl (Err ''file does not exist'')
      | Some row \<Rightarrow> (case leUnserialize e (taData row) of None \<Rightarrow> Inl (Err ''unserialize'') | Some aum \<Rightarrow> Inr aum))"

definition chonk_ChildAUMs :: "lock_env \<Rightarrow> uint64 \<Rightarrow> db \<Rightarrow> string \<Rightarrow> error + string list" where
  "chonk_ChildAUMs e tailnetID d h =
     decodeAUMs e (filter (\<lambda>a. taTailnetID a = tailnetID \<and> taPrevHash a = hashToString e h) (dbTKAAums d))"

definition chonk_Heads :: "lock_env \<Rightarrow> uint64 \<Rightarrow> db \<Rightarrow> error + string list" where
  "chonk_Heads e tailnetID d =
     (let prevs = map taPrevHash (filter (\<lambda>a. taTailnetID a = tailnetID \<and> taPrevHash a \<noteq> []) (dbTKAAums d))
      in decodeAUMs e (filter (\<lambda>a. taTailnetID a = tailnetID \<and> taHash a \<notin> set prevs) (dbTKAAums d)))"

definition tka_state :: "db \<Rightarrow> uint64 \<Rightarrow> TailnetTKAState" where
  "tka_state d i = option_or (find (\<lambda>s. tkTailnetID s = i) (dbTKAStates d)) (zero_tka i)"

definition chonk_LastActiveAncestor :: "lock_env \<Rightarrow> uint64 \<Rightarrow> db \<Rightarrow> error + string option" where
  "chonk_LastActiveAncestor e tailnetID d =
     (let s = tkLastActiveAncestor (tka_state d tailnetID) in
      if s = [] then Inr None
      else case leUnmarshalHash e s of None \<Rightarrow> Inl (Err ''hash'') | Some h \<Rightarrow> Inr (Some h))"

definition TKAChonk :: "lock_env \<Rightarrow> uint64 \<Rightarrow> db \<Rightarrow> chonk" where
  "TKAChonk e tailnetID d =
     \<lparr>ckAUM = chonk_AUM e tailnetID d, ckChildAUMs = chonk_ChildAUMs e tailnetID d,
      ckHeads = chonk_Heads e tailnetID d, ckLastActiveAncestor = chonk_LastActiveAncestor e tailnetID d\<rparr>"

text \<open>\<open>tka.Mem{}\<close>, the empty store.\<close>

definition mem_chonk :: chonk where
  "mem_chonk = \<lparr>ckAUM = (\<lambda>_. Inl (Err ''file does not exist'')), ckChildAUMs = (\<lambda>_. Inr []),
     ckHeads = Inr [], ckLastActiveAncestor = Inr None\<rparr>"

definition aum_row :: "lock_env \<Rightarrow> uint64 \<Rightarrow> instant \<Rightarrow> string \<Rightarrow> TKAAum" where
  "aum_row e tailnetID now aum =
     \<lparr>taTailnetID = tailnetID, taHash = hashToString e (leHash e aum),
      taPrevHash = (case leParent e aum of None \<Rightarrow> [] | Some parent \<Rightarrow> hashToString e parent),
      taData = leSerialize e aum, taCreatedAt = now\<rparr>"

text \<open>\<open>OnConflict{DoNothing: true}\<close>: a row whose primary key exists is left out.\<close>

definition insert_aum :: "TKAAum \<Rightarrow> TKAAum list \<Rightarrow> TKAAum list" where
  "insert_aum row rows =
     (if list_ex (\<lambda>a. taTailnetID a = taTailnetID row \<and> taHash a = taHash row) rows then rows else rows @ [row])"

definition CommitVerifiedAUMs :: "lock_env \<Rightarrow> uint64 \<Rightarrow> string list \<Rightarrow> unit m" where
  "CommitVerifiedAUMs e tailnetID updates =
     (if length updates = 0 then returnM ()
      else bindM time_Now (\<lambda>now.
        db_exec (\<lambda>d. d\<lparr>dbTKAAums := fold insert_aum (map (aum_row e tailnetID now) updates) (dbTKAAums d)\<rparr>)))"

definition SetLastActiveAncestor :: "lock_env \<Rightarrow> uint64 \<Rightarrow> string \<Rightarrow> unit m" where
  "SetLastActiveAncestor e tailnetID h =
     bindM (GetTailnetTKAState tailnetID) (\<lambda>state.
     SaveTailnetTKAState (state\<lparr>tkLastActiveAncestor := hashToString e h\<rparr>))"

definition run_chonk_cmd :: "lock_env \<Rightarrow> uint64 \<Rightarrow> chonk_cmd \<Rightarrow> unit m" where
  "run_chonk_cmd e tailnetID c =
     (case c of Commit aums \<Rightarrow> CommitVerifiedAUMs e tailnetID aums | SetAncestor h \<Rightarrow> SetLastActiveAncestor e tailnetID h)"

text \<open>A call of the package that works on the stored chain.\<close>

definition on_chonk :: "lock_env \<Rightarrow> uint64 \<Rightarrow> (chonk \<Rightarrow> error + 'a \<times> chonk_cmd list) \<Rightarrow> 'a m" where
  "on_chonk e tailnetID f =
     bindM (db_query (TKAChonk e tailnetID)) (\<lambda>ck.
     bindM (liftE (f ck)) (\<lambda>(x, cmds).
     seqM (forM cmds (run_chonk_cmd e tailnetID)) (returnM x)))"

section \<open>The handlers\<close>

definition BadRequest :: "string \<Rightarrow> error" where
  "BadRequest msg = HTTPError 400 msg"

definition caller :: "string \<Rightarrow> string \<Rightarrow> Machine m" where
  "caller machineKey nodeKey =
     bindM (GetMachineByKeys machineKey nodeKey) (\<lambda>m.
     case m of None \<Rightarrow> throwM (HTTPError 403 ''unknown node'') | Some x \<Rightarrow> returnM x)"

definition openAuthority :: "lock_env \<Rightarrow> uint64 \<Rightarrow> (string \<times> chonk) m" where
  "openAuthority e tailnetID =
     bindM (GetTailnetTKAState tailnetID) (\<lambda>state.
     seqM (requireM (tkEnabled state) (BadRequest ''tailnet key authority is not initialized'')) (
     bindM (db_query (TKAChonk e tailnetID)) (\<lambda>ck.
     bindM (liftE (leOpen e ck)) (\<lambda>authority. returnM (authority, ck)))))"

record TKASignInfo =
  siNodeID :: uint64
  siNodePublic :: string
  siRotationPubkey :: "string option"

primrec need_signatures :: "lock_env \<Rightarrow> Machine list \<Rightarrow> error + TKASignInfo list" where
  "need_signatures e [] = Inr []"
| "need_signatures e (m # ms) =
     (case leUnmarshalNodeText e (mNodeKey m) of
        None \<Rightarrow> Inl (Err ''node key'')
      | Some pub \<Rightarrow>
          (case need_signatures e ms of
             Inl err \<Rightarrow> Inl err
           | Inr infos \<Rightarrow>
               Inr (\<lparr>siNodeID = mID m, siNodePublic = pub,
                     siRotationPubkey = (if mNLKey m \<noteq> [] then leNLVerifier e (mNLKey m) else None)\<rparr> # infos)))"

datatype tka_response =
    InitBeginResponse "TKASignInfo list"
  | EmptyResponse
  | GenesisResponse string
  | DisabledResponse string
  | SyncOfferResponse string "string list" "string list"
  | SyncSendResponse string
  | SignaturesResponse "string list"

definition InitBegin :: "lock_env \<Rightarrow> string \<Rightarrow> string \<Rightarrow> string \<Rightarrow> tka_response m" where
  "InitBegin e machineKey nodeKey genesisAUM =
     bindM (caller machineKey nodeKey) (\<lambda>m.
     seqM (requireM (tTailnetLockEnabled (mTailnet m)) (HTTPError 403 ''tailnet lock is not enabled for this tailnet'')) (
     bindM (GetTailnetTKAState (mTailnetID m)) (\<lambda>state.
     seqM (requireM (\<not> tkEnabled state) (BadRequest ''tailnet key authority is already initialized'')) (
     case leUnserialize e genesisAUM of
       None \<Rightarrow> throwM (BadRequest ''invalid genesis AUM'')
     | Some genesis \<Rightarrow>
         seqM (requireM (okM (leBootstrap e mem_chonk genesis)) (BadRequest ''invalid genesis AUM'')) (
         bindM (ListMachineByTailnet (mTailnetID m)) (\<lambda>machines.
         bindM (liftE (need_signatures e machines)) (\<lambda>infos.
         seqM (SaveTailnetTKAState (state\<lparr>tkPendingGenesis := genesisAUM\<rparr>)) (
         returnM (InitBeginResponse infos)))))))))"

primrec sign_machines ::
    "lock_env \<Rightarrow> string \<Rightarrow> (uint64 \<rightharpoonup> string) \<Rightarrow> Machine list \<Rightarrow> error + (Machine \<times> string) list" where
  "sign_machines e authority sigs [] = Inr []"
| "sign_machines e authority sigs (m # ms) =
     (case sigs (mID m) of
        None \<Rightarrow> Inl (BadRequest (''missing signature for node '' @ CompleteName m))
      | Some sig \<Rightarrow>
          (case leUnmarshalNodeText e (mNodeKey m) of
             None \<Rightarrow> Inl (Err ''node key'')
           | Some nodeKey \<Rightarrow>
               if \<not> leNodeKeyAuthorized e authority nodeKey sig
               then Inl (BadRequest (''invalid signature for node '' @ CompleteName m))
               else (case sign_machines e authority sigs ms of
                       Inl err \<Rightarrow> Inl err
                     | Inr signedMachines \<Rightarrow> Inr ((m, sig) # signedMachines))))"

definition activate_authority ::
    "lock_env \<Rightarrow> uint64 \<Rightarrow> string \<Rightarrow> (Machine \<times> string) list \<Rightarrow> string \<Rightarrow> unit m" where
  "activate_authority e tailnetID genesis signedMachines supportDisablement =
     seqM (DeleteTKAByTailnet tailnetID) (
     bindM (on_chonk e tailnetID (\<lambda>ck. leBootstrap e ck genesis)) (\<lambda>txAuthority.
     seqM (forM signedMachines (\<lambda>(m, sig). SaveMachine (m\<lparr>mKeySignature := sig\<rparr>))) (
     bindM (GetTailnetTKAState tailnetID) (\<lambda>newState.
     SaveTailnetTKAState (newState\<lparr>tkEnabled := True, tkDisabled := False, tkHead := leMarshalHash e (leHead e txAuthority),
       tkPendingGenesis := [], tkDisablementSecret := [], tkSupportDisablement := supportDisablement\<rparr>)))))"

definition InitFinish :: "lock_env \<Rightarrow> string \<Rightarrow> string \<Rightarrow> (uint64 \<rightharpoonup> string) \<Rightarrow> string \<Rightarrow> tka_response m" where
  "InitFinish e machineKey nodeKey sigs supportDisablement =
     bindM (caller machineKey nodeKey) (\<lambda>m.
     seqM (requireM (tTailnetLockEnabled (mTailnet m)) (HTTPError 403 ''tailnet lock is not enabled for this tailnet'')) (
     bindM (GetTailnetTKAState (mTailnetID m)) (\<lambda>state.
     seqM (requireM (\<not> tkEnabled state) (BadRequest ''tailnet key authority is already initialized'')) (
     seqM (requireM (length (tkPendingGenesis state) \<noteq> 0) (BadRequest ''no pending tailnet key authority initialization'')) (
     case leUnserialize e (tkPendingGenesis state) of
       None \<Rightarrow> throwM (Err ''unserialize'')
     | Some genesis \<Rightarrow>
         bindM (liftE (leBootstrap e mem_chonk genesis)) (\<lambda>(authority, _).
         bindM (ListMachineByTailnet (mTailnetID m)) (\<lambda>machines.
         bindM (liftE (sign_machines e authority sigs machines)) (\<lambda>signedMachines.
         seqM (Transaction (activate_authority e (mTailnetID m) genesis signedMachines supportDisablement)) (
         seqM (notifyM (mTailnetID m)) (
         returnM EmptyResponse))))))))))"

definition Bootstrap :: "lock_env \<Rightarrow> string \<Rightarrow> string \<Rightarrow> tka_response m" where
  "Bootstrap e machineKey nodeKey =
     bindM (caller machineKey nodeKey) (\<lambda>m.
     bindM (GetTailnetTKAState (mTailnetID m)) (\<lambda>state.
     if tkEnabled state then
       bindM (db_query (chonk_LastActiveAncestor e (mTailnetID m))) (\<lambda>r.
       bindM (liftE r) (\<lambda>ancestor.
       case ancestor of
         None \<Rightarrow> throwM (Err ''enabled TKA has no last active ancestor'')
       | Some h \<Rightarrow>
           bindM (db_query (\<lambda>d. chonk_AUM e (mTailnetID m) d h)) (\<lambda>g.
           bindM (liftE g) (\<lambda>genesis. returnM (GenesisResponse (leSerialize e genesis))))))
     else if tkDisabled state then returnM (DisabledResponse (tkDisablementSecret state))
     else throwM (BadRequest ''tailnet key authority is not initialized'')))"

primrec parse_hashes :: "lock_env \<Rightarrow> string list \<Rightarrow> string list option" where
  "parse_hashes e [] = Some []"
| "parse_hashes e (a # as) =
     (case leUnmarshalHash e a of
        None \<Rightarrow> None
      | Some h \<Rightarrow> map_option ((#) h) (parse_hashes e as))"

definition parseSyncOffer :: "lock_env \<Rightarrow> string \<Rightarrow> string list \<Rightarrow> (string \<times> string list) option" where
  "parseSyncOffer e head ancestors =
     (case leUnmarshalHash e head of
        None \<Rightarrow> None
      | Some h \<Rightarrow> map_option (Pair h) (parse_hashes e ancestors))"

definition SyncOffer :: "lock_env \<Rightarrow> string \<Rightarrow> string \<Rightarrow> string \<Rightarrow> string list \<Rightarrow> tka_response m" where
  "SyncOffer e machineKey nodeKey head ancestors =
     bindM (caller machineKey nodeKey) (\<lambda>m.
     bindM (openAuthority e (mTailnetID m)) (\<lambda>(authority, ck).
     bindM (liftE (leSyncOffer e ck authority)) (\<lambda>(controlHead, controlAncestors).
     case parseSyncOffer e head ancestors of
       None \<Rightarrow> throwM (BadRequest ''invalid sync offer'')
     | Some remoteOffer \<Rightarrow>
         bindM (liftE (case leMissingAUMs e ck authority remoteOffer of
                         Missing aums \<Rightarrow> Inr aums | NoIntersection \<Rightarrow> Inr [] | MissingError err \<Rightarrow> Inl err)) (\<lambda>missing.
         returnM (SyncOfferResponse (leMarshalHash e controlHead) (map (leMarshalHash e) controlAncestors)
           (map (leSerialize e) missing))))))"

primrec parse_aums :: "lock_env \<Rightarrow> string list \<Rightarrow> string list option" where
  "parse_aums e [] = Some []"
| "parse_aums e (raw # raws) =
     (case leUnserialize e raw of
        None \<Rightarrow> None
      | Some aum \<Rightarrow> map_option ((#) aum) (parse_aums e raws))"

definition SyncSend :: "lock_env \<Rightarrow> string \<Rightarrow> string \<Rightarrow> string list \<Rightarrow> tka_response m" where
  "SyncSend e machineKey nodeKey missingAUMs =
     bindM (caller machineKey nodeKey) (\<lambda>m.
     bindM (openAuthority e (mTailnetID m)) (\<lambda>(authority, ck).
     if length missingAUMs > 0 then
       (case parse_aums e missingAUMs of
          None \<Rightarrow> throwM (BadRequest ''invalid AUM'')
        | Some updates \<Rightarrow>
            bindM (tryM (on_chonk e (mTailnetID m) (\<lambda>ck. leInform e ck authority updates))) (\<lambda>r.
            case r of
              Inl _ \<Rightarrow> throwM (BadRequest ''applying AUMs'')
            | Inr authority' \<Rightarrow>
                bindM (GetTailnetTKAState (mTailnetID m)) (\<lambda>state.
                let newHead = leMarshalHash e (leHead e authority') in
                seqM (whenM (tkHead state \<noteq> newHead) (
                  seqM (SaveTailnetTKAState (state\<lparr>tkHead := newHead\<rparr>)) (notifyM (mTailnetID m)))) (
                returnM (SyncSendResponse newHead)))))
     else returnM (SyncSendResponse (leMarshalHash e (leHead e authority)))))"

definition Disable :: "lock_env \<Rightarrow> string \<Rightarrow> string \<Rightarrow> string \<Rightarrow> tka_response m" where
  "Disable e machineKey nodeKey disablementSecret =
     bindM (caller machineKey nodeKey) (\<lambda>m.
     bindM (openAuthority e (mTailnetID m)) (\<lambda>(authority, _).
     seqM (requireM (leValidDisablement e authority disablementSecret) (HTTPError 403 ''invalid disablement secret'')) (
     bindM (GetTailnetTKAState (mTailnetID m)) (\<lambda>state.
     seqM (SaveTailnetTKAState (state\<lparr>tkEnabled := False, tkDisabled := True, tkDisablementSecret := disablementSecret\<rparr>)) (
     seqM (notifyM (mTailnetID m)) (
     returnM EmptyResponse))))))"

definition SubmitSignature :: "lock_env \<Rightarrow> string \<Rightarrow> string \<Rightarrow> string \<Rightarrow> tka_response m" where
  "SubmitSignature e machineKey nodeKey signature =
     bindM (caller machineKey nodeKey) (\<lambda>m.
     bindM (openAuthority e (mTailnetID m)) (\<lambda>(authority, _).
     case leUnserializeSig e signature of
       None \<Rightarrow> throwM (BadRequest ''invalid signature'')
     | Some nks \<Rightarrow>
         (case leUnmarshalNodeBinary e (leSigPubkey e nks) of
            None \<Rightarrow> throwM (BadRequest ''invalid signature pubkey'')
          | Some targetKey \<Rightarrow>
              seqM (requireM (leNodeKeyAuthorized e authority targetKey signature) (BadRequest ''signature not authorized'')) (
              bindM (GetMachineByNodeKey (mTailnetID m) targetKey) (\<lambda>target.
              case target of
                None \<Rightarrow> throwM (HTTPError 404 ''no node with the signed node key found in this tailnet'')
              | Some t \<Rightarrow>
                  seqM (SaveMachine (t\<lparr>mKeySignature := signature\<rparr>)) (
                  seqM (notifyM (mTailnetID m)) (
                  returnM EmptyResponse)))))))"

definition uses_key :: "lock_env \<Rightarrow> string \<Rightarrow> string \<Rightarrow> bool" where
  "uses_key e keyID raw =
     (case leUnserializeSig e raw of
        None \<Rightarrow> False
      | Some nks \<Rightarrow> (case leSigKeyID e nks of None \<Rightarrow> False | Some k \<Rightarrow> k = keyID))"

definition AffectedSigs :: "lock_env \<Rightarrow> string \<Rightarrow> string \<Rightarrow> string \<Rightarrow> tka_response m" where
  "AffectedSigs e machineKey nodeKey keyID =
     bindM (caller machineKey nodeKey) (\<lambda>m.
     bindM (ListMachineKeySignaturesByTailnet (mTailnetID m)) (\<lambda>signatures.
     returnM (SignaturesResponse (filter (uses_key e keyID) signatures))))"

section \<open>At registration\<close>

definition applyTailnetLockRegistration :: "lock_env \<Rightarrow> uint64 \<Rightarrow> Machine \<Rightarrow> RegisterRequest \<Rightarrow> Machine m" where
  "applyTailnetLockRegistration e tailnetID m req =
     (let m1 = (if rgNLKey req \<noteq> [] then m\<lparr>mNLKey := rgNLKey req\<rparr> else m) in
      if length (rgNodeKeySignature req) = 0 then returnM m1
      else
        bindM (tryM (GetTailnetTKAState tailnetID)) (\<lambda>r.
        case r of
          Inl _ \<Rightarrow> returnM m1
        | Inr state \<Rightarrow>
            if \<not> tkEnabled state then returnM m1
            else
              bindM (tryM (db_query (TKAChonk e tailnetID))) (\<lambda>c.
              case c of
                Inl _ \<Rightarrow> returnM m1
              | Inr ck \<Rightarrow>
                  (case leOpen e ck of
                     Inl _ \<Rightarrow> returnM m1
                   | Inr authority \<Rightarrow>
                       if leNodeKeyAuthorized e authority (rgNodeKey req) (rgNodeKeySignature req)
                       then returnM (m1\<lparr>mKeySignature := rgNodeKeySignature req\<rparr>)
                       else returnM m1))))"

definition tailnetLockRotationSignature :: "string \<Rightarrow> RegisterRequest \<Rightarrow> string option m" where
  "tailnetLockRotationSignature machineKey req =
     (if length (rgNodeKeySignature req) > 0 then returnM None
      else
        bindM (tryM (GetMachineByMachineKey machineKey)) (\<lambda>r.
        case r of
          Inr (Some old) \<Rightarrow>
            if length (mKeySignature old) = 0 then returnM None
            else
              bindM (tryM (GetTailnetTKAState (mTailnetID old))) (\<lambda>s.
              case s of
                Inr state \<Rightarrow> if tkEnabled state then returnM (Some (mKeySignature old)) else returnM None
              | Inl _ \<Rightarrow> returnM None)
        | _ \<Rightarrow> returnM None))"

datatype tka_rpc =
    TInitBegin string
  | TInitFinish "uint64 \<rightharpoonup> string" string
  | TBootstrap
  | TSyncOffer string "string list"
  | TSyncSend "string list"
  | TDisable string
  | TSubmitSignature string
  | TAffectedSigs string

primrec run_tka :: "lock_env \<Rightarrow> string \<Rightarrow> string \<Rightarrow> tka_rpc \<Rightarrow> tka_response m" where
  "run_tka e mk nk (TInitBegin g) = InitBegin e mk nk g"
| "run_tka e mk nk (TInitFinish sigs sd) = InitFinish e mk nk sigs sd"
| "run_tka e mk nk TBootstrap = Bootstrap e mk nk"
| "run_tka e mk nk (TSyncOffer h as) = SyncOffer e mk nk h as"
| "run_tka e mk nk (TSyncSend aums) = SyncSend e mk nk aums"
| "run_tka e mk nk (TDisable s) = Disable e mk nk s"
| "run_tka e mk nk (TSubmitSignature s) = SubmitSignature e mk nk s"
| "run_tka e mk nk (TAffectedSigs k) = AffectedSigs e mk nk k"

section \<open>The state of the lock\<close>

lemma tka_state_simps [simp]:
  "tkTailnetID (tka_state d i) = i"
  "tka_state (d\<lparr>dbTKAStates := save_row tkTailnetID s (dbTKAStates d)\<rparr>) i = (if i = tkTailnetID s then s else tka_state d i)"
  "tka_state (d\<lparr>dbTKAStates := filter (\<lambda>s. tkTailnetID s \<noteq> j) (dbTKAStates d)\<rparr>) i = (if i = j then zero_tka i else tka_state d i)"
  "tka_state (dbTKAAums_update f d) i = tka_state d i"
  "tka_state (dbMachines_update g d) i = tka_state d i"
proof -
  show "tkTailnetID (tka_state d i) = i"
    by (cases "find (\<lambda>s. tkTailnetID s = i) (dbTKAStates d)") (auto simp: tka_state_def zero_tka_def dest: find_SomeD)
  show "tka_state (d\<lparr>dbTKAStates := filter (\<lambda>s. tkTailnetID s \<noteq> j) (dbTKAStates d)\<rparr>) i = (if i = j then zero_tka i else tka_state d i)"
  proof (cases "i = j")
    case True
    have "find (\<lambda>s. tkTailnetID s = j) (filter (\<lambda>s. tkTailnetID s \<noteq> j) xs) = None" for xs :: "TailnetTKAState list" by (auto simp: find_None_iff)
    with True show ?thesis by (simp add: tka_state_def)
  next
    case False
    have "find (\<lambda>s. tkTailnetID s = i) (filter (\<lambda>s. tkTailnetID s \<noteq> j) xs) = find (\<lambda>s. tkTailnetID s = i) xs" for xs :: "TailnetTKAState list"
      using False by (induction xs) auto
    with False show ?thesis by (simp add: tka_state_def)
  qed
qed (simp_all add: tka_state_def find_save_row)

lemma GetTailnetTKAState_run:
  assumes "GetTailnetTKAState t w = (Inr s, w')"
  shows "s = tka_state (wDB w) t \<and> wDB w' = wDB w"
  using db_query_run[OF assms[unfolded GetTailnetTKAState_def]] by (simp add: tka_state_def)

lemma quiet_lock_reads: "within quiet (GetTailnetTKAState t)" "within quiet (caller mk nk)" "within quiet (openAuthority e t)"
  "within quiet (ListMachineByTailnet t)" "within quiet (ListMachineKeySignaturesByTailnet t)" "within quiet (GetMachineByNodeKey t k)"
  unfolding GetTailnetTKAState_def caller_def openAuthority_def ListMachineByTailnet_def GetMachineByKeys_def take_machine_def
    ListMachineKeySignaturesByTailnet_def GetMachineByNodeKey_def
  by (auto intro!: quiet_intros split: option.splits)

text \<open>No authority that is active becomes inactive.\<close>

definition keeps_lock :: "db \<Rightarrow> db \<Rightarrow> bool" where
  "keeps_lock d d' \<longleftrightarrow> (\<forall>t. tkEnabled (tka_state d t) \<longrightarrow> tkEnabled (tka_state d' t))"

interpretation lock: db_frame keeps_lock
  by unfold_locales (auto simp: keeps_lock_def)

lemma lock_SaveTailnetTKAState:
  "(tkEnabled (tka_state (wDB w) (tkTailnetID s)) \<Longrightarrow> tkEnabled s) \<Longrightarrow> stays (on_db keeps_lock) (SaveTailnetTKAState s) w"
  unfolding SaveTailnetTKAState_def by (rule lock.stays_db_exec) (auto simp: keeps_lock_def)

lemma lock_SaveMachine: "within (on_db keeps_lock) (SaveMachine m)"
  unfolding SaveMachine_def by (rule lock.within_db_exec_unique) (auto simp: keeps_lock_def)

lemma lock_run_chonk_cmd: "stays (on_db keeps_lock) (run_chonk_cmd e t c) w"
proof (cases c)
  case (Commit aums)
  show ?thesis unfolding Commit run_chonk_cmd_def chonk_cmd.case CommitVerifiedAUMs_def
    by (auto intro!: lock.stays_refl lock.stays_quiet_bindM[OF quiet_time_Now] lock.stays_db_exec simp: keeps_lock_def)
next
  case (SetAncestor h)
  show ?thesis unfolding SetAncestor run_chonk_cmd_def chonk_cmd.case SetLastActiveAncestor_def
    by (rule lock.stays_quiet_bindM[OF quiet_lock_reads(1)]) (auto intro!: lock_SaveTailnetTKAState dest!: GetTailnetTKAState_run)
qed

lemma lock_on_chonk: "stays (on_db keeps_lock) (on_chonk e t f) w"
proof -
  have "within (on_db keeps_lock) (run_chonk_cmd e t c)" for c by (simp add: within_iff_stays lock_run_chonk_cmd)
  then show ?thesis unfolding on_chonk_def
    by (auto intro!: lock.stays_within lock.within_intros lock.within_quiet[OF quiet_db_query])
qed

lemma lock_activate:
  assumes "\<not> tkEnabled (tka_state (wDB w) t)" "activate_authority e t g ms sd w = (Inr x, w')"
  shows "keeps_lock (wDB w) (wDB w')"
proof -
  have d: "stays (on_db keeps_lock) (DeleteTKAByTailnet t) w" if "\<not> tkEnabled (tka_state (wDB w) t)" for w
    unfolding DeleteTKAByTailnet_def using that
    by (intro lock.stays_seqM lock.stays_db_exec) (auto simp: keeps_lock_def dest!: db_exec_run)
  have "stays (on_db keeps_lock) (activate_authority e t g ms sd) w"
    unfolding activate_authority_def
    by (intro lock.stays_seqM[OF d[OF assms(1)]] lock.stays_bindM lock_on_chonk lock.stays_quiet_bindM[OF quiet_lock_reads(1)]
        lock.stays_seqM lock_SaveTailnetTKAState lock.stays_within lock.within_forM)
      (auto simp: lock_SaveMachine)
  with assms(2) show ?thesis by (simp add: stays_def on_db_def)
qed

lemma lock_Transaction:
  "\<not> tkEnabled (tka_state (wDB w) t) \<Longrightarrow> stays (on_db keeps_lock) (Transaction (activate_authority e t g ms sd)) w"
  by (rule lock.stays_Transaction) (metis lock_activate)

lemma lock_handlers:
  "stays (on_db keeps_lock) (InitBegin e mk nk g) w" "stays (on_db keeps_lock) (InitFinish e mk nk sigs sd) w"
  "stays (on_db keeps_lock) (Bootstrap e mk nk) w" "stays (on_db keeps_lock) (SyncOffer e mk nk h as) w"
  "stays (on_db keeps_lock) (SyncSend e mk nk aums) w" "stays (on_db keeps_lock) (SubmitSignature e mk nk s) w"
  "stays (on_db keeps_lock) (AffectedSigs e mk nk k) w"
proof -
  show "stays (on_db keeps_lock) (Bootstrap e mk nk) w" "stays (on_db keeps_lock) (SyncOffer e mk nk h as) w"
    "stays (on_db keeps_lock) (AffectedSigs e mk nk k) w"
    unfolding Bootstrap_def SyncOffer_def AffectedSigs_def
    by (rule lock.stays_quiet; auto intro!: quiet_intros quiet_lock_reads split: option.splits prod.splits)+
  show "stays (on_db keeps_lock) (InitBegin e mk nk g) w"
    unfolding InitBegin_def
    by (auto intro!: lock.stays_quiet_bindM[OF quiet_lock_reads(2)] lock.stays_quiet_seqM[OF quiet.within_requireM]
        lock.stays_quiet_bindM[OF quiet_lock_reads(1)] lock.stays_refl lock.stays_quiet_bindM[OF quiet_lock_reads(4)]
        lock.stays_quiet_bindM[OF quiet.within_liftE] lock.stays_seqM lock_SaveTailnetTKAState
        simp: quiet_def split: option.splits if_splits dest!: GetTailnetTKAState_run)
  show "stays (on_db keeps_lock) (InitFinish e mk nk sigs sd) w"
    unfolding InitFinish_def
    by (auto intro!: lock.stays_quiet_bindM[OF quiet_lock_reads(2)] lock.stays_quiet_seqM[OF quiet.within_requireM]
        lock.stays_quiet_bindM[OF quiet_lock_reads(1)] lock.stays_refl lock.stays_quiet_bindM[OF quiet_lock_reads(4)]
        lock.stays_quiet_bindM[OF quiet.within_liftE] lock.stays_seqM lock_Transaction lock.stays_notifyM
        simp: quiet_def split: option.splits if_splits prod.splits dest!: GetTailnetTKAState_run)
  show "stays (on_db keeps_lock) (SubmitSignature e mk nk s) w"
    unfolding SubmitSignature_def
    by (auto intro!: lock.stays_quiet_bindM[OF quiet_lock_reads(2)] lock.stays_quiet_bindM[OF quiet_lock_reads(3)]
        lock.stays_quiet_seqM[OF quiet.within_requireM] lock.stays_quiet_bindM[OF quiet_lock_reads(6)] lock.stays_refl
        lock.stays_seqM lock.stays_notifyM lock.stays_within[OF lock_SaveMachine] split: option.splits prod.splits)
  have head: "stays (on_db keeps_lock) (bindM (GetTailnetTKAState t) (\<lambda>state.
      let newHead = n in seqM (whenM (tkHead state \<noteq> newHead) (
          seqM (SaveTailnetTKAState (state\<lparr>tkHead := newHead\<rparr>)) (notifyM t))) (returnM (SyncSendResponse newHead)))) w" for t n w
    unfolding Let_def whenM_def
    by (auto intro!: lock.stays_quiet_bindM[OF quiet_lock_reads(1)] lock.stays_seqM lock.stays_notifyM lock.stays_refl
        lock_SaveTailnetTKAState dest!: GetTailnetTKAState_run)
  have attempt: "stays (on_db keeps_lock) (tryM (on_chonk e t f)) w" for t f w
    using lock_on_chonk[of e t f w] by (auto simp: stays_def tryM_def split: prod.splits sum.splits)
  show "stays (on_db keeps_lock) (SyncSend e mk nk aums) w"
    unfolding SyncSend_def
    by (auto intro!: lock.stays_quiet_bindM[OF quiet_lock_reads(2)] lock.stays_quiet_bindM[OF quiet_lock_reads(3)] lock.stays_refl
        lock.stays_bindM[OF attempt] head split: option.splits prod.splits sum.splits)
qed

text \<open>The state of another tailnet is not touched.\<close>

interpretation elsewhere: db_frame "\<lambda>d d'. tka_state d' t = tka_state d t" for t
  by unfold_locales simp_all

lemma elsewhere_disable:
  assumes "i \<noteq> t"
  shows "stays (on_db (\<lambda>d d'. tka_state d' t = tka_state d t))
    (bindM (GetTailnetTKAState i) (\<lambda>state. seqM (SaveTailnetTKAState (state\<lparr>tkEnabled := False, tkDisabled := True, tkDisablementSecret := s\<rparr>))
       (seqM (notifyM i) (returnM EmptyResponse)))) w"
  unfolding SaveTailnetTKAState_def using assms
  by (intro elsewhere.stays_quiet_bindM[OF quiet_lock_reads(1)] elsewhere.stays_seqM elsewhere.stays_db_exec elsewhere.stays_notifyM
      elsewhere.stays_refl) (auto dest!: GetTailnetTKAState_run)

lemma caller_run:
  assumes "caller mk nk w = (Inr m, w')"
  shows "wDB w' = wDB w \<and> (\<exists>row \<in> set (dbMachines (wDB w)). m = load_machine (wDB w) row \<and> mMachineKey row = mk \<and> mNodeKey row = nk)"
proof -
  from assms have q: "GetMachineByKeys mk nk w = (Inr (Some m), w')"
    by (auto simp: caller_def go_success split: option.splits)
  note r = db_query_run[OF q[unfolded GetMachineByKeys_def take_machine_def]]
  from r(1) obtain row where "find (\<lambda>m. mMachineKey m = mk \<and> mNodeKey m = nk) (dbMachines (wDB w)) = Some row" "m = load_machine (wDB w) row"
    by (auto simp: map_option_case split: option.splits)
  with find_SomeD[OF this(1)] r(2) show ?thesis by auto
qed

lemma openAuthority_run:
  assumes "openAuthority e t w = (Inr (a, ck), w')"
  shows "wDB w' = wDB w \<and> tkEnabled (tka_state (wDB w) t) \<and> ck = TKAChonk e t (wDB w) \<and> leOpen e ck = Inr a"
proof -
  from assms obtain s w1 where g: "GetTailnetTKAState t w = (Inr s, w1)" "tkEnabled s"
    and q: "db_query (TKAChonk e t) w1 = (Inr ck, w')" "leOpen e ck = Inr a"
    by (auto simp: openAuthority_def go_success split: if_splits)
  from GetTailnetTKAState_run[OF g(1)] g(2) db_query_run[OF q(1)] q(2) show ?thesis by simp
qed

text \<open>
  C21. An active lock is lifted by its secret alone: if a request to the lock's handlers
  leaves the authority of a tailnet inactive that was active before, then it was a
  disablement, sent by a machine of that tailnet, with a secret that the stored authority
  accepts.
\<close>

theorem lock_lifted_only_by_secret:
  assumes "run_tka e machineKey nodeKey r w = (res, w')"
    and "tkEnabled (tka_state (wDB w) t)" "\<not> tkEnabled (tka_state (wDB w') t)"
  shows "\<exists>secret row authority. r = TDisable secret \<and> row \<in> set (dbMachines (wDB w)) \<and> mTailnetID row = t \<and>
    mMachineKey row = machineKey \<and> mNodeKey row = nodeKey \<and>
    leOpen e (TKAChonk e t (wDB w)) = Inr authority \<and> leValidDisablement e authority secret"
proof -
  have no: "\<not> keeps_lock (wDB w) (wDB w')" using assms(2,3) by (auto simp: keeps_lock_def)
  have "\<exists>secret. r = TDisable secret"
  proof (rule ccontr)
    assume "\<nexists>secret. r = TDisable secret"
    then have "stays (on_db keeps_lock) (run_tka e machineKey nodeKey r) w" by (cases r) (simp_all add: lock_handlers)
    with no assms(1) show False by (simp add: stays_def on_db_def)
  qed
  then obtain secret where r: "r = TDisable secret" by blast
  obtain rc w1 where c: "caller machineKey nodeKey w = (rc, w1)" by fastforce
  note cq = quietD[OF quiet_lock_reads(2) c]
  show ?thesis
  proof (cases rc)
    case (Inl err)
    with c assms(1) r have "w' = w1" by (simp add: Disable_def bindM_def)
    with cq no show ?thesis by (simp add: lock.R_refl)
  next
    case (Inr m)
    from caller_run[OF c[unfolded Inr]] obtain row where row: "row \<in> set (dbMachines (wDB w))" "m = load_machine (wDB w) row"
      "mMachineKey row = machineKey" "mNodeKey row = nodeKey" by blast
    obtain ro w2 where o: "openAuthority e (mTailnetID m) w1 = (ro, w2)" by fastforce
    note oq = quietD[OF quiet_lock_reads(3) o]
    show ?thesis
    proof (cases ro)
      case (Inl err)
      with c Inr o assms(1) r have "w' = w2" by (simp add: Disable_def bindM_def)
      with cq oq no show ?thesis by (simp add: lock.R_refl)
    next
      case ro: (Inr ac)
      obtain a ck where ac: "ac = (a, ck)" by fastforce
      from openAuthority_run[OF o[unfolded ro ac]] cq have a: "leOpen e (TKAChonk e (mTailnetID m) (wDB w)) = Inr a" by auto
      have run: "(if leValidDisablement e a secret then bindM (GetTailnetTKAState (mTailnetID m)) (\<lambda>state.
          seqM (SaveTailnetTKAState (state\<lparr>tkEnabled := False, tkDisabled := True, tkDisablementSecret := secret\<rparr>))
            (seqM (notifyM (mTailnetID m)) (returnM EmptyResponse))) w2 else (Inl (HTTPError 403 ''invalid disablement secret''), w2)) = (res, w')"
        using assms(1) r c Inr o ro ac by (auto simp: Disable_def bindM_def seqM_def requireM_def throwM_def split: if_splits)
      have v: "leValidDisablement e a secret"
        using run cq oq no by (auto simp: lock.R_refl split: if_splits)
      moreover have "mTailnetID m = t"
      proof (rule ccontr)
        assume "mTailnetID m \<noteq> t"
        from elsewhere_disable[OF this, of secret w2] run v have "tka_state (wDB w') t = tka_state (wDB w2) t"
          by (simp add: stays_def on_db_def)
        with cq oq assms(2,3) show False by simp
      qed
      ultimately show ?thesis using r row a by (auto simp: load_machine_def)
    qed
  qed
qed

section \<open>Every machine is signed when the lock goes live\<close>

lemma sign_machines_run:
  "sign_machines e a sigs ms = Inr sms \<Longrightarrow> map fst sms = ms \<and>
     (\<forall>(m, sig) \<in> set sms. \<exists>k. leUnmarshalNodeText e (mNodeKey m) = Some k \<and> leNodeKeyAuthorized e a k sig)"
  by (induction ms arbitrary: sms) (fastforce split: option.splits if_splits sum.splits)+

lemma save_signed_run:
  assumes "forM sms (\<lambda>(m, sig). SaveMachine (m\<lparr>mKeySignature := sig\<rparr>)) w = (Inr x, w')"
  shows "dbTKAStates (wDB w') = dbTKAStates (wDB w)"
    and "set (dbMachines (wDB w')) \<subseteq> (\<lambda>(m, sig). machine_row (m\<lparr>mKeySignature := sig\<rparr>)) ` set sms \<union>
      {r \<in> set (dbMachines (wDB w)). mID r \<notin> mID ` fst ` set sms}"
proof -
  have "dbTKAStates (wDB w') = dbTKAStates (wDB w) \<and>
    set (dbMachines (wDB w')) \<subseteq> (\<lambda>(m, sig). machine_row (m\<lparr>mKeySignature := sig\<rparr>)) ` set sms \<union>
      {r \<in> set (dbMachines (wDB w)). mID r \<notin> mID ` fst ` set sms}"
    using assms
  proof (induction sms arbitrary: w)
    case (Cons p sms)
    obtain m sig where p: "p = (m, sig)" by fastforce
    let ?r = "machine_row (m\<lparr>mKeySignature := sig\<rparr>)"
    from Cons.prems p obtain w1 where s: "SaveMachine (m\<lparr>mKeySignature := sig\<rparr>) w = (Inr (), w1)"
      and rest: "forM sms (\<lambda>(m, sig). SaveMachine (m\<lparr>mKeySignature := sig\<rparr>)) w1 = (Inr x, w')" by (auto simp: go_success)
    from s have d: "wDB w1 = (wDB w)\<lparr>dbMachines := save_row mID ?r (dbMachines (wDB w))\<rparr>"
      by (auto simp: SaveMachine_def dest: db_exec_unique_run)
    have "set (save_row mID ?r (dbMachines (wDB w))) \<subseteq> insert ?r {r \<in> set (dbMachines (wDB w)). mID r \<noteq> mID m}"
      by (auto simp: set_save_row machine_row_def)
    moreover from Cons.IH[OF rest] d have "dbTKAStates (wDB w') = dbTKAStates (wDB w)"
      "set (dbMachines (wDB w')) \<subseteq> (\<lambda>(m, sig). machine_row (m\<lparr>mKeySignature := sig\<rparr>)) ` set sms \<union>
        {r \<in> set (save_row mID ?r (dbMachines (wDB w))). mID r \<notin> mID ` fst ` set sms}" by simp_all
    ultimately have "dbTKAStates (wDB w') = dbTKAStates (wDB w)"
      "set (dbMachines (wDB w')) \<subseteq> (\<lambda>(m, sig). machine_row (m\<lparr>mKeySignature := sig\<rparr>)) ` set sms \<union> {?r} \<union>
        {r \<in> set (dbMachines (wDB w)). mID r \<noteq> mID m \<and> mID r \<notin> mID ` fst ` set sms}" by blast+
    then show ?case by (auto simp: p)
  qed simp
  then show "dbTKAStates (wDB w') = dbTKAStates (wDB w)"
    and "set (dbMachines (wDB w')) \<subseteq> (\<lambda>(m, sig). machine_row (m\<lparr>mKeySignature := sig\<rparr>)) ` set sms \<union>
      {r \<in> set (dbMachines (wDB w)). mID r \<notin> mID ` fst ` set sms}" by blast+
qed

text \<open>The chain's commands and the deletion do not touch the machines.\<close>

interpretation machines: db_frame "\<lambda>d d'. dbMachines d' = dbMachines d"
  by unfold_locales simp_all

lemma machines_run_chonk_cmd: "within (on_db (\<lambda>d d'. dbMachines d' = dbMachines d)) (run_chonk_cmd e t c)"
  unfolding run_chonk_cmd_def CommitVerifiedAUMs_def SetLastActiveAncestor_def SaveTailnetTKAState_def
  by (auto intro!: machines.within_intros machines.within_quiet[OF quiet_time_Now] machines.within_quiet[OF quiet_lock_reads(1)]
      machines.within_db_exec split: chonk_cmd.splits)

lemma machines_prepare:
  "within (on_db (\<lambda>d d'. dbMachines d' = dbMachines d)) (DeleteTKAByTailnet t)"
  "within (on_db (\<lambda>d d'. dbMachines d' = dbMachines d)) (on_chonk e t f)"
  unfolding DeleteTKAByTailnet_def on_chonk_def
  by (auto intro!: machines.within_intros machines.within_db_exec machines.within_quiet[OF quiet_db_query] machines_run_chonk_cmd)

lemma activate_authority_run:
  assumes "activate_authority e t g sms sd w = (Inr x, w')"
  shows "tkEnabled (tka_state (wDB w') t) \<and> set (dbMachines (wDB w')) \<subseteq> (\<lambda>(m, sig). machine_row (m\<lparr>mKeySignature := sig\<rparr>)) ` set sms \<union>
      {r \<in> set (dbMachines (wDB w)). mID r \<notin> mID ` fst ` set sms}"
proof -
  from assms obtain w1 w2 w3 w4 a st where del: "DeleteTKAByTailnet t w = (Inr (), w1)"
    and boot: "on_chonk e t (\<lambda>ck. leBootstrap e ck g) w1 = (Inr a, w2)"
    and save: "forM sms (\<lambda>(m, sig). SaveMachine (m\<lparr>mKeySignature := sig\<rparr>)) w2 = (Inr (), w3)"
    and get: "GetTailnetTKAState t w3 = (Inr st, w4)"
    and put: "SaveTailnetTKAState (st\<lparr>tkEnabled := True, tkDisabled := False, tkHead := leMarshalHash e (leHead e a),
       tkPendingGenesis := [], tkDisablementSecret := [], tkSupportDisablement := sd\<rparr>) w4 = (Inr x, w')"
    by (auto simp: activate_authority_def go_success)
  have "dbMachines (wDB w2) = dbMachines (wDB w)"
    using withinD[OF machines_prepare(1) del] withinD[OF machines_prepare(2) boot] by (simp add: on_db_def)
  with save_signed_run(2)[OF save] GetTailnetTKAState_run[OF get] db_exec_run[OF put[unfolded SaveTailnetTKAState_def]]
  show ?thesis by simp
qed

text \<open>
  C22. The moment an authority goes live nobody is locked out by mistake: when the
  initialization succeeds, the authority of the caller's tailnet is active and every machine
  of the tailnet has a signature of its node key that the new authority accepts.
\<close>

theorem InitFinish_all_signed:
  assumes "InitFinish e machineKey nodeKey sigs sd w = (Inr res, w')"
  shows "\<exists>row genesis authority cmds. row \<in> set (dbMachines (wDB w)) \<and> mMachineKey row = machineKey \<and> mNodeKey row = nodeKey \<and>
    leUnserialize e (tkPendingGenesis (tka_state (wDB w) (mTailnetID row))) = Some genesis \<and>
    leBootstrap e mem_chonk genesis = Inr (authority, cmds) \<and> tkEnabled (tka_state (wDB w') (mTailnetID row)) \<and>
    (\<forall>m \<in> set (dbMachines (wDB w')). mTailnetID m = mTailnetID row \<longrightarrow>
       (\<exists>k. leUnmarshalNodeText e (mNodeKey m) = Some k \<and> leNodeKeyAuthorized e authority k (mKeySignature m)))"
proof -
  from assms obtain m st genesis authority cmds ms sms w1 w2 w3 w4 where c: "caller machineKey nodeKey w = (Inr m, w1)"
    and st: "GetTailnetTKAState (mTailnetID m) w1 = (Inr st, w2)" and g: "leUnserialize e (tkPendingGenesis st) = Some genesis"
    and b: "leBootstrap e mem_chonk genesis = Inr (authority, cmds)"
    and ms: "ListMachineByTailnet (mTailnetID m) w2 = (Inr ms, w3)" and sms: "sign_machines e authority sigs ms = Inr sms"
    and t: "Transaction (activate_authority e (mTailnetID m) genesis sms sd) w3 = (Inr (), w4)"
    and n: "notifyM (mTailnetID m) w4 = (Inr (), w')"
    by (auto simp: InitFinish_def go_success split: option.splits if_splits)
  from caller_run[OF c] obtain row where row: "row \<in> set (dbMachines (wDB w))" "m = load_machine (wDB w) row"
    "mMachineKey row = machineKey" "mNodeKey row = nodeKey" and w1: "wDB w1 = wDB w" by auto
  note st' = GetTailnetTKAState_run[OF st] and ms' = db_query_run[OF ms[unfolded ListMachineByTailnet_def]]
  have w': "wDB w' = wDB w4" using n by (auto simp: notifyM_def)
  from t obtain w5 w6 where w5: "wDB w5 = wDB w3" "wDB w4 = wDB w6"
    and a: "activate_authority e (mTailnetID m) genesis sms sd w5 = (Inr (), w6)" by (rule Transaction_run)
  note a' = activate_authority_run[OF a]
  have "\<exists>k. leUnmarshalNodeText e (mNodeKey x) = Some k \<and> leNodeKeyAuthorized e authority k (mKeySignature x)"
    if x: "x \<in> set (dbMachines (wDB w'))" "mTailnetID x = mTailnetID row" for x
  proof -
    have "set ms = load_machine_account (wDB w) ` {y \<in> set (dbMachines (wDB w)). mTailnetID y = mTailnetID row}"
      using row(2) ms'(1) st' w1 by (simp add: load_machine_def)
    moreover have "fst ` set sms = set ms" using sign_machines_run[OF sms] by (metis set_map)
    ultimately have "mID x \<in> mID ` fst ` set sms" if "x \<in> set (dbMachines (wDB w))"
      using that x(2) by (auto simp: load_machine_account_def image_image)
    with a' w' w5 x st' ms' w1 obtain y sig where "(y, sig) \<in> set sms" "x = machine_row (y\<lparr>mKeySignature := sig\<rparr>)" by auto
    with sign_machines_run[OF sms] show ?thesis by (fastforce simp: machine_row_def)
  qed
  with a' w' w5 row st' w1 g b show ?thesis by (intro exI[of _ row] exI[of _ genesis] exI[of _ authority] exI[of _ cmds]) (auto simp: load_machine_def)
qed

section \<open>Instances\<close>

text \<open>An authority that is its genesis message and accepts its own text as a signature and as the secret.\<close>

definition sample_lock :: lock_env where
  "sample_lock =
     \<lparr>leUnserialize = Some, leSerialize = (\<lambda>a. a), leHash = (\<lambda>a. a), leParent = (\<lambda>_. None), leMarshalHash = (\<lambda>h. h),
      leUnmarshalHash = Some, leBootstrap = (\<lambda>_ g. Inr (g, [Commit [g], SetAncestor g])), leOpen = (\<lambda>_. Inr ''g''),
      leInform = (\<lambda>_ a _. Inr (a, [])), leHead = (\<lambda>a. a), leNodeKeyAuthorized = (\<lambda>a k s. s = a),
      leValidDisablement = (\<lambda>a s. s = a), leSyncOffer = (\<lambda>_ a. Inr (a, [])), leMissingAUMs = (\<lambda>_ _ _. NoIntersection),
      leUnserializeSig = Some, leSigPubkey = (\<lambda>s. s), leSigKeyID = Some, leUnmarshalNodeText = Some,
      leUnmarshalNodeBinary = Some, leNLVerifier = Some\<rparr>"

definition locked_world :: "TailnetTKAState \<Rightarrow> world" where
  "locked_world s = sample_world\<lparr>wDB := sample_db\<lparr>dbTailnets := [sample_tailnet\<lparr>tTailnetLockEnabled := True\<rparr>],
     dbMachines := [machine_row sample_laptop], dbTKAStates := [s]\<rparr>\<rparr>"

theorem lock_lifted_only_by_secret_witness:
  "\<exists>res w'. run_tka sample_lock ''mkey:1'' ''nodekey:1'' (TDisable ''g'') (locked_world ((zero_tka 1)\<lparr>tkEnabled := True\<rparr>)) = (res, w') \<and>
     \<not> tkEnabled (tka_state (wDB w') 1) \<and> (\<exists>secret. TDisable ''g'' = TDisable secret)"
proof -
  let ?w = "locked_world ((zero_tka 1)\<lparr>tkEnabled := True\<rparr>)"
  obtain res w' where run: "run_tka sample_lock ''mkey:1'' ''nodekey:1'' (TDisable ''g'') ?w = (res, w')" by fastforce
  then have off: "\<not> tkEnabled (tka_state (wDB w') 1)"
    by (auto simp: Disable_def caller_def GetMachineByKeys_def take_machine_def openAuthority_def GetTailnetTKAState_def
        SaveTailnetTKAState_def bindM_def seqM_def db_query_ok db_exec_ok notifyM_def locked_world_def sample_world_def sample_db_def
        sample_lock_def machine_row_def sample_laptop_def load_machine_def tka_state_def zero_tka_def save_row_def)
  have on: "tkEnabled (tka_state (wDB ?w) 1)" by (simp add: locked_world_def tka_state_def zero_tka_def)
  from lock_lifted_only_by_secret[OF run on off] run off show ?thesis by blast
qed

theorem InitFinish_all_signed_witness:
  "\<exists>res w'. InitFinish sample_lock ''mkey:1'' ''nodekey:1'' [101 \<mapsto> ''g''] [] (locked_world ((zero_tka 1)\<lparr>tkPendingGenesis := ''g''\<rparr>)) = (Inr res, w') \<and>
     tkEnabled (tka_state (wDB w') 1)"
proof -
  let ?w = "locked_world ((zero_tka 1)\<lparr>tkPendingGenesis := ''g''\<rparr>)"
  obtain w' where run: "InitFinish sample_lock ''mkey:1'' ''nodekey:1'' [101 \<mapsto> ''g''] [] ?w = (Inr EmptyResponse, w')"
    by (simp add: InitFinish_def caller_def GetMachineByKeys_def take_machine_def GetTailnetTKAState_def ListMachineByTailnet_def
        SaveTailnetTKAState_def Transaction_def activate_authority_def DeleteTKAByTailnet_def on_chonk_def run_chonk_cmd_def
        CommitVerifiedAUMs_def SetLastActiveAncestor_def SaveMachine_def machine_name_taken_def other_row_def time_Now_def
        bindM_def seqM_def db_query_ok db_exec_ok db_exec_unique_ok notifyM_def locked_world_def sample_world_def sample_db_def
        sample_lock_def machine_row_def sample_laptop_def load_machine_def load_machine_account_def zero_tka_def save_row_def tailnet_of_def sample_tailnet_def)
  from InitFinish_all_signed[OF run] run show ?thesis
    by (auto simp: locked_world_def machine_row_def sample_laptop_def)
qed
end
