(* ===== verification/Registration.thy ===== *)
theory Registration
  imports TailnetLock AddrSelect ACL NetMap
begin

text \<open>
  \<open>internal/handlers/registration.go\<close>: how a machine registers. A machine that is known by
  its keys refreshes its registration; any other needs an auth key, or a person who logs in
  in the browser, which the machine waits for in \<open>followup\<close>.

  \<open>reg_env\<close> holds what the handlers get from outside: the third-party functions, the range
  of addresses, the lifetime of a key and the base URL. A call of \<open>SelectIP\<close> that does not
  end is the error \<open>NoReturn\<close>. A request carries its host information.
\<close>

section \<open>Handlers\<close>

record reg_env =
  rvEnv :: env
  rvLock :: lock_env
  rvAddr :: addr_env
  rvMachineKeyExpiry :: instant
  rvCreateUrl :: "string \<Rightarrow> string"

definition SupportedCapabilityVersion :: int where
  "SupportedCapabilityVersion = 68"

definition UnsupportedClientVersionMessage :: string where
  "UnsupportedClientVersionMessage = ''ionscale only support client version >= 1.48.0, please upgrade your client''"

record RegisterResponse =
  rsMachineAuthorized :: bool
  rsError :: string
  rsNodeKeyExpired :: bool
  rsUser :: "(TailUser \<times> Login) option"
  rsAuthURL :: string
  rsNodeKeySignature :: string

definition zero_response :: RegisterResponse where
  "zero_response = \<lparr>rsMachineAuthorized = False, rsError = [], rsNodeKeyExpired = False, rsUser = None, rsAuthURL = [],
     rsNodeKeySignature = []\<rparr>"

definition zero_hostinfo :: HostInfo where
  "zero_hostinfo = \<lparr>hiHostname = [], hiOS = [], hiIPNVersion = [], hiRoutableIPs = [], hiRequestTags = [], hiServices = [],
     hiNetInfo = None, hiSSH_HostKeys = []\<rparr>"

definition SelectIP_M :: "addr_env \<Rightarrow> (Addr \<times> Addr) m" where
  "SelectIP_M e = (\<lambda>w. case SelectIP e (Some checkIP) w of None \<Rightarrow> (Inl NoReturn, w) | Some r \<Rightarrow> r)"

text \<open>The name of the machine follows the operating system's host name, if it is meant to.\<close>

definition refresh_name :: "env \<Rightarrow> uint64 \<Rightarrow> HostInfo \<Rightarrow> Machine \<Rightarrow> Machine m" where
  "refresh_name e tailnetID hostinfo m =
     (let sanitizeHostname = envSanitizeHostname e (hiHostname hostinfo) in
      if mUseOSHostname m \<and> mName m \<noteq> sanitizeHostname then
        bindM (GetNextMachineNameIndex tailnetID sanitizeHostname) (\<lambda>nameIdx.
        returnM (m\<lparr>mName := sanitizeHostname, mNameIdx := nameIdx\<rparr>))
      else returnM m)"

text \<open>The machine of a registration: a new row, or the row that this user has for the machine key.\<close>

definition fresh_machine ::
    "reg_env \<Rightarrow> string \<Rightarrow> RegisterRequest \<Rightarrow> Tailnet \<Rightarrow> User \<Rightarrow> string list \<Rightarrow> Prefix list \<Rightarrow> bool \<Rightarrow> bool \<Rightarrow> instant \<Rightarrow> Machine m" where
  "fresh_machine v machineKey req tailnet user registeredTags autoAllowIPs ephemeral authorized now =
     (let tags = registeredTags @ SanitizeTags (hiRequestTags (rgHostinfo req));
          sanitizeHostname = envSanitizeHostname (rvEnv v) (hiHostname (rgHostinfo req)) in
      bindM (GetNextMachineNameIndex (tID tailnet) sanitizeHostname) (\<lambda>nameIdx.
      bindM NextID (\<lambda>i.
      bindM (SelectIP_M (rvAddr v)) (\<lambda>(ipv4, ipv6).
      returnM
        \<lparr>mID = i, mName = sanitizeHostname, mNameIdx = nameIdx, mMachineKey = machineKey, mNodeKey = rgNodeKey req,
         mDiscoKey = [], mNLKey = [], mKeySignature = [], mEphemeral = ephemeral \<or> rgEphemeral req,
         mRegisteredTags = registeredTags, mTags = SanitizeTags tags, mKeyExpiryDisabled = (length tags \<noteq> 0),
         mAuthorized = (\<not> tMachineAuthorizationEnabled tailnet \<or> authorized), mUseOSHostname = True,
         mHostInfo = zero_hostinfo, mEndpoints = [], mAllowIPs = [], mAutoAllowIPs = autoAllowIPs,
         mIPv4 = ipv4, mIPv6 = ipv6, mCreatedAt = now, mExpiresAt = now + rvMachineKeyExpiry v, mLastSeen = None,
         mUserID = uID user, mUser = user, mTailnetID = tID tailnet, mTailnet = tailnet\<rparr>))))"

definition renewed_machine ::
    "reg_env \<Rightarrow> RegisterRequest \<Rightarrow> Tailnet \<Rightarrow> User \<Rightarrow> string list \<Rightarrow> Prefix list \<Rightarrow> bool \<Rightarrow> instant \<Rightarrow> Machine \<Rightarrow> Machine m" where
  "renewed_machine v req tailnet user registeredTags autoAllowIPs ephemeral now m0 =
     (let tags = registeredTags @ SanitizeTags (hiRequestTags (rgHostinfo req)) in
      bindM (refresh_name (rvEnv v) (tID tailnet) (rgHostinfo req) m0) (\<lambda>m.
      returnM (m\<lparr>mNodeKey := rgNodeKey req, mEphemeral := ephemeral \<or> rgEphemeral req, mRegisteredTags := registeredTags,
        mTags := SanitizeTags tags, mAutoAllowIPs := autoAllowIPs, mUserID := uID user, mUser := user,
        mTailnetID := tID tailnet, mTailnet := tailnet, mExpiresAt := now + rvMachineKeyExpiry v\<rparr>)))"

text \<open>\<open>authenticateMachineWithAuthKey\<close>, from the key on: the machine is saved.\<close>

definition machine_with_key :: "reg_env \<Rightarrow> string \<Rightarrow> RegisterRequest \<Rightarrow> AuthKey \<Rightarrow> ACLPolicy \<Rightarrow> RegisterResponse m" where
  "machine_with_key v machineKey req authKey policy =
     (let tailnet = akTailnet authKey; user = akUser authKey;
          registeredTags = akTags authKey;
          tags = registeredTags @ SanitizeTags (hiRequestTags (rgHostinfo req));
          autoAllowIPs = FindAutoApprovedIPs policy (hiRoutableIPs (rgHostinfo req)) tags user in
      bindM (GetMachineByKeyAndUser machineKey (uID user)) (\<lambda>known.
      bindM time_Now (\<lambda>now.
      bindM (case known of
               None \<Rightarrow>
                 bindM (fresh_machine v machineKey req tailnet user registeredTags autoAllowIPs
                   (akEphemeral authKey) (akPreAuthorized authKey) now) (\<lambda>m.
                 returnM (if rgExpiry req \<noteq> 0 then m\<lparr>mExpiresAt := rgExpiry req\<rparr> else m))
             | Some m \<Rightarrow> renewed_machine v req tailnet user registeredTags autoAllowIPs (akEphemeral authKey) now m) (\<lambda>m.
      bindM (applyTailnetLockRegistration (rvLock v) (tID tailnet) m req) (\<lambda>m.
      seqM (SaveMachine m) (
      returnM (zero_response\<lparr>rsMachineAuthorized := True, rsUser := Some (ToUser (mUser m))\<rparr>)))))))"

definition authenticateMachineWithAuthKey :: "reg_env \<Rightarrow> string \<Rightarrow> RegisterRequest \<Rightarrow> string \<Rightarrow> RegisterResponse m" where
  "authenticateMachineWithAuthKey v machineKey req secret =
     bindM (LoadAuthKey (rvEnv v) secret) (\<lambda>k.
     case k of
       None \<Rightarrow> returnM (zero_response\<lparr>rsError := ''invalid auth key''\<rparr>)
     | Some authKey \<Rightarrow>
         (case hjT (tACLPolicy (akTailnet authKey)) of
            None \<Rightarrow> throwM NilDeref
          | Some policy \<Rightarrow>
              if CheckTagOwners policy (hiRequestTags (rgHostinfo req)) (akUser authKey) \<noteq> None
              then returnM (zero_response\<lparr>rsError := ''tag is invalid or not permitted''\<rparr>)
              else machine_with_key v machineKey req authKey policy))"

datatype follow_event = FollowTick | FollowDone

primrec followup :: "string \<Rightarrow> follow_event list \<Rightarrow> RegisterResponse option m" where
  "followup machineKey [] = returnM None"
| "followup machineKey (ev # evs) =
     (case ev of
        FollowDone \<Rightarrow> returnM None
      | FollowTick \<Rightarrow>
          bindM (tryM (GetRegistrationRequestByMachineKey machineKey)) (\<lambda>r.
          case r of
            Inr (Some q) \<Rightarrow>
              if rrAuthenticated q then
                bindM (GetUser (rrUserID q)) (\<lambda>u.
                case u of
                  None \<Rightarrow> throwM NilDeref
                | Some user \<Rightarrow>
                    returnM (Some (zero_response\<lparr>rsMachineAuthorized := (length (rrError q) \<noteq> 0), rsError := rrError q,
                      rsUser := Some (ToUser user)\<rparr>)))
              else if length (rrError q) \<noteq> 0 then
                returnM (Some (zero_response\<lparr>rsMachineAuthorized := (length (rrError q) \<noteq> 0), rsError := rrError q\<rparr>))
              else followup machineKey evs
          | _ \<Rightarrow> returnM (Some (zero_response\<lparr>rsError := ''something went wrong''\<rparr>))))"

definition authenticateMachine ::
    "reg_env \<Rightarrow> string \<Rightarrow> RegisterRequest \<Rightarrow> follow_event list \<Rightarrow> RegisterResponse option m" where
  "authenticateMachine v machineKey req evs =
     (if rgFollowup req \<noteq> [] then followup machineKey evs
      else case rgAuthKey req of
        Some (c # cs) \<Rightarrow> bindM (authenticateMachineWithAuthKey v machineKey req (c # cs)) (\<lambda>r. returnM (Some r))
      | _ \<Rightarrow>
          bindM (RandStringBytes 8) (\<lambda>key.
          bindM time_Now (\<lambda>now.
          bindM (tryM (SaveRegistrationRequest
            \<lparr>rrMachineKey = machineKey, rrKey = key, rrData = req, rrCreatedAt = now, rrAuthenticated = False,
             rrError = [], rrUserID = 0\<rparr>)) (\<lambda>r.
          case r of
            Inl _ \<Rightarrow> returnM (Some (zero_response\<lparr>rsError := ''something went wrong''\<rparr>))
          | Inr _ \<Rightarrow> returnM (Some (zero_response\<lparr>rsAuthURL := rvCreateUrl v (''/a/r/'' @ key)\<rparr>))))))"

text \<open>A machine that logs out sends an expiry in the past.\<close>

definition logout_machine :: "RegisterRequest \<Rightarrow> Machine \<Rightarrow> RegisterResponse m" where
  "logout_machine req m =
     seqM (if mEphemeral m then bindM (DeleteMachine_row (mID m)) (\<lambda>_. returnM ())
           else SaveMachine (m\<lparr>mExpiresAt := rgExpiry req\<rparr>)) (
     seqM (notifyM (mTailnetID m)) (
     returnM (zero_response\<lparr>rsNodeKeyExpired := True\<rparr>)))"

definition refresh_machine :: "reg_env \<Rightarrow> RegisterRequest \<Rightarrow> Machine \<Rightarrow> RegisterResponse m" where
  "refresh_machine v req m0 =
     bindM (refresh_name (rvEnv v) (mTailnetID m0) (rgHostinfo req) m0) (\<lambda>m1.
     bindM (applyTailnetLockRegistration (rvLock v) (mTailnetID m1)
       (m1\<lparr>mTags := mRegisteredTags m1 @ SanitizeTags (hiRequestTags (rgHostinfo req))\<rparr>) req) (\<lambda>m.
     seqM (SaveMachine m) (
     returnM (zero_response\<lparr>rsMachineAuthorized := mAuthorized m, rsUser := Some (ToUser (mUser m))\<rparr>))))"

definition RegisterMachine ::
    "reg_env \<Rightarrow> string \<Rightarrow> RegisterRequest \<Rightarrow> follow_event list \<Rightarrow> RegisterResponse option m" where
  "RegisterMachine v machineKey req evs =
     (if rgVersion req < SupportedCapabilityVersion
      then returnM (Some (zero_response\<lparr>rsError := UnsupportedClientVersionMessage\<rparr>))
      else
        bindM (GetMachineByKeys machineKey (rgNodeKey req)) (\<lambda>known.
        bindM time_Now (\<lambda>now.
        case known of
          Some m \<Rightarrow>
            if IsExpired now m then returnM (Some (zero_response\<lparr>rsNodeKeyExpired := True\<rparr>))
            else if rgExpiry req \<noteq> 0 \<and> rgExpiry req < now then bindM (logout_machine req m) (\<lambda>r. returnM (Some r))
            else bindM (refresh_machine v req m) (\<lambda>r. returnM (Some r))
        | None \<Rightarrow>
            bindM (tailnetLockRotationSignature machineKey req) (\<lambda>sig.
            case sig of
              Some s \<Rightarrow> returnM (Some (zero_response\<lparr>rsNodeKeySignature := s\<rparr>))
            | None \<Rightarrow> authenticateMachine v machineKey req evs))))"

section \<open>The address of a new machine\<close>

lemma checkIP_run:
  assumes "checkIP ip w = (r, w')"
  shows "quiet w w'" "r = Inr True \<Longrightarrow> ip_free (wDB w) ip"
proof -
  have "within quiet (checkIP ip)"
    unfolding checkIP_def CountMachinesWithIPv4_def by (intro quiet_intros)
  then show "quiet w w'" using assms by (rule withinD)
  show "r = Inr True \<Longrightarrow> ip_free (wDB w) ip"
    using assms by (auto simp: checkIP_def CountMachinesWithIPv4_def bindM_result_split ip_free_def IP_Value_def filter_empty_conv
      dest!: db_query_result)
qed

lemma validateIP_run:
  assumes "validateIP e (Some checkIP) ip w = (r, w')"
  shows "quiet w w'" "r = Inr True \<Longrightarrow> aeIsTailscaleIP e ip \<and> ip_free (wDB w) ip"
  using assms checkIP_run[of ip w r w'] by (auto simp: validateIP_def quiet.frame_refl split: if_splits)

definition free_result :: "addr_env \<Rightarrow> world \<Rightarrow> (error + Addr) \<times> world \<Rightarrow> bool" where
  "free_result e w y \<longleftrightarrow>
     quiet w (snd y) \<and> (\<forall>ip. fst y = Inr ip \<longrightarrow> aeIsTailscaleIP e ip \<and> ip_free (wDB w) ip)"

lemma free_result_step: "quiet w w1 \<Longrightarrow> free_result e w1 y \<Longrightarrow> free_result e w y"
  by (auto simp: free_result_def quiet_def)

lemma selectIP_loop_run:
  assumes "selectIP_loop e p n w = Some y"
  shows "p = Some checkIP \<longrightarrow> free_result e w y"
  using assms
proof (rule selectIP_loop.raw_induct[of "\<lambda>e p n w y. p = Some checkIP \<longrightarrow> free_result e w y", rotated])
  fix loop e p n w y
  assume IH: "\<And>e p n w y. loop e p n w = Some y \<Longrightarrow> p = Some checkIP \<longrightarrow> free_result e w y"
    and body: "(case aeHostBig e n of None \<Rightarrow> Some (Inl (Err ''cidr''), w)
      | Some ip \<Rightarrow> (case validateIP e p ip w of (r, w') \<Rightarrow>
          (case r of Inl err \<Rightarrow> Some (Inl err, w')
           | Inr ok \<Rightarrow> if ok then Some (Inr ip, w') else loop e p ((n + 1) mod aeCount e) w'))) = Some y"
  show "p = Some checkIP \<longrightarrow> free_result e w y"
  proof
    assume p: "p = Some checkIP"
    show "free_result e w y"
    proof (cases "aeHostBig e n")
      case None
      with body show ?thesis by (auto simp: free_result_def quiet.frame_refl)
    next
      case (Some ip)
      obtain r w1 where v: "validateIP e p ip w = (r, w1)" by fastforce
      note q = validateIP_run[OF v[unfolded p]]
      show ?thesis
      proof (cases r)
        case (Inl err)
        with body Some v q(1) show ?thesis by (auto simp: free_result_def)
      next
        case (Inr ok)
        with body Some v q IH[of e p "(n + 1) mod aeCount e" w1 y] p show ?thesis
          by (cases ok) (auto simp: free_result_def quiet_def)
      qed
    qed
  qed
qed

lemma SelectIP_M_run:
  assumes "SelectIP_M e w = (r, w')"
  shows "quiet w w'" "r = Inr (ip4, ip6) \<Longrightarrow> aeIsTailscaleIP e ip4 \<and> ip_free (wDB w) ip4"
proof -
  obtain n w1 where n: "rand_int (aeCount e) w = (Inr n, w1)" "quiet w w1"
    using quiet_rand_int[of "aeCount e"] by (auto simp: rand_int_def dest!: withinD)
  have "quiet w w' \<and> (r = Inr (ip4, ip6) \<longrightarrow> aeIsTailscaleIP e ip4 \<and> ip_free (wDB w) ip4)"
  proof (cases "selectIP_loop e (Some checkIP) n w1")
    case None
    with n assms show ?thesis by (auto simp: SelectIP_M_def SelectIP_def selectIP_def rand_int_def quiet.frame_refl)
  next
    case (Some y)
    obtain s w2 where y: "y = (s, w2)" by fastforce
    from selectIP_loop_run[OF Some[unfolded y]] free_result_step[OF n(2)] have "free_result e w (s, w2)" by simp
    then have "quiet w w2" "\<forall>ip. s = Inr ip \<longrightarrow> aeIsTailscaleIP e ip \<and> ip_free (wDB w) ip"
      by (auto simp: free_result_def)
    with n assms Some y show ?thesis
      by (auto simp: SelectIP_M_def SelectIP_def selectIP_def split: sum.splits)
  qed
  then show "quiet w w'" "r = Inr (ip4, ip6) \<Longrightarrow> aeIsTailscaleIP e ip4 \<and> ip_free (wDB w) ip4" by auto
qed

lemma quiet_SelectIP_M: "within quiet (SelectIP_M e)"
  unfolding within_def using SelectIP_M_run(1) by (metis prod.collapse)

lemma quiet_machine_reads:
  "within quiet (GetMachineByKeyAndUser mk u)" "within quiet (GetMachineByKeys mk nk)"
  "within quiet (GetMachineByMachineKey mk)" "within quiet (GetNextMachineNameIndex t n)"
  "within quiet (GetUser i)" "within quiet (GetRegistrationRequestByMachineKey mk)" "within quiet (GetRegistrationRequestByKey mk)"
  unfolding GetMachineByKeyAndUser_def GetMachineByKeys_def GetMachineByMachineKey_def GetNextMachineNameIndex_def
    take_machine_def GetUser_def GetRegistrationRequestByMachineKey_def GetRegistrationRequestByKey_def
  by (intro quiet_intros)+

lemma quiet_LoadAuthKey: "within quiet (LoadAuthKey e secret)"
  unfolding LoadAuthKey_def by (auto intro!: quiet_intros split: list.split)

lemma quiet_refresh_name: "within quiet (refresh_name e t h m)"
  unfolding refresh_name_def Let_def by (intro quiet_intros quiet_machine_reads)

lemma quiet_fresh_machine: "within quiet (fresh_machine v mk req t u tags ips eph auth now)"
  unfolding fresh_machine_def Let_def by (intro quiet_intros quiet_machine_reads quiet_SelectIP_M)

lemma quiet_renewed_machine: "within quiet (renewed_machine v req t u tags ips eph now m)"
  unfolding renewed_machine_def Let_def by (intro quiet_intros quiet_refresh_name)

lemma quiet_applyTailnetLockRegistration: "within quiet (applyTailnetLockRegistration e t m req)"
  unfolding applyTailnetLockRegistration_def Let_def by (intro quiet_intros quiet_lock_reads)

lemma quiet_followup: "within quiet (followup mk evs)"
proof (induction evs)
  case Nil
  show ?case unfolding followup.simps by (rule quiet.within_returnM)
next
  case (Cons ev evs)
  show ?case
  proof (cases ev)
    case FollowTick
    with Cons.IH show ?thesis
      by (auto intro!: quiet_intros quiet_machine_reads split: sum.split option.split)
  next
    case FollowDone
    show ?thesis unfolding followup.simps FollowDone follow_event.case by (rule quiet.within_returnM)
  qed
qed

lemma quiet_tailnetLockRotationSignature: "within quiet (tailnetLockRotationSignature mk req)"
  unfolding tailnetLockRotationSignature_def
  by (auto intro!: quiet_intros quiet_machine_reads quiet_lock_reads split: sum.split option.split)

lemmas quiet_registration = quiet_machine_reads quiet_LoadAuthKey quiet_refresh_name quiet_fresh_machine
  quiet_renewed_machine quiet_applyTailnetLockRegistration quiet_followup quiet_tailnetLockRotationSignature

section \<open>What a registration may write\<close>

text \<open>
  The machine of a registration for a user of a tailnet: it carries the keys of the request,
  belongs to that user and tailnet, and has the tags it was registered with and the ones it
  asked for, all of which the user may hand out.
\<close>

definition registered ::
    "string \<Rightarrow> RegisterRequest \<Rightarrow> Tailnet \<Rightarrow> User \<Rightarrow> string list \<Rightarrow> Machine \<Rightarrow> bool" where
  "registered machineKey req t u tags m \<longleftrightarrow>
     mMachineKey m = machineKey \<and> mNodeKey m = rgNodeKey req \<and> mUserID m = uID u \<and> mTailnetID m = tID t \<and>
     mRegisteredTags m = tags \<and> set (mTags m) = set tags \<union> set (hiRequestTags (rgHostinfo req)) \<and>
     (\<exists>policy. hjT (tACLPolicy t) = Some policy \<and> CheckTagOwners policy (hiRequestTags (rgHostinfo req)) u = None)"

text \<open>
  It is the machine that the user has for the machine key, with its authorization, its
  addresses and its approved routes unchanged, or a new machine: with an address nobody
  has, and authorized only if the tailnet does not ask for it or the registration was
  authorized in advance.
\<close>

definition new_or_renewed :: "addr_env \<Rightarrow> world \<Rightarrow> Tailnet \<Rightarrow> bool \<Rightarrow> Machine \<Rightarrow> bool" where
  "new_or_renewed e w t authorized m \<longleftrightarrow>
     (\<exists>old \<in> set (dbMachines (wDB w)). mID m = mID old \<and> mMachineKey m = mMachineKey old \<and> mUserID m = mUserID old \<and>
        mAuthorized m = mAuthorized old \<and> mIPv4 m = mIPv4 old \<and> mIPv6 m = mIPv6 old \<and> mAllowIPs m = mAllowIPs old) \<or>
     (\<forall>old \<in> set (dbMachines (wDB w)). mMachineKey old \<noteq> mMachineKey m \<or> mUserID old \<noteq> mUserID m) \<and>
     (\<exists>n \<ge> wNextID w. mID m = wIDs w n) \<and> mAuthorized m = (\<not> tMachineAuthorizationEnabled t \<or> authorized) \<and>
     aeIsTailscaleIP e (mIPv4 m) \<and> ip_free (wDB w) (mIPv4 m) \<and> mAllowIPs m = []"

definition same_grant :: "Machine \<Rightarrow> Machine \<Rightarrow> bool" where
  "same_grant old m \<longleftrightarrow>
     mID m = mID old \<and> mMachineKey m = mMachineKey old \<and> mNodeKey m = mNodeKey old \<and> mUserID m = mUserID old \<and>
     mTailnetID m = mTailnetID old \<and> mRegisteredTags m = mRegisteredTags old \<and> mAuthorized m = mAuthorized old \<and>
     mEphemeral m = mEphemeral old \<and> mKeyExpiryDisabled m = mKeyExpiryDisabled old \<and> mIPv4 m = mIPv4 old \<and>
     mIPv6 m = mIPv6 old \<and> mAllowIPs m = mAllowIPs old \<and> mAutoAllowIPs m = mAutoAllowIPs old"

lemma same_grant_refl: "same_grant m m"
  by (simp add: same_grant_def)

lemma refresh_name_run:
  assumes "refresh_name e t h m w = (Inr m', w')"
  obtains n i where "m' = m\<lparr>mName := n, mNameIdx := i\<rparr>"
proof -
  from assms have "m' = m\<lparr>mName := mName m', mNameIdx := mNameIdx m'\<rparr>"
    by (auto simp: refresh_name_def Let_def go_success split: if_splits)
  then show ?thesis by (rule that)
qed

lemma applyTailnetLockRegistration_run:
  assumes "applyTailnetLockRegistration e t m req w = (Inr m', w')"
  obtains k s where "m' = m\<lparr>mNLKey := k, mKeySignature := s\<rparr>"
proof -
  from assms have "m' = m\<lparr>mNLKey := mNLKey m', mKeySignature := mKeySignature m'\<rparr>"
    by (auto simp: applyTailnetLockRegistration_def Let_def bindM_def split: if_splits sum.splits prod.splits)
  then show ?thesis by (rule that)
qed

lemma SanitizeTags_set [simp]: "set (SanitizeTags tags) = set tags"
  by (simp add: SanitizeTags_eq)

lemma take_machine_run:
  assumes "take_machine P w = (Inr (Some m), w')"
  shows "\<exists>row \<in> set (dbMachines (wDB w)). P row \<and> m = load_machine (wDB w) row"
  using assms unfolding take_machine_def
  by (auto dest!: db_query_result find_SomeD simp: map_option_case split: option.splits)

lemma take_machine_None:
  assumes "take_machine P w = (Inr None, w')"
  shows "\<forall>row \<in> set (dbMachines (wDB w)). \<not> P row"
  using assms unfolding take_machine_def by (auto dest!: db_query_result simp: find_None_iff)

lemma fresh_machine_run:
  assumes "fresh_machine v mk req t u tags ips eph auth now w = (Inr m, w')"
  shows "mMachineKey m = mk \<and> mNodeKey m = rgNodeKey req \<and> mUserID m = uID u \<and> mTailnetID m = tID t \<and>
    mRegisteredTags m = tags \<and> set (mTags m) = set tags \<union> set (hiRequestTags (rgHostinfo req)) \<and>
    (\<exists>n \<ge> wNextID w. mID m = wIDs w n) \<and> mAuthorized m = (\<not> tMachineAuthorizationEnabled t \<or> auth) \<and>
    aeIsTailscaleIP (rvAddr v) (mIPv4 m) \<and> ip_free (wDB w) (mIPv4 m) \<and> mAllowIPs m = []"
proof -
  from assms obtain nameIdx w1 i w2 ip4 ip6 w3 where
    name: "GetNextMachineNameIndex (tID t) (envSanitizeHostname (rvEnv v) (hiHostname (rgHostinfo req))) w = (Inr nameIdx, w1)"
    and id: "NextID w1 = (Inr i, w2)" and ip: "SelectIP_M (rvAddr v) w2 = (Inr (ip4, ip6), w3)"
    and m: "m = \<lparr>mID = i, mName = envSanitizeHostname (rvEnv v) (hiHostname (rgHostinfo req)), mNameIdx = nameIdx,
         mMachineKey = mk, mNodeKey = rgNodeKey req,
         mDiscoKey = [], mNLKey = [], mKeySignature = [], mEphemeral = eph \<or> rgEphemeral req,
         mRegisteredTags = tags, mTags = SanitizeTags (tags @ SanitizeTags (hiRequestTags (rgHostinfo req))),
         mKeyExpiryDisabled = (length (tags @ SanitizeTags (hiRequestTags (rgHostinfo req))) \<noteq> 0),
         mAuthorized = (\<not> tMachineAuthorizationEnabled t \<or> auth), mUseOSHostname = True,
         mHostInfo = zero_hostinfo, mEndpoints = [], mAllowIPs = [], mAutoAllowIPs = ips,
         mIPv4 = ip4, mIPv6 = ip6, mCreatedAt = now, mExpiresAt = now + rvMachineKeyExpiry v, mLastSeen = None,
         mUserID = uID u, mUser = u, mTailnetID = tID t, mTailnet = t\<rparr>"
    by (auto simp: fresh_machine_def Let_def go_success split: prod.splits)
  note q = quietD[OF quiet_machine_reads(4) name] quietD[OF quiet_NextID id]
  from id have "i = wIDs w1 (wNextID w1)" by (simp add: NextID_ok)
  then have "\<exists>n \<ge> wNextID w. i = wIDs w n" using q by metis
  moreover have "aeIsTailscaleIP (rvAddr v) ip4 \<and> ip_free (wDB w) ip4" using SelectIP_M_run(2)[OF ip] q by auto
  ultimately show ?thesis using m by auto
qed

lemma renewed_machine_run:
  assumes "renewed_machine v req t u tags ips eph now m0 w = (Inr m, w')"
  shows "mMachineKey m = mMachineKey m0 \<and> mNodeKey m = rgNodeKey req \<and> mUserID m = uID u \<and> mTailnetID m = tID t \<and>
    mRegisteredTags m = tags \<and> set (mTags m) = set tags \<union> set (hiRequestTags (rgHostinfo req)) \<and>
    mID m = mID m0 \<and> mAuthorized m = mAuthorized m0 \<and> mIPv4 m = mIPv4 m0 \<and> mIPv6 m = mIPv6 m0 \<and> mAllowIPs m = mAllowIPs m0"
proof -
  from assms obtain m1 w1 where "refresh_name (rvEnv v) (tID t) (rgHostinfo req) m0 w = (Inr m1, w1)"
    and m: "m = m1\<lparr>mNodeKey := rgNodeKey req, mEphemeral := eph \<or> rgEphemeral req, mRegisteredTags := tags,
        mTags := SanitizeTags (tags @ SanitizeTags (hiRequestTags (rgHostinfo req))), mAutoAllowIPs := ips, mUserID := uID u, mUser := u,
        mTailnetID := tID t, mTailnet := t, mExpiresAt := now + rvMachineKeyExpiry v\<rparr>"
    by (auto simp: renewed_machine_def Let_def go_success)
  from this(1) obtain n i where "m1 = m0\<lparr>mName := n, mNameIdx := i\<rparr>" by (rule refresh_name_run)
  with m show ?thesis by simp
qed

text \<open>The key that a secret stands for, at an instant.\<close>

definition opens :: "env \<Rightarrow> string \<Rightarrow> instant \<Rightarrow> AuthKey \<Rightarrow> bool" where
  "opens e secret now k \<longleftrightarrow>
     (\<exists>pwd. Split CHR ''_'' secret = [akKey k, pwd] \<and> envCompareHash e (akHash k) pwd) \<and> \<not> key_expired (akExpiresAt k) now"

definition registered_by_key ::
    "reg_env \<Rightarrow> string \<Rightarrow> RegisterRequest \<Rightarrow> world \<Rightarrow> string \<Rightarrow> AuthKey \<Rightarrow> Machine \<Rightarrow> bool" where
  "registered_by_key v machineKey req w secret k m \<longleftrightarrow>
     k \<in> set (dbAuthKeys (wDB w)) \<and> opens (rvEnv v) secret (wNow w) k \<and>
     registered machineKey req (tailnet_of (wDB w) (akTailnetID k)) (user_of (wDB w) (akUserID k)) (akTags k) m \<and>
     new_or_renewed (rvAddr v) w (tailnet_of (wDB w) (akTailnetID k)) (akPreAuthorized k) m"

definition known_machine :: "string \<Rightarrow> RegisterRequest \<Rightarrow> world \<Rightarrow> Machine \<Rightarrow> bool" where
  "known_machine machineKey req w old \<longleftrightarrow>
     old \<in> set (dbMachines (wDB w)) \<and> mMachineKey old = machineKey \<and> mNodeKey old = rgNodeKey req \<and> \<not> IsExpired (wNow w) old"

definition register_effect :: "reg_env \<Rightarrow> string \<Rightarrow> RegisterRequest \<Rightarrow> world \<Rightarrow> db \<Rightarrow> bool" where
  "register_effect v machineKey req w d \<longleftrightarrow>
     (\<exists>m. ((\<exists>old. known_machine machineKey req w old \<and> same_grant old m) \<or>
           (\<exists>secret k. rgAuthKey req = Some secret \<and> registered_by_key v machineKey req w secret k m)) \<and>
          \<not> machine_name_taken m (wDB w) \<and>
          d = (wDB w)\<lparr>dbMachines := save_row mID (machine_row m) (dbMachines (wDB w))\<rparr>) \<or>
     (\<exists>old. known_machine machineKey req w old \<and> mEphemeral old \<and> rgExpiry req < wNow w \<and>
          d = (wDB w)\<lparr>dbMachines := filter (\<lambda>m. mID m \<noteq> mID old) (dbMachines (wDB w))\<rparr>) \<or>
     (\<exists>q. rrMachineKey q = machineKey \<and> rrData q = req \<and> \<not> rrAuthenticated q \<and>
          d = (wDB w)\<lparr>dbRegistrationRequests := save_row rrMachineKey q (dbRegistrationRequests (wDB w))\<rparr>)"

lemma new_or_renewed_quiet:
  assumes "quiet w w'" and "new_or_renewed e w' t authorized m"
  shows "new_or_renewed e w t authorized m"
proof -
  from assms(1) have "\<exists>n \<ge> wNextID w. mID m = wIDs w n" if "\<exists>n \<ge> wNextID w'. mID m = wIDs w' n"
    using that by (auto simp: quiet_def intro: le_trans)
  with assms show ?thesis unfolding new_or_renewed_def by (simp add: quiet_def) blast
qed

lemma register_effect_quiet:
  assumes "quiet w w'" and "register_effect v mk req w' d"
  shows "register_effect v mk req w d"
proof -
  have key: "registered_by_key v mk req w' secret k m \<Longrightarrow> registered_by_key v mk req w secret k m" for secret k m
    using assms(1) new_or_renewed_quiet[OF assms(1)] by (simp add: registered_by_key_def quiet_def)
  have eq: "known_machine mk req w' old = known_machine mk req w old" "wDB w' = wDB w" "wNow w' = wNow w" for old
    using assms(1) by (auto simp: known_machine_def quiet_def)
  show ?thesis using assms(2) key unfolding register_effect_def eq by blast
qed

lemma LoadAuthKey_opens:
  assumes "LoadAuthKey e secret w = (Inr (Some k), w')"
  obtains row where "row \<in> set (dbAuthKeys (wDB w))" "opens e secret (wNow w) row" "k = load_auth_key (wDB w) row"
proof -
  from assms obtain key pwd where split: "Split CHR ''_'' secret = [key, pwd]"
    by (auto simp: LoadAuthKey_def split: list.splits)
  with assms obtain r w1 where r: "db_query (\<lambda>d. map_option (load_auth_key d) (find (\<lambda>x. akKey x = key) (dbAuthKeys d))) w = (Inr r, w1)"
    and k: "r = Some k" "envCompareHash e (akHash k) pwd" "\<not> key_expired (akExpiresAt k) (wNow w1)"
    by (auto simp: LoadAuthKey_def bindM_result_split time_Now_def split: option.splits if_splits)
  from db_query_run[OF r] k obtain row where row: "find (\<lambda>x. akKey x = key) (dbAuthKeys (wDB w)) = Some row"
    "k = load_auth_key (wDB w) row" and now: "wNow w1 = wNow w" by (auto simp: map_option_case split: option.splits)
  show ?thesis
    by (rule that[of row]) (use find_SomeD[OF row(1)] row(2) split k now in \<open>auto simp: opens_def load_auth_key_def\<close>)
qed

lemma writes_SaveMachine:
  "(\<not> machine_name_taken m (wDB w) \<Longrightarrow> P ((wDB w)\<lparr>dbMachines := save_row mID (machine_row m) (dbMachines (wDB w))\<rparr>)) \<Longrightarrow>
   writes P (SaveMachine m) w"
  unfolding SaveMachine_def by (rule writes_db_exec_unique)

lemma same_return: "within (on_db (=)) (returnM x)"
  by (rule db_same.within_returnM)

lemma refresh_machine_writes:
  assumes "known_machine mk req w old"
  shows "writes (register_effect v mk req w) (refresh_machine v req (load_machine (wDB w) old)) w"
  unfolding refresh_machine_def
proof (intro writes_bindM quiet_registration writes_then_seqM writes_SaveMachine same_return)
  fix m1 w1 m w2
  assume name: "\<not> machine_name_taken m (wDB w2)"
    and "refresh_name (rvEnv v) (mTailnetID (load_machine (wDB w) old)) (rgHostinfo req) (load_machine (wDB w) old) w = (Inr m1, w1)"
    and q: "quiet w w1"
    and "applyTailnetLockRegistration (rvLock v) (mTailnetID m1)
       (m1\<lparr>mTags := mRegisteredTags m1 @ SanitizeTags (hiRequestTags (rgHostinfo req))\<rparr>) req w1 = (Inr m, w2)" "quiet w1 w2"
  then have "same_grant old m" and "wDB w2 = wDB w"
    by (auto elim!: refresh_name_run applyTailnetLockRegistration_run simp: same_grant_def load_machine_def quiet_def)
  with assms name show "register_effect v mk req w ((wDB w2)\<lparr>dbMachines := save_row mID (machine_row m) (dbMachines (wDB w2))\<rparr>)"
    by (auto simp: register_effect_def)
qed

lemma logout_machine_writes:
  assumes "known_machine mk req w old" and "rgExpiry req < wNow w"
  shows "writes (register_effect v mk req w) (logout_machine req (load_machine (wDB w) old)) w"
proof -
  have "same_grant old ((load_machine (wDB w) old)\<lparr>mExpiresAt := rgExpiry req\<rparr>)"
    by (simp add: same_grant_def load_machine_def)
  then have save: "writes (register_effect v mk req w) (SaveMachine ((load_machine (wDB w) old)\<lparr>mExpiresAt := rgExpiry req\<rparr>)) w"
    using assms by (intro writes_SaveMachine) (auto simp: register_effect_def)
  have delete: "writes (register_effect v mk req w) (DeleteMachine_row (mID (load_machine (wDB w) old))) w"
    if "mEphemeral old" unfolding DeleteMachine_row_def
    by (rule writes_db_stmt) (use assms that in \<open>auto simp: register_effect_def load_machine_def\<close>)
  show ?thesis
    unfolding logout_machine_def
    by (rule writes_then_seqM)
      (use save delete in \<open>auto intro!: writes_then same_return db_same.within_seqM db_same.within_notifyM simp: load_machine_def\<close>)
qed

lemma load_auth_key_fields:
  "akTailnet (load_auth_key d k) = tailnet_of d (akTailnetID k)" "akUser (load_auth_key d k) = user_of d (akUserID k)"
  by (simp_all add: load_auth_key_def)

lemma key_machine_run:
  assumes known: "GetMachineByKeyAndUser mk (uID u) w = (Inr known, w1)" and q: "quiet w w1" "quiet w w2" "quiet w1 w2"
    and m: "(case known of
               None \<Rightarrow>
                 bindM (fresh_machine v mk req t u tags ips eph auth now) (\<lambda>m.
                 returnM (if rgExpiry req \<noteq> 0 then m\<lparr>mExpiresAt := rgExpiry req\<rparr> else m))
             | Some m \<Rightarrow> renewed_machine v req t u tags ips eph now m) w2 = (Inr m, w3)"
    and owners: "hjT (tACLPolicy t) = Some policy" "CheckTagOwners policy (hiRequestTags (rgHostinfo req)) u = None"
  shows "registered mk req t u tags m \<and> new_or_renewed (rvAddr v) w t auth m"
proof (cases known)
  case None
  with m obtain m1 where "fresh_machine v mk req t u tags ips eph auth now w2 = (Inr m1, w3)"
    and eq: "m = (if rgExpiry req \<noteq> 0 then m1\<lparr>mExpiresAt := rgExpiry req\<rparr> else m1)"
    by (auto simp: bindM_result_split)
  note fresh = fresh_machine_run[OF this(1)]
  then have "(\<exists>n \<ge> wNextID w. mID m = wIDs w n) \<and> ip_free (wDB w) (mIPv4 m)"
    using q(2) eq by (auto simp: quiet_def intro: le_trans)
  moreover have "\<forall>old \<in> set (dbMachines (wDB w)). mMachineKey old \<noteq> mMachineKey m \<or> mUserID old \<noteq> mUserID m"
    using take_machine_None[OF known[unfolded GetMachineByKeyAndUser_def None]] fresh eq by auto
  ultimately show ?thesis using fresh eq owners by (auto simp: registered_def new_or_renewed_def)
next
  case (Some m0)
  with take_machine_run[OF known[unfolded GetMachineByKeyAndUser_def Some]] obtain row
    where row: "row \<in> set (dbMachines (wDB w))" "mMachineKey row = mk" "mUserID row = uID u" "m0 = load_machine (wDB w) row" by blast
  from m Some have "renewed_machine v req t u tags ips eph now m0 w2 = (Inr m, w3)" by simp
  from renewed_machine_run[OF this] row owners show ?thesis
    by (auto simp: registered_def new_or_renewed_def load_machine_def intro!: bexI[of _ row])
qed

lemma registered_signed:
  "registered mk req t u tags (m\<lparr>mNLKey := k, mKeySignature := s\<rparr>) = registered mk req t u tags m"
  by (simp add: registered_def)

lemma new_or_renewed_signed:
  "new_or_renewed e w t authorized (m\<lparr>mNLKey := k, mKeySignature := s\<rparr>) = new_or_renewed e w t authorized m"
  by (simp add: new_or_renewed_def)

lemma machine_with_key_writes:
  assumes secret: "rgAuthKey req = Some secret" and q: "quiet w w1"
    and row: "row \<in> set (dbAuthKeys (wDB w))" "opens (rvEnv v) secret (wNow w) row"
    and owners: "hjT (tACLPolicy (tailnet_of (wDB w) (akTailnetID row))) = Some policy"
      "CheckTagOwners policy (hiRequestTags (rgHostinfo req)) (user_of (wDB w) (akUserID row)) = None"
  shows "writes (register_effect v mk req w) (machine_with_key v mk req (load_auth_key (wDB w) row) policy) w1"
proof -
  let ?k = "load_auth_key (wDB w) row"
  let ?t = "akTailnet ?k" and ?u = "akUser ?k"
  note owners = owners[folded load_auth_key_fields[of "wDB w" row]]
  have saved: "register_effect v mk req w ((wDB w5)\<lparr>dbMachines := save_row mID (machine_row m2) (dbMachines (wDB w5))\<rparr>)"
    if known: "GetMachineByKeyAndUser mk (uID ?u) w1 = (Inr known, w2)" and q': "quiet w1 w2" "quiet w2 w3" "quiet w3 w4" "quiet w4 w5"
      and m: "(case known of None \<Rightarrow> bindM (fresh_machine v mk req ?t ?u (akTags ?k) ips (akEphemeral ?k) (akPreAuthorized ?k) now)
                (\<lambda>m. returnM (if rgExpiry req \<noteq> 0 then m\<lparr>mExpiresAt := rgExpiry req\<rparr> else m))
            | Some m \<Rightarrow> renewed_machine v req ?t ?u (akTags ?k) ips (akEphemeral ?k) now m) w3 = (Inr m1, w4)"
      and lock: "applyTailnetLockRegistration (rvLock v) (tID ?t) m1 req w4 = (Inr m2, w5)"
      and name: "\<not> machine_name_taken m2 (wDB w5)"
    for known w2 w3 w4 w5 m1 m2 now ips
  proof -
    have "registered mk req ?t ?u (akTags ?k) m1 \<and> new_or_renewed (rvAddr v) w1 ?t (akPreAuthorized ?k) m1"
      by (rule key_machine_run[OF known _ _ _ m owners]) (use q' in \<open>auto intro: quiet_trans\<close>)
    then have "registered mk req ?t ?u (akTags ?k) m1" "new_or_renewed (rvAddr v) w ?t (akPreAuthorized ?k) m1"
      using new_or_renewed_quiet[OF q] by auto
    moreover from lock obtain nl sg where "m2 = m1\<lparr>mNLKey := nl, mKeySignature := sg\<rparr>"
      by (rule applyTailnetLockRegistration_run)
    ultimately have "registered mk req ?t ?u (akTags ?k) m2" "new_or_renewed (rvAddr v) w ?t (akPreAuthorized ?k) m2"
      by (simp_all add: registered_signed new_or_renewed_signed)
    with row have "registered_by_key v mk req w secret row m2" by (simp add: registered_by_key_def load_auth_key_def)
    moreover have "wDB w5 = wDB w" using q' q by (simp add: quiet_def)
    ultimately show ?thesis using secret name by (auto simp: register_effect_def)
  qed
  show ?thesis
    unfolding machine_with_key_def Let_def
    by (intro writes_bindM quiet_registration quiet_time_Now quiet.within_case_option quiet.within_bindM quiet.within_returnM
        writes_then_seqM same_return writes_SaveMachine) (auto intro!: saved)
qed

lemma authenticateMachineWithAuthKey_writes:
  assumes "rgAuthKey req = Some secret"
  shows "writes (register_effect v mk req w) (authenticateMachineWithAuthKey v mk req secret) w"
  unfolding authenticateMachineWithAuthKey_def
proof (rule writes_bindM[OF quiet_LoadAuthKey])
  fix k w1
  assume load: "LoadAuthKey (rvEnv v) secret w = (Inr k, w1)" and q: "quiet w w1"
  show "writes (register_effect v mk req w) (case k of
       None \<Rightarrow> returnM (zero_response\<lparr>rsError := ''invalid auth key''\<rparr>)
     | Some authKey \<Rightarrow>
         (case hjT (tACLPolicy (akTailnet authKey)) of
            None \<Rightarrow> throwM NilDeref
          | Some policy \<Rightarrow>
              if CheckTagOwners policy (hiRequestTags (rgHostinfo req)) (akUser authKey) \<noteq> None
              then returnM (zero_response\<lparr>rsError := ''tag is invalid or not permitted''\<rparr>)
              else machine_with_key v mk req authKey policy)) w1"
  proof (cases k)
    case None
    then show ?thesis by (simp add: writes_quiet quiet.within_returnM)
  next
    case (Some authKey)
    with load obtain row where row: "row \<in> set (dbAuthKeys (wDB w))" "opens (rvEnv v) secret (wNow w) row"
      "authKey = load_auth_key (wDB w) row" by (auto elim: LoadAuthKey_opens)
    from Some row(3) machine_with_key_writes[OF assms q row(1,2)] show ?thesis
      by (auto simp: load_auth_key_fields intro!: writes_quiet quiet.within_throwM quiet.within_returnM split: option.split)
  qed
qed

lemma owned_user_of:
  assumes "owned d u t"
  shows "uID (user_of d u) = u"
proof (cases "find (\<lambda>x. uID x = u) (dbUsers d)")
  case None
  with assms show ?thesis by (auto simp: owned_def find_None_iff)
next
  case (Some x)
  then show ?thesis by (auto simp: user_of_def dest: find_SomeD)
qed

lemma owned_tailnet_of:
  assumes "db_ok d" and "owned d u t"
  shows "tID (tailnet_of d t) = t"
proof -
  from assms obtain x where x: "x \<in> set (dbTailnets d)" "tID x = t" by (auto simp: db_ok_def refs_ok_def owned_def)
  then obtain y where "find (\<lambda>x. tID x = t) (dbTailnets d) = Some y"
    by (cases "find (\<lambda>x. tID x = t) (dbTailnets d)") (auto simp: find_None_iff)
  then show ?thesis by (auto simp: tailnet_of_def dest: find_SomeD)
qed

lemma register_effect_db_ok:
  assumes ok: "db_ok (wDB w)" and effect: "register_effect v mk req w d"
  shows "db_ok d"
proof -
  have save: "db_ok ((wDB w)\<lparr>dbMachines := save_row mID (machine_row m) (dbMachines (wDB w))\<rparr>)"
    if "\<not> machine_name_taken m (wDB w)" "owned (wDB w) (mUserID m) (mTailnetID m)" for m
    using ok that by (rule db_ok_save_machine)
  have "owned (wDB w) (mUserID m) (mTailnetID m)" if "known_machine mk req w old" "same_grant old m" for old m
    using ok that by (auto simp: db_ok_def refs_ok_def known_machine_def same_grant_def)
  moreover have "owned (wDB w) (mUserID m) (mTailnetID m)" if "registered_by_key v mk req w secret k m" for secret k m
  proof -
    from ok that have "owned (wDB w) (akUserID k) (akTailnetID k)"
      by (auto simp: db_ok_def refs_ok_def registered_by_key_def)
    with owned_user_of[OF this] owned_tailnet_of[OF ok this] that show ?thesis
      by (simp add: registered_by_key_def registered_def)
  qed
  ultimately show ?thesis
    using effect ok save unfolding register_effect_def by (auto simp: db_ok_filter db_ok_other_tables)
qed

lemma authenticateMachine_writes: "writes (register_effect v mk req w) (authenticateMachine v mk req evs) w"
proof -
  have save: "writes (register_effect v mk req w) (tryM (SaveRegistrationRequest q)) w1"
    if "quiet w w1" "rrMachineKey q = mk" "rrData q = req" "\<not> rrAuthenticated q" for q w1
    unfolding SaveRegistrationRequest_def
    by (intro writes_tryM writes_db_exec_unique) (use that in \<open>auto simp: register_effect_def quiet_def\<close>)
  consider (follow) "rgFollowup req \<noteq> []" | (key) c cs where "rgFollowup req = []" "rgAuthKey req = Some (c # cs)"
    | (filed) "rgFollowup req = []" "rgAuthKey req = None \<or> rgAuthKey req = Some []"
    by (metis list.exhaust option.exhaust)
  then show ?thesis
  proof cases
    case follow
    then show ?thesis by (simp add: authenticateMachine_def writes_quiet[OF quiet_followup])
  next
    case key
    then show ?thesis
      by (auto simp: authenticateMachine_def intro!: writes_then same_return authenticateMachineWithAuthKey_writes)
  next
    case filed
    let ?q = "\<lambda>key now. \<lparr>rrMachineKey = mk, rrKey = key, rrData = req, rrCreatedAt = now, rrAuthenticated = False,
       rrError = [], rrUserID = 0\<rparr>"
    from filed(2) have "authenticateMachine v mk req evs = bindM (RandStringBytes 8) (\<lambda>key. bindM time_Now (\<lambda>now.
        bindM (tryM (SaveRegistrationRequest (?q key now))) (\<lambda>r.
          case r of
            Inl _ \<Rightarrow> returnM (Some (zero_response\<lparr>rsError := ''something went wrong''\<rparr>))
          | Inr _ \<Rightarrow> returnM (Some (zero_response\<lparr>rsAuthURL := rvCreateUrl v (''/a/r/'' @ key)\<rparr>)))))"
      by (elim disjE) (simp_all only: authenticateMachine_def option.case list.case simp_thms if_False filed(1))
    moreover have "writes (register_effect v mk req w) \<dots> w"
      by (rule writes_bindM[OF quiet_RandStringBytes], rule writes_bindM[OF quiet_time_Now], rule writes_then, rule save)
        (auto intro: quiet_trans intro!: db_same.within_case_sum same_return)
    ultimately show ?thesis by simp
  qed
qed

lemma RegisterMachine_writes:
  assumes "RegisterMachine v machineKey req evs w = (r, w')"
  shows "wDB w' = wDB w \<or> register_effect v machineKey req w (wDB w')"
proof -
  have known: "writes (register_effect v machineKey req w)
      (if IsExpired now m then returnM (Some (zero_response\<lparr>rsNodeKeyExpired := True\<rparr>))
       else if rgExpiry req \<noteq> 0 \<and> rgExpiry req < now then bindM (logout_machine req m) (\<lambda>r. returnM (Some r))
       else bindM (refresh_machine v req m) (\<lambda>r. returnM (Some r))) w1"
    if "GetMachineByKeys machineKey (rgNodeKey req) w = (Inr (Some m), w0)" "quiet w w1" "now = wNow w" for m now w0 w1
  proof -
    from take_machine_run[OF that(1)[unfolded GetMachineByKeys_def]] obtain row where
      row: "row \<in> set (dbMachines (wDB w))" "mMachineKey row = machineKey" "mNodeKey row = rgNodeKey req" "m = load_machine (wDB w) row"
      by blast
    have m: "m = load_machine (wDB w1) row" "IsExpired now m = IsExpired (wNow w1) row" "now = wNow w1"
      using that row by (simp_all add: quiet_def IsExpired_def load_machine_def)
    have "known_machine machineKey req w1 row" if "\<not> IsExpired now m"
      using that row(1-3) m(2) \<open>quiet w w1\<close> by (simp add: known_machine_def quiet_def)
    then have "writes (register_effect v machineKey req w1)
      (if IsExpired now m then returnM (Some (zero_response\<lparr>rsNodeKeyExpired := True\<rparr>))
       else if rgExpiry req \<noteq> 0 \<and> rgExpiry req < now then bindM (logout_machine req m) (\<lambda>r. returnM (Some r))
       else bindM (refresh_machine v req m) (\<lambda>r. returnM (Some r))) w1"
      using m by (auto intro!: writes_quiet[OF quiet.within_returnM] writes_then same_return logout_machine_writes refresh_machine_writes)
    then show ?thesis by (rule writes_mono) (rule register_effect_quiet[OF that(2)])
  qed
  have unknown: "writes (register_effect v machineKey req w) (authenticateMachine v machineKey req evs) w1" if "quiet w w1" for w1
    by (rule writes_mono[OF authenticateMachine_writes]) (rule register_effect_quiet[OF that])
  have "writes (register_effect v machineKey req w) (RegisterMachine v machineKey req evs) w"
  proof (cases "rgVersion req < SupportedCapabilityVersion")
    case True
    then show ?thesis by (simp add: RegisterMachine_def writes_quiet quiet.within_returnM)
  next
    case False
    show ?thesis
      unfolding RegisterMachine_def if_not_P[OF False]
    proof (rule writes_bindM[OF quiet_registration(2)], rule writes_bindM[OF quiet_time_Now], goal_cases)
      case (1 m w1 now w2)
      then have "quiet w w2" "now = wNow w" by (auto intro: quiet_trans simp: time_Now_ok quiet_def)
      with 1 known[of _ w1 w2 now] unknown[OF quiet_trans] show ?case
        by (auto intro!: writes_bindM[OF quiet_tailnetLockRotationSignature] writes_quiet[OF quiet.within_returnM]
            intro: quiet_trans split: option.split simp del: if_splits)
    qed
  qed
  then show ?thesis using assms by (rule writesD)
qed


text \<open>
  A machine that registers again chooses its tags: when the keys of the request are known
  and it is not expired, it is saved with every tag the request asks for. The owners of the
  tags, which \<open>CheckTagOwners\<close> asks at the first registration, have no say.
\<close>

theorem reregistration_skips_tag_owners:
  assumes "wFaults w = []" and "SupportedCapabilityVersion \<le> rgVersion req"
    and known: "find (\<lambda>m. mMachineKey m = mk \<and> mNodeKey m = rgNodeKey req) (dbMachines (wDB w)) = Some row"
    and "\<not> IsExpired (wNow w) row" and "rgExpiry req = 0"
    and "mName row = envSanitizeHostname (rvEnv v) (hiHostname (rgHostinfo req))"
    and "rgNodeKeySignature req = []" and "rgNLKey req = []" and "\<not> machine_name_taken row (wDB w)"
  shows "\<exists>r w'. RegisterMachine v mk req evs w = (Inr (Some r), w') \<and> rsError r = [] \<and> rsMachineAuthorized r = mAuthorized row \<and>
    (\<exists>m \<in> set (dbMachines (wDB w')). mID m = mID row \<and>
       mTags m = mRegisteredTags row @ SanitizeTags (hiRequestTags (rgHostinfo req)))"
proof -
  let ?m = "(load_machine (wDB w) row)\<lparr>mTags := mRegisteredTags row @ SanitizeTags (hiRequestTags (rgHostinfo req))\<rparr>"
  have expired: "\<not> IsExpired (wNow w) (load_machine (wDB w) row)" using assms(4) by (simp add: IsExpired_def load_machine_def)
  have "\<not> machine_name_taken ?m (wDB w)" using assms(9) by (simp add: machine_name_taken_def other_row_def load_machine_def)
  then have save: "SaveMachine ?m w = (Inr (), w\<lparr>wDB := (wDB w)\<lparr>dbMachines := save_row mID (machine_row ?m) (dbMachines (wDB w))\<rparr>\<rparr>)"
    using assms(1) by (simp add: SaveMachine_def db_exec_unique_ok)
  have name: "refresh_name (rvEnv v) t (rgHostinfo req) (load_machine (wDB w) row) w = (Inr (load_machine (wDB w) row), w)" for t
    using assms(6) by (simp add: refresh_name_def load_machine_def)
  have lock: "applyTailnetLockRegistration (rvLock v) t ?m req w = (Inr ?m, w)" for t
    using assms(7,8) by (simp add: applyTailnetLockRegistration_def)
  have tags: "mRegisteredTags (load_machine (wDB w) row) = mRegisteredTags row" "mAuthorized (load_machine (wDB w) row) = mAuthorized row"
    by (simp_all add: load_machine_def)
  from save have refresh: "\<exists>r. refresh_machine v req (load_machine (wDB w) row) w =
      (Inr r, w\<lparr>wDB := (wDB w)\<lparr>dbMachines := save_row mID (machine_row ?m) (dbMachines (wDB w))\<rparr>\<rparr>) \<and> rsError r = [] \<and>
      rsMachineAuthorized r = mAuthorized row"
    using lock by (simp add: refresh_machine_def bindM_def seqM_def name tags zero_response_def)
  have "RegisterMachine v mk req evs w = bindM (refresh_machine v req (load_machine (wDB w) row)) (\<lambda>r. returnM (Some r)) w"
    using assms(1,2,5) known expired
    by (simp add: RegisterMachine_def GetMachineByKeys_def take_machine_def bindM_def db_query_ok time_Now_ok)
  with refresh show ?thesis
    by (auto simp: set_save_row machine_row_def load_machine_def)
qed

section \<open>Examples\<close>

definition sample_reg :: reg_env where
  "sample_reg = \<lparr>rvEnv = sample_env, rvLock = sample_lock, rvAddr = sample_addr_env, rvMachineKeyExpiry = 100,
     rvCreateUrl = (\<lambda>p. ''https://example.com'' @ p)\<rparr>"

text \<open>The phone of bob, who does not own \<open>tag:web\<close>, asks for it.\<close>

definition tag_request :: RegisterRequest where
  "tag_request = \<lparr>rgVersion = 100, rgNodeKey = ''nodekey:3'', rgOldNodeKey = [], rgNLKey = [], rgAuthKey = None, rgExpiry = 0,
     rgFollowup = [], rgHostinfo = sample_hostinfo\<lparr>hiHostname := ''phone'', hiRequestTags := [''tag:web'']\<rparr>, rgEphemeral = False,
     rgNodeKeySignature = []\<rparr>"

theorem reregistration_skips_tag_owners_witness:
  "CheckTagOwners sample_policy [''tag:web''] sample_bob \<noteq> None \<and>
   (\<exists>r w'. RegisterMachine sample_reg ''mkey:3'' tag_request [] sample_world = (Inr (Some r), w') \<and>
      (\<exists>m \<in> set (dbMachines (wDB w')). mID m = 103 \<and> mTags m = [''tag:web'']))"
proof
  show "CheckTagOwners sample_policy [''tag:web''] sample_bob \<noteq> None"
    by (simp add: CheckTagOwners_def isTagOwner_def sample_defs UserTypeService_def HasPrefix_def)
  have "find (\<lambda>m. mMachineKey m = ''mkey:3'' \<and> mNodeKey m = rgNodeKey tag_request) (dbMachines (wDB sample_world)) = Some (machine_row sample_phone)"
    by (simp add: sample_world_def sample_db_def tag_request_def machine_row_def sample_defs)
  then have "\<exists>r w'. RegisterMachine sample_reg ''mkey:3'' tag_request [] sample_world = (Inr (Some r), w') \<and> rsError r = [] \<and>
      rsMachineAuthorized r = mAuthorized (machine_row sample_phone) \<and>
      (\<exists>m \<in> set (dbMachines (wDB w')). mID m = mID (machine_row sample_phone) \<and>
        mTags m = mRegisteredTags (machine_row sample_phone) @ SanitizeTags (hiRequestTags (rgHostinfo tag_request)))"
    by (rule reregistration_skips_tag_owners[rotated 2])
      (simp_all add: sample_world_def sample_db_def tag_request_def sample_reg_def machine_row_def sample_defs
        SupportedCapabilityVersion_def IsExpired_def sample_env_def machine_name_taken_def other_row_def)
  then show "\<exists>r w'. RegisterMachine sample_reg ''mkey:3'' tag_request [] sample_world = (Inr (Some r), w') \<and>
      (\<exists>m \<in> set (dbMachines (wDB w')). mID m = 103 \<and> mTags m = [''tag:web''])"
    by (auto simp: machine_row_def sample_phone_def sample_laptop_def tag_request_def sample_hostinfo_def SanitizeTags_eq)
qed


end
