(* ===== verification/PollHandler.thy ===== *)
theory PollHandler
  imports Registration
begin

text \<open>
  \<open>internal/handlers/poll_net_map.go\<close>: the map poll of a machine. A poll without \<open>Stream\<close>
  updates the machine's own row and answers once; a streaming poll registers a channel with
  the session manager, writes a first map and then waits for events.

  The loop is driven by the list of the events its \<open>select\<close> takes, in their order: a ping on
  the channel, a tick of the keep-alive timer or of the sync timer (with the outcome of the
  write it may do), the end of the connection. \<open>Elsewhere\<close> stands for whatever the rest of
  the server does to the state between two events. A list that ends before the handler
  returns leaves it \<open>Polling\<close>.

  \<open>json.Marshal\<close> and the zstd encoder are fields of \<open>poll_env\<close>. What the handler writes is a
  list of frames; \<open>marshalResponse\<close> gives the bytes of a frame.
\<close>

section \<open>Requests and responses\<close>

record PollRequest = MapRequest +
  pqNodeKey :: string
  pqDiscoKey :: string
  pqHostinfo :: "HostInfo option"
  pqEndpoints :: "string list"
  pqStream :: bool
  pqKeepAlive :: bool
  pqCompress :: string

datatype frame = MapFrame MapResponse | KeepAliveFrame

record poll_env =
  pvEnv :: env
  pvTail :: tail_env
  pvDERPMap :: DERPMap
  pvJSON :: "frame \<Rightarrow> string"
  pvZstd :: "string \<Rightarrow> string"

definition put_uint32 :: "32 word \<Rightarrow> string" where
  "put_uint32 n = map (\<lambda>i. char_of (unat (drop_bit (8 * i) n) mod 256)) [0, 1, 2, 3]"

definition marshalResponse :: "poll_env \<Rightarrow> string \<Rightarrow> frame \<Rightarrow> string" where
  "marshalResponse v compress f =
     (let marshalled = pvJSON v f;
          payload = (if compress = ''zstd'' then pvZstd v marshalled else marshalled)
      in put_uint32 (word_of_nat (length payload)) @ payload)"

definition createMapResponse :: "poll_env \<Rightarrow> bool \<Rightarrow> PollNetMapper \<Rightarrow> (frame \<times> PollNetMapper) m" where
  "createMapResponse v delta h =
     bindM (CreateMapResponse (pvEnv v) (pvTail v) (pvDERPMap v) delta h) (\<lambda>(r, h'). returnM (MapFrame r, h'))"

section \<open>The update of the machine's own row\<close>

definition updated_machine :: "PollRequest \<Rightarrow> instant \<Rightarrow> HostInfo \<Rightarrow> ACLPolicy option \<Rightarrow> Machine \<Rightarrow> error + Machine" where
  "updated_machine req now hostinfo policy m =
     (case (if hiRoutableIPs (mHostInfo m) \<noteq> hiRoutableIPs hostinfo
            then (case policy of
                    None \<Rightarrow> Inl NilDeref
                  | Some p \<Rightarrow> Inr (FindAutoApprovedIPs p (hiRoutableIPs hostinfo) (mTags m) (mUser m)))
            else Inr (mAutoAllowIPs m)) of
        Inl err \<Rightarrow> Inl err
      | Inr autoAllowIPs \<Rightarrow>
          Inr (m\<lparr>mAutoAllowIPs := autoAllowIPs, mHostInfo := hostinfo, mDiscoKey := pqDiscoKey req,
                 mEndpoints := pqEndpoints req, mLastSeen := Some now\<rparr>))"

definition poll_update :: "poll_env \<Rightarrow> Machine \<Rightarrow> PollRequest \<Rightarrow> instant \<Rightarrow> unit m" where
  "poll_update v m req now =
     (case pqHostinfo req of
        None \<Rightarrow> throwM NilDeref
      | Some hostinfo \<Rightarrow>
          bindM (liftE (updated_machine req now hostinfo (hjT (tACLPolicy (mTailnet m))) m)) (\<lambda>m1.
          bindM (refresh_name (pvEnv v) (mTailnetID m1) hostinfo m1) (\<lambda>m2.
          seqM (SaveMachine m2) (
          notifyM (mTailnetID m)))))"

section \<open>The stream\<close>

datatype poll_event = Ping | KeepAliveTick bool | SyncTick bool | ConnClosed | Elsewhere "world \<Rightarrow> world"

datatype poll_end = Polling | Ended | Cancelled | Failed error

definition write_error :: error where
  "write_error = Err ''write''"

primrec poll_loop ::
    "poll_env \<Rightarrow> PollRequest \<Rightarrow> uint64 \<Rightarrow> nat \<Rightarrow> poll_event list \<Rightarrow> PollNetMapper \<Rightarrow> bool \<Rightarrow> frame list \<Rightarrow> world
     \<Rightarrow> poll_end \<times> frame list \<times> world" where
  "poll_loop v req machineID c [] h shouldUpdate out w = (Polling, out, w)"
| "poll_loop v req machineID c (ev # evs) h shouldUpdate out w =
     (case ev of
        Ping \<Rightarrow>
          (let ch = smChans (wSessions w) c in
           if 0 < chLen ch then
             poll_loop v req machineID c evs h True out (w\<lparr>wSessions := receive_chan c (wSessions w)\<rparr>)
           else if chClosed ch then (Ended, out, w)
           else poll_loop v req machineID c evs h shouldUpdate out w)
      | KeepAliveTick written \<Rightarrow>
          if pqKeepAlive req then
            if written then
              poll_loop v req machineID c evs h shouldUpdate (out @ [KeepAliveFrame]) (snd (SetMachineLastSeen machineID w))
            else (Failed write_error, out, w)
          else poll_loop v req machineID c evs h shouldUpdate out w
      | SyncTick written \<Rightarrow>
          if shouldUpdate then
            (case GetMachine_row machineID w of
               (Inl err, w1) \<Rightarrow> (Failed err, out, w1)
             | (Inr None, w1) \<Rightarrow> (Ended, out, w1)
             | (Inr (Some machine), w1) \<Rightarrow>
                 (case createMapResponse v True h w1 of
                    (Inl err, w2) \<Rightarrow> (Failed err, out, w2)
                  | (Inr (payload, h'), w2) \<Rightarrow>
                      if written then poll_loop v req machineID c evs h' False (out @ [payload]) w2
                      else (Failed write_error, out, w2)))
          else poll_loop v req machineID c evs h shouldUpdate out w
      | ConnClosed \<Rightarrow> (Cancelled, out, w)
      | Elsewhere f \<Rightarrow> poll_loop v req machineID c evs h shouldUpdate out (f w))"

text \<open>
  The deferred function. After \<open>ConnClosed\<close> the context of the request is cancelled, and the
  database refuses the statement for the last-seen time.
\<close>

definition poll_cleanup :: "uint64 \<Rightarrow> uint64 \<Rightarrow> nat \<Rightarrow> bool \<Rightarrow> world \<Rightarrow> world" where
  "poll_cleanup tailnetID machineID c cancelled w =
     (let w1 = w\<lparr>wSessions := Deregister tailnetID machineID c (wNow w) (wSessions w)\<rparr>
      in if cancelled then w1 else snd (SetMachineLastSeen machineID w1))"

definition poll_stream ::
    "poll_env \<Rightarrow> PollRequest \<Rightarrow> uint64 \<Rightarrow> uint64 \<Rightarrow> frame \<Rightarrow> PollNetMapper \<Rightarrow> nat \<Rightarrow> bool \<Rightarrow> poll_event list \<Rightarrow> world
     \<Rightarrow> poll_end \<times> frame list \<times> world" where
  "poll_stream v req tailnetID machineID response h c written evs w =
     (let w1 = w\<lparr>wSessions := Register tailnetID machineID c (wNow w) (make_chan c (wSessions w))\<rparr>
      in if \<not> written then (Failed write_error, [], w1)
         else
           (case poll_loop v req machineID c evs h False [response] w1 of
              (r, out, w2) \<Rightarrow>
                if r = Polling then (r, out, w2)
                else (r, out, poll_cleanup tailnetID machineID c (r = Cancelled) w2)))"

definition handlePollNetMap ::
    "poll_env \<Rightarrow> Machine \<Rightarrow> PollRequest \<Rightarrow> nat \<Rightarrow> bool \<Rightarrow> poll_event list \<Rightarrow> world \<Rightarrow> poll_end \<times> frame list \<times> world" where
  "handlePollNetMap v m req c written evs w =
     (case createMapResponse v False (NewPollNetMapper (MapRequest.truncate req) (mID m)) w of
        (Inl err, w1) \<Rightarrow> (Failed err, [], w1)
      | (Inr (response, h), w1) \<Rightarrow>
          if \<not> pqStream req then
            (case poll_update v m req (wNow w) w1 of
               (Inl err, w2) \<Rightarrow> (Failed err, [], w2)
             | (Inr _, w2) \<Rightarrow> (Ended, [response], w2))
          else poll_stream v req (mTailnetID m) (mID m) response h c written evs w1)"

definition PollNetMap ::
    "poll_env \<Rightarrow> string \<Rightarrow> PollRequest \<Rightarrow> nat \<Rightarrow> bool \<Rightarrow> poll_event list \<Rightarrow> world \<Rightarrow> poll_end \<times> frame list \<times> world" where
  "PollNetMap v machineKey req c written evs w =
     (if mqVersion req < SupportedCapabilityVersion then (Failed (HTTPError 400 UnsupportedClientVersionMessage), [], w)
      else
        case GetMachineByKeys machineKey (pqNodeKey req) w of
          (Inl err, w1) \<Rightarrow> (Failed err, [], w1)
        | (Inr None, w1) \<Rightarrow> (Failed (HTTPError 404 []), [], w1)
        | (Inr (Some m), w1) \<Rightarrow> handlePollNetMap v m req c written evs w1)"

section \<open>The session of a poll\<close>

text \<open>The channel \<open>c\<close> is registered at most for one machine.\<close>

definition owned_only_by :: "nat \<Rightarrow> uint64 \<Rightarrow> uint64 \<Rightarrow> world \<Rightarrow> bool" where
  "owned_only_by c t i w \<longleftrightarrow> (\<forall>t' i'. session_owner t' i' (wSessions w) = Some c \<longrightarrow> t' = t \<and> i' = i)"

text \<open>What the rest of the server does never registers this channel: a channel is local to its handler.\<close>

definition leaves_channel :: "nat \<Rightarrow> (world \<Rightarrow> world) \<Rightarrow> bool" where
  "leaves_channel c f \<longleftrightarrow>
     (\<forall>w t i. session_owner t i (wSessions (f w)) = Some c \<longrightarrow> session_owner t i (wSessions w) = Some c)"

lemma session_owner_receive [simp]: "session_owner t i (receive_chan c s) = session_owner t i s"
  by (simp add: session_owner_def receive_chan_def)

lemma session_owner_make [simp]: "session_owner t i (make_chan c s) = session_owner t i s"
  by (simp add: session_owner_def make_chan_def)

lemma SetMachineLastSeen_sessions [simp]: "wSessions (snd (SetMachineLastSeen i w)) = wSessions w"
  by (simp add: SetMachineLastSeen_def bindM_def time_Now_ok db_exec_def db_stmt_frame)

lemma GetMachine_row_sessions: "GetMachine_row i w = (r, w') \<Longrightarrow> wSessions w' = wSessions w"
  using db_stmt_frame(2)[of "\<lambda>d. (Inr (map_option (load_machine_account d) (find (\<lambda>m. mID m = i) (dbMachines d))), d)" w]
  by (simp add: GetMachine_row_def db_query_def)

definition same_sessions :: "world \<Rightarrow> world \<Rightarrow> bool" where
  "same_sessions w w' \<longleftrightarrow> wSessions w' = wSessions w"

interpretation same_sessions: frame same_sessions
  by unfold_locales (auto simp: same_sessions_def)

lemma same_sessions_quiet: "within quiet m \<Longrightarrow> within same_sessions m"
  by (simp add: within_def quiet_def same_sessions_def)

lemma same_sessions_db_stmt: "within same_sessions (db_stmt f)"
  by (simp add: within_def same_sessions_def db_stmt_frame)

lemma same_sessions_insert_user: "within same_sessions (insert_user u)"
  unfolding insert_user_def db_exec_unique_def by (rule same_sessions_db_stmt)

lemma same_sessions_CreateMapResponse: "within same_sessions (CreateMapResponse e k derp delta h)"
proof -
  have q: "within same_sessions (db_query f)" for f :: "db \<Rightarrow> 'a" by (rule same_sessions_quiet[OF quiet_db_query])
  have "within same_sessions (GetOrCreateServiceUser t)" for t
    unfolding GetOrCreateServiceUser_def Let_def
    by (intro same_sessions.within_intros same_sessions_insert_user q same_sessions_quiet[OF quiet_NextID])
  moreover have "within same_sessions (peers_part e k now cv m su u fl prev)" for now cv m su u fl prev
    unfolding peers_part_def ListMachinePeers_def Let_def by (intro same_sessions.within_intros q)
  ultimately show ?thesis
    unfolding CreateMapResponse_def GetMachine_row_def GetTailnetTKAState_def Let_def
    by (intro same_sessions.within_intros q same_sessions_quiet[OF quiet_time_Now])
qed

lemma createMapResponse_sessions: "createMapResponse v delta h w = (r, w') \<Longrightarrow> wSessions w' = wSessions w"
proof -
  have "within same_sessions (createMapResponse v delta h)"
    unfolding createMapResponse_def
    by (intro same_sessions.within_bindM same_sessions_CreateMapResponse same_sessions.within_case_prod same_sessions.within_returnM)
  then show "createMapResponse v delta h w = (r, w') \<Longrightarrow> wSessions w' = wSessions w"
    by (auto dest: withinD simp: same_sessions_def)
qed

lemma poll_loop_owner:
  assumes "poll_loop v req i c evs h su out w = (r, out', w')" and "owned_only_by c t i w"
    and "\<And>f. Elsewhere f \<in> set evs \<Longrightarrow> leaves_channel c f"
  shows "owned_only_by c t i w'"
  using assms
proof (induction evs arbitrary: h su out w)
  case (Cons ev evs)
  note IH = Cons.IH[OF _ _ Cons.prems(3)]
  show ?case
  proof (cases ev)
    case (SyncTick written)
    show ?thesis
    proof (cases su)
      case True
      obtain x w1 where g: "GetMachine_row i w = (x, w1)" by fastforce
      obtain y w2 where m: "createMapResponse v True h w1 = (y, w2)" by fastforce
      have "owned_only_by c t i w1" "owned_only_by c t i w2"
        using Cons.prems(2) GetMachine_row_sessions[OF g] createMapResponse_sessions[OF m] by (simp_all add: owned_only_by_def)
      with Cons.prems(1) True g m SyncTick IH show ?thesis
        by (auto split: sum.splits option.splits if_splits)
    qed (use Cons SyncTick in \<open>auto\<close>)
  next
    case (Elsewhere f)
    with Cons.prems(3)[of f] have "leaves_channel c f" by simp
    with Cons.prems(2) have "owned_only_by c t i (f w)" unfolding owned_only_by_def leaves_channel_def by blast
    with Cons.prems(1) Elsewhere IH show ?thesis by auto
  next
    case Ping
    have "owned_only_by c t i (w\<lparr>wSessions := receive_chan c (wSessions w)\<rparr>)"
      using Cons.prems(2) by (simp add: owned_only_by_def)
    with Cons.prems(1,2) Ping IH show ?thesis by (simp add: Let_def split: if_splits)
  next
    case (KeepAliveTick written)
    have "owned_only_by c t i (snd (SetMachineLastSeen i w))"
      using Cons.prems(2) by (simp add: owned_only_by_def)
    with Cons.prems(1,2) KeepAliveTick IH show ?thesis by (simp split: if_splits)
  next
    case ConnClosed
    with Cons.prems(1,2) show ?thesis by simp
  qed
qed simp

lemma poll_cleanup_owner:
  assumes "owned_only_by c t i w"
  shows "session_owner t' i' (wSessions (poll_cleanup t i c b w)) \<noteq> Some c"
  using assms by (auto simp: poll_cleanup_def Let_def owned_only_by_def sessions.owner_deregister split: if_splits)

lemma poll_update_owner:
  assumes "poll_update v m req now w = (r, w')"
  shows "session_owner t i (wSessions w') = session_owner t i (wSessions w)"
proof -
  let ?R = "\<lambda>w w'. session_owner t i (wSessions w') = session_owner t i (wSessions w)"
  have same: "frame ?R" by unfold_locales auto
  have db: "within ?R (db_stmt f)" for f :: "db \<Rightarrow> (error + 'a) \<times> db" by (simp add: within_def db_stmt_frame)
  have name: "within ?R (refresh_name (pvEnv v) t0 h m0)" for t0 h m0
    using quiet_refresh_name by (simp add: within_def quiet_def)
  have "within ?R (poll_update v m req now)"
    unfolding poll_update_def SaveMachine_def db_exec_unique_def
    by (intro frame.within_intros[OF same] db name) (auto simp: within_def notifyM_def sessions.owner_notify)
  then show ?thesis using assms by (rule withinD)
qed

text \<open>
  C18. A streaming poll that has written its first map gives its session back: whatever events
  and whatever activity elsewhere it lived through, and however it ended, by an error or a
  panic too, no session refers to its channel afterwards.
\<close>

theorem poll_session_released:
  assumes run: "PollNetMap v machineKey req c True evs w = (r, out, w')" and ended: "r \<noteq> Polling"
    and fresh: "\<And>t i. session_owner t i (wSessions w) \<noteq> Some c"
    and elsewhere: "\<And>f. Elsewhere f \<in> set evs \<Longrightarrow> leaves_channel c f"
  shows "session_owner t i (wSessions w') \<noteq> Some c"
proof -
  have handle: "session_owner t i (wSessions w') \<noteq> Some c"
    if h: "handlePollNetMap v m req c True evs w1 = (r, out, w')" and w1: "wSessions w1 = wSessions w" for m w1
  proof -
    obtain x w2 where x: "createMapResponse v False (NewPollNetMapper (MapRequest.truncate req) (mID m)) w1 = (x, w2)" by fastforce
    have w2: "wSessions w2 = wSessions w" using createMapResponse_sessions[OF x] w1 by simp
    let ?w3 = "w2\<lparr>wSessions := Register (mTailnetID m) (mID m) c (wNow w2) (make_chan c (wSessions w2))\<rparr>"
    have own: "owned_only_by c (mTailnetID m) (mID m) ?w3"
      using fresh w2 by (auto simp: owned_only_by_def sessions.owner_register split: if_splits)
    show ?thesis
    proof (cases "\<exists>response h'. x = Inr (response, h') \<and> pqStream req")
      case True
      then obtain response h' where xs: "x = Inr (response, h')" "pqStream req" by blast
      obtain r' out' w4 where loop: "poll_loop v req (mID m) c evs h' False [response] ?w3 = (r', out', w4)"
        by (metis prod_cases3)
      with h x xs ended have "w' = poll_cleanup (mTailnetID m) (mID m) c (r' = Cancelled) w4"
        by (auto simp: handlePollNetMap_def poll_stream_def Let_def split: if_splits)
      with poll_cleanup_owner[OF poll_loop_owner[OF loop own elsewhere]] show ?thesis by simp
    next
      case False
      with h x have "w' = w2 \<or> (\<exists>r0. poll_update v m req (wNow w1) w2 = (r0, w'))"
        by (auto simp: handlePollNetMap_def split: sum.splits prod.splits if_splits)
      with poll_update_owner[of v m req "wNow w1" w2 _ w' t i] fresh[of t i] w2 show ?thesis by auto
    qed
  qed
  obtain y w1 where y: "GetMachineByKeys machineKey (pqNodeKey req) w = (y, w1)" by fastforce
  with quietD(3)[OF quiet_machine_reads(2) y] run fresh[of t i] handle show ?thesis
    by (auto simp: PollNetMap_def split: if_splits sum.splits option.splits)
qed

text \<open>
  A poll whose first write fails keeps its session for ever: the handler returns before it
  has installed the deferred \<open>Deregister\<close>, and the machine goes on counting as connected.
\<close>

theorem poll_first_write_leaks_session:
  assumes "PollNetMap v machineKey req c False evs w = (Failed write_error, out, w')" and "pqStream req"
    and known: "GetMachineByKeys machineKey (pqNodeKey req) w = (Inr (Some m), w1)"
    and first: "createMapResponse v False (NewPollNetMapper (MapRequest.truncate req) (mID m)) w1 = (Inr (f, h), w2)"
    and "SupportedCapabilityVersion \<le> mqVersion req"
  shows "session_owner (mTailnetID m) (mID m) (wSessions w') = Some c \<and> HasSession (mTailnetID m) (mID m) (wSessions w')"
  using assms
  by (auto simp: PollNetMap_def handlePollNetMap_def poll_stream_def Let_def sessions.owner_register sessions.has_register)

section \<open>What a poll writes\<close>

text \<open>Computing a map may add the service user of the tailnet, and nothing else.\<close>

definition grows :: "db \<Rightarrow> db \<Rightarrow> bool" where
  "grows d d' \<longleftrightarrow> (\<exists>us. (\<forall>u \<in> set us. uUserType u = UserTypeService) \<and> d' = d\<lparr>dbUsers := dbUsers d @ us\<rparr>)"

lemma grows_refl: "grows d d"
  by (auto simp: grows_def intro: exI[of _ "[]"])

interpretation grows: db_frame grows
proof unfold_locales
  show "grows d d" for d by (rule grows_refl)
  show "grows d e" if de: "grows d d'" "grows d' e" for d d' e
  proof -
    from de obtain us vs where us: "\<forall>u \<in> set us. uUserType u = UserTypeService" "d' = d\<lparr>dbUsers := dbUsers d @ us\<rparr>"
      and vs: "\<forall>u \<in> set vs. uUserType u = UserTypeService" "e = d'\<lparr>dbUsers := dbUsers d' @ vs\<rparr>"
      unfolding grows_def by blast
    then have "\<forall>u \<in> set (us @ vs). uUserType u = UserTypeService" "e = d\<lparr>dbUsers := dbUsers d @ (us @ vs)\<rparr>" by auto
    then show ?thesis unfolding grows_def by blast
  qed
qed

lemma grows_insert_user: "uUserType u = UserTypeService \<Longrightarrow> within (on_db grows) (insert_user u)"
  unfolding insert_user_def
  by (rule grows.within_db_exec_unique) (auto simp: grows_def user_row_def intro!: exI[of _ "[user_row u]"])

lemma grows_createMapResponse: "within (on_db grows) (createMapResponse v delta h)"
proof -
  have "within (on_db grows) (GetOrCreateServiceUser t)" for t
    unfolding GetOrCreateServiceUser_def Let_def
    by (intro grows.within_intros grows.within_basic grows_insert_user) simp
  moreover have "within (on_db grows) (peers_part e k now cv m su u fl prev)" for e k now cv m su u fl prev
    unfolding peers_part_def ListMachinePeers_def Let_def by (intro grows.within_intros grows.within_basic)
  ultimately show ?thesis
    unfolding createMapResponse_def CreateMapResponse_def GetMachine_row_def GetTailnetTKAState_def Let_def
    by (intro grows.within_intros grows.within_basic)
qed

text \<open>The machine after its own update: the routes that the policy approves may change, no other grant does.\<close>

definition self_updated :: "db \<Rightarrow> PollRequest \<Rightarrow> Machine \<Rightarrow> Machine \<Rightarrow> bool" where
  "self_updated d req old m \<longleftrightarrow>
     same_grant (old\<lparr>mAutoAllowIPs := mAutoAllowIPs m\<rparr>) m \<and> mTags m = mTags old \<and> mExpiresAt m = mExpiresAt old \<and>
     mKeySignature m = mKeySignature old \<and>
     (mAutoAllowIPs m = mAutoAllowIPs old \<or>
      (\<exists>hostinfo policy. pqHostinfo req = Some hostinfo \<and> hjT (tACLPolicy (tailnet_of d (mTailnetID old))) = Some policy \<and>
         mAutoAllowIPs m = FindAutoApprovedIPs policy (hiRoutableIPs hostinfo) (mTags old) (user_of d (mUserID old))))"

lemma updated_machine_run:
  assumes "updated_machine req now hostinfo policy m0 = Inr m"
  obtains ips where "m = m0\<lparr>mAutoAllowIPs := ips, mHostInfo := hostinfo, mDiscoKey := pqDiscoKey req,
      mEndpoints := pqEndpoints req, mLastSeen := Some now\<rparr>"
    "ips = mAutoAllowIPs m0 \<or> (\<exists>p. policy = Some p \<and> ips = FindAutoApprovedIPs p (hiRoutableIPs hostinfo) (mTags m0) (mUser m0))"
proof (rule that[of "mAutoAllowIPs m"])
  show "m = m0\<lparr>mAutoAllowIPs := mAutoAllowIPs m, mHostInfo := hostinfo, mDiscoKey := pqDiscoKey req,
      mEndpoints := pqEndpoints req, mLastSeen := Some now\<rparr>"
    using assms by (auto simp: updated_machine_def split: if_splits option.splits)
  show "mAutoAllowIPs m = mAutoAllowIPs m0 \<or>
      (\<exists>p. policy = Some p \<and> mAutoAllowIPs m = FindAutoApprovedIPs p (hiRoutableIPs hostinfo) (mTags m0) (mUser m0))"
    using assms by (auto simp: updated_machine_def split: if_splits option.splits)
qed

lemma poll_update_writes:
  assumes q: "tables = wDB w" and d: "dbMachines (wDB w1) = dbMachines tables"
  shows "writes (\<lambda>d. \<exists>m. self_updated tables req old m \<and> \<not> machine_name_taken m (wDB w1) \<and>
      d = (wDB w1)\<lparr>dbMachines := save_row mID (machine_row m) (dbMachines (wDB w1))\<rparr>)
    (poll_update v (load_machine tables old) req now) w1"
proof (cases "pqHostinfo req")
  case None
  then show ?thesis by (simp add: poll_update_def writes_quiet quiet.within_throwM)
next
  case (Some hostinfo)
  show ?thesis
    unfolding poll_update_def Some option.case
  proof (rule writes_bindM[OF quiet.within_liftE], rule writes_bindM[OF quiet_refresh_name], rule writes_then_seqM, rule writes_SaveMachine)
    fix m1 w2 m2 w3
    assume m1: "liftE (updated_machine req now hostinfo (hjT (tACLPolicy (mTailnet (load_machine tables old)))) (load_machine tables old)) w1 = (Inr m1, w2)"
      and m2: "refresh_name (pvEnv v) (mTailnetID m1) hostinfo m1 w2 = (Inr m2, w3)"
      and q: "quiet w1 w2" "quiet w2 w3" and name: "\<not> machine_name_taken m2 (wDB w3)"
    from m1 have "updated_machine req now hostinfo (hjT (tACLPolicy (tailnet_of tables (mTailnetID old)))) (load_machine tables old) = Inr m1"
      by (simp add: load_machine_def)
    then obtain ips where "m1 = (load_machine tables old)\<lparr>mAutoAllowIPs := ips, mHostInfo := hostinfo, mDiscoKey := pqDiscoKey req,
        mEndpoints := pqEndpoints req, mLastSeen := Some now\<rparr>"
      and ips: "ips = mAutoAllowIPs old \<or> (\<exists>p. hjT (tACLPolicy (tailnet_of tables (mTailnetID old))) = Some p \<and>
        ips = FindAutoApprovedIPs p (hiRoutableIPs hostinfo) (mTags old) (user_of tables (mUserID old)))"
      by (rule updated_machine_run) (auto simp: load_machine_def)
    moreover from m2 obtain n i where "m2 = m1\<lparr>mName := n, mNameIdx := i\<rparr>" by (rule refresh_name_run)
    ultimately have "self_updated tables req old m2"
      using Some by (auto simp: self_updated_def same_grant_def load_machine_def)
    with name q show "\<exists>m. self_updated tables req old m \<and> \<not> machine_name_taken m (wDB w1) \<and>
      (wDB w3)\<lparr>dbMachines := save_row mID (machine_row m2) (dbMachines (wDB w3))\<rparr> =
      (wDB w1)\<lparr>dbMachines := save_row mID (machine_row m) (dbMachines (wDB w1))\<rparr>"
      by (auto simp: quiet_def)
  next
    show "within (on_db (=)) (notifyM (mTailnetID (load_machine tables old)))" by (rule db_same.within_notifyM)
  qed
qed


section \<open>The client of a stream\<close>

text \<open>
  The peers a client knows after the frames it has read: the first map sets them, every
  further map adds the changed ones and drops the removed ones.
\<close>

fun client_frame :: "uint64 set option \<Rightarrow> frame \<Rightarrow> uint64 set option" where
  "client_frame known KeepAliveFrame = known"
| "client_frame None (MapFrame r) = Some (nID ` set (mrPeers r))"
| "client_frame (Some known) (MapFrame r) = Some ((known \<union> nID ` set (mrPeersChanged r)) - set (mrPeersRemoved r))"

definition client_peers :: "frame list \<Rightarrow> uint64 set option" where
  "client_peers out = foldl client_frame None out"

definition map_peers :: "MapResponse \<Rightarrow> uint64 set" where
  "map_peers r = nID ` set (mrPeers r @ mrPeersChanged r)"

definition in_sync :: "frame list \<Rightarrow> bool" where
  "in_sync out \<longleftrightarrow> (\<forall>pre x suf. out = pre @ MapFrame x # suf \<longrightarrow> client_peers (pre @ [MapFrame x]) = Some (map_peers x))"

lemma in_sync_KeepAlive: "in_sync out \<Longrightarrow> in_sync (out @ [KeepAliveFrame])"
  unfolding in_sync_def by (metis butlast.simps(2) butlast_append butlast_snoc frame.distinct(1) last_ConsL last_ConsR last_appendR last_snoc list.distinct(1))

lemma in_sync_MapFrame:
  assumes "in_sync out" and "client_peers (out @ [MapFrame r]) = Some (map_peers r)"
  shows "in_sync (out @ [MapFrame r])"
  unfolding in_sync_def
proof (intro allI impI)
  fix pre x suf
  assume eq: "out @ [MapFrame r] = pre @ MapFrame x # suf"
  show "client_peers (pre @ [MapFrame x]) = Some (map_peers x)"
  proof (cases suf rule: rev_cases)
    case Nil
    with eq assms(2) show ?thesis by simp
  next
    case (snoc ys y)
    with eq have "out = pre @ MapFrame x # ys" by simp
    with assms(1) show ?thesis by (simp add: in_sync_def)
  qed
qed

lemma CreateMapResponse_shape:
  assumes "CreateMapResponse e k derp delta h w = (Inr (r, h'), w')"
  shows "delta \<Longrightarrow> mrPeers r = []" and "\<not> delta \<Longrightarrow> mrPeersChanged r = []"
  using assms by (auto simp: CreateMapResponse_def go_success map_response_def Let_def split: option.splits)

definition client_ok :: "poll_env \<Rightarrow> PollNetMapper \<Rightarrow> frame list \<Rightarrow> bool" where
  "client_ok v h out \<longleftrightarrow> in_sync out \<and>
     (\<exists>known. client_peers out = Some known \<and> client_view (pvEnv v) (pvTail v) (pvDERPMap v) h known)"

lemma client_ok_start:
  assumes "createMapResponse v False (NewPollNetMapper mq i) w = (Inr (f, h), w')" and "\<not> mqOmitPeers mq"
  shows "client_ok v h [f]"
proof -
  from assms(1) obtain r where r: "f = MapFrame r"
    "CreateMapResponse (pvEnv v) (pvTail v) (pvDERPMap v) False (NewPollNetMapper mq i) w = (Inr (r, h), w')"
    by (auto simp: createMapResponse_def go_success)
  from client_view.start[OF r(2) assms(2)] CreateMapResponse_shape(2)[OF r(2)] show ?thesis
    by (auto simp: client_ok_def r(1) client_peers_def in_sync_def map_peers_def Cons_eq_append_conv)
qed

lemma client_ok_update:
  assumes "createMapResponse v True h w = (Inr (f, h'), w')" and "client_ok v h out"
  shows "client_ok v h' (out @ [f])"
proof -
  from assms(1) obtain r where r: "f = MapFrame r"
    "CreateMapResponse (pvEnv v) (pvTail v) (pvDERPMap v) True h w = (Inr (r, h'), w')"
    by (auto simp: createMapResponse_def go_success)
  from assms(2) obtain known where known: "client_peers out = Some known"
    and view: "client_view (pvEnv v) (pvTail v) (pvDERPMap v) h known" and sync: "in_sync out"
    by (auto simp: client_ok_def)
  have peers: "client_peers (out @ [MapFrame r]) = Some ((known \<union> nID ` set (mrPeersChanged r)) - set (mrPeersRemoved r))"
    using known by (simp add: client_peers_def)
  with client_view_exact[OF view r(2)] CreateMapResponse_shape(1)[OF r(2)] have "in_sync (out @ [MapFrame r])"
    by (intro in_sync_MapFrame[OF sync]) (simp add: map_peers_def)
  with peers client_view.update[OF view r(2)] show ?thesis by (simp add: client_ok_def r(1))
qed

lemma client_ok_KeepAlive: "client_ok v h out \<Longrightarrow> client_ok v h (out @ [KeepAliveFrame])"
  by (auto simp: client_ok_def in_sync_KeepAlive client_peers_def)

lemma poll_loop_in_sync:
  "poll_loop v req i c evs h su out w = (r, out', w') \<Longrightarrow> client_ok v h out \<Longrightarrow> in_sync out'"
proof (induction evs arbitrary: h su out w)
  case Nil
  then show ?case by (simp add: client_ok_def)
next
  case (Cons ev evs)
  have now: "in_sync out" using Cons.prems(2) by (simp add: client_ok_def)
  show ?case
  proof (cases ev)
    case (SyncTick written)
    show ?thesis
    proof (cases su)
      case True
      obtain x w1 where g: "GetMachine_row i w = (x, w1)" by fastforce
      obtain y w2 where m: "createMapResponse v True h w1 = (y, w2)" by fastforce
      show ?thesis
      proof (cases "\<exists>machine p h'. x = Inr (Some machine) \<and> y = Inr (p, h') \<and> written")
        case True
        then obtain machine p h' where xy: "x = Inr (Some machine)" "y = Inr (p, h')" written by blast
        with Cons.prems(1) \<open>su\<close> g m SyncTick have "poll_loop v req i c evs h' False (out @ [p]) w2 = (r, out', w')" by simp
        then show ?thesis by (rule Cons.IH) (rule client_ok_update[OF m[unfolded xy] Cons.prems(2)])
      next
        case False
        with Cons.prems(1) \<open>su\<close> g m SyncTick now show ?thesis
          by (auto split: sum.splits option.splits if_splits)
      qed
    qed (use Cons SyncTick in \<open>auto\<close>)
  next
    case (KeepAliveTick written)
    with Cons.prems now Cons.IH[OF _ client_ok_KeepAlive] Cons.IH show ?thesis by (auto split: if_splits)
  next
    case Ping
    with Cons.prems now Cons.IH show ?thesis by (auto simp: Let_def split: if_splits)
  qed (use Cons.prems now Cons.IH in auto)
qed


section \<open>The framing of a stream\<close>

text \<open>How a client cuts the stream into frames: four bytes of length, little endian, and the payload.\<close>

definition get_uint32 :: "string \<Rightarrow> nat" where
  "get_uint32 bs = (\<Sum>i \<leftarrow> [0, 1, 2, 3]. (if i < length bs then of_char (bs ! i) else 0) * 256 ^ i)"

function read_frames :: "string \<Rightarrow> string list" where
  "read_frames s =
     (if length s < 4 then []
      else take (get_uint32 (take 4 s)) (drop 4 s) # read_frames (drop (4 + get_uint32 (take 4 s)) s))"
  by auto
termination by (relation "measure length") auto

declare read_frames.simps [simp del]

definition frame_payload :: "poll_env \<Rightarrow> string \<Rightarrow> frame \<Rightarrow> string" where
  "frame_payload v compress f = (if compress = ''zstd'' then pvZstd v (pvJSON v f) else pvJSON v f)"

lemma digits_256:
  fixes n :: nat
  assumes "n < 256 * 256 * 256 * 256"
  shows "n mod 256 + n div 256 mod 256 * 256 + n div 65536 mod 256 * 65536 + n div 16777216 mod 256 * 16777216 = n"
proof -
  define a b c where "a = n div 256" and "b = a div 256" and "c = b div 256"
  then have "n div 65536 = b" "n div 16777216 = c" by (simp_all flip: div_mult2_eq)
  moreover have "c < 256" using assms by (simp add: a_def b_def c_def flip: div_mult2_eq)
  moreover have "n = n mod 256 + a * 256" "a = a mod 256 + b * 256" "b = b mod 256 + c * 256"
    by (simp_all add: a_def b_def c_def)
  ultimately show ?thesis unfolding a_def[symmetric] by simp
qed

lemma get_put_uint32: "get_uint32 (put_uint32 n) = unat n"
proof -
  have "unat n < 256 * 256 * 256 * 256" using unsigned_less[of n, where 'a = nat] by simp
  note digits = digits_256[OF this]
  have "unat (n div 256) = unat n div 256" "unat (n div 65536) = unat n div 65536" "unat (n div 16777216) = unat n div 16777216"
    by (simp_all add: unat_div)
  with digits show ?thesis by (simp add: get_uint32_def put_uint32_def drop_bit_eq_div)
qed

lemma length_put_uint32 [simp]: "length (put_uint32 n) = 4"
  by (simp add: put_uint32_def)

lemma marshalResponse_eq:
  "marshalResponse v compress f = put_uint32 (word_of_nat (length (frame_payload v compress f))) @ frame_payload v compress f"
  by (simp add: marshalResponse_def frame_payload_def Let_def)

text \<open>
  C20. The stream can be cut again: a client that reads the length prefixes recovers exactly the
  payloads of the frames that were written, in their order, as long as no payload reaches
  the four gigabytes that the 32-bit prefix can express.
\<close>

theorem stream_framing_roundtrip:
  assumes "\<forall>f \<in> set fs. length (frame_payload v compress f) < 2 ^ 32"
  shows "read_frames (concat (map (marshalResponse v compress) fs)) = map (frame_payload v compress) fs"
  using assms
proof (induction fs)
  case (Cons f fs)
  let ?p = "frame_payload v compress f" and ?rest = "concat (map (marshalResponse v compress) fs)"
  have "unat (word_of_nat (length ?p) :: 32 word) = length ?p"
    using Cons.prems by (simp add: unsigned_of_nat take_bit_nat_eq_self)
  then have n: "get_uint32 (put_uint32 (word_of_nat (length ?p))) = length ?p"
    by (simp add: get_put_uint32)
  have "read_frames (put_uint32 (word_of_nat (length ?p)) @ ?p @ ?rest) = ?p # read_frames ?rest"
    by (subst read_frames.simps) (simp add: n)
  with Cons show ?case by (simp add: marshalResponse_eq[of v compress f])
qed (simp add: read_frames.simps)

section \<open>Examples\<close>

definition sample_poll_env :: poll_env where
  "sample_poll_env = \<lparr>pvEnv = sample_env, pvTail = sample_tail, pvDERPMap = sample_derp,
     pvJSON = (\<lambda>f. case f of KeepAliveFrame \<Rightarrow> ''{KeepAlive}'' | MapFrame _ \<Rightarrow> ''{}''), pvZstd = (\<lambda>s. s)\<rparr>"

definition sample_poll_request :: "bool \<Rightarrow> PollRequest" where
  "sample_poll_request stream = \<lparr>mqVersion = 90, mqOmitPeers = False, pqNodeKey = ''nodekey:1'', pqDiscoKey = ''discokey:1'',
     pqHostinfo = Some sample_hostinfo, pqEndpoints = [], pqStream = stream, pqKeepAlive = True, pqCompress = []\<rparr>"

lemma sample_poll_first:
  obtains r h w' where "createMapResponse sample_poll_env False (NewPollNetMapper (MapRequest.truncate (sample_poll_request b)) 101) sample_world
    = (Inr (MapFrame r, h), w')"
proof -
  have "MapRequest.truncate (sample_poll_request b) = sample_request"
    by (simp add: sample_poll_request_def sample_request_def MapRequest.defs)
  then show ?thesis
    using sample_run[of sample_world 101 False "[]"] that
    by (auto simp: createMapResponse_def bindM_def sample_poll_env_def sample_mapper_def NewPollNetMapper_def)
qed

lemma sample_poll_machine:
  "GetMachineByKeys ''mkey:1'' (pqNodeKey (sample_poll_request b)) sample_world =
     (Inr (Some (load_machine sample_db (machine_row sample_laptop))), sample_world)"
  by (simp add: GetMachineByKeys_def take_machine_def db_query_ok sample_world_def sample_db_def sample_poll_request_def
      machine_row_def sample_laptop_def)

lemma sample_poll_run:
  "PollNetMap sample_poll_env ''mkey:1'' (sample_poll_request b) c written evs sample_world =
     handlePollNetMap sample_poll_env (load_machine sample_db (machine_row sample_laptop)) (sample_poll_request b) c written evs sample_world"
  by (simp add: PollNetMap_def sample_poll_machine) (simp add: sample_poll_request_def SupportedCapabilityVersion_def)

lemma sample_poll_laptop: "mID (load_machine sample_db (machine_row sample_laptop)) = 101"
  by (simp add: load_machine_def machine_row_def sample_laptop_def)

theorem stream_framing_roundtrip_witness:
  "read_frames (concat (map (marshalResponse sample_poll_env []) [KeepAliveFrame, KeepAliveFrame])) = [''{KeepAlive}'', ''{KeepAlive}'']"
  using stream_framing_roundtrip[of "[KeepAliveFrame, KeepAliveFrame]" sample_poll_env "[]"]
  by (simp add: frame_payload_def sample_poll_env_def)


theorem poll_session_released_witness:
  "\<exists>r out w'. PollNetMap sample_poll_env ''mkey:1'' (sample_poll_request True) 7 True [ConnClosed] sample_world = (r, out, w') \<and>
     session_owner 1 101 (wSessions w') \<noteq> Some 7"
proof -
  obtain x h w1 where first: "createMapResponse sample_poll_env False (NewPollNetMapper (MapRequest.truncate (sample_poll_request True)) 101) sample_world
    = (Inr (MapFrame x, h), w1)" by (rule sample_poll_first)
  then obtain r out w' where run: "PollNetMap sample_poll_env ''mkey:1'' (sample_poll_request True) 7 True [ConnClosed] sample_world = (r, out, w')"
    and "r \<noteq> Polling"
    by (simp add: sample_poll_run handlePollNetMap_def sample_poll_laptop) (simp add: sample_poll_request_def poll_stream_def Let_def)
  then have "session_owner 1 101 (wSessions w') \<noteq> Some 7"
    by (rule poll_session_released) (simp_all add: sample_world_def session_owner_def NewPollMapSessionManager_def empty_tsm_def)
  with run show ?thesis by blast
qed

theorem poll_first_write_leaks_session_witness:
  "\<exists>out w'. PollNetMap sample_poll_env ''mkey:1'' (sample_poll_request True) 7 False [] sample_world = (Failed write_error, out, w') \<and>
     HasSession 1 101 (wSessions w')"
proof -
  let ?m = "load_machine sample_db (machine_row sample_laptop)"
  obtain x h w1 where first: "createMapResponse sample_poll_env False (NewPollNetMapper (MapRequest.truncate (sample_poll_request True)) (mID ?m)) sample_world
    = (Inr (MapFrame x, h), w1)" unfolding sample_poll_laptop by (rule sample_poll_first)
  then obtain out w' where run: "PollNetMap sample_poll_env ''mkey:1'' (sample_poll_request True) 7 False [] sample_world = (Failed write_error, out, w')"
    by (simp add: sample_poll_run handlePollNetMap_def) (simp add: sample_poll_request_def poll_stream_def Let_def)
  have "HasSession (mTailnetID ?m) (mID ?m) (wSessions w')"
    using poll_first_write_leaks_session[OF run _ sample_poll_machine first]
    by (simp add: sample_poll_request_def SupportedCapabilityVersion_def)
  with run show ?thesis by (auto simp: load_machine_def machine_row_def sample_laptop_def)
qed


end
