(* ===== verification/Oidc.thy ===== *)
theory Oidc
  imports Domain
begin

text \<open>
  \<open>internal/auth\<close>: the exchange of an authorization code for an identity. The OAuth client and
  the OIDC verifier are third-party code: \<open>oidc_env\<close> has the exchange of the code, the
  verification of an id_token and the userinfo request, each with its error. A verified
  id_token is its nonce, the parsed \<open>sub\<close> and \<open>email\<close> claims and the raw claims.

  A JSON number is a \<open>CNumber\<close>: claims with a fraction are outside the model.
\<close>

section \<open>Configuration\<close>

record Organizations =
  ogClaim :: string
  ogRolesClaim :: string
  ogAdminRoles :: "string list"
  ogRequired :: bool

definition Organizations_Enabled :: "Organizations \<Rightarrow> bool" where
  "Organizations_Enabled o' \<longleftrightarrow> ogClaim o' \<noteq> []"

section \<open>Claims\<close>

type_synonym claims = "string \<rightharpoonup> claim"

primrec lookupClaim :: "string \<Rightarrow> claims list \<Rightarrow> claim option" where
  "lookupClaim name [] = None"
| "lookupClaim name (source # sources) =
     (if name = [] then None
      else case source name of
             Some v \<Rightarrow> if v \<noteq> CNull then Some v else lookupClaim name sources
           | None \<Rightarrow> lookupClaim name sources)"

definition FormatFloat :: "int \<Rightarrow> string" where
  "FormatFloat n = (if n < 0 then ''-'' @ Itoa (nat (- n)) else Itoa (nat n))"

definition claimAsString :: "claim option \<Rightarrow> string" where
  "claimAsString v =
     (case v of
        Some (CString s) \<Rightarrow> s
      | Some (CNumber n) \<Rightarrow> FormatFloat n
      | Some (CBool b) \<Rightarrow> if b then ''true'' else ''false''
      | _ \<Rightarrow> [])"

definition claimAsStringSlice :: "claim option \<Rightarrow> string list" where
  "claimAsStringSlice v =
     (case v of
        Some (CList vs) \<Rightarrow> filter (\<lambda>s. s \<noteq> []) (map (\<lambda>e. claimAsString (Some e)) vs)
      | Some (CString s) \<Rightarrow> if s \<noteq> [] then [s] else []
      | _ \<Rightarrow> [])"

section \<open>The exchange\<close>

record id_token =
  itNonce :: string
  itClaims :: "(string \<times> string) option"
  itRaw :: "claims option"

record oidc_env =
  oeExchange :: "string \<Rightarrow> string \<Rightarrow> string \<Rightarrow> error + string"
  oeIDToken :: "string \<Rightarrow> string option"
  oeVerify :: "string \<Rightarrow> error + id_token"
  oeUserInfo :: "string \<Rightarrow> error + claims option"
  oeClaims :: "claims \<Rightarrow> (string \<times> claim) list"

record auth_user =
  auID :: string
  auName :: string
  auUsername :: string
  auOrg :: string
  auRoles :: "string list"
  auAttr :: attrs

definition LoginName :: "auth_user \<Rightarrow> string" where
  "LoginName u = (if auUsername u \<noteq> [] then auUsername u else auName u)"

definition getTokenClaims :: "id_token \<Rightarrow> error + string \<times> string \<times> claims" where
  "getTokenClaims t =
     (case itClaims t of
        None \<Rightarrow> Inl (Err ''failed to parse id_token claims'')
      | Some (sub, email) \<Rightarrow>
          (case itRaw t of
             None \<Rightarrow> Inl (Err ''failed to parse id_token claims'')
           | Some raw \<Rightarrow> Inr (sub, email, raw)))"

definition getUserInfoClaims :: "oidc_env \<Rightarrow> string \<Rightarrow> error + claims" where
  "getUserInfoClaims e token =
     (case oeUserInfo e token of
        Inl err \<Rightarrow> Inl err
      | Inr None \<Rightarrow> Inl (Err ''failed to parse user info claims'')
      | Inr (Some raw) \<Rightarrow> Inr raw)"

definition ErrOrganizationRequired :: error where
  "ErrOrganizationRequired = Err ''identity is missing the required organization claim''"

definition email_domain :: "string \<Rightarrow> string" where
  "email_domain email =
     (case CutLast CHR ''@'' email of
        Some (a, b) \<Rightarrow> if a \<noteq> [] \<and> b \<noteq> [] then b else []
      | None \<Rightarrow> [])"

text \<open>The identity of the claims.\<close>

definition identity_of :: "oidc_env \<Rightarrow> Organizations \<Rightarrow> string \<Rightarrow> string \<Rightarrow> string \<Rightarrow> claims \<Rightarrow> claims \<Rightarrow> error + auth_user" where
  "identity_of e orgs usernameClaim sub email tokenClaims userInfoClaims =
     (let username = claimAsString (lookupClaim usernameClaim [tokenClaims, userInfoClaims]);
          attr = [''email'' \<mapsto> CString email, ''domain'' \<mapsto> CString (email_domain email),
                  ''token'' \<mapsto> CObject (oeClaims e tokenClaims), ''userinfo'' \<mapsto> CObject (oeClaims e userInfoClaims),
                  ''username'' \<mapsto> CString username];
          user = \<lparr>auID = sub, auName = (if email = [] then sub else email), auUsername = username, auOrg = [], auRoles = [],
                  auAttr = attr\<rparr>
      in if Organizations_Enabled orgs then
           (let org = claimAsString (lookupClaim (ogClaim orgs) [tokenClaims, userInfoClaims]);
                roles = (if ogRolesClaim orgs \<noteq> []
                         then claimAsStringSlice (lookupClaim (ogRolesClaim orgs) [tokenClaims, userInfoClaims]) else [])
            in if ogRequired orgs \<and> org = [] then Inl ErrOrganizationRequired
               else Inr (user\<lparr>auOrg := org, auRoles := roles,
                      auAttr := attr(''org'' \<mapsto> CString org, ''roles'' \<mapsto> CList (map CString roles))\<rparr>))
         else Inr user)"

definition Exchange ::
    "oidc_env \<Rightarrow> Organizations \<Rightarrow> string \<Rightarrow> string \<Rightarrow> string \<Rightarrow> string \<Rightarrow> string \<Rightarrow> error + auth_user" where
  "Exchange e orgs usernameClaim redirectURI code codeVerifier nonce =
     (case oeExchange e redirectURI code codeVerifier of
        Inl err \<Rightarrow> Inl err
      | Inr token \<Rightarrow>
          (case oeIDToken e token of
             None \<Rightarrow> Inl (Err ''id_token missing'')
           | Some rawIdToken \<Rightarrow>
               if TrimSpace rawIdToken = [] then Inl (Err ''id_token missing'')
               else
                 (case oeVerify e rawIdToken of
                    Inl err \<Rightarrow> Inl err
                  | Inr idToken \<Rightarrow>
                      if itNonce idToken \<noteq> nonce then Inl (Err ''id_token nonce does not match the authentication request'')
                      else
                        (case getTokenClaims idToken of
                           Inl err \<Rightarrow> Inl err
                         | Inr (sub, email, tokenClaims) \<Rightarrow>
                             (case getUserInfoClaims e token of
                                Inl err \<Rightarrow> Inl err
                              | Inr userInfoClaims \<Rightarrow>
                                  if sub = [] then Inl (Err ''id_token is missing a sub claim'')
                                  else identity_of e orgs usernameClaim sub email tokenClaims userInfoClaims)))))"

section \<open>What an identity is worth\<close>

lemma identity_of_run:
  assumes "identity_of e orgs uc sub email tc ic = Inr u"
  shows "auID u = sub" "auName u = (if email = [] then sub else email)"
    and "auOrg u = (if Organizations_Enabled orgs then claimAsString (lookupClaim (ogClaim orgs) [tc, ic]) else [])"
    and "auRoles u = (if Organizations_Enabled orgs \<and> ogRolesClaim orgs \<noteq> []
           then claimAsStringSlice (lookupClaim (ogRolesClaim orgs) [tc, ic]) else [])"
    and "Organizations_Enabled orgs \<Longrightarrow> ogRequired orgs \<Longrightarrow> auOrg u \<noteq> []"
  using assms by (auto simp: identity_of_def Let_def split: if_splits)

text \<open>
  C14. An identity comes out of the exchange only if the provider issued an id_token for this
  very authorization request: the code was redeemed with the request's code verifier, the
  token passed the verifier, its nonce is the request's. The subject is the token's and is not
  empty, and the organization is what the token says, or the userinfo where the token is
  silent; without one nobody gets in when an organization is required.
\<close>

theorem Exchange_bound:
  assumes "Exchange e orgs usernameClaim redirectURI code codeVerifier nonce = Inr u"
  shows "\<exists>token raw t email tokenClaims userInfoClaims.
    oeExchange e redirectURI code codeVerifier = Inr token \<and> oeIDToken e token = Some raw \<and> oeVerify e raw = Inr t \<and>
    itNonce t = nonce \<and> itClaims t = Some (auID u, email) \<and> itRaw t = Some tokenClaims \<and>
    oeUserInfo e token = Inr (Some userInfoClaims) \<and> auID u \<noteq> [] \<and> auName u \<in> {auID u, email} \<and>
    auOrg u = (if Organizations_Enabled orgs then claimAsString (lookupClaim (ogClaim orgs) [tokenClaims, userInfoClaims]) else []) \<and>
    (Organizations_Enabled orgs \<and> ogRequired orgs \<longrightarrow> auOrg u \<noteq> [])"
proof -
  from assms obtain token raw t sub email tc ic where
    "oeExchange e redirectURI code codeVerifier = Inr token" "oeIDToken e token = Some raw" "oeVerify e raw = Inr t"
    "itNonce t = nonce" "getTokenClaims t = Inr (sub, email, tc)" "getUserInfoClaims e token = Inr ic" "sub \<noteq> []"
    and i: "identity_of e orgs usernameClaim sub email tc ic = Inr u"
    by (auto simp: Exchange_def split: sum.splits option.splits if_splits)
  moreover from this have "itClaims t = Some (sub, email)" "itRaw t = Some tc" "oeUserInfo e token = Inr (Some ic)"
    by (auto simp: getTokenClaims_def getUserInfoClaims_def split: sum.splits option.splits)
  ultimately show ?thesis using identity_of_run[OF i] by auto
qed

definition sample_oidc :: oidc_env where
  "sample_oidc = \<lparr>oeExchange = (\<lambda>_ code v. if code = ''code'' \<and> v = ''verifier'' then Inr ''token'' else Inl (Err ''oauth'')),
     oeIDToken = Some,
     oeVerify = (\<lambda>_. Inr \<lparr>itNonce = ''nonce'', itClaims = Some (''sub-1'', ''alice@example.com''),
       itRaw = Some [''org'' \<mapsto> CString ''acme'']\<rparr>),
     oeUserInfo = (\<lambda>_. Inr (Some Map.empty)), oeClaims = (\<lambda>_. [])\<rparr>"

definition sample_orgs :: Organizations where
  "sample_orgs = \<lparr>ogClaim = ''org'', ogRolesClaim = [], ogAdminRoles = [''admin''], ogRequired = True\<rparr>"

lemma sample_exchange:
  "\<exists>u. Exchange sample_oidc sample_orgs ''preferred_username'' ''/a/callback'' ''code'' ''verifier'' ''nonce'' = Inr u \<and> auOrg u = ''acme''"
  by (simp add: Exchange_def sample_oidc_def sample_orgs_def identity_of_def getTokenClaims_def getUserInfoClaims_def
      Organizations_Enabled_def claimAsString_def TrimSpace_def is_space_def Let_def)

theorem Exchange_bound_witness:
  "\<exists>u token raw t. Exchange sample_oidc sample_orgs ''preferred_username'' ''/a/callback'' ''code'' ''verifier'' ''nonce'' = Inr u \<and>
     oeExchange sample_oidc ''/a/callback'' ''code'' ''verifier'' = Inr token \<and> oeIDToken sample_oidc token = Some raw \<and>
     oeVerify sample_oidc raw = Inr t \<and> itNonce t = ''nonce'' \<and> auOrg u \<noteq> []"
proof -
  obtain u where u: "Exchange sample_oidc sample_orgs ''preferred_username'' ''/a/callback'' ''code'' ''verifier'' ''nonce'' = Inr u"
    "auOrg u = ''acme''" using sample_exchange by blast
  from Exchange_bound[OF u(1)] u show ?thesis by auto
qed

end
