(* ===== verification/Login.thy ===== *)
theory Login
  imports Registration Oidc Interceptors "HOL-Library.Countable"
begin

text \<open>
  \<open>internal/handlers/authentication.go\<close>, \<open>session.go\<close> and \<open>internal/key\<close>: the login of a person
  in the browser. \<open>StartAuth\<close> redirects to the identity provider with a sealed state,
  \<open>Callback\<close> takes the provider's answer, decides which tailnets the identity may enter and
  finishes the login or offers a choice, and \<open>EndAuth\<close> takes the choice. State and session
  travel through the browser sealed with a key of the server.

  \<open>login_env\<close> holds the third-party functions: the authenticated encryption \<open>box\<close> under the
  server's key, base58, the JSON codecs, the URL of the provider. The pages are third-party
  templates: a rendered page is a constructor of \<open>web_response\<close>, \<open>NoContent\<close> the answer to a
  handler that returns nil without writing. Audit records are not part of the model.
\<close>

section \<open>Sealed values\<close>

record oauthState =
  osKey :: string
  osFlow :: string
  osExpiresAt :: instant
  osNonce :: string
  osCodeVerifier :: string

record authSession =
  asFlow :: string
  asKey :: string
  asAccountID :: uint64
  asSystemAdmin :: bool
  asTailnetIDs :: "uint64 list"
  asAdminTailnets :: "uint64 list"
  asExpiresAt :: instant

record login_env =
  lgReg :: reg_env
  lgOrganizations :: Organizations
  lgProvider :: "oidc_env option"
  lgUsernameClaim :: string
  lgLoginURL :: "string \<Rightarrow> string \<Rightarrow> string \<Rightarrow> string \<Rightarrow> string"
  lgSystemIAMPolicy :: IAMPolicy
  lgBoxSeal :: "string \<Rightarrow> string \<Rightarrow> string"
  lgBoxOpen :: "string \<Rightarrow> string \<Rightarrow> string option"
  lgEncode58 :: "string \<Rightarrow> string"
  lgDecode58 :: "string \<Rightarrow> string option"
  lgMarshalState :: "oauthState \<Rightarrow> string"
  lgUnmarshalState :: "string \<Rightarrow> oauthState option"
  lgMarshalSession :: "authSession \<Rightarrow> string"
  lgUnmarshalSession :: "string \<Rightarrow> authSession option"

definition Seal :: "login_env \<Rightarrow> string \<Rightarrow> string m" where
  "Seal v cleartext = bindM (RandomBytes 24) (\<lambda>nonce. returnM (nonce @ lgBoxSeal v nonce cleartext))"

definition Open :: "login_env \<Rightarrow> string \<Rightarrow> string option" where
  "Open v ciphertext =
     (if length ciphertext < 24 then None else lgBoxOpen v (take 24 ciphertext) (drop 24 ciphertext))"

definition authSessionLifetime :: duration where
  "authSessionLifetime = 15 * Minute"

definition allowsTailnet :: "authSession \<Rightarrow> uint64 \<Rightarrow> bool" where
  "allowsTailnet s i \<longleftrightarrow> list_ex (\<lambda>t. t = i) (asTailnetIDs s)"

definition sealAuthSession :: "login_env \<Rightarrow> authSession \<Rightarrow> string m" where
  "sealAuthSession v s = bindM (Seal v (lgMarshalSession v s)) (\<lambda>c. returnM (lgEncode58 v c))"

definition openAuthSession :: "login_env \<Rightarrow> string \<Rightarrow> authSession m" where
  "openAuthSession v raw =
     (if raw = [] then throwM (Err ''missing auth session'')
      else case lgDecode58 v raw of
        None \<Rightarrow> throwM (Err ''invalid auth session'')
      | Some decoded \<Rightarrow>
          (case Open v decoded of
             None \<Rightarrow> throwM (Err ''invalid auth session'')
           | Some plain \<Rightarrow>
               (case lgUnmarshalSession v plain of
                  None \<Rightarrow> throwM (Err ''invalid auth session'')
                | Some session \<Rightarrow>
                    bindM time_Now (\<lambda>now.
                    if IsZero (asExpiresAt session) \<or> asExpiresAt session < now then throwM (Err ''auth session expired'')
                    else returnM session))))"

definition createState :: "login_env \<Rightarrow> string \<Rightarrow> string \<Rightarrow> (string \<times> string \<times> string) m" where
  "createState v flow key =
     bindM (RandStringBytes 64) (\<lambda>nonce.
     bindM (RandStringBytes 64) (\<lambda>codeVerifier.
     bindM time_Now (\<lambda>now.
     bindM (Seal v (lgMarshalState v
       \<lparr>osKey = key, osFlow = flow, osExpiresAt = now + authSessionLifetime, osNonce = nonce, osCodeVerifier = codeVerifier\<rparr>)) (\<lambda>c.
     returnM (lgEncode58 v c, nonce, codeVerifier)))))"

definition readState :: "login_env \<Rightarrow> string \<Rightarrow> oauthState m" where
  "readState v s =
     (case lgDecode58 v s of
        None \<Rightarrow> throwM (Err ''base58'')
      | Some decodedState \<Rightarrow>
          (case Open v decodedState of
             None \<Rightarrow> throwM (Err ''invalid state'')
           | Some plain \<Rightarrow>
               (case lgUnmarshalState v plain of
                  None \<Rightarrow> throwM (Err ''json'')
                | Some state \<Rightarrow>
                    bindM time_Now (\<lambda>now.
                    if IsZero (osExpiresAt state) \<or> osExpiresAt state < now then throwM (Err ''state expired'')
                    else returnM state))))"

section \<open>Requests and responses\<close>

record AuthInput =
  aiKey :: string
  aiFlow :: string
  aiAuthKey :: string
  aiOidc :: bool

record EndAuthForm =
  efAccountID :: uint64
  efTailnetID :: uint64
  efAsSystemAdmin :: bool
  efAuthKey :: string
  efState :: string
  efSession :: string

definition zero_form :: EndAuthForm where
  "zero_form = \<lparr>efAccountID = 0, efTailnetID = 0, efAsSystemAdmin = False, efAuthKey = [], efState = [], efSession = []\<rparr>"

datatype web_response =
    Redirect string
  | AuthPage
  | TailnetsPage string bool "Tailnet list"
  | NoContent

definition AuthFlowMachineRegistration :: string where "AuthFlowMachineRegistration = ''r''"
definition AuthFlowClient :: string where "AuthFlowClient = ''c''"
definition AuthFlowSSHCheckFlow :: string where "AuthFlowSSHCheckFlow = ''s''"

lemmas flow_defs = AuthFlowMachineRegistration_def AuthFlowClient_def AuthFlowSSHCheckFlow_def

text \<open>The error page of a code.\<close>

definition error_page :: "string \<Rightarrow> web_response" where
  "error_page code = Redirect (''/a/error?e='' @ code)"

section \<open>Which tailnets an identity may enter\<close>

definition isEmptyIAMPolicy :: "IAMPolicy \<Rightarrow> bool" where
  "isEmptyIAMPolicy p \<longleftrightarrow> length (iamSubs p) = 0 \<and> length (iamEmails p) = 0 \<and> length (iamFilters p) = 0"

definition login_identity :: "auth_user \<Rightarrow> Identity" where
  "login_identity u = \<lparr>idUserID = auID u, idUsername = [], idEmail = auName u, idAttr = auAttr u\<rparr>"

definition tailnetAccessible :: "env \<Rightarrow> Organizations \<Rightarrow> Tailnet \<Rightarrow> auth_user \<Rightarrow> error + bool" where
  "tailnetAccessible e orgs t u =
     (if tOrganization t \<noteq> [] then
        (if \<not> Organizations_Enabled orgs \<or> auOrg u = [] \<or> tOrganization t \<noteq> auOrg u then Inr False
         else case hjT (tIAMPolicy t) of
                None \<Rightarrow> Inl NilDeref
              | Some policy \<Rightarrow>
                  if isEmptyIAMPolicy policy then Inr True else EvaluatePolicy e policy (login_identity u))
      else if Organizations_Enabled orgs \<and> auOrg u \<noteq> [] then Inr False
      else case hjT (tIAMPolicy t) of
             None \<Rightarrow> Inl NilDeref
           | Some policy \<Rightarrow> EvaluatePolicy e policy (login_identity u))"

primrec accessible_tailnets :: "env \<Rightarrow> Organizations \<Rightarrow> auth_user \<Rightarrow> Tailnet list \<Rightarrow> error + Tailnet list" where
  "accessible_tailnets e orgs u [] = Inr []"
| "accessible_tailnets e orgs u (t # ts) =
     (case tailnetAccessible e orgs t u of
        Inl err \<Rightarrow> Inl err
      | Inr approved \<Rightarrow>
          (case accessible_tailnets e orgs u ts of
             Inl err \<Rightarrow> Inl err
           | Inr result \<Rightarrow> Inr (if approved then t # result else result)))"

definition listAvailableTailnets :: "login_env \<Rightarrow> auth_user \<Rightarrow> Tailnet list m" where
  "listAvailableTailnets v u =
     bindM ListTailnets (\<lambda>tailnets. liftE (accessible_tailnets (rvEnv (lgReg v)) (lgOrganizations v) u tailnets))"

definition isSystemAdmin :: "login_env \<Rightarrow> auth_user \<Rightarrow> error + bool" where
  "isSystemAdmin v u = EvaluatePolicy (rvEnv (lgReg v)) (lgSystemIAMPolicy v) (login_identity u)"

definition denialCode :: "login_env \<Rightarrow> auth_user \<Rightarrow> string m" where
  "denialCode v u =
     bindM (tryM ListTailnets) (\<lambda>r.
     case r of
       Inl _ \<Rightarrow> returnM ''ua''
     | Inr tailnets \<Rightarrow>
         returnM
           (if length tailnets = 0 then ''ua-none''
            else if Organizations_Enabled (lgOrganizations v) then
              (if auOrg u = [] then ''ua-org-required''
               else if list_ex (\<lambda>t. tOrganization t = auOrg u) tailnets then ''ua-policy''
               else ''ua-org'')
            else ''ua-policy''))"

section \<open>The roles of an organization\<close>

definition synced_policy :: "bool \<Rightarrow> string \<Rightarrow> IAMPolicy \<Rightarrow> IAMPolicy option" where
  "synced_policy isAdmin name policy =
     (let current = iamRoles policy name;
          updated1 = (if isAdmin \<and> current \<noteq> Some UserRoleAdmin
                      then Some (policy\<lparr>iamRoles := (iamRoles policy)(name \<mapsto> UserRoleAdmin)\<rparr>) else None)
      in if \<not> isAdmin \<and> current = Some UserRoleAdmin
         then Some (policy\<lparr>iamRoles := (iamRoles policy)(name := None)\<rparr>)
         else updated1)"

definition sync_tailnet :: "login_env \<Rightarrow> bool \<Rightarrow> string \<Rightarrow> Tailnet \<Rightarrow> unit m" where
  "sync_tailnet v isAdmin name t =
     (case hjT (tIAMPolicy t) of
        None \<Rightarrow> throwM NilDeref
      | Some policy \<Rightarrow>
          (case synced_policy isAdmin name policy of
             None \<Rightarrow> returnM ()
           | Some updated \<Rightarrow> SaveTailnet (t\<lparr>tIAMPolicy := NewIAMHuJSON (rvEnv (lgReg v)) updated\<rparr>)))"

definition syncOrgRoles :: "login_env \<Rightarrow> auth_user \<Rightarrow> unit m" where
  "syncOrgRoles v u =
     (let orgs = lgOrganizations v in
      if \<not> Organizations_Enabled orgs \<or> ogRolesClaim orgs = [] \<or> auOrg u = [] then returnM ()
      else
        (let isAdmin = list_ex (\<lambda>role. list_ex (\<lambda>adminRole. role = adminRole) (ogAdminRoles orgs)) (auRoles u) in
         bindM (ListTailnetsByOrganization (auOrg u)) (\<lambda>tailnets.
         forM tailnets (sync_tailnet v isAdmin (auName u)))))"

section \<open>The end of a login\<close>

definition cli_system_admin :: "login_env \<Rightarrow> Account \<Rightarrow> AuthenticationRequest \<Rightarrow> web_response m" where
  "cli_system_admin v account req =
     bindM time_Now (\<lambda>now.
     bindM (CreateSystemApiKey (rvEnv (lgReg v)) account (Some (now + 24 * Hour))) (\<lambda>(token, apiKey).
     seqM (Transaction (seqM (SaveSystemApiKey apiKey) (SaveAuthenticationRequest (req\<lparr>aqToken := token\<rparr>)))) (
     returnM (Redirect ''/a/success''))))"

definition cli_tailnet :: "login_env \<Rightarrow> Account \<Rightarrow> Tailnet \<Rightarrow> AuthenticationRequest \<Rightarrow> web_response m" where
  "cli_tailnet v account tailnet req =
     bindM (GetOrCreateUserWithAccount tailnet account) (\<lambda>(user, _).
     bindM time_Now (\<lambda>now.
     bindM (CreateApiKey (rvEnv (lgReg v)) tailnet user (Some (now + 24 * Hour))) (\<lambda>(token, apiKey).
     seqM (Transaction (
       bindM time_Now (\<lambda>t.
       seqM (SetUserLastAuthenticated (uID user) t) (
       seqM (SaveApiKey apiKey) (
       SaveAuthenticationRequest (req\<lparr>aqToken := token, aqTailnetID := Some (tID tailnet)\<rparr>)))))) (
     returnM (Redirect ''/a/success'')))))"

definition endCliAuthenticationFlow :: "login_env \<Rightarrow> EndAuthForm \<Rightarrow> AuthenticationRequest \<Rightarrow> web_response m" where
  "endCliAuthenticationFlow v form req =
     bindM (GetAccount (efAccountID form)) (\<lambda>account.
     if efAsSystemAdmin form then
       (case account of None \<Rightarrow> throwM NilDeref | Some a \<Rightarrow> cli_system_admin v a req)
     else
       bindM (GetTailnet (efTailnetID form)) (\<lambda>tailnet.
       case (account, tailnet) of
         (Some a, Some t) \<Rightarrow> cli_tailnet v a t req
       | _ \<Rightarrow> throwM NilDeref))"

text \<open>\<open>endMachineRegistrationFlow\<close>, once the tailnet, the user and what goes with an auth key are known.\<close>

definition register_for ::
    "login_env \<Rightarrow> RegistrationRequest \<Rightarrow> Tailnet \<Rightarrow> User \<Rightarrow> string list \<Rightarrow> bool \<Rightarrow> bool \<Rightarrow> web_response m" where
  "register_for v q tailnet user tags ephemeral authorized =
     (let req = rrData q; r = lgReg v in
      case hjT (tACLPolicy tailnet) of
        None \<Rightarrow> throwM NilDeref
      | Some policy \<Rightarrow>
          (case CheckTagOwners policy (hiRequestTags (rgHostinfo req)) user of
             Some _ \<Rightarrow>
               seqM (SaveRegistrationRequest (q\<lparr>rrAuthenticated := False, rrError := ''tag is invalid or not permitted''\<rparr>)) (
               returnM (error_page ''nto''))
           | None \<Rightarrow>
               (let autoAllowIPs = FindAutoApprovedIPs policy (hiRoutableIPs (rgHostinfo req)) tags user in
                bindM (GetMachineByKeyAndUser (rrMachineKey q) (uID user)) (\<lambda>known.
                bindM time_Now (\<lambda>now.
                bindM (case known of
                         None \<Rightarrow> fresh_machine r (rrMachineKey q) req tailnet user tags autoAllowIPs ephemeral authorized now
                       | Some m \<Rightarrow> renewed_machine r req tailnet user tags autoAllowIPs ephemeral now m) (\<lambda>m.
                bindM (applyTailnetLockRegistration (rvLock r) (tID tailnet) m req) (\<lambda>m.
                seqM (Transaction (
                  bindM time_Now (\<lambda>t.
                  seqM (SetUserLastAuthenticated (mUserID m) t) (
                  seqM (SaveMachine m) (
                  SaveRegistrationRequest (q\<lparr>rrAuthenticated := True, rrError := [], rrUserID := uID user\<rparr>)))))) (
                returnM (if mAuthorized m then Redirect ''/a/success'' else Redirect ''/a/success?s=nma'')))))))))"

definition endMachineRegistrationFlow :: "login_env \<Rightarrow> EndAuthForm \<Rightarrow> RegistrationRequest \<Rightarrow> web_response m" where
  "endMachineRegistrationFlow v form q =
     (if efAuthKey form \<noteq> [] then
        bindM (LoadAuthKey (rvEnv (lgReg v)) (efAuthKey form)) (\<lambda>k.
        case k of
          None \<Rightarrow>
            seqM (SaveRegistrationRequest (q\<lparr>rrAuthenticated := False, rrError := ''invalid auth key''\<rparr>)) (
            returnM (error_page ''iak''))
        | Some authKey \<Rightarrow>
            register_for v q (akTailnet authKey) (akUser authKey) (akTags authKey) (akEphemeral authKey) (akPreAuthorized authKey))
      else
        bindM (GetTailnet (efTailnetID form)) (\<lambda>selectedTailnet.
        bindM (GetAccount (efAccountID form)) (\<lambda>account.
        case (selectedTailnet, account) of
          (Some t, Some a) \<Rightarrow>
            bindM (GetOrCreateUserWithAccount t a) (\<lambda>(selectedUser, _).
            register_for v q t selectedUser [] False False)
        | _ \<Rightarrow> throwM NilDeref)))"

section \<open>The handlers\<close>

definition startOidc :: "login_env \<Rightarrow> AuthInput \<Rightarrow> web_response m" where
  "startOidc v input =
     bindM (createState v (aiFlow input) (aiKey input)) (\<lambda>(state, nonce, codeVerifier).
     returnM (Redirect (lgLoginURL v (rvCreateUrl (lgReg v) ''/a/callback'') state nonce codeVerifier)))"

definition StartAuth :: "login_env \<Rightarrow> AuthInput \<Rightarrow> web_response m" where
  "StartAuth v input =
     (if aiFlow input = AuthFlowMachineRegistration then
        bindM (GetRegistrationRequestByKey (aiKey input)) (\<lambda>req.
        case req of
          None \<Rightarrow> returnM NoContent
        | Some q \<Rightarrow>
            if aiOidc input \<and> lgProvider v \<noteq> None then startOidc v input
            else if aiAuthKey input \<noteq> [] then endMachineRegistrationFlow v (zero_form\<lparr>efAuthKey := aiAuthKey input\<rparr>) q
            else if lgProvider v \<noteq> None then startOidc v input
            else returnM AuthPage)
      else
        bindM (if aiFlow input = AuthFlowClient
               then bindM (GetAuthenticationRequest (aiKey input)) (\<lambda>s. returnM (s \<noteq> None)) else returnM True) (\<lambda>ok1.
        if \<not> ok1 then returnM NoContent
        else
          bindM (if aiFlow input = AuthFlowSSHCheckFlow
                 then bindM (GetSSHActionRequest (aiKey input)) (\<lambda>s. returnM (s \<noteq> None)) else returnM True) (\<lambda>ok2.
          if \<not> ok2 then returnM NoContent
          else if lgProvider v = None
          then throwM (Err ''unable to start auth flow as no auth provider is configured'')
          else startOidc v input)))"

definition ProcessAuth :: "login_env \<Rightarrow> AuthInput \<Rightarrow> web_response m" where
  "ProcessAuth v input =
     bindM (GetRegistrationRequestByKey (aiKey input)) (\<lambda>req.
     case req of
       None \<Rightarrow> returnM NoContent
     | Some q \<Rightarrow>
         if aiAuthKey input \<noteq> [] then endMachineRegistrationFlow v (zero_form\<lparr>efAuthKey := aiAuthKey input\<rparr>) q
         else if aiOidc input then
           (if lgProvider v = None
            then bindM (createState v (aiFlow input) (aiKey input)) (\<lambda>_. throwM NilDeref)
            else startOidc v input)
         else returnM (Redirect (''/a/'' @ aiFlow input @ ''/'' @ aiKey input)))"

definition exchangeUser :: "login_env \<Rightarrow> string \<Rightarrow> string \<Rightarrow> string \<Rightarrow> error + auth_user" where
  "exchangeUser v code codeVerifier nonce =
     (case lgProvider v of
        None \<Rightarrow> Inl NilDeref
      | Some p \<Rightarrow> Exchange p (lgOrganizations v) (lgUsernameClaim v) (rvCreateUrl (lgReg v) ''/a/callback'') code codeVerifier nonce)"

definition createSession :: "login_env \<Rightarrow> oauthState \<Rightarrow> uint64 \<Rightarrow> bool \<Rightarrow> Tailnet list \<Rightarrow> string m" where
  "createSession v state accountID sysAdmin tailnets =
     bindM time_Now (\<lambda>now.
     sealAuthSession v
       \<lparr>asFlow = osFlow state, asKey = osKey state, asAccountID = accountID, asSystemAdmin = sysAdmin,
        asTailnetIDs = map tID tailnets, asAdminTailnets = [], asExpiresAt = now + authSessionLifetime\<rparr>)"

text \<open>The three ends of \<open>Callback\<close>.\<close>

definition ssh_check_flow :: "oauthState \<Rightarrow> Account \<Rightarrow> web_response m" where
  "ssh_check_flow state account =
     bindM (tryM (GetSSHActionRequest (osKey state))) (\<lambda>r.
     case r of
       Inr (Some q) \<Rightarrow>
         bindM (GetMachine_row (sqSrcMachineID q)) (\<lambda>mopt.
         case mopt of
           None \<Rightarrow> throwM NilDeref
         | Some machine \<Rightarrow>
             if \<not> HasTags machine \<and> uAccountID (mUser machine) = Some (acID account) then
               seqM (Transaction (
                 bindM time_Now (\<lambda>t.
                 seqM (SetUserLastAuthenticated (mUserID machine) t) (
                 SaveSSHActionRequest (q\<lparr>sqAction := ''accept''\<rparr>))))) (
               returnM (Redirect ''/a/success''))
             else
               seqM (SaveSSHActionRequest (q\<lparr>sqAction := ''reject''\<rparr>)) (
               returnM (error_page ''nmo'')))
     | _ \<Rightarrow> returnM (error_page ''ua''))"

definition machine_flow :: "login_env \<Rightarrow> oauthState \<Rightarrow> auth_user \<Rightarrow> Account \<Rightarrow> Tailnet list \<Rightarrow> web_response m" where
  "machine_flow v state user account tailnets =
     (case tailnets of
        [] \<Rightarrow>
          bindM (tryM (GetRegistrationRequestByKey (osKey state))) (\<lambda>r.
          seqM (case r of
                  Inr (Some q) \<Rightarrow> ignoreM (SaveRegistrationRequest (q\<lparr>rrError := ''unauthorized''\<rparr>))
                | _ \<Rightarrow> returnM ()) (
          bindM (denialCode v user) (\<lambda>c. returnM (error_page c))))
      | [t] \<Rightarrow>
          bindM (GetRegistrationRequestByKey (osKey state)) (\<lambda>req.
          case req of
            None \<Rightarrow> throwM (Err ''invalid registration key'')
          | Some q \<Rightarrow> endMachineRegistrationFlow v (zero_form\<lparr>efAccountID := acID account, efTailnetID := tID t\<rparr>) q)
      | _ \<Rightarrow>
          bindM (createSession v state (acID account) False tailnets) (\<lambda>session.
          returnM (TailnetsPage session False tailnets)))"

definition cli_flow :: "login_env \<Rightarrow> oauthState \<Rightarrow> auth_user \<Rightarrow> Account \<Rightarrow> Tailnet list \<Rightarrow> web_response m" where
  "cli_flow v state user account tailnets =
     bindM (liftE (isSystemAdmin v user)) (\<lambda>sysAdmin.
     if \<not> sysAdmin \<and> length tailnets = 0 then
       bindM (tryM (GetAuthenticationRequest (osKey state))) (\<lambda>r.
       seqM (case r of
               Inr (Some q) \<Rightarrow> ignoreM (SaveAuthenticationRequest (q\<lparr>aqError := ''unauthorized''\<rparr>))
             | _ \<Rightarrow> returnM ()) (
       bindM (denialCode v user) (\<lambda>c. returnM (error_page c))))
     else if \<not> sysAdmin \<and> length tailnets = 1 then
       bindM (GetAuthenticationRequest (osKey state)) (\<lambda>req.
       case req of
         None \<Rightarrow> throwM (Err ''invalid authentication key'')
       | Some q \<Rightarrow> endCliAuthenticationFlow v (zero_form\<lparr>efAccountID := acID account, efTailnetID := tID (hd tailnets)\<rparr>) q)
     else
       bindM (createSession v state (acID account) sysAdmin tailnets) (\<lambda>session.
       returnM (TailnetsPage session sysAdmin tailnets)))"

definition login_flow :: "login_env \<Rightarrow> oauthState \<Rightarrow> auth_user \<Rightarrow> Account \<Rightarrow> web_response m" where
  "login_flow v state user account =
     seqM (syncOrgRoles v user) (
     bindM (listAvailableTailnets v user) (\<lambda>tailnets.
     if osFlow state = AuthFlowMachineRegistration then machine_flow v state user account tailnets
     else if osFlow state = AuthFlowClient then cli_flow v state user account tailnets
     else throwM (HTTPError 404 [])))"

record callback_query =
  cqError :: string
  cqCode :: string
  cqState :: string

definition Callback :: "login_env \<Rightarrow> callback_query \<Rightarrow> web_response m" where
  "Callback v query =
     (if cqError query \<noteq> [] then returnM (error_page ''idp'')
      else
        bindM (tryM (readState v (cqState query))) (\<lambda>s.
        case s of
          Inl _ \<Rightarrow> throwM (HTTPError 400 ''Invalid state parameter'')
        | Inr state \<Rightarrow>
            (case exchangeUser v (cqCode query) (osCodeVerifier state) (osNonce state) of
               Inl err \<Rightarrow> if err = ErrOrganizationRequired then returnM (error_page ''ua-org-required'') else throwM err
             | Inr user \<Rightarrow>
                 bindM (GetOrCreateAccount (auID user) (auOrg user) (LoginName user)) (\<lambda>(account, _).
                 seqM (SetAccountLastAuthenticated (acID account)) (
                 if osFlow state = AuthFlowSSHCheckFlow then ssh_check_flow state account
                 else login_flow v state user account)))))"

definition end_flow :: "login_env \<Rightarrow> oauthState \<Rightarrow> EndAuthForm \<Rightarrow> web_response m" where
  "end_flow v state form =
     (if osFlow state = AuthFlowMachineRegistration then
        bindM (GetRegistrationRequestByKey (osKey state)) (\<lambda>req.
        case req of None \<Rightarrow> returnM NoContent | Some q \<Rightarrow> endMachineRegistrationFlow v form q)
      else if osFlow state = AuthFlowClient then
        bindM (GetAuthenticationRequest (osKey state)) (\<lambda>req.
        case req of None \<Rightarrow> returnM NoContent | Some q \<Rightarrow> endCliAuthenticationFlow v form q)
      else throwM (HTTPError 400 ''Invalid state parameter''))"

definition EndAuth :: "login_env \<Rightarrow> EndAuthForm \<Rightarrow> web_response m" where
  "EndAuth v form =
     bindM (tryM (readState v (efState form))) (\<lambda>s.
     case s of
       Inl _ \<Rightarrow> throwM (HTTPError 400 ''Invalid state parameter'')
     | Inr state \<Rightarrow>
         bindM (tryM (openAuthSession v (efSession form))) (\<lambda>o'.
         case o' of
           Inl _ \<Rightarrow> throwM (HTTPError 403 ''Invalid or expired session'')
         | Inr session \<Rightarrow>
             if asFlow session \<noteq> osFlow state \<or> asKey session \<noteq> osKey state
             then throwM (HTTPError 403 ''Session does not match this authentication flow'')
             else
               (let form1 = form\<lparr>efAuthKey := [], efAccountID := asAccountID session\<rparr> in
                if efAsSystemAdmin form1 \<and> \<not> asSystemAdmin session then throwM (HTTPError 403 ''Not a system admin'')
                else if \<not> efAsSystemAdmin form1 \<and> \<not> allowsTailnet session (efTailnetID form1)
                then throwM (HTTPError 403 ''Not a member of the selected tailnet'')
                else end_flow v state form1)))"

section \<open>What a login may change\<close>

text \<open>
  \<open>session_bounds a T admin\<close>: the change is one that the account \<open>a\<close>, admitted to the tailnets
  \<open>T\<close>, is entitled to. New users, API keys and machines belong to the account and to a
  tailnet of \<open>T\<close>; system keys are only made for a system administrator; tailnets and auth
  keys stay as they are, and no user is taken away or changes hands.
\<close>

definition same_owner :: "User \<Rightarrow> User \<Rightarrow> bool" where
  "same_owner u u' \<longleftrightarrow> uID u' = uID u \<and> uTailnetID u' = uTailnetID u \<and> uAccountID u' = uAccountID u"

definition user_present :: "uint64 \<Rightarrow> db \<Rightarrow> uint64 \<Rightarrow> uint64 \<Rightarrow> bool" where
  "user_present a d userID tailnetID \<longleftrightarrow>
     (\<exists>u \<in> set (dbUsers d). uID u = userID \<and> uTailnetID u = tailnetID \<and> uAccountID u = Some a)"

definition users_kept :: "uint64 \<Rightarrow> uint64 set \<Rightarrow> db \<Rightarrow> db \<Rightarrow> bool" where
  "users_kept a T d d' \<longleftrightarrow>
     (\<forall>u \<in> set (dbUsers d). \<exists>u' \<in> set (dbUsers d'). same_owner u u') \<and>
     (\<forall>u' \<in> set (dbUsers d'). (\<exists>u \<in> set (dbUsers d). same_owner u u') \<or> uAccountID u' = Some a \<and> uTailnetID u' \<in> T)"

definition session_bounds :: "uint64 \<Rightarrow> uint64 set \<Rightarrow> bool \<Rightarrow> db \<Rightarrow> db \<Rightarrow> bool" where
  "session_bounds a T admin d d' \<longleftrightarrow>
     users_kept a T d d' \<and>
     (\<forall>k \<in> set (dbApiKeys d'). k \<in> set (dbApiKeys d) \<or> user_present a d' (apUserID k) (apTailnetID k) \<and> apTailnetID k \<in> T) \<and>
     (\<forall>k \<in> set (dbSystemApiKeys d'). k \<in> set (dbSystemApiKeys d) \<or> admin \<and> skAccountID k = a) \<and>
     (\<forall>m \<in> set (dbMachines d'). m \<in> set (dbMachines d) \<or> user_present a d' (mUserID m) (mTailnetID m) \<and> mTailnetID m \<in> T) \<and>
     dbTailnets d' = dbTailnets d \<and> dbAuthKeys d' = dbAuthKeys d"

lemma same_owner_trans: "same_owner u v \<Longrightarrow> same_owner v x \<Longrightarrow> same_owner u x"
  by (simp add: same_owner_def)

lemma users_kept_refl: "users_kept a T d d"
  by (auto simp: users_kept_def same_owner_def)

lemma users_kept_trans:
  assumes "users_kept a T d d'" and "users_kept a T d' e"
  shows "users_kept a T d e"
  unfolding users_kept_def
proof (intro conjI ballI)
  fix u assume "u \<in> set (dbUsers d)"
  with assms obtain u1 u2 where "u2 \<in> set (dbUsers e)" "same_owner u u1" "same_owner u1 u2" unfolding users_kept_def by blast
  then show "\<exists>u' \<in> set (dbUsers e). same_owner u u'" using same_owner_trans by blast
next
  fix u' assume u': "u' \<in> set (dbUsers e)"
  show "(\<exists>u \<in> set (dbUsers d). same_owner u u') \<or> uAccountID u' = Some a \<and> uTailnetID u' \<in> T"
  proof (cases "\<exists>v \<in> set (dbUsers d'). same_owner v u'")
    case True
    then obtain x where x: "x \<in> set (dbUsers d')" "same_owner x u'" by blast
    with assms(1) consider u where "u \<in> set (dbUsers d)" "same_owner u x" | "uAccountID x = Some a" "uTailnetID x \<in> T"
      unfolding users_kept_def by blast
    then show ?thesis using x(2) same_owner_trans by cases (blast, simp add: same_owner_def)
  next
    case False
    with u' assms(2) show ?thesis unfolding users_kept_def by blast
  qed
qed

lemma user_present_kept: "users_kept a T d d' \<Longrightarrow> user_present a d i t \<Longrightarrow> user_present a d' i t"
  unfolding users_kept_def user_present_def same_owner_def by metis

interpretation bounds: db_frame "session_bounds a T admin" for a T admin
proof unfold_locales
  show "session_bounds a T admin d d" for d by (auto simp: session_bounds_def users_kept_refl)
  show "session_bounds a T admin d e" if de: "session_bounds a T admin d d'" "session_bounds a T admin d' e" for d d' e
  proof -
    have kept: "users_kept a T d d'" "users_kept a T d' e" using de by (simp_all add: session_bounds_def)
    note present = user_present_kept[OF kept(2)]
    have "users_kept a T d e" using kept by (rule users_kept_trans)
    moreover have "k \<in> set (dbApiKeys d) \<or> user_present a e (apUserID k) (apTailnetID k) \<and> apTailnetID k \<in> T"
      if "k \<in> set (dbApiKeys e)" for k using de present that unfolding session_bounds_def by blast
    moreover have "k \<in> set (dbSystemApiKeys d) \<or> admin \<and> skAccountID k = a"
      if "k \<in> set (dbSystemApiKeys e)" for k using de that unfolding session_bounds_def by blast
    moreover have "m \<in> set (dbMachines d) \<or> user_present a e (mUserID m) (mTailnetID m) \<and> mTailnetID m \<in> T"
      if "m \<in> set (dbMachines e)" for m using de present that unfolding session_bounds_def by blast
    moreover have "dbTailnets e = dbTailnets d" "dbAuthKeys e = dbAuthKeys d" using de by (simp_all add: session_bounds_def)
    ultimately show ?thesis unfolding session_bounds_def by blast
  qed
qed

text \<open>The elementary changes.\<close>

lemma bounds_map_users:
  assumes "\<And>u. same_owner u (f u)"
  shows "session_bounds a T admin d (d\<lparr>dbUsers := map f (dbUsers d)\<rparr>)"
  using assms by (auto simp: session_bounds_def users_kept_def)

lemma bounds_insert_user:
  assumes "uAccountID u = Some a" and "uTailnetID u \<in> T"
  shows "session_bounds a T admin d (d\<lparr>dbUsers := dbUsers d @ [user_row u]\<rparr>)"
  using assms by (auto simp: session_bounds_def users_kept_def same_owner_def user_row_def)

lemma bounds_save_api_key:
  assumes "user_present a d (apUserID k) (apTailnetID k)" and "apTailnetID k \<in> T"
  shows "session_bounds a T admin d (d\<lparr>dbApiKeys := save_row apID (api_key_row k) (dbApiKeys d)\<rparr>)"
  using assms by (auto simp: session_bounds_def users_kept_def same_owner_def set_save_row api_key_row_def user_present_def)

lemma bounds_save_system_key:
  assumes "admin" and "skAccountID k = a"
  shows "session_bounds a T admin d (d\<lparr>dbSystemApiKeys := save_row skID (system_api_key_row k) (dbSystemApiKeys d)\<rparr>)"
  using assms by (auto simp: session_bounds_def users_kept_def same_owner_def set_save_row system_api_key_row_def)

lemma bounds_save_machine:
  assumes "user_present a d (mUserID m) (mTailnetID m)" and "mTailnetID m \<in> T"
  shows "session_bounds a T admin d (d\<lparr>dbMachines := save_row mID (machine_row m) (dbMachines d)\<rparr>)"
  using assms by (auto simp: session_bounds_def users_kept_def same_owner_def set_save_row machine_row_def user_present_def)

lemma bounds_requests:
  "session_bounds a T admin d (dbRegistrationRequests_update f d)"
  "session_bounds a T admin d (dbAuthenticationRequests_update g d)"
  "session_bounds a T admin d (dbSSHActionRequests_update h d)"
  "session_bounds a T admin d (dbAccounts_update i d)"
  by (auto simp: session_bounds_def users_kept_def same_owner_def)

lemma bounds_save_requests:
  "within (on_db (session_bounds a T admin)) (SaveRegistrationRequest q)"
  "within (on_db (session_bounds a T admin)) (SaveAuthenticationRequest r)"
  "within (on_db (session_bounds a T admin)) (SaveSSHActionRequest s)"
  "within (on_db (session_bounds a T admin)) (SetUserLastAuthenticated i t)"
  unfolding SaveRegistrationRequest_def SaveAuthenticationRequest_def SaveSSHActionRequest_def SetUserLastAuthenticated_def
  by (rule bounds.within_db_exec_unique bounds.within_db_exec, simp add: bounds_requests bounds_map_users same_owner_def)+

lemma user_present_map:
  assumes "user_present a d i t" and "\<And>u. same_owner u (f u)"
  shows "user_present a (d\<lparr>dbUsers := map f (dbUsers d)\<rparr>) i t"
  using assms by (force simp: user_present_def same_owner_def)

lemma user_created:
  assumes "tID t \<noteq> 0"
  shows "stays (on_db (session_bounds (acID a) {tID t} admin)) (GetOrCreateUserWithAccount t a) w"
    and "GetOrCreateUserWithAccount t a w = (Inr (u, c), w') \<Longrightarrow> user_present (acID a) (wDB w') (uID u) (tID t)"
proof -
  let ?R = "on_db (session_bounds (acID a) {tID t} admin)"
  let ?new = "\<lambda>i. zero_user\<lparr>uID := i, uName := acLoginName a, uUserType := UserTypePerson, uTailnetID := tID t, uAccountID := Some (acID a)\<rparr>"
  let ?rename = "\<lambda>u. db_exec (\<lambda>d. d\<lparr>dbUsers := map (\<lambda>x. if uID x = uID u then x\<lparr>uName := acLoginName a\<rparr> else x) (dbUsers d)\<rparr>)"
  have new: "within ?R (insert_user (?new i))" for i
    unfolding insert_user_def by (rule bounds.within_db_exec_unique) (simp add: bounds_insert_user)
  have rename: "within ?R (?rename u)" for u
    by (rule bounds.within_db_exec) (rule bounds_map_users, simp add: same_owner_def)
  show "stays ?R (GetOrCreateUserWithAccount t a) w"
    unfolding GetOrCreateUserWithAccount_def Let_def
    by (rule bounds.stays_within) (intro bounds.within_intros bounds.within_basic new rename)
  assume "GetOrCreateUserWithAccount t a w = (Inr (u, c), w')"
  then obtain i w0 found w1 u0 w2 where
    q: "db_query (\<lambda>d. first_by uID (\<lambda>u. uAccountID u = Some (acID a) \<and> (tID t = 0 \<or> uTailnetID u = tID t)) (dbUsers d)) w0 = (Inr found, w1)"
    and u0: "(case found of Some u \<Rightarrow> returnM u | None \<Rightarrow> (let u = ?new i in seqM (insert_user u) (returnM u))) w1 = (Inr u0, w2)"
    and u: "uID u = uID u0" and last: "w' = w2 \<or> ?rename u0 w2 = (Inr (), w')"
    by (auto simp: GetOrCreateUserWithAccount_def go_success Let_def split: if_splits)
  have "user_present (acID a) (wDB w2) (uID u0) (tID t)"
  proof (cases found)
    case None
    with u0 have "u0 = ?new i" "insert_user u0 w1 = (Inr (), w2)" by (auto simp: go_success Let_def)
    with insert_user_run(1)[OF this(2)] show ?thesis by (simp add: user_present_def user_row_def)
  next
    case (Some x)
    with db_query_run(1)[OF q] first_by_SomeD[of uID _ "dbUsers (wDB w0)" x] assms have "x \<in> set (dbUsers (wDB w0))"
      "uAccountID x = Some (acID a)" "uTailnetID x = tID t" by auto
    with u0 Some db_query_run(2)[OF q] show ?thesis by (auto simp: user_present_def)
  qed
  moreover have "user_present (acID a) (wDB w') i t" if "?rename u0 w2 = (Inr (), w')" "user_present (acID a) (wDB w2) i t" for i t
    unfolding db_exec_run[OF that(1)] using that(2) by (rule user_present_map) (simp add: same_owner_def)
  ultimately show "user_present (acID a) (wDB w') (uID u) (tID t)" using last u by auto
qed

lemma bounds_mono:
  assumes "session_bounds a T admin d d'" and "T \<subseteq> T'" and "admin \<Longrightarrow> admin'"
  shows "session_bounds a T' admin' d d'"
  using assms unfolding session_bounds_def users_kept_def by blast

lemma stays_bounds_mono:
  assumes "stays (on_db (session_bounds a T admin)) m w" and "T \<subseteq> T'" and "admin \<Longrightarrow> admin'"
  shows "stays (on_db (session_bounds a T' admin')) m w"
  using assms bounds_mono[of a T admin] unfolding stays_def on_db_def by blast

lemma bounds_cli_system_admin: "stays (on_db (session_bounds (acID a) T True)) (cli_system_admin v a req) w"
proof -
  have save: "within (on_db (session_bounds (acID a) T True)) (SaveSystemApiKey k)" if "skAccountID k = acID a" for k
    unfolding SaveSystemApiKey_def by (rule bounds.within_db_exec_unique) (simp add: bounds_save_system_key that)
  have key: "skAccountID k = acID a" if "CreateSystemApiKey e a x w1 = (Inr (tok, k), w2)" for e x w1 tok k w2
    using that by (auto simp: CreateSystemApiKey_def go_success)
  have "within quiet (CreateSystemApiKey e a x)" for e x unfolding CreateSystemApiKey_def by (intro quiet_intros)
  then show ?thesis
    unfolding cli_system_admin_def
    by (intro bounds.stays_quiet_bindM[OF quiet_time_Now] bounds.stays_quiet_bindM)
      (auto intro!: bounds.stays_within bounds.within_seqM bounds.within_Transaction bounds.within_returnM save bounds_save_requests
        dest: key)
qed

text \<open>\<open>cli_tailnet\<close> finds or makes the user, and saves an API key of that user in the tailnet.\<close>

context db_frame
begin

lemma stays_cli_tailnet:
  assumes user: "stays (on_db R) (GetOrCreateUserWithAccount t a) w"
    and save: "\<And>user c w1 k r w2. GetOrCreateUserWithAccount t a w = (Inr (user, c), w1) \<Longrightarrow> quiet w1 w2 \<Longrightarrow>
      apUserID k = uID user \<Longrightarrow> apTailnetID k = tID t \<Longrightarrow>
      stays (on_db R) (Transaction (bindM time_Now (\<lambda>t'. seqM (SetUserLastAuthenticated (uID user) t') (seqM (SaveApiKey k)
        (SaveAuthenticationRequest r))))) w2"
  shows "stays (on_db R) (cli_tailnet v a t req) w"
  unfolding cli_tailnet_def
proof (rule stays_bindM[OF user])
  fix x w1
  assume x: "GetOrCreateUserWithAccount t a w = (Inr x, w1)"
  obtain user c where xs: "x = (user, c)" by fastforce
  have key: "apUserID k = uID user \<and> apTailnetID k = tID t" if "CreateApiKey e t user z w2 = (Inr (tok, k), w3)" for e z w2 tok k w3
    using that by (auto simp: CreateApiKey_def go_success)
  have q: "within quiet (CreateApiKey e t user z)" for e z unfolding CreateApiKey_def by (intro quiet_intros)
  show "stays (on_db R) (case x of (user, _) \<Rightarrow> bindM time_Now (\<lambda>now.
     bindM (CreateApiKey (rvEnv (lgReg v)) t user (Some (now + 24 * Hour))) (\<lambda>(token, apiKey).
     seqM (Transaction (bindM time_Now (\<lambda>t'. seqM (SetUserLastAuthenticated (uID user) t') (seqM (SaveApiKey apiKey)
       (SaveAuthenticationRequest (req\<lparr>aqToken := token, aqTailnetID := Some (tID t)\<rparr>))))))
       (returnM (Redirect ''/a/success''))))) w1"
    unfolding xs prod.case
    by (intro stays_quiet_bindM[OF quiet_time_Now] stays_quiet_bindM[OF q])
      (auto intro!: stays_seqM stays_refl save[OF x[unfolded xs]] dest: key intro: quiet_trans)
qed

end

lemma bounds_cli_tailnet:
  assumes "tID t \<noteq> 0"
  shows "stays (on_db (session_bounds (acID a) {tID t} admin)) (cli_tailnet v a t req) w"
proof (rule bounds.stays_cli_tailnet[OF user_created(1)[OF assms]])
  let ?R = "session_bounds (acID a) {tID t} admin"
  have final: "?R (wDB w2) (wDB w4)"
    if present: "user_present (acID a) (wDB w2) (uID user) (tID t)" and k: "apUserID k = uID user" "apTailnetID k = tID t"
      and run: "bindM time_Now (\<lambda>t'. seqM (SetUserLastAuthenticated (uID user) t') (seqM (SaveApiKey k)
         (SaveAuthenticationRequest r))) w3 = (Inr x, w4)" and "wDB w3 = wDB w2" for w2 w3 w4 user k r x
  proof -
    from run obtain t' w5 w6 where "SetUserLastAuthenticated (uID user) t' w3 = (Inr (), w5)"
      "SaveApiKey k w5 = (Inr (), w6)" and r: "SaveAuthenticationRequest r w6 = (Inr x, w4)"
      by (auto simp: go_success time_Now_ok)
    then have w5: "wDB w5 = (wDB w2)\<lparr>dbUsers := map (\<lambda>u. if uID u = uID user then u\<lparr>uLastAuthenticated := Some t'\<rparr> else u) (dbUsers (wDB w2))\<rparr>"
      and w6: "wDB w6 = (wDB w5)\<lparr>dbApiKeys := save_row apID (api_key_row k) (dbApiKeys (wDB w5))\<rparr>"
      using that(5) by (auto simp: SetUserLastAuthenticated_def SaveApiKey_def dest!: db_exec_run db_exec_unique_run)
    have "?R (wDB w2) (wDB w5)" unfolding w5 by (rule bounds_map_users) (simp add: same_owner_def)
    moreover have "user_present (acID a) (wDB w5) (apUserID k) (apTailnetID k)"
      using present k unfolding w5 by (intro user_present_map) (simp_all add: same_owner_def)
    then have "?R (wDB w5) (wDB w6)" unfolding w6 by (rule bounds_save_api_key) (simp add: k)
    moreover have "?R (wDB w6) (wDB w4)" using withinD[OF bounds_save_requests(2) r] by (simp add: on_db_def)
    ultimately show ?thesis by (blast intro: bounds.R_trans)
  qed
  fix user :: User and c w1 and k :: ApiKey and r w2
  assume "GetOrCreateUserWithAccount t a w = (Inr (user, c), w1)" "quiet w1 w2" and k: "apUserID k = uID user" "apTailnetID k = tID t"
  with user_created(2)[OF assms this(1)] have "user_present (acID a) (wDB w2) (uID user) (tID t)" by (simp add: quiet_def)
  from final[OF this k] show "stays (on_db ?R) (Transaction (bindM time_Now (\<lambda>t'. seqM (SetUserLastAuthenticated (uID user) t')
      (seqM (SaveApiKey k) (SaveAuthenticationRequest r))))) w2"
    by (intro bounds.stays_Transaction) blast
qed

lemma bounds_save_registered:
  assumes present: "user_present a (wDB w1) (mUserID m) (mTailnetID m)" and T: "mTailnetID m \<in> T"
    and run: "bindM time_Now (\<lambda>t. seqM (SetUserLastAuthenticated (mUserID m) t) (seqM (SaveMachine m)
      (SaveRegistrationRequest q))) w2 = (Inr x, w3)" and same: "wDB w2 = wDB w1"
  shows "session_bounds a T admin (wDB w1) (wDB w3)"
proof -
  let ?R = "session_bounds a T admin"
  from run obtain t w4 w5 where "SetUserLastAuthenticated (mUserID m) t w2 = (Inr (), w4)"
    "SaveMachine m w4 = (Inr (), w5)" and r: "SaveRegistrationRequest q w5 = (Inr x, w3)"
    by (auto simp: go_success time_Now_ok)
  then have w4: "wDB w4 = (wDB w1)\<lparr>dbUsers := map (\<lambda>u. if uID u = mUserID m then u\<lparr>uLastAuthenticated := Some t\<rparr> else u) (dbUsers (wDB w1))\<rparr>"
    and w5: "wDB w5 = (wDB w4)\<lparr>dbMachines := save_row mID (machine_row m) (dbMachines (wDB w4))\<rparr>"
    using same by (auto simp: SetUserLastAuthenticated_def SaveMachine_def dest!: db_exec_run db_exec_unique_run)
  have "?R (wDB w1) (wDB w4)" unfolding w4 by (rule bounds_map_users) (simp add: same_owner_def)
  moreover have "user_present a (wDB w4) (mUserID m) (mTailnetID m)"
    using present unfolding w4 by (rule user_present_map) (simp add: same_owner_def)
  then have "?R (wDB w4) (wDB w5)" unfolding w5 using T by (rule bounds_save_machine)
  moreover have "?R (wDB w5) (wDB w3)" using withinD[OF bounds_save_requests(1) r] by (simp add: on_db_def)
  ultimately show ?thesis by (blast intro: bounds.R_trans)
qed

text \<open>The machine that \<open>register_for\<close> saves.\<close>

lemma registered_machine_owner:
  assumes "(case known of None \<Rightarrow> fresh_machine r mk req t u tags ips eph auth now
      | Some m \<Rightarrow> renewed_machine r req t u tags ips eph now m) w = (Inr m1, w1)"
    and "applyTailnetLockRegistration e i m1 req w1 = (Inr m2, w2)"
  shows "mUserID m2 = uID u \<and> mTailnetID m2 = tID t"
proof -
  have "mUserID m1 = uID u \<and> mTailnetID m1 = tID t"
    using assms(1) by (auto split: option.splits dest!: fresh_machine_run renewed_machine_run)
  with assms(2) show ?thesis by (auto elim!: applyTailnetLockRegistration_run)
qed

text \<open>What \<open>register_for\<close> does to the tables is a refusal or the saving of a machine of the user in the tailnet.\<close>

context db_frame
begin

lemma stays_register_for:
  assumes refuse: "\<And>q. within (on_db R) (SaveRegistrationRequest q)"
    and save: "\<And>m q w'. mUserID m = uID user \<Longrightarrow> mTailnetID m = tID t \<Longrightarrow> quiet w w' \<Longrightarrow>
      stays (on_db R) (Transaction (bindM time_Now (\<lambda>t. seqM (SetUserLastAuthenticated (mUserID m) t) (seqM (SaveMachine m)
        (SaveRegistrationRequest q))))) w'"
  shows "stays (on_db R) (register_for v q t user tags eph auth) w"
proof -
  let ?r = "lgReg v"
  have saved: "stays (on_db R) (Transaction (bindM time_Now (\<lambda>t. seqM (SetUserLastAuthenticated (mUserID m2) t) (seqM (SaveMachine m2)
      (SaveRegistrationRequest q'))))) w4"
    if "(case known of None \<Rightarrow> fresh_machine ?r (rrMachineKey q) (rrData q) t user tags ips eph auth now
        | Some m \<Rightarrow> renewed_machine ?r (rrData q) t user tags ips eph now m) w2 = (Inr m1, w3)"
      "applyTailnetLockRegistration (rvLock ?r) (tID t) m1 (rrData q) w3 = (Inr m2, w4)" "quiet w w4"
    for known ips now w2 m1 w3 m2 w4 q'
    using registered_machine_owner[OF that(1,2)] that(3) by (intro save) simp_all
  have q: "within quiet (case known of None \<Rightarrow> fresh_machine ?r (rrMachineKey q) (rrData q) t user tags ips eph auth now
        | Some m \<Rightarrow> renewed_machine ?r (rrData q) t user tags ips eph now m)" for known ips now
    by (intro quiet.within_case_option quiet_registration)
  have refused: "stays (on_db R) (seqM (SaveRegistrationRequest q') (returnM y)) w" for q' and y :: web_response
    by (intro stays_within within_seqM refuse within_returnM)
  show ?thesis
  proof (cases "hjT (tACLPolicy t)")
    case None
    then show ?thesis by (simp add: register_for_def Let_def stays_refl)
  next
    case policy: (Some policy)
    show ?thesis
    proof (cases "CheckTagOwners policy (hiRequestTags (rgHostinfo (rrData q))) user")
      case (Some err)
      with policy refused show ?thesis by (simp add: register_for_def Let_def)
    next
      case None
      show ?thesis
        unfolding register_for_def Let_def policy option.case None
        by (intro stays_quiet_bindM[OF quiet_registration(1)] stays_quiet_bindM[OF quiet_time_Now]
            stays_quiet_bindM[OF q] stays_quiet_bindM[OF quiet_applyTailnetLockRegistration] stays_seqM
            stays_refl saved) (assumption, assumption, blast intro: quiet_trans)
    qed
  qed
qed

end

lemma bounds_register_for:
  assumes present: "user_present a (wDB w) (uID user) (tID t)" and T: "tID t \<in> T"
  shows "stays (on_db (session_bounds a T admin)) (register_for v q t user tags eph auth) w"
proof (rule bounds.stays_register_for)
  show "within (on_db (session_bounds a T admin)) (SaveRegistrationRequest q')" for q' by (rule bounds_save_requests)
  fix m :: Machine and q' w'
  assume m: "mUserID m = uID user" "mTailnetID m = tID t" "quiet w w'"
  then have "user_present a (wDB w') (mUserID m) (mTailnetID m)" "mTailnetID m \<in> T" using present T by (simp_all add: quiet_def)
  then show "stays (on_db (session_bounds a T admin)) (Transaction (bindM time_Now (\<lambda>t. seqM (SetUserLastAuthenticated (mUserID m) t)
      (seqM (SaveMachine m) (SaveRegistrationRequest q'))))) w'"
    by (intro bounds.stays_Transaction bounds_save_registered)
qed

lemma tailnet_query_run:
  assumes "GetTailnet i w = (Inr (Some t), w')"
  shows "t \<in> set (dbTailnets (wDB w))" "tID t = i" "wDB w' = wDB w"
  using db_query_run(1,2)[OF assms[unfolded GetTailnet_def]] by (auto dest!: sym[of "Some t"] find_SomeD)

lemma account_query_run:
  assumes "GetAccount i w = (Inr (Some a), w')"
  shows "acID a = i" "wDB w' = wDB w"
  using db_query_run(1,2)[OF assms[unfolded GetAccount_def]] by (auto dest!: sym[of "Some a"] find_SomeD)

lemma quiet_login_reads:
  "within quiet (GetTailnet i)" "within quiet (GetAccount i)" "within quiet (GetAuthenticationRequest s)"
  "within quiet (GetSSHActionRequest s)" "within quiet ListTailnets" "within quiet (ListTailnetsByOrganization s)"
  unfolding GetTailnet_def GetAccount_def GetAuthenticationRequest_def GetSSHActionRequest_def ListTailnets_def
    ListTailnetsByOrganization_def
  by (rule quiet_db_query)+

lemma bounds_endMachineRegistrationFlow:
  assumes "efAuthKey form = []" and "efTailnetID form \<in> T" and "0 \<notin> tID ` set (dbTailnets (wDB w))"
  shows "stays (on_db (session_bounds (efAccountID form) T admin)) (endMachineRegistrationFlow v form q) w"
proof -
  let ?R = "session_bounds (efAccountID form) T admin"
  have go: "stays (on_db ?R) (bindM (GetOrCreateUserWithAccount t a) (\<lambda>(u, _). register_for v q t u [] False False)) w2"
    if t: "GetTailnet (efTailnetID form) w = (Inr (Some t), w1)" and a: "GetAccount (efAccountID form) w1 = (Inr (Some a), w2)" for t a w1 w2
  proof -
    note t' = tailnet_query_run[OF t] and a' = account_query_run[OF a]
    have nz: "tID t \<noteq> 0" using t' assms(3) by (auto simp: image_iff)
    show ?thesis
    proof (rule bounds.stays_bindM)
      show "stays (on_db ?R) (GetOrCreateUserWithAccount t a) w2"
        by (rule stays_bounds_mono[OF user_created(1)[OF nz, of a, unfolded a']]) (use t' assms(2) in auto)
      fix x w3
      assume x: "GetOrCreateUserWithAccount t a w2 = (Inr x, w3)"
      obtain u c where xs: "x = (u, c)" by fastforce
      from user_created(2)[OF nz x[unfolded xs]] a' t' assms(2)
      show "stays (on_db ?R) (case x of (u, _) \<Rightarrow> register_for v q t u [] False False) w3"
        by (auto simp: xs intro!: bounds_register_for)
    qed
  qed
  show ?thesis
    unfolding endMachineRegistrationFlow_def using assms(1)
    by (auto intro!: bounds.stays_quiet_bindM quiet_login_reads bounds.stays_refl go split: option.split)
qed

lemma bounds_endCliAuthenticationFlow:
  assumes "efAsSystemAdmin form \<Longrightarrow> admin" and "\<not> efAsSystemAdmin form \<Longrightarrow> efTailnetID form \<in> T"
    and "0 \<notin> tID ` set (dbTailnets (wDB w))"
  shows "stays (on_db (session_bounds (efAccountID form) T admin)) (endCliAuthenticationFlow v form q) w"
proof -
  let ?R = "session_bounds (efAccountID form) T admin"
  have sys: "stays (on_db ?R) (cli_system_admin v a q) w1"
    if "GetAccount (efAccountID form) w = (Inr (Some a), w1)" "efAsSystemAdmin form" for a w1
    using bounds_cli_system_admin[of a T v q w1] account_query_run[OF that(1)] assms(1)[OF that(2)] by simp
  have tail: "stays (on_db ?R) (cli_tailnet v a t q) w2"
    if a: "GetAccount (efAccountID form) w = (Inr (Some a), w1)" and "\<not> efAsSystemAdmin form"
      and t: "GetTailnet (efTailnetID form) w1 = (Inr (Some t), w2)" for a t w1 w2
  proof -
    note t' = tailnet_query_run[OF t] and a' = account_query_run[OF a]
    have "tID t \<noteq> 0" using t' a' assms(3) by (auto simp: image_iff)
    from bounds_cli_tailnet[OF this, of a admin v q w2] show ?thesis
      unfolding a'(1) by (rule stays_bounds_mono) (use t' assms(2) that in auto)
  qed
  show ?thesis
    unfolding endCliAuthenticationFlow_def
    by (auto intro!: bounds.stays_quiet_bindM quiet_login_reads bounds.stays_refl sys tail split: option.split)
qed

section \<open>The choice of the browser\<close>

lemma readState_run:
  assumes "readState v s w = (r, w')"
  shows "w' = w" and "r = Inr state \<Longrightarrow> \<not> IsZero (osExpiresAt state) \<and> wNow w \<le> osExpiresAt state"
  using assms by (auto simp: readState_def bindM_def time_Now_ok split: option.splits if_splits)

lemma openAuthSession_run:
  assumes "openAuthSession v s w = (r, w')"
  shows "w' = w" and "r = Inr session \<Longrightarrow> \<not> IsZero (asExpiresAt session) \<and> wNow w \<le> asExpiresAt session"
  using assms by (auto simp: openAuthSession_def bindM_def time_Now_ok split: option.splits if_splits)

text \<open>
  A session of the server: only the command-line flow offers to go on as a system
  administrator. Every session that \<open>Callback\<close> hands out is of this kind.
\<close>

definition issued_session :: "authSession \<Rightarrow> bool" where
  "issued_session s \<longleftrightarrow> (asSystemAdmin s \<longrightarrow> asFlow s = AuthFlowClient)"

definition endauth_accepts :: "login_env \<Rightarrow> EndAuthForm \<Rightarrow> world \<Rightarrow> authSession \<Rightarrow> bool" where
  "endauth_accepts v form w s \<longleftrightarrow>
     openAuthSession v (efSession form) w = (Inr s, w) \<and> wNow w \<le> asExpiresAt s \<and>
     (\<exists>state. readState v (efState form) w = (Inr state, w) \<and> asFlow s = osFlow state \<and> asKey s = osKey state)"

text \<open>
  C11. Nobody gets more out of \<open>EndAuth\<close> than the sealed session holds. Whatever the form says,
  the call changes nothing unless the state and the session open, are not expired and belong
  to the same flow; and then every user, API key and machine it creates belongs to the account
  of the session and to a tailnet the session lists, and a system key is made only when the
  session is one of a system administrator, for that account. Tailnets and auth keys stay.
\<close>

theorem EndAuth_confined:
  assumes run: "EndAuth v form w = (r, w')" and ok: "db_ok (wDB w)"
    and issued: "\<And>s. openAuthSession v (efSession form) w = (Inr s, w) \<Longrightarrow> issued_session s"
  shows "wDB w' = wDB w \<or>
    (\<exists>s. endauth_accepts v form w s \<and>
       session_bounds (asAccountID s) (set (asTailnetIDs s)) (asSystemAdmin s) (wDB w) (wDB w'))"
proof -
  obtain x w1 where x: "readState v (efState form) w = (x, w1)" by fastforce
  obtain y w2 where y: "openAuthSession v (efSession form) w = (y, w2)" by fastforce
  note same = readState_run(1)[OF x] openAuthSession_run(1)[OF y]
  show ?thesis
  proof (cases "\<exists>state s. x = Inr state \<and> y = Inr s \<and> asFlow s = osFlow state \<and> asKey s = osKey state \<and>
      (efAsSystemAdmin form \<longrightarrow> asSystemAdmin s) \<and> (efAsSystemAdmin form \<or> allowsTailnet s (efTailnetID form))")
    case False
    then have "w' = w" using run x y same
      by (auto simp: EndAuth_def bindM_def tryM_def Let_def split: sum.splits if_splits)
    then show ?thesis by simp
  next
    case True
    then obtain state s where s: "x = Inr state" "y = Inr s" "asFlow s = osFlow state" "asKey s = osKey state"
      "efAsSystemAdmin form \<longrightarrow> asSystemAdmin s" "efAsSystemAdmin form \<or> allowsTailnet s (efTailnetID form)" by blast
    let ?form = "form\<lparr>efAuthKey := [], efAccountID := asAccountID s\<rparr>"
    let ?R = "session_bounds (asAccountID s) (set (asTailnetIDs s)) (asSystemAdmin s)"
    have nz: "0 \<notin> tID ` set (dbTailnets (wDB w1))" if "wDB w1 = wDB w" for w1
      using ok that by (auto simp: db_ok_def keys_ok_def)
    have tail: "\<not> efAsSystemAdmin form \<Longrightarrow> efTailnetID form \<in> set (asTailnetIDs s)"
      using s(6) by (auto simp: allowsTailnet_def list_ex_iff)
    have acc: "endauth_accepts v form w s"
      using x y s same openAuthSession_run(2)[OF y] by (auto simp: endauth_accepts_def)
    have machine: "stays (on_db ?R) (endMachineRegistrationFlow v ?form q) w3"
      if "osFlow state = AuthFlowMachineRegistration" "quiet w w3" for q w3
    proof -
      have "\<not> asSystemAdmin s" using that issued[of s] y s same by (auto simp: issued_session_def flow_defs)
      then have "efTailnetID ?form \<in> set (asTailnetIDs s)" using s(5) tail by auto
      then show ?thesis
        using bounds_endMachineRegistrationFlow[of ?form "set (asTailnetIDs s)" w3 "asSystemAdmin s" v q] nz[of w3] that(2)
        by (simp add: quiet_def)
    qed
    have cli: "stays (on_db ?R) (endCliAuthenticationFlow v ?form q) w3" if "quiet w w3" for q w3
      using bounds_endCliAuthenticationFlow[of ?form "asSystemAdmin s" "set (asTailnetIDs s)" w3 v q] s(5) tail nz[of w3] that
      by (simp add: quiet_def)
    have "EndAuth v form w = end_flow v state ?form w"
      using x y s same by (auto simp: EndAuth_def bindM_def tryM_def Let_def)
    moreover have "stays (on_db ?R) (end_flow v state ?form) w"
      unfolding end_flow_def
      by (auto intro!: bounds.stays_quiet_bindM quiet_login_reads quiet_registration bounds.stays_refl machine cli split: option.split)
    ultimately have "?R (wDB w) (wDB w')" using run by (metis stays_def on_db_def snd_conv)
    with acc show ?thesis by blast
  qed
qed

section \<open>The answer of the identity provider\<close>

text \<open>
  Who may enter a tailnet. A tailnet bound to an organization admits the members of that
  organization, and an IAM policy, unless it is empty, restricts them further. A tailnet that
  is not bound admits whom its policy approves, but no member of an organization.
\<close>

definition may_enter :: "env \<Rightarrow> Organizations \<Rightarrow> auth_user \<Rightarrow> Tailnet \<Rightarrow> bool" where
  "may_enter e orgs u t \<longleftrightarrow>
     (\<exists>policy. hjT (tIAMPolicy t) = Some policy \<and>
        (if tOrganization t \<noteq> []
         then Organizations_Enabled orgs \<and> auOrg u = tOrganization t \<and>
              (isEmptyIAMPolicy policy \<or> EvaluatePolicy e policy (login_identity u) = Inr True)
         else (Organizations_Enabled orgs \<longrightarrow> auOrg u = []) \<and> EvaluatePolicy e policy (login_identity u) = Inr True))"

lemma tailnetAccessible_iff: "tailnetAccessible e orgs t u = Inr True \<longleftrightarrow> may_enter e orgs u t"
  by (auto simp: tailnetAccessible_def may_enter_def split: option.splits)

lemma accessible_tailnets_run:
  "accessible_tailnets e orgs u ts = Inr res \<Longrightarrow> res = filter (may_enter e orgs u) ts"
proof (induction ts arbitrary: res)
  case (Cons t ts)
  from Cons.prems obtain b where b: "tailnetAccessible e orgs t u = Inr b"
    by (auto split: sum.splits)
  moreover from Cons.prems obtain rest where "accessible_tailnets e orgs u ts = Inr rest" "res = (if b then t # rest else rest)"
    using b by (auto split: sum.splits)
  moreover have "b = may_enter e orgs u t" using b tailnetAccessible_iff[of e orgs t u] by auto
  ultimately show ?case using Cons.IH by auto
qed simp

lemma listAvailableTailnets_run:
  assumes "listAvailableTailnets v u w = (Inr ts, w')"
  shows "quiet w w'" and "ts = filter (may_enter (rvEnv (lgReg v)) (lgOrganizations v) u) (dbTailnets (wDB w))"
proof -
  have "within quiet (listAvailableTailnets v u)"
    unfolding listAvailableTailnets_def by (intro quiet.within_bindM quiet_login_reads quiet.within_liftE)
  then show "quiet w w'" using assms by (rule withinD)
  from assms obtain all w1 where "ListTailnets w = (Inr all, w1)"
    and acc: "accessible_tailnets (rvEnv (lgReg v)) (lgOrganizations v) u all = Inr ts"
    by (auto simp: listAvailableTailnets_def go_success)
  then show "ts = filter (may_enter (rvEnv (lgReg v)) (lgOrganizations v) u) (dbTailnets (wDB w))"
    using db_query_run(1)[of dbTailnets w all w1] accessible_tailnets_run[OF acc] by (simp add: ListTailnets_def)
qed

text \<open>What happens before the tailnets are listed: the accounts, and the roles in IAM policies.\<close>

definition without_iam :: "Tailnet \<Rightarrow> Tailnet" where
  "without_iam t = t\<lparr>tIAMPolicy := \<lparr>hjV = [], hjT = None\<rparr>\<rparr>"

definition prepared :: "db \<Rightarrow> db \<Rightarrow> bool" where
  "prepared d d' \<longleftrightarrow>
     dbUsers d' = dbUsers d \<and> dbMachines d' = dbMachines d \<and> dbAuthKeys d' = dbAuthKeys d \<and> dbApiKeys d' = dbApiKeys d \<and>
     dbSystemApiKeys d' = dbSystemApiKeys d \<and> map without_iam (dbTailnets d') = map without_iam (dbTailnets d)"

interpretation prepared: db_frame prepared
  by unfold_locales (auto simp: prepared_def)

lemma prepared_account: "within (on_db prepared) (GetOrCreateAccount i o' n)" "within (on_db prepared) (SetAccountLastAuthenticated j)"
proof -
  have acc: "prepared d (dbAccounts_update f d)" for d f by (simp add: prepared_def)
  show "within (on_db prepared) (GetOrCreateAccount i o' n)"
    unfolding GetOrCreateAccount_def Let_def
    by (intro prepared.within_intros prepared.within_basic prepared.within_db_exec prepared.within_db_exec_unique acc)
  show "within (on_db prepared) (SetAccountLastAuthenticated j)"
    unfolding SetAccountLastAuthenticated_def
    by (intro prepared.within_intros prepared.within_basic prepared.within_db_exec acc)
qed

lemma save_row_without_iam:
  assumes "distinct (map tID rows)" and "map without_iam rows = map without_iam rows0" and "t \<in> set rows0"
    and "without_iam t' = without_iam t"
  shows "map without_iam (save_row tID t' rows) = map without_iam rows0"
proof -
  have id: "tID x = tID (without_iam x)" for x by (simp add: without_iam_def)
  have t: "tID t' = tID t" using arg_cong[OF assms(4), of tID] by (simp add: without_iam_def)
  from assms(2,3) obtain x where x: "x \<in> set rows" "without_iam x = without_iam t" by (metis (no_types) image_iff list.set_map)
  then have xid: "tID x = tID t'" using t id by metis
  have "y = x" if "y \<in> set rows" "tID y = tID t'" for y
    using assms(1) that x(1) xid by (metis distinct_map inj_onD)
  then have "without_iam (if tID y = tID t' then t' else y) = without_iam y" if "y \<in> set rows" for y
    using assms(4) x(2) that by auto
  then have "map without_iam (map (\<lambda>y. if tID y = tID t' then t' else y) rows) = map without_iam rows" by simp
  moreover have "list_ex (\<lambda>y. tID y = tID t') rows" using x xid by (auto simp: list_ex_iff)
  ultimately show ?thesis using assms(2) by (simp add: save_row_def)
qed


lemma tID_without_iam: "map without_iam xs = map without_iam ys \<Longrightarrow> map tID xs = map tID ys"
proof -
  have "tID = tID \<circ> without_iam" by (simp add: fun_eq_iff without_iam_def)
  then show "map without_iam xs = map without_iam ys \<Longrightarrow> map tID xs = map tID ys" by (metis list.map_comp)
qed

lemma prepared_sync_loop:
  assumes "distinct (map tID rows)" and "set ts \<subseteq> set rows"
    and "map without_iam (dbTailnets (wDB w)) = map without_iam rows"
  shows "stays (on_db prepared) (forM ts (sync_tailnet v isAdmin name)) w"
  using assms(2,3)
proof (induction ts arbitrary: w)
  case Nil
  show ?case unfolding forM.simps by (rule prepared.stays_refl)
next
  case (Cons t ts)
  have save: "stays (on_db prepared) (SaveTailnet (t\<lparr>tIAMPolicy := p\<rparr>)) w" for p
    unfolding SaveTailnet_def
  proof (rule prepared.stays_db_exec_unique)
    have "distinct (map tID (dbTailnets (wDB w)))" using assms(1) tID_without_iam[OF Cons.prems(2)] by simp
    then have "map without_iam (save_row tID (t\<lparr>tIAMPolicy := p\<rparr>) (dbTailnets (wDB w))) = map without_iam rows"
      using Cons.prems by (intro save_row_without_iam[where t = t]) (simp_all, simp add: without_iam_def)
    then show "prepared (wDB w) ((wDB w)\<lparr>dbTailnets := save_row tID (t\<lparr>tIAMPolicy := p\<rparr>) (dbTailnets (wDB w))\<rparr>)"
      using Cons.prems(2) by (simp add: prepared_def)
  qed
  have one: "stays (on_db prepared) (sync_tailnet v isAdmin name t) w"
    unfolding sync_tailnet_def by (auto intro!: prepared.stays_refl save split: option.split)
  show ?case
    unfolding forM.simps
  proof (rule prepared.stays_seqM[OF one])
    fix x w1
    assume "sync_tailnet v isAdmin name t w = (Inr x, w1)"
    with one have "prepared (wDB w) (wDB w1)" by (simp add: stays_def on_db_def)
    with Cons.prems show "stays (on_db prepared) (forM ts (sync_tailnet v isAdmin name)) w1"
      by (intro Cons.IH) (auto simp: prepared_def)
  qed
qed

lemma prepared_syncOrgRoles:
  assumes "distinct (map tID (dbTailnets (wDB w)))"
  shows "stays (on_db prepared) (syncOrgRoles v u) w"
proof -
  have "stays (on_db prepared) (forM ts (sync_tailnet v isAdmin (auName u))) w1"
    if "ListTailnetsByOrganization (auOrg u) w = (Inr ts, w1)" "quiet w w1" for ts w1 isAdmin
    using db_query_run(1)[OF that(1)[unfolded ListTailnetsByOrganization_def]] that(2) assms
    by (intro prepared_sync_loop[where rows = "dbTailnets (wDB w)"]) (auto simp: quiet_def)
  then show ?thesis
    unfolding syncOrgRoles_def Let_def
    by (auto intro!: prepared.stays_refl prepared.stays_quiet_bindM quiet_login_reads)
qed

lemma bounds_refused:
  "stays (on_db (session_bounds a T admin))
     (bindM (tryM (GetRegistrationRequestByKey k)) (\<lambda>r.
      seqM (case r of Inr (Some q) \<Rightarrow> ignoreM (SaveRegistrationRequest (q\<lparr>rrError := err\<rparr>)) | _ \<Rightarrow> returnM ())
        (bindM (denialCode v u) (\<lambda>c. returnM (error_page c))))) w"
  "stays (on_db (session_bounds a T admin))
     (bindM (tryM (GetAuthenticationRequest k)) (\<lambda>r.
      seqM (case r of Inr (Some q) \<Rightarrow> ignoreM (SaveAuthenticationRequest (q\<lparr>aqError := err\<rparr>)) | _ \<Rightarrow> returnM ())
        (bindM (denialCode v u) (\<lambda>c. returnM (error_page c))))) w"
proof -
  have deny: "within quiet (denialCode v u)"
    unfolding denialCode_def by (intro quiet.within_bindM quiet.within_tryM quiet_login_reads quiet.within_case_sum quiet.within_returnM)
  have tail: "within (on_db (session_bounds a T admin)) (bindM (denialCode v u) (\<lambda>c. returnM (error_page c)))"
    by (intro bounds.within_bindM bounds.within_quiet[OF deny] bounds.within_returnM)
  show "stays (on_db (session_bounds a T admin))
     (bindM (tryM (GetRegistrationRequestByKey k)) (\<lambda>r.
      seqM (case r of Inr (Some q) \<Rightarrow> ignoreM (SaveRegistrationRequest (q\<lparr>rrError := err\<rparr>)) | _ \<Rightarrow> returnM ())
        (bindM (denialCode v u) (\<lambda>c. returnM (error_page c))))) w"
    by (intro bounds.stays_within bounds.within_bindM bounds.within_tryM bounds.within_quiet[OF quiet_registration(7)]
        bounds.within_seqM tail bounds.within_case_sum bounds.within_case_option bounds.within_ignoreM bounds_save_requests bounds.within_returnM)
  show "stays (on_db (session_bounds a T admin))
     (bindM (tryM (GetAuthenticationRequest k)) (\<lambda>r.
      seqM (case r of Inr (Some q) \<Rightarrow> ignoreM (SaveAuthenticationRequest (q\<lparr>aqError := err\<rparr>)) | _ \<Rightarrow> returnM ())
        (bindM (denialCode v u) (\<lambda>c. returnM (error_page c))))) w"
    by (intro bounds.stays_within bounds.within_bindM bounds.within_tryM bounds.within_quiet[OF quiet_login_reads(3)]
        bounds.within_seqM tail bounds.within_case_sum bounds.within_case_option bounds.within_ignoreM bounds_save_requests bounds.within_returnM)
qed

lemma quiet_createSession: "within quiet (createSession v state a admin ts)"
  unfolding createSession_def sealAuthSession_def Seal_def RandomBytes_def
  by (intro quiet_intros)

lemma bounds_machine_flow:
  assumes "0 \<notin> tID ` set (dbTailnets (wDB w))" and "set ts \<subseteq> set (dbTailnets (wDB w))"
  shows "stays (on_db (session_bounds (acID a) (tID ` set ts) False)) (machine_flow v state u a ts) w"
proof -
  let ?R = "session_bounds (acID a) (tID ` set ts) False"
  consider "ts = []" | t where "ts = [t]" | t t' ts' where "ts = t # t' # ts'" by (metis list.exhaust)
  then show ?thesis
  proof cases
    case 1
    then show ?thesis by (simp add: machine_flow_def bounds_refused)
  next
    case (2 t)
    have "stays (on_db ?R) (endMachineRegistrationFlow v (zero_form\<lparr>efAccountID := acID a, efTailnetID := tID t\<rparr>) q) w1" if "quiet w w1" for q w1
      using bounds_endMachineRegistrationFlow[of "zero_form\<lparr>efAccountID := acID a, efTailnetID := tID t\<rparr>" "tID ` set ts" w1 False v q] 2 assms that
      by (simp add: zero_form_def quiet_def)
    with 2 show ?thesis
      by (auto simp: machine_flow_def intro!: bounds.stays_quiet_bindM quiet_registration bounds.stays_refl split: option.split)
  next
    case 3
    then show ?thesis
      by (auto simp: machine_flow_def intro!: bounds.stays_quiet_bindM quiet_createSession bounds.stays_refl)
  qed
qed

lemma bounds_cli_flow:
  assumes "0 \<notin> tID ` set (dbTailnets (wDB w))"
  shows "stays (on_db (session_bounds (acID a) (tID ` set ts) False)) (cli_flow v state u a ts) w"
proof -
  let ?R = "session_bounds (acID a) (tID ` set ts) False"
  have one: "stays (on_db ?R) (endCliAuthenticationFlow v (zero_form\<lparr>efAccountID := acID a, efTailnetID := tID (hd ts)\<rparr>) q) w1"
    if "quiet w w1" "length ts = Suc 0" for q w1
  proof -
    from that(2) obtain t where "ts = [t]" by (cases ts) auto
    then show ?thesis
      using bounds_endCliAuthenticationFlow[of "zero_form\<lparr>efAccountID := acID a, efTailnetID := tID t\<rparr>" False "tID ` set ts" w1 v q] assms that(1)
      by (simp add: zero_form_def quiet_def)
  qed
  show ?thesis
    unfolding cli_flow_def
  proof (rule bounds.stays_quiet_bindM[OF quiet.within_liftE], goal_cases)
    case (1 sysAdmin w1)
    have "stays (on_db ?R) (bindM (GetAuthenticationRequest k) (\<lambda>req. case req of
        None \<Rightarrow> throwM (Err ''invalid authentication key'')
      | Some q \<Rightarrow> endCliAuthenticationFlow v (zero_form\<lparr>efAccountID := acID a, efTailnetID := tID (hd ts)\<rparr>) q)) w1"
      if "length ts = Suc 0" for k
      by (auto intro!: bounds.stays_quiet_bindM quiet_login_reads bounds.stays_refl one that intro: quiet_trans[OF 1(2)] split: option.split)
    then show ?case
      by (auto intro!: bounds_refused bounds.stays_quiet_bindM[OF quiet_createSession] bounds.stays_refl)
  qed
qed

lemma bounds_ssh_check_flow: "stays (on_db (session_bounds a T False)) (ssh_check_flow state acc) w"
  unfolding ssh_check_flow_def GetMachine_row_def
  by (intro bounds.stays_within bounds.within_bindM bounds.within_tryM bounds.within_quiet[OF quiet_login_reads(4)]
      bounds.within_seqM bounds.within_case_sum bounds.within_case_option bounds_save_requests bounds.within_returnM bounds.within_throwM
      bounds.within_if bounds.within_Transaction bounds.within_time_Now bounds.within_db_query)

lemma prepared_tailnets:
  assumes "prepared d d'" and "db_ok d"
  shows "distinct (map tID (dbTailnets d'))" and "0 \<notin> tID ` set (dbTailnets d')"
proof -
  from assms(1) have "map without_iam (dbTailnets d') = map without_iam (dbTailnets d)" by (simp add: prepared_def)
  from tID_without_iam[OF this] have eq: "map tID (dbTailnets d') = map tID (dbTailnets d)" .
  with assms(2) show "distinct (map tID (dbTailnets d'))" by (simp add: db_ok_def keys_ok_def)
  have "tID ` set (dbTailnets d') = tID ` set (dbTailnets d)" using arg_cong[OF eq, of set] by simp
  with assms(2) show "0 \<notin> tID ` set (dbTailnets d')" by (auto simp: db_ok_def keys_ok_def)
qed

lemma login_flow_bounds:
  assumes run: "login_flow v state user a w3 = (r, w')" and ok: "db_ok (wDB w)" and w3: "prepared (wDB w) (wDB w3)"
  shows "\<exists>d. prepared (wDB w) d \<and> (wDB w' = d \<or> session_bounds (acID a)
    {tID t | t. t \<in> set (dbTailnets d) \<and> may_enter (rvEnv (lgReg v)) (lgOrganizations v) user t} False d (wDB w'))"
proof -
  let ?T = "\<lambda>d. {tID t | t. t \<in> set (dbTailnets d) \<and> may_enter (rvEnv (lgReg v)) (lgOrganizations v) user t}"
  obtain x w4 where sync: "syncOrgRoles v user w3 = (x, w4)" by fastforce
  with prepared_syncOrgRoles[OF prepared_tailnets(1)[OF w3 ok], of v user] have "prepared (wDB w3) (wDB w4)"
    by (simp add: stays_def on_db_def)
  with w3 have w4: "prepared (wDB w) (wDB w4)" by (rule prepared.R_trans)
  obtain y w5 where avail: "listAvailableTailnets v user w4 = (y, w5)" by fastforce
  have q: "quiet w4 w5"
    using avail by (intro withinD[of quiet "listAvailableTailnets v user"])
      (auto simp: listAvailableTailnets_def intro!: quiet.within_bindM quiet_login_reads quiet.within_liftE)
  show ?thesis
  proof (cases "\<exists>ts. x = Inr () \<and> y = Inr ts")
    case False
    with run sync avail q have "wDB w' = wDB w4"
      by (auto simp: login_flow_def seqM_def bindM_def quiet_def split: sum.splits)
    with w4 show ?thesis by blast
  next
    case True
    then obtain ts where ts: "x = Inr ()" "y = Inr ts" by blast
    note ts' = listAvailableTailnets_run(2)[OF avail[unfolded ts]]
    have T: "tID ` set ts = ?T (wDB w4)" using ts' by auto
    have nz: "0 \<notin> tID ` set (dbTailnets (wDB w5))" using prepared_tailnets(2)[OF w4 ok] q by (simp add: quiet_def)
    have sub: "set ts \<subseteq> set (dbTailnets (wDB w5))" using ts' q by (auto simp: quiet_def)
    from run sync avail ts have rest: "(if osFlow state = AuthFlowMachineRegistration then machine_flow v state user a ts
        else if osFlow state = AuthFlowClient then cli_flow v state user a ts else throwM (HTTPError 404 [])) w5 = (r, w')"
      by (simp add: login_flow_def seqM_def bindM_def)
    moreover have "stays (on_db (session_bounds (acID a) (tID ` set ts) False))
      (if osFlow state = AuthFlowMachineRegistration then machine_flow v state user a ts
        else if osFlow state = AuthFlowClient then cli_flow v state user a ts else throwM (HTTPError 404 [])) w5"
      by (auto intro!: bounds_machine_flow[OF nz sub] bounds_cli_flow[OF nz] bounds.stays_refl)
    ultimately have "session_bounds (acID a) (tID ` set ts) False (wDB w5) (wDB w')" by (simp add: stays_def on_db_def)
    with q w4 T show ?thesis by (auto simp: quiet_def)
  qed
qed


section \<open>Sealed sessions\<close>

lemma Seal_run:
  assumes "Seal v plain w = (r, w')"
  shows "\<exists>nonce. length nonce = 24 \<and> r = Inr (nonce @ lgBoxSeal v nonce plain)"
proof -
  obtain s where "RandomBytes 24 w = (Inr s, w\<lparr>wNextRand := wNextRand w + 24\<rparr>)" "length s = 24"
    using RandomBytes_ok[of 24 w] by blast
  with assms show ?thesis by (auto simp: Seal_def bindM_def)
qed

text \<open>
  C13. A sealed session opens to what was sealed, for fifteen minutes and no longer: the browser
  gets back exactly the account, the tailnets and the flow that were put in, and nothing
  once the session has expired. The hypotheses are the contracts of the libraries: \<open>box\<close>
  opens what it sealed, base58 and the JSON codec invert each other.
\<close>

theorem session_roundtrip:
  assumes box: "\<And>n c. lgBoxOpen v n (lgBoxSeal v n c) = Some c"
    and base58: "\<And>c. lgDecode58 v (lgEncode58 v c) = Some c" "\<And>c. lgEncode58 v c = [] \<longleftrightarrow> c = []"
    and json: "\<And>s. lgUnmarshalSession v (lgMarshalSession v s) = Some s"
    and create: "createSession v state accountID sysAdmin tailnets w = (Inr raw, w1)" and now: "0 < wNow w"
  shows "\<exists>s. asAccountID s = accountID \<and> asSystemAdmin s = sysAdmin \<and> asTailnetIDs s = map tID tailnets \<and>
    asFlow s = osFlow state \<and> asKey s = osKey state \<and>
    (\<forall>w2. openAuthSession v raw w2 =
      (if wNow w2 \<le> wNow w + 15 * Minute then Inr s else Inl (Err ''auth session expired''), w2))"
proof -
  let ?s = "\<lparr>asFlow = osFlow state, asKey = osKey state, asAccountID = accountID, asSystemAdmin = sysAdmin,
        asTailnetIDs = map tID tailnets, asAdminTailnets = [], asExpiresAt = wNow w + authSessionLifetime\<rparr>"
  from create obtain c where c: "Seal v (lgMarshalSession v ?s) w = (Inr c, w1)" and raw: "raw = lgEncode58 v c"
    by (auto simp: createSession_def sealAuthSession_def go_success time_Now_ok)
  from Seal_run[OF c] obtain nonce where "length nonce = 24" "c = nonce @ lgBoxSeal v nonce (lgMarshalSession v ?s)" by blast
  then have "Open v c = Some (lgMarshalSession v ?s)" and "c \<noteq> []" using box by (auto simp: Open_def)
  moreover have "asExpiresAt ?s \<noteq> 0" using now by (simp add: authSessionLifetime_def Minute_def Second_def)
  ultimately have "openAuthSession v raw w2 =
      (if wNow w2 \<le> wNow w + 15 * Minute then Inr ?s else Inl (Err ''auth session expired''), w2)" for w2
    using base58 json raw by (auto simp: openAuthSession_def bindM_def time_Now_ok authSessionLifetime_def)
  then show ?thesis by (intro exI[of _ ?s]) simp
qed

lemma machine_flow_session: "issued_session \<lparr>asFlow = f, asKey = k, asAccountID = a, asSystemAdmin = False,
    asTailnetIDs = ts, asAdminTailnets = at, asExpiresAt = x\<rparr>"
  by (simp add: issued_session_def)

section \<open>Roles of the organization and of the user\<close>

text \<open>
  The roles of an organization are entered under the identity's email, and looked up under
  the name of the user, which is the login name. When the provider sends a username, the
  administrator role never reaches the user.
\<close>

lemma org_roles_miss_username:
  assumes "auUsername u \<noteq> []" and "auUsername u \<noteq> auName u" and "uName user = LoginName u"
    and "synced_policy isAdmin (auName u) policy = Some updated"
  shows "GetRole updated user = GetRole policy user"
  using assms by (auto simp: synced_policy_def LoginName_def GetRole_def Let_def split: if_splits)

section \<open>Examples\<close>

text \<open>A codec for sessions: they are countable, so a string of the right length stands for one.\<close>

definition session_fields :: "authSession \<Rightarrow> string \<times> string \<times> uint64 \<times> bool \<times> uint64 list \<times> uint64 list \<times> instant" where
  "session_fields s = (asFlow s, asKey s, asAccountID s, asSystemAdmin s, asTailnetIDs s, asAdminTailnets s, asExpiresAt s)"

definition session_of :: "string \<times> string \<times> uint64 \<times> bool \<times> uint64 list \<times> uint64 list \<times> instant \<Rightarrow> authSession" where
  "session_of = (\<lambda>(f, k, a, b, ts, at, x). \<lparr>asFlow = f, asKey = k, asAccountID = a, asSystemAdmin = b, asTailnetIDs = ts,
     asAdminTailnets = at, asExpiresAt = x\<rparr>)"

lemma sample_codec: "\<exists>(enc :: authSession \<Rightarrow> string) dec. \<forall>s. dec (enc s) = Some s"
proof (intro exI allI)
  show "(\<lambda>x. Some (session_of (from_nat (length x)))) (replicate (to_nat (session_fields s)) (CHR ''x'')) = Some s" for s
    by (simp add: session_fields_def session_of_def)
qed

definition sample_state :: oauthState where
  "sample_state = \<lparr>osKey = ''k'', osFlow = ''c'', osExpiresAt = 2000, osNonce = ''nonce'', osCodeVerifier = ''verifier''\<rparr>"

definition sample_session :: authSession where
  "sample_session = \<lparr>asFlow = ''c'', asKey = ''k'', asAccountID = 21, asSystemAdmin = False, asTailnetIDs = [1],
     asAdminTailnets = [], asExpiresAt = 2000\<rparr>"

definition sample_login :: login_env where
  "sample_login = \<lparr>lgReg = sample_reg, lgOrganizations = sample_orgs, lgProvider = Some sample_oidc,
     lgUsernameClaim = ''preferred_username'', lgLoginURL = (\<lambda>_ _ _ _. ''https://idp''), lgSystemIAMPolicy = sample_iam,
     lgBoxSeal = (\<lambda>_ c. c), lgBoxOpen = (\<lambda>_ c. Some c), lgEncode58 = (\<lambda>c. c), lgDecode58 = Some,
     lgMarshalState = (\<lambda>_. ''state''), lgUnmarshalState = (\<lambda>_. Some sample_state),
     lgMarshalSession = (\<lambda>_. ''session''), lgUnmarshalSession = (\<lambda>_. Some sample_session)\<rparr>"

definition twenty_four :: string where
  "twenty_four = replicate 24 (CHR ''n'')"

definition sample_form :: EndAuthForm where
  "sample_form = zero_form\<lparr>efTailnetID := 1, efAccountID := 99, efAuthKey := ''stolen'', efState := twenty_four, efSession := twenty_four\<rparr>"

lemma sample_db_ok: "db_ok (wDB sample_world)"
  by (auto simp: db_ok_def keys_ok_def refs_ok_def owned_def sample_world_def sample_db_def machine_row_def user_row_def sample_defs)

lemma sample_opens:
  "openAuthSession sample_login twenty_four sample_world = (Inr sample_session, sample_world)"
  "readState sample_login twenty_four sample_world = (Inr sample_state, sample_world)"
  by (simp_all add: openAuthSession_def readState_def Open_def sample_login_def twenty_four_def bindM_def time_Now_ok
      sample_session_def sample_state_def sample_world_def)

theorem EndAuth_confined_witness:
  "\<exists>r w'. EndAuth sample_login sample_form sample_world = (r, w') \<and>
     (wDB w' = sample_db \<or> session_bounds 21 {1} False sample_db (wDB w'))"
proof -
  obtain r w' where run: "EndAuth sample_login sample_form sample_world = (r, w')" by fastforce
  have form: "efSession sample_form = twenty_four" "efState sample_form = twenty_four" by (simp_all add: sample_form_def)
  have "wDB w' = wDB sample_world \<or> (\<exists>s. endauth_accepts sample_login sample_form sample_world s \<and>
      session_bounds (asAccountID s) (set (asTailnetIDs s)) (asSystemAdmin s) (wDB sample_world) (wDB w'))"
    by (rule EndAuth_confined[OF run sample_db_ok]) (auto simp: form sample_opens sample_session_def issued_session_def)
  moreover have "s = sample_session" if "endauth_accepts sample_login sample_form sample_world s" for s
    using that by (auto simp: endauth_accepts_def form sample_opens)
  ultimately have "wDB w' = wDB sample_world \<or> session_bounds (asAccountID sample_session) (set (asTailnetIDs sample_session))
      (asSystemAdmin sample_session) (wDB sample_world) (wDB w')" by blast
  then have "wDB w' = wDB sample_world \<or> session_bounds 21 {1} False (wDB sample_world) (wDB w')"
    by (simp add: sample_session_def)
  with run show ?thesis by (auto simp: sample_world_def)
qed


theorem session_roundtrip_witness:
  "\<exists>v raw w1 s. createSession v sample_state 21 False [sample_tailnet] sample_world = (Inr raw, w1) \<and>
     openAuthSession v raw sample_world = (Inr s, sample_world) \<and> asAccountID s = 21 \<and> asTailnetIDs s = [1]"
proof -
  let ?s = "\<lparr>asFlow = ''c'', asKey = ''k'', asAccountID = 21, asSystemAdmin = False,
        asTailnetIDs = [1], asAdminTailnets = [], asExpiresAt = 1000 + authSessionLifetime\<rparr>"
  obtain enc :: "authSession \<Rightarrow> string" and dec where codec: "\<And>s. dec (enc s) = Some s"
    using sample_codec by metis
  let ?v = "sample_login\<lparr>lgMarshalSession := enc, lgUnmarshalSession := dec\<rparr>"
  have v: "lgBoxOpen ?v n (lgBoxSeal ?v n c) = Some c" "lgDecode58 ?v (lgEncode58 ?v c) = Some c"
    "(lgEncode58 ?v c = []) = (c = [])" "lgUnmarshalSession ?v (lgMarshalSession ?v s) = Some s" for n c s
    by (simp_all add: sample_login_def codec)
  obtain r w1 where create0: "createSession ?v sample_state 21 False [sample_tailnet] sample_world = (r, w1)" by fastforce
  then obtain raw where "r = Inr raw"
    using RandomBytes_ok[of 24 sample_world] by (auto simp: createSession_def sealAuthSession_def Seal_def bindM_def time_Now_ok)
  with create0 have create: "createSession ?v sample_state 21 False [sample_tailnet] sample_world = (Inr raw, w1)" by simp
  have "\<exists>s. asAccountID s = 21 \<and> asSystemAdmin s = False \<and> asTailnetIDs s = map tID [sample_tailnet] \<and>
    asFlow s = osFlow sample_state \<and> asKey s = osKey sample_state \<and>
    (\<forall>w2. openAuthSession ?v raw w2 =
      (if wNow w2 \<le> wNow sample_world + 15 * Minute then Inr s else Inl (Err ''auth session expired''), w2))"
    by (rule session_roundtrip[OF v create]) (simp add: sample_world_def)
  with create show ?thesis
    by (intro exI[of _ ?v] exI[of _ raw] exI[of _ w1]) (auto simp: sample_tailnet_def Minute_def Second_def)
qed

end
