(* ===== verification/SSHCheck.thy ===== *)
theory SSHCheck
  imports Login
begin

text \<open>
  \<open>internal/handlers/ssh_action.go\<close>: the additional check of an SSH connection. \<open>ssh_StartAuth\<close>
  accepts a connection whose user has logged in recently enough, and otherwise files a request
  that a login in the browser (\<open>ssh_check_flow\<close> of \<open>Callback\<close>) decides; \<open>CheckAuth\<close> polls the
  decision. \<open>time.ParseDuration\<close> is a parameter. The ticks of the poll are a list of events.
\<close>

section \<open>Handlers\<close>

record SSHActionReply =
  saAccept :: bool
  saReject :: bool
  saMessage :: string
  saHoldAndDelegate :: string
  saAllowAgentForwarding :: bool
  saAllowLocalPortForwarding :: bool

definition ssh_accept :: SSHActionReply where
  "ssh_accept = \<lparr>saAccept = True, saReject = False, saMessage = [], saHoldAndDelegate = [],
     saAllowAgentForwarding = True, saAllowLocalPortForwarding = True\<rparr>"

definition ssh_reject :: SSHActionReply where
  "ssh_reject = \<lparr>saAccept = False, saReject = True, saMessage = [], saHoldAndDelegate = [],
     saAllowAgentForwarding = False, saAllowLocalPortForwarding = False\<rparr>"

definition ssh_hold :: "(string \<Rightarrow> string) \<Rightarrow> uint64 \<Rightarrow> uint64 \<Rightarrow> SSHActionReply m" where
  "ssh_hold createUrl srcMachineID dstMachineID =
     bindM (RandStringBytes 8) (\<lambda>key.
     bindM time_Now (\<lambda>now.
     seqM (SaveSSHActionRequest
       \<lparr>sqKey = key, sqAction = [], sqSrcMachineID = srcMachineID, sqDstMachineID = dstMachineID, sqCreatedAt = now\<rparr>) (
     returnM \<lparr>saAccept = False, saReject = False,
       saMessage = ''# Tailscale SSH requires an additional check.'' @ [char_of (10::nat)] @ ''# To authenticate, visit: '' @
         createUrl (''/a/s/'' @ key) @ [char_of (10::nat)],
       saHoldAndDelegate = ''https://unused/machine/ssh/action/check/'' @ key,
       saAllowAgentForwarding = False, saAllowLocalPortForwarding = False\<rparr>)))"

definition ssh_StartAuth ::
    "(string \<Rightarrow> duration option) \<Rightarrow> (string \<Rightarrow> string) \<Rightarrow> uint64 \<Rightarrow> uint64 \<Rightarrow> string \<Rightarrow> SSHActionReply m" where
  "ssh_StartAuth parseDuration createUrl srcMachineID dstMachineID checkPeriod =
     (if checkPeriod \<noteq> [] \<and> checkPeriod \<noteq> ''always'' then
        (case parseDuration checkPeriod of
           None \<Rightarrow> ssh_hold createUrl srcMachineID dstMachineID
         | Some period \<Rightarrow>
             bindM (GetMachine_row srcMachineID) (\<lambda>mopt.
             case mopt of
               None \<Rightarrow> throwM NilDeref
             | Some machine \<Rightarrow>
                 bindM time_Now (\<lambda>now.
                 case (uAccount (mUser machine), uLastAuthenticated (mUser machine)) of
                   (Some _, Some seen) \<Rightarrow>
                     if now - seen < period then returnM ssh_accept
                     else ssh_hold createUrl srcMachineID dstMachineID
                 | _ \<Rightarrow> ssh_hold createUrl srcMachineID dstMachineID)))
      else ssh_hold createUrl srcMachineID dstMachineID)"

primrec CheckAuth :: "string \<Rightarrow> follow_event list \<Rightarrow> SSHActionReply option m" where
  "CheckAuth key [] = returnM None"
| "CheckAuth key (ev # evs) =
     (case ev of
        FollowDone \<Rightarrow> returnM None
      | FollowTick \<Rightarrow>
          bindM (tryM (GetSSHActionRequest key)) (\<lambda>r.
          case r of
            Inr (Some m) \<Rightarrow>
              if sqAction m = ''accept'' then seqM (ignoreM (DeleteSSHActionRequest key)) (returnM (Some ssh_accept))
              else if sqAction m = ''reject'' then seqM (ignoreM (DeleteSSHActionRequest key)) (returnM (Some ssh_reject))
              else CheckAuth key evs
          | _ \<Rightarrow> returnM (Some ssh_reject)))"

section \<open>Nothing but the owner's login accepts a connection\<close>

text \<open>The accepted requests of a state; a login that is not an SSH check leaves them alone.\<close>

definition accepted :: "db \<Rightarrow> SSHActionRequest set" where
  "accepted d = {q \<in> set (dbSSHActionRequests d). sqAction q = ''accept''}"

definition no_new_accept :: "db \<Rightarrow> db \<Rightarrow> bool" where
  "no_new_accept d d' \<longleftrightarrow> accepted d' \<subseteq> accepted d"

interpretation accepts: db_frame no_new_accept
  by unfold_locales (auto simp: no_new_accept_def)

lemma accepts_same: "dbSSHActionRequests d' = dbSSHActionRequests d \<Longrightarrow> no_new_accept d d'"
  by (simp add: no_new_accept_def accepted_def)

lemma accepts_writes:
  "within (on_db no_new_accept) (SaveRegistrationRequest q)" "within (on_db no_new_accept) (SaveAuthenticationRequest r)"
  "within (on_db no_new_accept) (SetUserLastAuthenticated i t)" "within (on_db no_new_accept) (SaveMachine m)"
  "within (on_db no_new_accept) (SaveApiKey k)" "within (on_db no_new_accept) (SaveSystemApiKey s)"
  "within (on_db no_new_accept) (SaveTailnet n)" "within (on_db no_new_accept) (SetAccountLastAuthenticated j)"
  "within (on_db no_new_accept) (insert_user u)"
  unfolding SaveRegistrationRequest_def SaveAuthenticationRequest_def SetUserLastAuthenticated_def SaveMachine_def SaveApiKey_def
    SaveSystemApiKey_def SaveTailnet_def SetAccountLastAuthenticated_def insert_user_def
  by (intro accepts.within_bindM accepts.within_time_Now accepts.within_db_exec_unique accepts.within_db_exec accepts_same, simp)+

lemma accepts_save:
  "sqAction q \<noteq> ''accept'' \<Longrightarrow> within (on_db no_new_accept) (SaveSSHActionRequest q)"
  unfolding SaveSSHActionRequest_def
  by (rule accepts.within_db_exec) (auto simp: no_new_accept_def accepted_def set_save_row)

lemmas accepts_reads = accepts.within_quiet[OF quiet_db_query] accepts.within_quiet[OF quiet_registration(1)]
  accepts.within_quiet[OF quiet_registration(7)] accepts.within_quiet[OF quiet_LoadAuthKey]
  accepts.within_quiet[OF quiet_login_reads(1)] accepts.within_quiet[OF quiet_login_reads(2)]
  accepts.within_quiet[OF quiet_login_reads(3)] accepts.within_quiet[OF quiet_login_reads(4)]
  accepts.within_quiet[OF quiet_login_reads(5)] accepts.within_quiet[OF quiet_login_reads(6)]
  accepts.within_quiet[OF quiet_fresh_machine] accepts.within_quiet[OF quiet_renewed_machine]
  accepts.within_quiet[OF quiet_applyTailnetLockRegistration] accepts.within_quiet[OF quiet_createSession]
  accepts.within_quiet[OF quiet_time_Now]

lemma accepts_users:
  "within (on_db no_new_accept) (GetOrCreateUserWithAccount t a)" "within (on_db no_new_accept) (GetOrCreateAccount i o' n)"
  unfolding GetOrCreateUserWithAccount_def GetOrCreateAccount_def Let_def
  by (intro accepts.within_intros accepts.within_basic accepts_writes accepts.within_db_exec accepts.within_db_exec_unique accepts_same;
      simp)+

lemma accepts_ends:
  "within (on_db no_new_accept) (endMachineRegistrationFlow v form q)"
  "within (on_db no_new_accept) (endCliAuthenticationFlow v form r)"
proof -
  have "within (on_db no_new_accept) (register_for v q t u tags eph auth)" for t u tags eph auth
    unfolding register_for_def Let_def
    by (intro accepts.within_intros accepts.within_Transaction accepts_reads accepts_writes)
  then show "within (on_db no_new_accept) (endMachineRegistrationFlow v form q)"
    unfolding endMachineRegistrationFlow_def
    by (intro accepts.within_intros accepts_reads accepts_writes accepts_users)
  have keys: "within quiet (CreateApiKey e t u x)" "within quiet (CreateSystemApiKey e a x)" for e t u x a
    unfolding CreateApiKey_def CreateSystemApiKey_def by (intro quiet_intros)+
  show "within (on_db no_new_accept) (endCliAuthenticationFlow v form r)"
    unfolding endCliAuthenticationFlow_def cli_system_admin_def cli_tailnet_def
    by (intro accepts.within_intros accepts.within_Transaction accepts_reads accepts_writes accepts_users
        accepts.within_quiet[OF keys(1)] accepts.within_quiet[OF keys(2)])
qed

lemma accepts_login_flow: "within (on_db no_new_accept) (login_flow v state u a)"
proof -
  have deny: "within (on_db no_new_accept) (denialCode v u)"
    unfolding denialCode_def by (intro accepts.within_intros accepts_reads)
  have sync: "within (on_db no_new_accept) (syncOrgRoles v u)"
    unfolding syncOrgRoles_def sync_tailnet_def Let_def by (intro accepts.within_intros accepts_reads accepts_writes)
  have "within (on_db no_new_accept) (machine_flow v state u a ts)" for ts
    unfolding machine_flow_def
    by (auto intro!: accepts.within_intros accepts_reads accepts_writes accepts_ends deny split: list.split)
  moreover have "within (on_db no_new_accept) (cli_flow v state u a ts)" for ts
    unfolding cli_flow_def
    by (intro accepts.within_intros accepts_reads accepts_writes accepts_ends deny)
  ultimately show ?thesis
    unfolding login_flow_def listAvailableTailnets_def by (intro accepts.within_intros accepts_reads sync)
qed

lemma GetMachine_row_run:
  assumes "GetMachine_row i w = (Inr (Some m), w')"
  shows "\<exists>row \<in> set (dbMachines (wDB w)). mID row = i \<and> m = load_machine_account (wDB w) row" and "wDB w' = wDB w"
  using db_query_run(1,2)[OF assms[unfolded GetMachine_row_def]]
  by (auto simp: map_option_case split: option.splits dest!: find_SomeD)

lemma ssh_check_flow_accepts:
  assumes run: "ssh_check_flow state account w = (r, w')" and q: "q \<in> accepted (wDB w')" "q \<notin> accepted (wDB w)"
  shows "sqKey q = osKey state \<and> (\<exists>m \<in> set (dbMachines (wDB w)). mID m = sqSrcMachineID q \<and> \<not> HasTags m \<and>
    uAccountID (user_of (wDB w) (mUserID m)) = Some (acID account))"
proof -
  obtain x w1 where x: "GetSSHActionRequest (osKey state) w = (x, w1)" by fastforce
  have same: "wDB w1 = wDB w" using quietD(1)[OF quiet_login_reads(4) x] .
  show ?thesis
  proof (cases "\<exists>q0. x = Inr (Some q0)")
    case False
    then have "wDB w' = wDB w" using run x same
      by (auto simp: ssh_check_flow_def bindM_def tryM_def split: sum.splits option.splits if_splits)
    with q show ?thesis by simp
  next
    case True
    then obtain q0 where q0: "x = Inr (Some q0)" by blast
    have key: "sqKey q0 = osKey state"
      using db_query_run(1)[OF x[unfolded q0 GetSSHActionRequest_def]] by (auto dest!: sym[of "Some q0"] find_SomeD)
    obtain y w2 where y: "GetMachine_row (sqSrcMachineID q0) w1 = (y, w2)" by fastforce
    have w2: "wDB w2 = wDB w"
      using quietD(1)[of "GetMachine_row (sqSrcMachineID q0)" w1 y w2] y same by (simp add: GetMachine_row_def quiet_db_query)
    let ?owner = "\<lambda>machine. \<not> HasTags machine \<and> uAccountID (mUser machine) = Some (acID account)"
    show ?thesis
    proof (cases "\<exists>machine. y = Inr (Some machine) \<and> ?owner machine")
      case False
      have reject: "accepted (wDB w4) \<subseteq> accepted (wDB w3)" if "SaveSSHActionRequest (q0\<lparr>sqAction := ''reject''\<rparr>) w3 = (z, w4)" for z w3 w4
        using withinD[OF accepts_save[of "q0\<lparr>sqAction := ''reject''\<rparr>"] that] by (simp add: on_db_def no_new_accept_def)
      from False run x q0 y w2 have "wDB w' = wDB w \<or> (\<exists>z. SaveSSHActionRequest (q0\<lparr>sqAction := ''reject''\<rparr>) w2 = (z, w'))"
        by (auto simp: ssh_check_flow_def bindM_def tryM_def seqM_def split: sum.splits option.splits prod.splits if_splits)
      with reject[of w2 _ w'] w2 q show ?thesis by auto
    next
      case True
      then obtain machine where m: "y = Inr (Some machine)" and own: "?owner machine" by blast
      from GetMachine_row_run(1)[OF y[unfolded m]] same obtain row where row: "row \<in> set (dbMachines (wDB w))"
        "mID row = sqSrcMachineID q0" "machine = load_machine_account (wDB w) row" by auto
      let ?body = "bindM time_Now (\<lambda>t. seqM (SetUserLastAuthenticated (mUserID machine) t) (SaveSSHActionRequest (q0\<lparr>sqAction := ''accept''\<rparr>)))"
      have body: "accepted (wDB w4) \<subseteq> insert (q0\<lparr>sqAction := ''accept''\<rparr>) (accepted (wDB w3))" if "?body w3 = (Inr z, w4)" for z w3 w4
        using that by (auto simp: go_success time_Now_ok SetUserLastAuthenticated_def SaveSSHActionRequest_def accepted_def set_save_row
            dest!: db_exec_run)
      have tx: "accepted (wDB w4) \<subseteq> insert (q0\<lparr>sqAction := ''accept''\<rparr>) (accepted (wDB w2))" if t: "Transaction ?body w2 = (z, w4)" for z w4
      proof (cases z)
        case (Inl e)
        with Transaction_failed[of ?body w2 e w4] t show ?thesis by auto
      next
        case (Inr u)
        with t have "Transaction ?body w2 = (Inr u, w4)" by simp
        then obtain w5 w6 where "wDB w5 = wDB w2" "?body w5 = (Inr u, w6)" "wDB w4 = wDB w6" by (rule Transaction_run)
        with body show ?thesis by metis
      qed
      from own run x q0 y m have "\<exists>z. Transaction ?body w2 = (z, w')"
        by (auto simp: ssh_check_flow_def bindM_def tryM_def seqM_def split: sum.splits prod.splits)
      with tx q w2 have "q = q0\<lparr>sqAction := ''accept''\<rparr>" by auto
      with key own row show ?thesis by (auto simp: load_machine_account_def HasTags_def user_with_account_def)
    qed
  qed
qed

text \<open>
  C15. Only the owner lets an SSH connection through: a request becomes accepted only in the
  callback of an SSH check, for an identity that the provider vouches for under the sealed
  state of that very request, when the connecting machine carries no tags and its user is the
  identity's account. No other login touches a request.
\<close>

theorem ssh_accept_only_by_owner:
  assumes run: "Callback v query w = (r, w')" and q: "q \<in> accepted (wDB w')" "q \<notin> accepted (wDB w)"
  shows "\<exists>state user account c w1. readState v (cqState query) w = (Inr state, w) \<and> osFlow state = AuthFlowSSHCheckFlow \<and>
    exchangeUser v (cqCode query) (osCodeVerifier state) (osNonce state) = Inr user \<and>
    GetOrCreateAccount (auID user) (auOrg user) (LoginName user) w = (Inr (account, c), w1) \<and> sqKey q = osKey state \<and>
    (\<exists>m \<in> set (dbMachines (wDB w)). mID m = sqSrcMachineID q \<and> \<not> HasTags m \<and>
       uAccountID (user_of (wDB w) (mUserID m)) = Some (acID account))"
proof -
  obtain x w1 where x: "readState v (cqState query) w = (x, w1)" by fastforce
  note same = readState_run(1)[OF x]
  have same_db: "accepted (wDB w') \<subseteq> accepted (wDB w) \<Longrightarrow> ?thesis" using q by blast
  show ?thesis
  proof (cases "cqError query = [] \<and> (\<exists>state user. x = Inr state \<and>
      exchangeUser v (cqCode query) (osCodeVerifier state) (osNonce state) = Inr user)")
    case False
    then have "w' = w" using run x same by (auto simp: Callback_def bindM_def tryM_def split: sum.splits if_splits)
    then show ?thesis using same_db by simp
  next
    case True
    then obtain state user where noerr: "cqError query = []" and xs: "x = Inr state"
      and user: "exchangeUser v (cqCode query) (osCodeVerifier state) (osNonce state) = Inr user" by blast
    obtain y w2 where y: "GetOrCreateAccount (auID user) (auOrg user) (LoginName user) w = (y, w2)" by fastforce
    note acc = withinD[OF accepts_users(2) y] withinD[OF prepared_account(1) y]
    show ?thesis
    proof (cases "\<exists>account c w3. y = Inr (account, c) \<and> SetAccountLastAuthenticated (acID account) w2 = (Inr (), w3)")
      case False
      have "accepted (wDB w3) \<subseteq> accepted (wDB w2)" if "SetAccountLastAuthenticated i w2 = (z, w3)" for i z w3
        using withinD[OF accepts_writes(8) that] by (simp add: on_db_def no_new_accept_def)
      with False run x xs same user noerr y acc have "accepted (wDB w') \<subseteq> accepted (wDB w)"
        by (fastforce simp: Callback_def bindM_def seqM_def tryM_def on_db_def no_new_accept_def split: sum.splits prod.splits)
      then show ?thesis by (rule same_db)
    next
      case True
      then obtain account c w3 where ya: "y = Inr (account, c)" and z: "SetAccountLastAuthenticated (acID account) w2 = (Inr (), w3)" by blast
      from withinD[OF accepts_writes(8) z] acc have sub: "accepted (wDB w3) \<subseteq> accepted (wDB w)"
        by (auto simp: on_db_def no_new_accept_def)
      from withinD[OF prepared_account(2) z] acc have tables: "dbMachines (wDB w3) = dbMachines (wDB w)" "dbUsers (wDB w3) = dbUsers (wDB w)"
        by (simp_all add: on_db_def prepared_def)
      from run x xs same user noerr y ya z
      have rest: "(if osFlow state = AuthFlowSSHCheckFlow then ssh_check_flow state account else login_flow v state user account) w3 = (r, w')"
        by (simp add: Callback_def bindM_def seqM_def tryM_def)
      show ?thesis
      proof (cases "osFlow state = AuthFlowSSHCheckFlow")
        case True
        with rest have "ssh_check_flow state account w3 = (r, w')" by simp
        from ssh_check_flow_accepts[OF this q(1)] q(2) sub tables True x xs same user y ya show ?thesis
          by (auto simp: user_of_def)
      next
        case False
        with rest have "login_flow v state user account w3 = (r, w')" by simp
        from withinD[OF accepts_login_flow this] sub have "accepted (wDB w') \<subseteq> accepted (wDB w)"
          by (auto simp: on_db_def no_new_accept_def)
        then show ?thesis by (rule same_db)
      qed
    qed
  qed
qed

lemma CheckAuth_accepts:
  assumes "CheckAuth key evs w = (Inr (Some a), w')" and "saAccept a"
  shows "(\<exists>q \<in> accepted (wDB w). sqKey q = key) \<and>
    (wFaults w = [] \<and> key \<noteq> [] \<longrightarrow> (\<forall>q \<in> set (dbSSHActionRequests (wDB w')). sqKey q \<noteq> key))"
  using assms(1)
proof (induction evs arbitrary: w)
  case (Cons ev evs)
  obtain x w1 where x: "GetSSHActionRequest key w = (x, w1)" by fastforce
  have w1: "wDB w1 = wDB w" using quietD(1)[OF quiet_login_reads(4) x] .
  have f: "wFaults w = [] \<Longrightarrow> wFaults w1 = []" using x by (auto simp: GetSSHActionRequest_def db_query_ok)
  from Cons.prems assms(2) have tick: "ev = FollowTick" by (cases ev) auto
  from Cons.prems tick x assms(2) obtain q where q: "x = Inr (Some q)"
    by (auto simp: bindM_def tryM_def ssh_reject_def split: sum.splits option.splits if_splits)
  have find: "q \<in> set (dbSSHActionRequests (wDB w))" "sqKey q = key"
    using db_query_run(1)[OF x[unfolded q GetSSHActionRequest_def]] by (auto dest!: sym[of "Some q"] find_SomeD)
  consider "sqAction q = ''accept''" | "sqAction q = ''reject''" | "sqAction q \<noteq> ''accept''" "sqAction q \<noteq> ''reject''" by blast
  then show ?case
  proof cases
    case 1
    with Cons.prems tick x q have del: "ignoreM (DeleteSSHActionRequest key) w1 = (Inr (), w')"
      by (auto simp: bindM_def seqM_def tryM_def split: sum.splits prod.splits)
    have "wDB w' = (wDB w1)\<lparr>dbSSHActionRequests := filter (\<lambda>r. sqKey r \<noteq> key) (dbSSHActionRequests (wDB w1))\<rparr>" if "wFaults w = []" "key \<noteq> []"
      using del f[OF that(1)] that(2) by (auto simp: ignoreM_def bindM_def tryM_def DeleteSSHActionRequest_def db_delete_by_id_def db_exec_ok)
    with 1 find show ?thesis by (auto simp: accepted_def)
  next
    case 2
    with Cons.prems tick x q assms(2) show ?thesis
      by (auto simp: bindM_def seqM_def tryM_def ssh_reject_def split: sum.splits prod.splits)
  next
    case 3
    with Cons.prems tick x q have "CheckAuth key evs w1 = (Inr (Some a), w')" by (simp add: bindM_def tryM_def)
    from Cons.IH[OF this] w1 f show ?thesis by auto
  qed
qed simp

text \<open>
  C16. A connection is accepted at once only when the user of the connecting machine is a person
  who has logged in within the check period, and after a wait only when the request was
  accepted; the decision is then taken out of the table, so that it serves one connection.
\<close>

theorem ssh_reply_sound:
  "(\<forall>a w'. ssh_StartAuth parseDuration createUrl src dst checkPeriod w = (Inr a, w') \<and> saAccept a \<longrightarrow>
      (\<exists>m \<in> set (dbMachines (wDB w)). \<exists>period seen. mID m = src \<and> parseDuration checkPeriod = Some period \<and>
         account_of (wDB w) (uAccountID (user_of (wDB w) (mUserID m))) \<noteq> None \<and>
         uLastAuthenticated (user_of (wDB w) (mUserID m)) = Some seen \<and> wNow w - seen < period)) \<and>
   (\<forall>a w'. CheckAuth key evs w = (Inr (Some a), w') \<and> saAccept a \<longrightarrow>
      (\<exists>q \<in> accepted (wDB w). sqKey q = key) \<and>
      (wFaults w = [] \<and> key \<noteq> [] \<longrightarrow> (\<forall>q \<in> set (dbSSHActionRequests (wDB w')). sqKey q \<noteq> key)))"
proof (intro conjI allI impI)
  fix a w'
  assume "ssh_StartAuth parseDuration createUrl src dst checkPeriod w = (Inr a, w') \<and> saAccept a"
  then have run: "ssh_StartAuth parseDuration createUrl src dst checkPeriod w = (Inr a, w')" and acc: "saAccept a" by auto
  have hold: "\<not> (ssh_hold createUrl src dst w1 = (Inr a, w2))" for w1 w2
    using acc by (auto simp: ssh_hold_def go_success)
  from run hold obtain period m w1 where p: "parseDuration checkPeriod = Some period" and m: "GetMachine_row src w = (Inr (Some m), w1)"
    and rest: "bindM time_Now (\<lambda>now. case (uAccount (mUser m), uLastAuthenticated (mUser m)) of
       (Some _, Some seen) \<Rightarrow> if now - seen < period then returnM ssh_accept else ssh_hold createUrl src dst
     | _ \<Rightarrow> ssh_hold createUrl src dst) w1 = (Inr a, w')"
    by (auto simp: ssh_StartAuth_def bindM_result_split split: if_splits option.splits)
  have now: "wNow w1 = wNow w" using db_query_run(3)[OF m[unfolded GetMachine_row_def]] .
  from rest hold have "uAccount (mUser m) \<noteq> None" "\<exists>seen. uLastAuthenticated (mUser m) = Some seen \<and> wNow w - seen < period"
    by (auto simp: bindM_result_split time_Now_ok now split: option.splits if_splits)
  with GetMachine_row_run(1)[OF m] p show "\<exists>m \<in> set (dbMachines (wDB w)). \<exists>period seen. mID m = src \<and> parseDuration checkPeriod = Some period \<and>
         account_of (wDB w) (uAccountID (user_of (wDB w) (mUserID m))) \<noteq> None \<and>
         uLastAuthenticated (user_of (wDB w) (mUserID m)) = Some seen \<and> wNow w - seen < period"
    by (fastforce simp: load_machine_account_def user_with_account_def)
qed (use CheckAuth_accepts in blast)+

section \<open>Examples\<close>

definition ssh_world :: world where
  "ssh_world = sample_world\<lparr>wDB := sample_db\<lparr>dbSSHActionRequests :=
     [\<lparr>sqKey = ''k'', sqAction = ''accept'', sqSrcMachineID = 101, sqDstMachineID = 102, sqCreatedAt = 1\<rparr>]\<rparr>\<rparr>"

theorem ssh_reply_sound_witness:
  "\<exists>w'. CheckAuth ''k'' [FollowTick] ssh_world = (Inr (Some ssh_accept), w') \<and>
     (\<forall>q \<in> set (dbSSHActionRequests (wDB w')). sqKey q \<noteq> ''k'')"
proof -
  have clean: "wFaults ssh_world = []" by (simp add: ssh_world_def sample_world_def)
  then obtain w' where run: "CheckAuth ''k'' [FollowTick] ssh_world = (Inr (Some ssh_accept), w')"
    by (simp add: GetSSHActionRequest_def DeleteSSHActionRequest_def db_delete_by_id_def bindM_def seqM_def tryM_def ignoreM_def
        db_query_ok db_exec_ok) (simp add: ssh_world_def bindM_def seqM_def tryM_def ignoreM_def DeleteSSHActionRequest_def db_delete_by_id_def sample_world_def db_exec_ok)
  from ssh_reply_sound[of "\<lambda>_. None" "\<lambda>s. s" 0 0 "[]" ssh_world "''k''" "[FollowTick]"] run clean show ?thesis
    by (auto simp: ssh_accept_def)
qed

text \<open>The state of an SSH check, and the world in which the laptop of alice asks for one.\<close>

definition check_state :: oauthState where
  "check_state = sample_state\<lparr>osFlow := ''s''\<rparr>"

definition check_login :: login_env where
  "check_login = sample_login\<lparr>lgUnmarshalState := (\<lambda>_. Some check_state)\<rparr>"

definition check_request :: SSHActionRequest where
  "check_request = \<lparr>sqKey = ''k'', sqAction = [], sqSrcMachineID = 101, sqDstMachineID = 102, sqCreatedAt = 1\<rparr>"

definition check_world :: world where
  "check_world = sample_world\<lparr>wDB := sample_db\<lparr>dbSSHActionRequests := [check_request]\<rparr>\<rparr>"

definition check_query :: callback_query where
  "check_query = \<lparr>cqError = [], cqCode = ''code'', cqState = twenty_four\<rparr>"

lemma check_readState: "readState check_login twenty_four check_world = (Inr check_state, check_world)"
  by (simp add: readState_def Open_def check_login_def sample_login_def twenty_four_def bindM_def time_Now_ok
      check_state_def sample_state_def check_world_def sample_world_def)

lemma check_user:
  "\<exists>u. exchangeUser check_login ''code'' (osCodeVerifier check_state) (osNonce check_state) = Inr u \<and>
     auID u = ''sub-1'' \<and> auOrg u = ''acme''"
  by (simp add: exchangeUser_def check_login_def sample_login_def check_state_def sample_state_def Exchange_def sample_oidc_def
      sample_orgs_def identity_of_def getTokenClaims_def getUserInfoClaims_def Organizations_Enabled_def claimAsString_def
      TrimSpace_def is_space_def Let_def)

lemma check_account:
  "auID u = ''sub-1'' \<Longrightarrow> auOrg u = ''acme'' \<Longrightarrow>
   \<exists>a w2. GetOrCreateAccount (auID u) (auOrg u) (LoginName u) check_world = (Inr (a, False), w2) \<and> acID a = 21 \<and>
     wFaults w2 = [] \<and> dbSSHActionRequests (wDB w2) = [check_request] \<and> dbMachines (wDB w2) = dbMachines sample_db \<and>
     dbUsers (wDB w2) = dbUsers sample_db"
  by (simp add: GetOrCreateAccount_def bindM_def seqM_def NextID_def db_query_ok db_exec_ok first_by_def account_query_def Let_def
      check_world_def sample_world_def sample_db_def sample_account_def)

lemma check_flow:
  assumes "acID a = 21" and "wFaults w = []" and "dbSSHActionRequests (wDB w) = [check_request]"
    and "dbMachines (wDB w) = dbMachines sample_db" and "dbUsers (wDB w) = dbUsers sample_db"
  shows "\<exists>r w'. ssh_check_flow check_state a w = (r, w') \<and> check_request\<lparr>sqAction := ''accept''\<rparr> \<in> accepted (wDB w')"
proof -
  have m: "GetMachine_row 101 w = (Inr (Some (load_machine_account (wDB w) (machine_row sample_laptop))), w)"
    using assms by (simp add: GetMachine_row_def db_query_ok sample_db_def machine_row_def sample_defs)
  have "user_of (wDB w) 11 = user_row sample_alice"
    using assms by (simp add: user_of_def sample_db_def user_row_def sample_defs)
  then have own: "\<not> HasTags (load_machine_account (wDB w) (machine_row sample_laptop))"
    "uAccountID (mUser (load_machine_account (wDB w) (machine_row sample_laptop))) = Some 21"
    by (simp_all add: load_machine_account_def HasTags_def user_with_account_def machine_row_def user_row_def sample_defs)
  have q: "GetSSHActionRequest (osKey check_state) w = (Inr (Some check_request), w)"
    using assms by (simp add: GetSSHActionRequest_def db_query_ok check_state_def sample_state_def check_request_def)
  have src: "sqSrcMachineID check_request = 101" by (simp add: check_request_def)
  show ?thesis
    using assms(1-3) by (simp add: ssh_check_flow_def bindM_def tryM_def seqM_def q src m own Transaction_def time_Now_ok
        SetUserLastAuthenticated_def SaveSSHActionRequest_def db_exec_ok accepted_def set_save_row)
qed

theorem ssh_accept_only_by_owner_witness:
  "\<exists>r w' (account :: Account). Callback check_login check_query check_world = (r, w') \<and>
     check_request\<lparr>sqAction := ''accept''\<rparr> \<in> accepted (wDB w') - accepted (wDB check_world) \<and>
     (\<exists>m \<in> set (dbMachines (wDB check_world)). mID m = 101 \<and> \<not> HasTags m \<and>
        uAccountID (user_of (wDB check_world) (mUserID m)) = Some (acID account))"
proof -
  obtain u where u: "exchangeUser check_login ''code'' (osCodeVerifier check_state) (osNonce check_state) = Inr u"
    "auID u = ''sub-1''" "auOrg u = ''acme''" using check_user by blast
  obtain a w2 where a: "GetOrCreateAccount (auID u) (auOrg u) (LoginName u) check_world = (Inr (a, False), w2)" "acID a = 21"
    "wFaults w2 = []" "dbSSHActionRequests (wDB w2) = [check_request]" "dbMachines (wDB w2) = dbMachines sample_db"
    "dbUsers (wDB w2) = dbUsers sample_db" using check_account[OF u(2,3)] by blast
  obtain w3 where w3: "SetAccountLastAuthenticated (acID a) w2 = (Inr (), w3)" "wFaults w3 = []"
    "dbSSHActionRequests (wDB w3) = [check_request]" "dbMachines (wDB w3) = dbMachines sample_db" "dbUsers (wDB w3) = dbUsers sample_db"
    using a by (simp add: SetAccountLastAuthenticated_def bindM_def time_Now_ok db_exec_ok)
  from check_flow[OF a(2) w3(2-5)] obtain r w' where flow: "ssh_check_flow check_state a w3 = (r, w')"
    and acc: "check_request\<lparr>sqAction := ''accept''\<rparr> \<in> accepted (wDB w')" by blast
  have run: "Callback check_login check_query check_world = (r, w')"
    using u(1) a(1) w3(1) flow by (simp add: Callback_def check_query_def bindM_def tryM_def seqM_def check_readState check_state_def AuthFlowSSHCheckFlow_def)
  have fresh: "check_request\<lparr>sqAction := ''accept''\<rparr> \<notin> accepted (wDB check_world)"
    by (simp add: accepted_def check_world_def check_request_def)
  from ssh_accept_only_by_owner[OF run acc fresh] obtain account :: Account and m where
    "m \<in> set (dbMachines (wDB check_world))" "mID m = 101" "\<not> HasTags m"
    "uAccountID (user_of (wDB check_world) (mUserID m)) = Some (acID account)"
    by (auto simp: check_request_def)
  with run acc fresh show ?thesis by blast
qed

end
