(* ===== verification/Configuration.thy ===== *)
theory Configuration
  imports Interceptors Oidc
begin

text \<open>
  \<open>internal/config\<close>: the configuration of the server. \<open>LoadConfig\<close> reads a file and a variable of
  the environment over the defaults, expands \<open>${VAR}\<close> and \<open>${VAR:default}\<close> in both, fills the
  package's variables (\<open>config_globals\<close>) and validates the result.

  The process environment, the file system, base64, the YAML decoder and the one constant of
  certmagic are the record \<open>config_env\<close>. The two regular expressions of \<open>expandEnvVars\<close> are
  deterministic (no character class contains its own delimiter), so they are matched by hand.
\<close>

section \<open>The configuration\<close>

record Tls =
  tlDisable :: bool
  tlForceHttps :: bool
  tlCertFile :: string
  tlKeyFile :: string
  tlAcmeEnabled :: bool
  tlAcmeEmail :: string
  tlAcmeCA :: string

record PollNet =
  pnKeepAliveInterval :: duration

record Logging =
  loLevel :: string
  loFormat :: string
  loFile :: string

record Database =
  daType :: string
  daUrl :: string
  daMaxOpenConns :: int
  daMaxIdleConns :: int
  daConnMaxLifetime :: duration
  daConnMaxIdleTime :: duration

record Keys =
  kyControlKey :: string
  kyLegacyControlKey :: string
  kySystemAdminKey :: string

record AuthProvider =
  avIssuer :: string
  avClientID :: string
  avClientSecret :: string
  avScopes :: "string list"
  avUsernameClaim :: string

record SystemAdminPolicy =
  spSubs :: "string list"
  spEmails :: "string list"
  spFilters :: "string list"

record Auth =
  atProvider :: AuthProvider
  atSystemAdminPolicy :: SystemAdminPolicy
  atOrganizations :: Organizations
  atServiceTokens :: "ServiceToken list"

record Tailnets =
  taMachineKeyExpiry :: duration
  taMachineAuthorization :: bool
  taDefaultACLPolicy :: string

record DNSProvider =
  dvName :: string
  dvPluginPath :: string
  dvZone :: string
  dvConfiguration :: string

record DNS =
  dnMagicDNSSuffix :: string
  dnProvider :: DNSProvider

record DERPServer =
  drDisabled :: bool
  drRegionID :: int
  drRegionCode :: string
  drRegionName :: string

record DERP =
  deServer :: DERPServer
  deSources :: "string list"

record URL =
  urScheme :: string
  urHost :: string

record Config =
  cfListenAddr :: string
  cfStunListenAddr :: string
  cfMetricsListenAddr :: string
  cfPublicAddr :: string
  cfStunPublicAddr :: string
  cfTls :: Tls
  cfPollNet :: PollNet
  cfKeys :: Keys
  cfDatabase :: Database
  cfAuth :: Auth
  cfTailnets :: Tailnets
  cfDNS :: DNS
  cfDERP :: DERP
  cfLogging :: Logging
  cfPublicUrl :: "URL option"
  cfStunHost :: string
  cfStunPort :: int
  cfDerpHost :: string
  cfDerpPort :: int

definition defaultKeepAliveInterval :: duration where
  "defaultKeepAliveInterval = Minute"

definition defaultMagicDNSSuffix :: string where
  "defaultMagicDNSSuffix = ''ionscale.net''"

definition defaultMachineKeyExpiry :: duration where
  "defaultMachineKeyExpiry = 180 * 24 * Hour"

definition defaultConfig :: "string \<Rightarrow> Config" where
  "defaultConfig acmeCA =
     \<lparr>cfListenAddr = '':8080'', cfStunListenAddr = '':3478'', cfMetricsListenAddr = '':9091'',
      cfPublicAddr = [], cfStunPublicAddr = [],
      cfTls = \<lparr>tlDisable = False, tlForceHttps = True, tlCertFile = [], tlKeyFile = [], tlAcmeEnabled = False,
               tlAcmeEmail = [], tlAcmeCA = acmeCA\<rparr>,
      cfPollNet = \<lparr>pnKeepAliveInterval = defaultKeepAliveInterval\<rparr>,
      cfKeys = \<lparr>kyControlKey = [], kyLegacyControlKey = [], kySystemAdminKey = []\<rparr>,
      cfDatabase = \<lparr>daType = ''sqlite'',
                    daUrl = ''./ionscale.db?_pragma=busy_timeout(5000)&_pragma=journal_mode(WAL)&_pragma=foreign_keys(ON)'',
                    daMaxOpenConns = 0, daMaxIdleConns = 2, daConnMaxLifetime = 0, daConnMaxIdleTime = 0\<rparr>,
      cfAuth = \<lparr>atProvider = \<lparr>avIssuer = [], avClientID = [], avClientSecret = [], avScopes = [], avUsernameClaim = []\<rparr>,
                atSystemAdminPolicy = \<lparr>spSubs = [], spEmails = [], spFilters = []\<rparr>,
                atOrganizations = \<lparr>ogClaim = [], ogRolesClaim = [], ogAdminRoles = [], ogRequired = False\<rparr>,
                atServiceTokens = []\<rparr>,
      cfTailnets = \<lparr>taMachineKeyExpiry = defaultMachineKeyExpiry, taMachineAuthorization = False, taDefaultACLPolicy = []\<rparr>,
      cfDNS = \<lparr>dnMagicDNSSuffix = defaultMagicDNSSuffix,
               dnProvider = \<lparr>dvName = [], dvPluginPath = [], dvZone = [], dvConfiguration = []\<rparr>\<rparr>,
      cfDERP = \<lparr>deServer = \<lparr>drDisabled = False, drRegionID = 1000, drRegionCode = ''ionscale'',
                             drRegionName = ''ionscale Embedded DERP''\<rparr>, deSources = []\<rparr>,
      cfLogging = \<lparr>loLevel = ''info'', loFormat = [], loFile = []\<rparr>,
      cfPublicUrl = None, cfStunHost = [], cfStunPort = 0, cfDerpHost = [], cfDerpPort = 0\<rparr>"

section \<open>Variables of the environment\<close>

definition GetBool :: "(string \<Rightarrow> string) \<Rightarrow> string \<Rightarrow> bool \<Rightarrow> bool" where
  "GetBool getenv key defaultValue = (if getenv key \<noteq> [] then ToLower (getenv key) = ''true'' else defaultValue)"

definition GetString :: "(string \<Rightarrow> string) \<Rightarrow> string \<Rightarrow> string \<Rightarrow> string" where
  "GetString getenv key defaultValue = (if getenv key \<noteq> [] then getenv key else defaultValue)"

definition word_char :: "char \<Rightarrow> bool" where
  "word_char c \<longleftrightarrow>
     (let n = of_char c :: nat
      in 97 \<le> n \<and> n \<le> 122 \<or> 65 \<le> n \<and> n \<le> 90 \<or> 48 \<le> n \<and> n \<le> 57 \<or> n = 95)"

text \<open>A match of \<open>${NAME}\<close> at the start of the text: the name and what follows.\<close>

definition optionalEnvRegex :: "string \<Rightarrow> (string \<times> string \<times> string) option" where
  "optionalEnvRegex s =
     (if HasPrefix s ''${'' then
        (let name = takeWhile word_char (drop 2 s); r = dropWhile word_char (drop 2 s) in
         if name \<noteq> [] \<and> HasPrefix r '':'' then
           (let val = takeWhile (\<lambda>c. c \<noteq> CHR ''}'') (tl r); rest = dropWhile (\<lambda>c. c \<noteq> CHR ''}'') (tl r) in
            if rest \<noteq> [] then Some (name, val, tl rest) else None)
         else None)
      else None)"

definition requiredEnvRegex :: "string \<Rightarrow> (string \<times> string) option" where
  "requiredEnvRegex s =
     (if HasPrefix s ''${'' then
        (let name = takeWhile word_char (drop 2 s); r = dropWhile word_char (drop 2 s) in
         if name \<noteq> [] \<and> HasPrefix r ''}'' then Some (name, tl r) else None)
      else None)"

lemma length_dropWhile_drop: "length (dropWhile P (drop n s)) \<le> length s"
  by (rule order_trans[OF length_dropWhile_le]) simp

lemma optionalEnvRegex_shorter: "optionalEnvRegex s = Some (name, val, rest) \<Longrightarrow> length rest < length s"
proof -
  assume "optionalEnvRegex s = Some (name, val, rest)"
  then have s: "s \<noteq> []" and r: "rest = tl (dropWhile (\<lambda>c. c \<noteq> CHR ''}'') (tl (dropWhile word_char (drop 2 s))))"
    by (auto simp: optionalEnvRegex_def Let_def HasPrefix_def split: if_splits)
  have "length rest \<le> length (dropWhile word_char (drop 2 s)) - 1"
    unfolding r using length_dropWhile_le[of "\<lambda>c. c \<noteq> CHR ''}''" "tl (dropWhile word_char (drop 2 s))"] by simp
  with s length_dropWhile_drop[of word_char 2 s] show ?thesis by (cases s) auto
qed

lemma requiredEnvRegex_shorter: "requiredEnvRegex s = Some (name, rest) \<Longrightarrow> length rest < length s"
  using length_dropWhile_drop[of word_char 2 s]
  by (cases s) (auto simp: requiredEnvRegex_def Let_def HasPrefix_def split: if_splits)

function expand_optional :: "(string \<Rightarrow> string) \<Rightarrow> string \<Rightarrow> string" where
  "expand_optional getenv s =
     (case optionalEnvRegex s of
        Some (name, val, rest) \<Rightarrow> (if getenv name \<noteq> [] then getenv name else val) @ expand_optional getenv rest
      | None \<Rightarrow> (case s of [] \<Rightarrow> [] | c # cs \<Rightarrow> c # expand_optional getenv cs))"
  by pat_completeness auto
termination by (relation "measure (\<lambda>(_, s). length s)") (auto dest: optionalEnvRegex_shorter)

text \<open>The second pass also collects the names of the variables that are not set.\<close>

function expand_required :: "(string \<Rightarrow> string) \<Rightarrow> string \<Rightarrow> string list \<times> string" where
  "expand_required getenv s =
     (case requiredEnvRegex s of
        Some (name, rest) \<Rightarrow>
          (case expand_required getenv rest of
             (missing, out) \<Rightarrow>
               if getenv name = [] then (name # missing, ''${'' @ name @ ''}'' @ out) else (missing, getenv name @ out))
      | None \<Rightarrow>
          (case s of
             [] \<Rightarrow> ([], [])
           | c # cs \<Rightarrow> (case expand_required getenv cs of (missing, out) \<Rightarrow> (missing, c # out))))"
  by pat_completeness auto
termination by (relation "measure (\<lambda>(_, s). length s)") (auto dest: requiredEnvRegex_shorter)

declare expand_optional.simps [simp del] expand_required.simps [simp del]

definition expandEnvVars :: "(string \<Rightarrow> string) \<Rightarrow> string \<Rightarrow> error + string" where
  "expandEnvVars getenv config =
     (case expand_required getenv (expand_optional getenv config) of
        (missingVars, out) \<Rightarrow>
          if missingVars \<noteq> [] then Inl (Err (''missing required environment variables: '' @ Join missingVars '', '')) else Inr out)"

section \<open>Public addresses\<close>

definition IndexByte :: "char \<Rightarrow> string \<Rightarrow> nat option" where
  "IndexByte c s = (if c \<in> set s then Some (length (takeWhile (\<lambda>x. x \<noteq> c) s)) else None)"

text \<open>
  \<open>net.SplitHostPort\<close>: the port follows the last colon; a host in square brackets ends just
  before it, any other host has no colon.
\<close>

definition SplitHostPort :: "string \<Rightarrow> (string \<times> string) option" where
  "SplitHostPort hostport =
     (case CutLast (CHR '':'') hostport of
        None \<Rightarrow> None
      | Some (before, port) \<Rightarrow>
          if HasPrefix hostport ''['' then
            (case IndexByte (CHR '']'') hostport of
               None \<Rightarrow> None
             | Some e \<Rightarrow>
                 if e + 1 = length before then
                   (if CHR ''['' \<in> set (drop 1 hostport) \<or> CHR '']'' \<in> set (drop (e + 1) hostport) then None
                    else Some (drop 1 (take e hostport), port))
                 else None)
          else if CHR '':'' \<in> set before then None
          else if CHR ''['' \<in> set hostport \<or> CHR '']'' \<in> set hostport then None
          else Some (before, port))"

text \<open>\<open>fmt.Sprintf("%d", n)\<close>.\<close>

definition Itoa_int :: "int \<Rightarrow> string" where
  "Itoa_int n = (if n < 0 then ''-'' @ Itoa (nat (- n)) else Itoa (nat n))"

definition validatePublicAddr :: "string \<Rightarrow> (URL \<times> string \<times> int) option" where
  "validatePublicAddr addr0 =
     (let (scheme1, addr1) = (if HasPrefix addr0 ''http://'' then (''http'', TrimPrefix addr0 ''http://'') else (''https'', addr0));
          (scheme, addr) = (if HasPrefix addr1 ''https://'' then (''https'', TrimPrefix addr1 ''https://'') else (scheme1, addr1)) in
      case SplitHostPort addr of
        None \<Rightarrow> None
      | Some (host, portS) \<Rightarrow>
          (case Atoi portS of
             None \<Rightarrow> None
           | Some port \<Rightarrow>
               if port = 443 \<and> scheme = ''https'' \<or> port = 80 \<and> scheme = ''http''
               then Some (\<lparr>urScheme = scheme, urHost = host\<rparr>, host, port)
               else Some (\<lparr>urScheme = scheme, urHost = host @ '':'' @ Itoa_int port\<rparr>, host, port)))"

section \<open>Validation\<close>

definition Validate :: "env \<Rightarrow> Config \<Rightarrow> error + Config" where
  "Validate e c =
     (if taDefaultACLPolicy (cfTailnets c) \<noteq> [] \<and> envParseACLPolicy e (taDefaultACLPolicy (cfTailnets c)) = None
      then Inl (Err ''tailnets.default_acl_policy is not a valid ACL policy'')
      else
        (case validateServiceTokens (atServiceTokens (cfAuth c)) of
           Some err \<Rightarrow> Inl err
         | None \<Rightarrow>
             (case validatePublicAddr (cfPublicAddr c) of
                None \<Rightarrow> Inl (Err ''web public addr: invalid'')
              | Some (publicWebUrl, webHost, webPort) \<Rightarrow>
                  (let c1 = c\<lparr>cfPublicUrl := Some publicWebUrl, cfDerpHost := webHost, cfDerpPort := webPort\<rparr> in
                   if \<not> drDisabled (deServer (cfDERP c1)) then
                     (case validatePublicAddr (cfStunPublicAddr c1) of
                        None \<Rightarrow> Inl (Err ''stun public addr: invalid'')
                      | Some (_, stunHost, stunPort) \<Rightarrow> Inr (c1\<lparr>cfStunHost := stunHost, cfStunPort := stunPort\<rparr>))
                   else Inr c1))))"

section \<open>Loading\<close>

record config_env =
  cvEnv :: env
  cvGetenv :: "string \<Rightarrow> string"
  cvReadFile :: "string \<Rightarrow> error + string"
  cvBase64Decode :: "string \<Rightarrow> string option"
  cvUnmarshal :: "string \<Rightarrow> Config \<Rightarrow> Config option"
  cvAcmeCA :: string

record config_globals =
  cgKeepAliveInterval :: duration
  cgMagicDNSSuffix :: string
  cgMachineKeyExpiry :: duration
  cgDNSProviderConfigured :: bool

definition initial_globals :: config_globals where
  "initial_globals = \<lparr>cgKeepAliveInterval = defaultKeepAliveInterval, cgMagicDNSSuffix = defaultMagicDNSSuffix,
     cgMachineKeyExpiry = defaultMachineKeyExpiry, cgDNSProviderConfigured = False\<rparr>"

text \<open>What both sources share: the text is expanded and decoded over the configuration so far.\<close>

definition merge_config :: "config_env \<Rightarrow> string \<Rightarrow> Config \<Rightarrow> error + Config" where
  "merge_config v b cfg =
     (case expandEnvVars (cvGetenv v) b of
        Inl err \<Rightarrow> Inl err
      | Inr b' \<Rightarrow> (case cvUnmarshal v b' cfg of None \<Rightarrow> Inl (Err ''yaml'') | Some cfg' \<Rightarrow> Inr cfg'))"

definition config_file :: "config_env \<Rightarrow> string \<Rightarrow> Config \<Rightarrow> error + Config" where
  "config_file v path cfg =
     (if path \<noteq> [] then (case cvReadFile v path of Inl err \<Rightarrow> Inl err | Inr b \<Rightarrow> merge_config v b cfg) else Inr cfg)"

definition config_base64 :: "config_env \<Rightarrow> Config \<Rightarrow> error + Config" where
  "config_base64 v cfg =
     (if cvGetenv v ''IONSCALE_CONFIG_BASE64'' \<noteq> [] then
        (case cvBase64Decode v (cvGetenv v ''IONSCALE_CONFIG_BASE64'') of
           None \<Rightarrow> Inl (Err ''illegal base64 data'')
         | Some b \<Rightarrow> merge_config v b cfg)
      else Inr cfg)"

definition LoadConfig :: "config_env \<Rightarrow> string \<Rightarrow> (config_globals, Config) go" where
  "LoadConfig v path =
     bindM (liftE (config_file v path (defaultConfig (cvAcmeCA v)))) (\<lambda>cfg0.
     bindM (liftE (config_base64 v cfg0)) (\<lambda>cfg1.
     let expiry = taMachineKeyExpiry (cfTailnets cfg1);
         cfg2 = (if expiry \<le> 0
                 then cfg1\<lparr>cfTailnets := (cfTailnets cfg1)\<lparr>taMachineKeyExpiry := defaultMachineKeyExpiry\<rparr>\<rparr> else cfg1) in
     seqM (modifyM (\<lambda>g. g\<lparr>cgKeepAliveInterval := pnKeepAliveInterval (cfPollNet cfg2),
                          cgMagicDNSSuffix := dnMagicDNSSuffix (cfDNS cfg2),
                          cgMachineKeyExpiry := taMachineKeyExpiry (cfTailnets cfg2)\<rparr>)) (
     seqM (whenM (dvZone (dnProvider (cfDNS cfg2)) \<noteq> []) (modifyM (\<lambda>g. g\<lparr>cgDNSProviderConfigured := True\<rparr>))) (
     liftE (Validate (cvEnv v) cfg2)))))"

section \<open>Uses of the configuration\<close>

text \<open>
  \<open>net/url\<close>: the escaping of a path and of a host, and \<open>URL.String\<close> for a URL of scheme, host and
  path.
\<close>

definition upper_hex :: "nat \<Rightarrow> char" where
  "upper_hex d = upper_char (hex_char d)"

definition url_unreserved :: "char \<Rightarrow> bool" where
  "url_unreserved c \<longleftrightarrow> word_char c \<or> c \<in> set ''-.~''"

definition url_escape :: "string \<Rightarrow> string \<Rightarrow> string" where
  "url_escape keep s = concat (map (\<lambda>c.
     if url_unreserved c \<or> c \<in> set keep then [c]
     else [CHR ''%'', upper_hex (of_char c div 16), upper_hex (of_char c mod 16)]) s)"

definition CreateUrl :: "Config \<Rightarrow> string \<Rightarrow> error + string" where
  "CreateUrl c path =
     (case cfPublicUrl c of
        None \<Rightarrow> Inl NilDeref
      | Some u \<Rightarrow>
          (let escaped = (if path = ''*'' then ''*'' else url_escape ''$&+,/:;=@'' path) in
           Inr ((if urScheme u \<noteq> [] then urScheme u @ '':'' else []) @
             (if urScheme u \<noteq> [] \<or> urHost u \<noteq> [] then
                (if urHost u \<noteq> [] \<or> path \<noteq> [] then ''//'' else []) @
                url_escape (''!$&()*+,;=:[]<>'' @ [CHR 0x27, CHR 0x22]) (urHost u)
              else []) @
             (if escaped \<noteq> [] \<and> hd escaped \<noteq> CHR ''/'' \<and> urHost u \<noteq> [] then ''/'' else []) @ escaped)))"

record DERPNode =
  dnoName :: string
  dnoRegionID :: int
  dnoHostName :: string
  dnoSTUNOnly :: bool
  dnoSTUNPort :: int
  dnoDERPPort :: int

record DERPRegion =
  dreRegionID :: int
  dreRegionCode :: string
  dreRegionName :: string
  dreNodes :: "DERPNode list"

definition DefaultDERPMap :: "Config \<Rightarrow> int \<rightharpoonup> DERPRegion" where
  "DefaultDERPMap c =
     (let s = deServer (cfDERP c);
          region = (\<lambda>nodes. [drRegionID s \<mapsto> \<lparr>dreRegionID = drRegionID s, dreRegionCode = drRegionCode s,
                      dreRegionName = drRegionName s, dreNodes = nodes\<rparr>]) in
      if cfDerpHost c = cfStunHost c then
        region [\<lparr>dnoName = ''ionscale'', dnoRegionID = drRegionID s, dnoHostName = cfDerpHost c, dnoSTUNOnly = False,
                 dnoSTUNPort = cfStunPort c, dnoDERPPort = cfDerpPort c\<rparr>]
      else
        region [\<lparr>dnoName = ''stun'', dnoRegionID = drRegionID s, dnoHostName = cfStunHost c, dnoSTUNOnly = True,
                 dnoSTUNPort = cfStunPort c, dnoDERPPort = 0\<rparr>,
                \<lparr>dnoName = ''derp'', dnoRegionID = drRegionID s, dnoHostName = cfDerpHost c, dnoSTUNOnly = False,
                 dnoSTUNPort = - 1, dnoDERPPort = cfDerpPort c\<rparr>])"

section \<open>Expansion of variables\<close>

text \<open>A text with variables: what is written, and what each part stands for.\<close>

datatype segment = Lit string | Req string | Opt string string

primrec print_segment :: "segment \<Rightarrow> string" where
  "print_segment (Lit s) = s"
| "print_segment (Req n) = ''${'' @ n @ ''}''"
| "print_segment (Opt n d) = ''${'' @ n @ '':'' @ d @ ''}''"

primrec segment_value :: "(string \<Rightarrow> string) \<Rightarrow> segment \<Rightarrow> string" where
  "segment_value getenv (Lit s) = s"
| "segment_value getenv (Req n) = getenv n"
| "segment_value getenv (Opt n d) = GetString getenv n d"

definition no_dollar :: "string \<Rightarrow> bool" where
  "no_dollar s \<longleftrightarrow> CHR ''$'' \<notin> set s"

definition is_name :: "string \<Rightarrow> bool" where
  "is_name n \<longleftrightarrow> n \<noteq> [] \<and> list_all word_char n"

primrec segment_ok :: "(string \<Rightarrow> string) \<Rightarrow> segment \<Rightarrow> bool" where
  "segment_ok getenv (Lit s) \<longleftrightarrow> no_dollar s"
| "segment_ok getenv (Req n) \<longleftrightarrow> is_name n"
| "segment_ok getenv (Opt n d) \<longleftrightarrow> is_name n \<and> no_dollar d \<and> CHR ''}'' \<notin> set d \<and> no_dollar (getenv n)"

definition missing_names :: "(string \<Rightarrow> string) \<Rightarrow> segment list \<Rightarrow> string list" where
  "missing_names getenv segs = concat (map (\<lambda>s. case s of Req n \<Rightarrow> if getenv n = [] then [n] else [] | _ \<Rightarrow> []) segs)"

lemma word_chars: "\<not> word_char (CHR ''}'')" "\<not> word_char (CHR '':'')" "\<not> word_char (CHR ''$'')"
  by (simp_all add: word_char_def)

lemma span_name:
  assumes "list_all P n" and "\<not> P c"
  shows "takeWhile P (n @ c # t) = n" "dropWhile P (n @ c # t) = c # t"
  using assms by (induction n) auto

lemma is_name_no_dollar: "is_name n \<Longrightarrow> no_dollar n"
  using word_chars(3) by (auto simp: is_name_def no_dollar_def list_all_iff)

lemma regex_at_dollar:
  "c \<noteq> CHR ''$'' \<Longrightarrow> optionalEnvRegex (c # s) = None" "c \<noteq> CHR ''$'' \<Longrightarrow> requiredEnvRegex (c # s) = None"
  by (auto simp: optionalEnvRegex_def requiredEnvRegex_def HasPrefix_def)

lemma regex_segments:
  assumes "is_name n"
  shows "optionalEnvRegex (''${'' @ n @ ''}'' @ t) = None" "requiredEnvRegex (''${'' @ n @ ''}'' @ t) = Some (n, t)"
    "CHR ''}'' \<notin> set d \<Longrightarrow> optionalEnvRegex (''${'' @ n @ '':'' @ d @ ''}'' @ t) = Some (n, d, t)"
proof -
  have n: "n \<noteq> []" "list_all word_char n" using assms by (auto simp: is_name_def)
  note span = span_name[OF n(2) word_chars(1), of t] span_name[OF n(2) word_chars(2), of "d @ CHR ''}'' # t"]
  show "optionalEnvRegex (''${'' @ n @ ''}'' @ t) = None" "requiredEnvRegex (''${'' @ n @ ''}'' @ t) = Some (n, t)"
    using span n(1) by (simp_all add: optionalEnvRegex_def requiredEnvRegex_def HasPrefix_def)
  assume "CHR ''}'' \<notin> set d"
  then have "list_all (\<lambda>c. c \<noteq> CHR ''}'') d" by (auto simp: list_all_iff)
  from span_name[OF this, of "CHR ''}''" t] span n(1) show "optionalEnvRegex (''${'' @ n @ '':'' @ d @ ''}'' @ t) = Some (n, d, t)"
    by (simp add: optionalEnvRegex_def HasPrefix_def Let_def)
qed

lemma expand_text:
  "no_dollar s \<Longrightarrow> expand_optional g (s @ t) = s @ expand_optional g t"
  "no_dollar s \<Longrightarrow> expand_required g (s @ t) = (fst (expand_required g t), s @ snd (expand_required g t))"
proof (induction s)
  case (Cons c s)
  have c: "c \<noteq> CHR ''$'' \<and> no_dollar s" if "no_dollar (c # s)" using that by (auto simp: no_dollar_def)
  case 1
  with Cons c show ?case by (subst expand_optional.simps) (simp add: regex_at_dollar)
  case 2
  with Cons c show ?case by (subst expand_required.simps) (simp add: regex_at_dollar)
qed simp_all

lemma expand_nil: "expand_optional g [] = []" "expand_required g [] = ([], [])"
  by (simp_all add: expand_optional.simps expand_required.simps optionalEnvRegex_def requiredEnvRegex_def HasPrefix_def)

text \<open>The first pass leaves the required variables as they are written.\<close>

lemma expand_optional_segments:
  "list_all (segment_ok g) segs \<Longrightarrow>
   expand_optional g (concat (map print_segment segs)) =
   concat (map (\<lambda>s. case s of Opt n d \<Rightarrow> GetString g n d | _ \<Rightarrow> print_segment s) segs)"
proof (induction segs)
  case (Cons s segs)
  then have IH: "expand_optional g (concat (map print_segment segs)) =
      concat (map (\<lambda>s. case s of Opt n d \<Rightarrow> GetString g n d | _ \<Rightarrow> print_segment s) segs)" by simp
  show ?case
  proof (cases s)
    case (Lit x)
    with Cons.prems IH show ?thesis by (simp add: expand_text)
  next
    case (Req n)
    with Cons.prems have n: "is_name n" by simp
    have "no_dollar (''{'' @ n @ ''}'')" using is_name_no_dollar[OF n] by (simp add: no_dollar_def)
    note tail = expand_text(1)[OF this, of g "concat (map print_segment segs)"]
    show ?thesis
      using regex_segments(1)[OF n, of "concat (map print_segment segs)"] tail IH Req
      by (subst expand_optional.simps) simp
  next
    case (Opt n d)
    with Cons.prems regex_segments(3)[of n d "concat (map print_segment segs)"] IH show ?thesis
      by (subst expand_optional.simps) (simp add: GetString_def)
  qed
qed (simp add: expand_nil)

lemma expand_required_segments:
  "list_all (segment_ok g) segs \<Longrightarrow>
   fst (expand_required g (concat (map (\<lambda>s. case s of Opt n d \<Rightarrow> GetString g n d | _ \<Rightarrow> print_segment s) segs))) = missing_names g segs \<and>
   (missing_names g segs = [] \<longrightarrow>
     snd (expand_required g (concat (map (\<lambda>s. case s of Opt n d \<Rightarrow> GetString g n d | _ \<Rightarrow> print_segment s) segs))) =
       concat (map (segment_value g) segs))"
proof (induction segs)
  case (Cons s segs)
  let ?rest = "concat (map (\<lambda>s. case s of Opt n d \<Rightarrow> GetString g n d | _ \<Rightarrow> print_segment s) segs)"
  from Cons have IH: "fst (expand_required g ?rest) = missing_names g segs"
    "missing_names g segs = [] \<Longrightarrow> snd (expand_required g ?rest) = concat (map (segment_value g) segs)" by simp_all
  show ?case
  proof (cases s)
    case (Lit x)
    with Cons.prems IH show ?thesis by (simp add: expand_text missing_names_def)
  next
    case (Req n)
    with Cons.prems regex_segments(2)[of n ?rest] IH show ?thesis
      by (subst (1 2) expand_required.simps) (simp add: missing_names_def case_prod_unfold)
  next
    case (Opt n d)
    with Cons.prems have "no_dollar (GetString g n d)" by (simp add: GetString_def)
    from expand_text(2)[OF this, of g ?rest] IH Opt show ?thesis by (simp add: missing_names_def)
  qed
qed (simp add: expand_nil missing_names_def)

text \<open>
  Every variable of a configuration text is replaced by its value, an unset one by its
  default, and the rest of the text is left alone; the text is refused exactly when a variable
  without a default is not set, with the names of all of those. The texts are those in which
  a dollar sign begins a variable, and whose defaults and values that replace them have none.
\<close>

theorem expandEnvVars_exact:
  assumes "list_all (segment_ok getenv) segs"
  shows "expandEnvVars getenv (concat (map print_segment segs)) =
    (if missing_names getenv segs = [] then Inr (concat (map (segment_value getenv) segs))
     else Inl (Err (''missing required environment variables: '' @ Join (missing_names getenv segs) '', '')))"
  using expand_required_segments[OF assms]
  by (auto simp: expandEnvVars_def expand_optional_segments[OF assms] case_prod_unfold)

theorem expandEnvVars_exact_witness:
  "expandEnvVars (\<lambda>n. if n = ''URL'' then ''./db'' else []) ''type: ${TYPE:sqlite}, url: ${URL}.'' = Inr ''type: sqlite, url: ./db.'' \<and>
   expandEnvVars (\<lambda>n. []) ''${A:x}${B}'' = Inl (Err ''missing required environment variables: B'')"
  using expandEnvVars_exact[of "\<lambda>n. if n = ''URL'' then ''./db'' else []"
      "[Lit ''type: '', Opt ''TYPE'' ''sqlite'', Lit '', url: '', Req ''URL'', Lit ''.'']"]
    expandEnvVars_exact[of "\<lambda>n. []" "[Opt ''A'' ''x'', Req ''B'']"]
  by (simp add: is_name_def no_dollar_def word_char_def GetString_def missing_names_def)

section \<open>Addresses\<close>

lemma digit_chars: "digit_char 0 = CHR ''0''" "digit_char 3 = CHR ''3''" "digit_char 4 = CHR ''4''" "digit_char 7 = CHR ''7''" "digit_char 8 = CHR ''8''"
  by (simp_all add: digit_char_def char_of_def bit_0)

lemma SplitHostPort_join:
  assumes "set host \<inter> {CHR '':'', CHR ''['', CHR '']''} = {}" "set port \<inter> {CHR '':'', CHR ''['', CHR '']''} = {}"
  shows "SplitHostPort (host @ '':'' @ port) = Some (host, port)"
proof -
  have "\<not> HasPrefix (host @ '':'' @ port) ''[''" using assms by (cases host) (auto simp: HasPrefix_def)
  with assms show ?thesis by (auto simp: SplitHostPort_def CutLast_append)
qed

lemma Itoa_plain: "set (Itoa n) \<inter> {CHR '':'', CHR ''['', CHR '']'', CHR ''/''} = {}"
  using Itoa_no_char[of _ n] by (auto simp: digit_val_def)

lemma not_https_address: "CHR '':'' \<notin> set host \<Longrightarrow> \<not> HasPrefix (host @ '':'' @ Itoa p) (''http'' @ x @ ''://'')"
proof
  assume host: "CHR '':'' \<notin> set host" and "HasPrefix (host @ '':'' @ Itoa p) (''http'' @ x @ ''://'')"
  then obtain t where t: "host @ CHR '':'' # Itoa p = (''http'' @ x) @ CHR '':'' # CHR ''/'' # CHR ''/'' # t" by (auto simp: HasPrefix_iff)
  have no: "CHR '':'' \<notin> set (Itoa p)" "CHR ''/'' \<notin> set (Itoa p)" using Itoa_plain[of p] by auto
  from t have "CutLast (CHR '':'') (host @ CHR '':'' # Itoa p) = CutLast (CHR '':'') ((''http'' @ x) @ CHR '':'' # CHR ''/'' # CHR ''/'' # t)" by simp
  then have "CHR '':'' \<notin> set t \<Longrightarrow> Itoa p = CHR ''/'' # CHR ''/'' # t"
    using CutLast_append[OF no(1), of host] CutLast_append[of "CHR '':''" "CHR ''/'' # CHR ''/'' # t" "''http'' @ x"] by simp
  moreover have "CHR '':'' \<notin> set t"
  proof
    assume "CHR '':'' \<in> set t"
    then have "2 \<le> length (filter (\<lambda>c. c = CHR '':'') ((''http'' @ x) @ CHR '':'' # CHR ''/'' # CHR ''/'' # t))"
      by (induction t) auto
    moreover have "length (filter (\<lambda>c. c = CHR '':'') (host @ CHR '':'' # Itoa p)) = 1"
      using host no(1) by (auto simp: filter_empty_conv)
    ultimately show False using t by simp
  qed
  ultimately show False using no(2) by simp
qed

text \<open>
  The public address of the server survives: an address that is written as a scheme, a host
  and a port is read back as this scheme, host and port, and the port is left out of the URL
  exactly when it is the default one of the scheme.
\<close>

theorem public_addr_roundtrip:
  assumes host: "set host \<inter> {CHR '':'', CHR ''['', CHR '']''} = {}"
    and scheme: "scheme = ''http'' \<or> scheme = ''https''" and port: "port < 2 ^ 63"
  shows "validatePublicAddr (scheme @ ''://'' @ host @ '':'' @ Itoa port) =
    Some (\<lparr>urScheme = scheme, urHost = (if port = (if scheme = ''http'' then 80 else 443) then host else host @ '':'' @ Itoa port)\<rparr>,
          host, int port)"
proof -
  have split: "SplitHostPort (host @ CHR '':'' # Itoa port) = Some (host, Itoa port)"
    using SplitHostPort_join[OF host, of "Itoa port"] Itoa_plain[of port] by auto
  have "\<not> HasPrefix (host @ CHR '':'' # Itoa port) ''https://''" using not_https_address[of host port "''s''"] host by auto
  moreover have "\<not> HasPrefix (''https://'' @ s) ''http://''" "HasPrefix (''http://'' @ s) ''http://''"
    "HasPrefix (''https://'' @ s) ''https://''" for s by (simp_all add: HasPrefix_def)
  moreover have "TrimPrefix (''http://'' @ s) ''http://'' = s" "TrimPrefix (''https://'' @ s) ''https://'' = s" for s
    by (rule TrimPrefix_append)+
  ultimately show ?thesis
    using scheme Atoi_Itoa[OF port] split by (auto simp: validatePublicAddr_def Itoa_int_def)
qed

text \<open>
  The brackets of an IPv6 address are lost: the host of the URL that is built from it cannot be
  split into host and port again.
\<close>

lemma public_addr_ipv6_unusable:
  "\<exists>u. validatePublicAddr ''[::1]:8080'' = Some (u, ''::1'', 8080) \<and> urHost u = ''::1:8080'' \<and> SplitHostPort (urHost u) = None"
  by (simp add: validatePublicAddr_def SplitHostPort_def HasPrefix_def IndexByte_def Atoi_def digit_val_def Itoa_int_def Itoa.simps digit_chars)

section \<open>What a loaded configuration guarantees\<close>

lemma validatePublicAddr_scheme: "validatePublicAddr a = Some (u, h, p) \<Longrightarrow> urScheme u \<in> {''http'', ''https''}"
  by (auto simp: validatePublicAddr_def Let_def split: option.splits if_splits prod.splits)

lemma Validate_run:
  assumes "Validate e c = Inr c'"
  shows "taDefaultACLPolicy (cfTailnets c) = [] \<or> envParseACLPolicy e (taDefaultACLPolicy (cfTailnets c)) \<noteq> None"
    and "validateServiceTokens (atServiceTokens (cfAuth c)) = None"
    and "\<exists>u. cfPublicUrl c' = Some u \<and> validatePublicAddr (cfPublicAddr c) = Some (u, cfDerpHost c', cfDerpPort c')"
    and "\<not> drDisabled (deServer (cfDERP c)) \<Longrightarrow> \<exists>u. validatePublicAddr (cfStunPublicAddr c) = Some (u, cfStunHost c', cfStunPort c')"
    and "cfTailnets c' = cfTailnets c" "cfAuth c' = cfAuth c" "cfPublicAddr c' = cfPublicAddr c" "cfDERP c' = cfDERP c"
      "cfStunPublicAddr c' = cfStunPublicAddr c" "cfDNS c' = cfDNS c" "cfPollNet c' = cfPollNet c"
  using assms by (auto simp: Validate_def Let_def split: if_splits option.splits)

lemma LoadConfig_run:
  assumes "LoadConfig v path g = (Inr c, g')"
  obtains c0 where "Validate (cvEnv v) c0 = Inr c" "0 < taMachineKeyExpiry (cfTailnets c0)"
    "cgMachineKeyExpiry g' = taMachineKeyExpiry (cfTailnets c0)" "cgKeepAliveInterval g' = pnKeepAliveInterval (cfPollNet c0)"
    "cgMagicDNSSuffix g' = dnMagicDNSSuffix (cfDNS c0)"
  using assms
  by (auto simp: LoadConfig_def go_success Let_def defaultMachineKeyExpiry_def Hour_def Minute_def Second_def split: if_splits)

text \<open>
  C35. A configuration that loads is well-formed: it has a public URL with one of the two
  schemes, so that URLs can be built from it; machine keys expire after a positive time; the
  default policy parses; every service token has a name, a prefix and a long secret, and no two
  share a name or a secret; with the embedded relay there is an address for STUN. The package's
  variables are those of the configuration.
\<close>

theorem LoadConfig_wellformed:
  assumes run: "LoadConfig v path g = (Inr c, g')"
  shows "(\<exists>u. cfPublicUrl c = Some u \<and> urScheme u \<in> {''http'', ''https''} \<and>
           validatePublicAddr (cfPublicAddr c) = Some (u, cfDerpHost c, cfDerpPort c)) \<and>
    (\<forall>p. \<exists>s. CreateUrl c p = Inr s) \<and>
    0 < taMachineKeyExpiry (cfTailnets c) \<and>
    (taDefaultACLPolicy (cfTailnets c) \<noteq> [] \<longrightarrow> envParseACLPolicy (cvEnv v) (taDefaultACLPolicy (cfTailnets c)) \<noteq> None) \<and>
    (let tokens = atServiceTokens (cfAuth c) in distinct (map stName tokens) \<and> distinct (map stToken tokens) \<and>
      (\<forall>st \<in> set tokens. TrimSpace (stName st) \<noteq> [] \<and> HasPrefix (stToken st) ''svc_'' \<and> 36 \<le> length (stToken st))) \<and>
    (\<not> drDisabled (deServer (cfDERP c)) \<longrightarrow>
      (\<exists>u. validatePublicAddr (cfStunPublicAddr c) = Some (u, cfStunHost c, cfStunPort c))) \<and>
    cgMachineKeyExpiry g' = taMachineKeyExpiry (cfTailnets c) \<and> cgKeepAliveInterval g' = pnKeepAliveInterval (cfPollNet c) \<and>
    cgMagicDNSSuffix g' = dnMagicDNSSuffix (cfDNS c)"
proof -
  from run obtain c0 where c0: "Validate (cvEnv v) c0 = Inr c" "0 < taMachineKeyExpiry (cfTailnets c0)"
    "cgMachineKeyExpiry g' = taMachineKeyExpiry (cfTailnets c0)" "cgKeepAliveInterval g' = pnKeepAliveInterval (cfPollNet c0)"
    "cgMagicDNSSuffix g' = dnMagicDNSSuffix (cfDNS c0)" by (rule LoadConfig_run)
  note v = Validate_run[OF c0(1)]
  from v(3) obtain u where u: "cfPublicUrl c = Some u" "validatePublicAddr (cfPublicAddr c) = Some (u, cfDerpHost c, cfDerpPort c)"
    using v(7) by auto
  have "\<exists>s. CreateUrl c p = Inr s" for p using u(1) by (simp add: CreateUrl_def Let_def)
  moreover have "let tokens = atServiceTokens (cfAuth c) in distinct (map stName tokens) \<and> distinct (map stToken tokens) \<and>
      (\<forall>st \<in> set tokens. TrimSpace (stName st) \<noteq> [] \<and> HasPrefix (stToken st) ''svc_'' \<and> 36 \<le> length (stToken st))"
    using validate_service_tokens_ok[of "[]" "[]" "atServiceTokens (cfAuth c)"] v(2,6)
    by (simp add: validateServiceTokens_def ServiceTokenPrefix_def)
  ultimately show ?thesis
    using u validatePublicAddr_scheme[OF u(2)] v(1,4,5-11) c0(2-5) by auto
qed

definition sample_config_env :: config_env where
  "sample_config_env = \<lparr>cvEnv = sample_env, cvGetenv = (\<lambda>_. []), cvReadFile = (\<lambda>_. Inr ''public_addr''),
     cvBase64Decode = (\<lambda>_. None),
     cvUnmarshal = (\<lambda>_ c. Some (c\<lparr>cfPublicAddr := ''a:443'', cfStunPublicAddr := ''a:3478'',
       cfTailnets := (cfTailnets c)\<lparr>taMachineKeyExpiry := - 5\<rparr>\<rparr>)), cvAcmeCA = ''ca''\<rparr>"

lemma sample_addresses:
  "validatePublicAddr ''a:443'' = Some (\<lparr>urScheme = ''https'', urHost = ''a''\<rparr>, ''a'', 443)"
  "validatePublicAddr ''a:3478'' = Some (\<lparr>urScheme = ''https'', urHost = ''a:3478''\<rparr>, ''a'', 3478)"
  by (simp_all add: validatePublicAddr_def SplitHostPort_def HasPrefix_def IndexByte_def Atoi_def digit_val_def Itoa_int_def Itoa.simps digit_chars)

theorem LoadConfig_wellformed_witness:
  "\<exists>c g'. LoadConfig sample_config_env ''config.yaml'' initial_globals = (Inr c, g') \<and> cfDerpPort c = 443 \<and> 0 < cgMachineKeyExpiry g'"
proof -
  have "expandEnvVars (\<lambda>_. []) ''public_addr'' = Inr ''public_addr''"
    using expandEnvVars_exact[of "\<lambda>_. []" "[Lit ''public_addr'']"] by (simp add: no_dollar_def missing_names_def)
  then obtain c g' where run: "LoadConfig sample_config_env ''config.yaml'' initial_globals = (Inr c, g')" and "cfDerpPort c = 443"
    by (simp add: LoadConfig_def bindM_def seqM_def config_file_def config_base64_def merge_config_def sample_config_env_def
        defaultConfig_def Validate_def sample_addresses validateServiceTokens_def Let_def)
  moreover from LoadConfig_wellformed[OF run] have "0 < cgMachineKeyExpiry g'" by simp
  ultimately show ?thesis by blast
qed

theorem public_addr_roundtrip_witness:
  "validatePublicAddr ''http://a:8080'' = Some (\<lparr>urScheme = ''http'', urHost = ''a:8080''\<rparr>, ''a'', 8080)"
  using public_addr_roundtrip[of "''a''" "''http''" 8080] by (simp add: Itoa.simps digit_chars)

end
