(* ===== verification/ServerKeys.thy ===== *)
theory ServerKeys
  imports Configuration Integrity "HOL-Library.Countable"
begin

text \<open>
  The keys of the server: \<open>internal/key\<close>, \<open>internal/util/key.go\<close>, \<open>internal/domain/server_config.go\<close>, the
  creation of keys when the database is opened (\<open>internal/database/database.go\<close>),
  \<open>ReadServerKeys\<close> of the configuration, \<open>internal/handlers/key.go\<close> and the relay map that is put
  together at the start (\<open>internal/derp\<close>).

  The private keys of Tailscale and RSA, their text form and their JSON form are library code:
  strings and functions of \<open>keys_env\<close>. The migrations of the schema are not part of the model,
  so \<open>migrate\<close> starts with the tables in place.
\<close>

section \<open>The key that seals tokens\<close>

text \<open>\<open>hex.Decode\<close> and \<open>hex.EncodeToString\<close>.\<close>

fun hex_Decode :: "string \<Rightarrow> string option" where
  "hex_Decode [] = Some []"
| "hex_Decode [c] = None"
| "hex_Decode (a # b # s) =
     (case (hex_val a, hex_val b, hex_Decode s) of
        (Some x, Some y, Some t) \<Rightarrow> Some (char_of (16 * x + y) # t)
      | _ \<Rightarrow> None)"

definition EncodeToString :: "string \<Rightarrow> string" where
  "EncodeToString s = concat (map (\<lambda>c. [hex_char (of_char c div 16), hex_char (of_char c mod 16)]) s)"

record ServerPrivate =
  spK :: string

definition parseHex :: "nat \<Rightarrow> string \<Rightarrow> error + string" where
  "parseHex n v =
     (if length v \<noteq> n * 2 then Inl (Err ''key hex has the wrong size'')
      else case hex_Decode v of None \<Rightarrow> Inl (Err ''encoding/hex: invalid byte'') | Some k \<Rightarrow> Inr k)"

definition ParsePrivateKey :: "string \<Rightarrow> error + ServerPrivate" where
  "ParsePrivateKey key = (case parseHex 32 key of Inl err \<Rightarrow> Inl err | Inr k \<Rightarrow> Inr \<lparr>spK = k\<rparr>)"

definition ServerPrivate_String :: "ServerPrivate \<Rightarrow> string" where
  "ServerPrivate_String k = EncodeToString (spK k)"

section \<open>Keys in the database\<close>

record ControlKeys =
  ckControlKey :: string
  ckLegacyControlKey :: string

record JSONWebKey =
  jkId :: string
  jkPrivateKey :: string
  jkCreatedAt :: instant

record keys_env =
  kvMarshalControlKeys :: "ControlKeys \<Rightarrow> string"
  kvUnmarshalControlKeys :: "string \<Rightarrow> ControlKeys option"
  kvMarshalJSONWebKey :: "JSONWebKey \<Rightarrow> string"
  kvUnmarshalJSONWebKey :: "string \<Rightarrow> JSONWebKey option"
  kvNewMachine :: "string \<Rightarrow> string"
  kvGenerateKey :: "string \<Rightarrow> error + string"
  kvUnmarshalMachinePrivate :: "string \<Rightarrow> string option"

definition controlKeysConfigKey :: string where "controlKeysConfigKey = ''control_keys''"

definition jwksConfigKey :: string where "jwksConfigKey = ''jwks''"

definition getServerConfig :: "string \<Rightarrow> (string \<Rightarrow> 'v option) \<Rightarrow> 'v option m" where
  "getServerConfig key unmarshal =
     bindM (db_query (\<lambda>d. find (\<lambda>c. scKey c = key) (dbServerConfigs d))) (\<lambda>row.
     case row of
       None \<Rightarrow> returnM None
     | Some c \<Rightarrow> (case unmarshal (scValue c) of None \<Rightarrow> throwM (Err ''json'') | Some v \<Rightarrow> returnM (Some v)))"

definition setServerConfig :: "string \<Rightarrow> ('v \<Rightarrow> string) \<Rightarrow> 'v \<Rightarrow> unit m" where
  "setServerConfig key marshal v =
     db_exec (\<lambda>d. d\<lparr>dbServerConfigs := save_row scKey \<lparr>scKey = key, scValue = marshal v\<rparr> (dbServerConfigs d)\<rparr>)"

definition GetControlKeys :: "keys_env \<Rightarrow> ControlKeys option m" where
  "GetControlKeys v = getServerConfig controlKeysConfigKey (kvUnmarshalControlKeys v)"

definition SetControlKeys :: "keys_env \<Rightarrow> ControlKeys \<Rightarrow> unit m" where
  "SetControlKeys v k = setServerConfig controlKeysConfigKey (kvMarshalControlKeys v) k"

definition GetJSONWebKeySet :: "keys_env \<Rightarrow> JSONWebKey option m" where
  "GetJSONWebKeySet v = getServerConfig jwksConfigKey (kvUnmarshalJSONWebKey v)"

definition SetJSONWebKeySet :: "keys_env \<Rightarrow> JSONWebKey \<Rightarrow> unit m" where
  "SetJSONWebKeySet v k = setServerConfig jwksConfigKey (kvMarshalJSONWebKey v) k"

section \<open>The first start and the later ones\<close>

definition createServerKey :: "keys_env \<Rightarrow> unit m" where
  "createServerKey v =
     bindM (GetControlKeys v) (\<lambda>serverKey.
     case serverKey of
       Some _ \<Rightarrow> returnM ()
     | None \<Rightarrow>
         bindM (RandomBytes 32) (\<lambda>a.
         bindM (RandomBytes 32) (\<lambda>b.
         SetControlKeys v \<lparr>ckControlKey = kvNewMachine v a, ckLegacyControlKey = kvNewMachine v b\<rparr>)))"

definition NewPrivateKey :: "keys_env \<Rightarrow> (string \<times> string) m" where
  "NewPrivateKey v =
     bindM (RandStringBytes 22) (\<lambda>id.
     bindM (RandomBytes 32) (\<lambda>seed.
     bindM (liftE (kvGenerateKey v seed)) (\<lambda>privateKey. returnM (privateKey, id))))"

definition createJSONWebKeySet :: "keys_env \<Rightarrow> unit m" where
  "createJSONWebKeySet v =
     bindM (GetJSONWebKeySet v) (\<lambda>jwks.
     case jwks of
       Some _ \<Rightarrow> returnM ()
     | None \<Rightarrow>
         bindM (NewPrivateKey v) (\<lambda>(privateKey, id).
         SetJSONWebKeySet v \<lparr>jkId = id, jkPrivateKey = privateKey, jkCreatedAt = 0\<rparr>))"

definition migrate :: "keys_env \<Rightarrow> unit m" where
  "migrate v = seqM (createServerKey v) (createJSONWebKeySet v)"

section \<open>Keys of the configuration\<close>

record ServerKeys =
  svkSystemAdminKey :: "ServerPrivate option"
  svkControlKey :: string
  svkLegacyControlKey :: string

definition ParseMachinePrivateKey :: "keys_env \<Rightarrow> string \<Rightarrow> string option" where
  "ParseMachinePrivateKey v machineKey =
     kvUnmarshalMachinePrivate v (if HasPrefix machineKey ''privkey:'' then machineKey else ''privkey:'' @ machineKey)"

definition ReadServerKeys :: "keys_env \<Rightarrow> Config \<Rightarrow> ControlKeys option \<Rightarrow> error + ServerKeys" where
  "ReadServerKeys v c defaultKeys =
     (case defaultKeys of
        None \<Rightarrow> Inl NilDeref
      | Some d \<Rightarrow>
          (let keys = \<lparr>svkSystemAdminKey = None, svkControlKey = ckControlKey d, svkLegacyControlKey = ckLegacyControlKey d\<rparr>;
               k = cfKeys c in
           case (if kySystemAdminKey k \<noteq> [] then (case ParsePrivateKey (kySystemAdminKey k) of Inl e \<Rightarrow> None | Inr x \<Rightarrow> Some (Some x)) else Some None) of
             None \<Rightarrow> Inl (Err ''error reading system admin key'')
           | Some admin \<Rightarrow>
               (case (if kyControlKey k \<noteq> [] then ParseMachinePrivateKey v (kyControlKey k) else Some (svkControlKey keys)) of
                  None \<Rightarrow> Inl (Err ''error reading control key'')
                | Some control \<Rightarrow>
                    (case (if kyLegacyControlKey k \<noteq> [] then ParseMachinePrivateKey v (kyLegacyControlKey k) else Some (svkLegacyControlKey keys)) of
                       None \<Rightarrow> Inl (Err ''error reading legacy control key'')
                     | Some legacy \<Rightarrow> Inr \<lparr>svkSystemAdminKey = admin, svkControlKey = control, svkLegacyControlKey = legacy\<rparr>))))"

text \<open>The public keys that \<open>/key\<close> hands out; \<open>publicOf\<close> is the library's.\<close>

datatype key_response = PublicKeys string string | LegacyKey string

definition NoiseCapabilityVersion :: int where "NoiseCapabilityVersion = 28"

definition KeyHandler :: "(string \<Rightarrow> string) \<Rightarrow> ServerKeys \<Rightarrow> string \<Rightarrow> error + key_response" where
  "KeyHandler publicOf keys v =
     (if v \<noteq> [] then
        (case Atoi v of
           None \<Rightarrow> Inl (HTTPError 400 ''Invalid version'')
         | Some clientCapabilityVersion \<Rightarrow>
             if NoiseCapabilityVersion \<le> clientCapabilityVersion
             then Inr (PublicKeys (publicOf (svkLegacyControlKey keys)) (publicOf (svkControlKey keys)))
             else Inr (LegacyKey (publicOf (svkLegacyControlKey keys))))
      else Inr (LegacyKey (publicOf (svkLegacyControlKey keys))))"

section \<open>The relay map at the start\<close>

definition load_source ::
    "(string \<Rightarrow> error + (int \<rightharpoonup> DERPRegion)) \<Rightarrow> string \<Rightarrow> (int \<rightharpoonup> DERPRegion) \<times> error list \<Rightarrow> (int \<rightharpoonup> DERPRegion) \<times> error list" where
  "load_source loadDERPSource src = (\<lambda>(derpMap, merr).
     case loadDERPSource src of Inl err \<Rightarrow> (derpMap, merr @ [err]) | Inr dm \<Rightarrow> (derpMap ++ dm, merr))"

definition LoadDERPSources :: "(string \<Rightarrow> error + (int \<rightharpoonup> DERPRegion)) \<Rightarrow> Config \<Rightarrow> (int \<rightharpoonup> DERPRegion) \<times> error list" where
  "LoadDERPSources loadDERPSource c =
     (case fold (load_source loadDERPSource) (deSources (cfDERP c)) (Map.empty, []) of
        (derpMap, merr) \<Rightarrow>
          (if \<not> drDisabled (deServer (cfDERP c)) then derpMap ++ DefaultDERPMap c else derpMap, merr))"

section \<open>Text form of a key\<close>

lemma hex_byte: "of_char (c :: char) div 16 < (16 :: nat)" "of_char c mod 16 < (16 :: nat)" "16 * (of_char c div 16) + of_char c mod 16 = (of_char c :: nat)"
proof -
  show "of_char c div 16 < (16 :: nat)" using nat_of_char_less_256[of c] by (simp only: less_mult_imp_div_less)
qed simp_all

lemma hex_Decode_Encode: "hex_Decode (EncodeToString s) = Some s"
  by (induction s) (simp_all add: EncodeToString_def hex_byte)

lemma hex_Decode_length: "hex_Decode s = Some k \<Longrightarrow> length s = 2 * length k"
  by (induction s arbitrary: k rule: hex_Decode.induct) (auto split: option.splits)

lemma length_EncodeToString: "length (EncodeToString s) = 2 * length s"
  by (induction s) (simp_all add: EncodeToString_def)

text \<open>
  A key is read back from its text, and a text is read as a key exactly when it is that of 32 bytes.
\<close>

lemma server_key_roundtrip:
  "length (spK k) = 32 \<Longrightarrow> ParsePrivateKey (ServerPrivate_String k) = Inr k"
  "ParsePrivateKey s = Inr k \<Longrightarrow> length (spK k) = 32"
  by (auto simp: ParsePrivateKey_def parseHex_def ServerPrivate_String_def length_EncodeToString hex_Decode_Encode
      dest!: hex_Decode_length split: sum.splits option.splits if_splits)

section \<open>Keys survive a restart\<close>

definition stored :: "string \<Rightarrow> db \<Rightarrow> ServerConfig option" where
  "stored key d = find (\<lambda>c. scKey c = key) (dbServerConfigs d)"

definition configs_kept :: "db \<Rightarrow> db \<Rightarrow> bool" where
  "configs_kept d d' \<longleftrightarrow> (\<forall>k c. stored k d = Some c \<longrightarrow> stored k d' = Some c) \<and>
     d\<lparr>dbServerConfigs := []\<rparr> = d'\<lparr>dbServerConfigs := []\<rparr>"

lemma configs_kept_refl: "configs_kept d d"
  by (simp add: configs_kept_def)

lemma configs_kept_trans: "configs_kept d e \<Longrightarrow> configs_kept e f \<Longrightarrow> configs_kept d f"
  by (simp add: configs_kept_def)

text \<open>Both kinds of key are made in the same way: looked up, and drawn and stored when there is none.\<close>

definition create_once :: "string \<Rightarrow> (string \<Rightarrow> 'v option) \<Rightarrow> ('v \<Rightarrow> string) \<Rightarrow> 'v m \<Rightarrow> unit m" where
  "create_once key unmarshal marshal gen =
     bindM (getServerConfig key unmarshal) (\<lambda>x. case x of Some _ \<Rightarrow> returnM () | None \<Rightarrow> bindM gen (setServerConfig key marshal))"

lemma create_once_keys:
  "createServerKey v = create_once controlKeysConfigKey (kvUnmarshalControlKeys v) (kvMarshalControlKeys v)
     (bindM (RandomBytes 32) (\<lambda>a. bindM (RandomBytes 32) (\<lambda>b.
        returnM \<lparr>ckControlKey = kvNewMachine v a, ckLegacyControlKey = kvNewMachine v b\<rparr>)))"
  "createJSONWebKeySet v = create_once jwksConfigKey (kvUnmarshalJSONWebKey v) (kvMarshalJSONWebKey v)
     (bindM (NewPrivateKey v) (\<lambda>(privateKey, id). returnM \<lparr>jkId = id, jkPrivateKey = privateKey, jkCreatedAt = 0\<rparr>))"
  by (auto simp: createServerKey_def createJSONWebKeySet_def create_once_def GetControlKeys_def GetJSONWebKeySet_def
      SetControlKeys_def SetJSONWebKeySet_def bindM_def fun_eq_iff split: prod.splits sum.splits option.splits intro!: arg_cong2[of _ _ _ _ bindM])

lemma create_once_run:
  assumes gen: "within quiet gen" and run: "create_once key unmarshal marshal gen w = (r, w')"
  shows "configs_kept (wDB w) (wDB w')"
    and "r = Inr () \<Longrightarrow> (\<And>v. unmarshal (marshal v) = Some v) \<Longrightarrow>
      \<exists>c v. stored key (wDB w') = Some c \<and> unmarshal (scValue c) = Some v"
proof -
  obtain x w1 where x: "getServerConfig key unmarshal w = (x, w1)" by fastforce
  have same: "wDB w1 = wDB w" using x
    by (auto simp: getServerConfig_def bindM_def dest: quietD(1)[OF quiet_db_query] split: prod.splits sum.splits option.splits)
  have found: "case y of None \<Rightarrow> stored key (wDB w) = None | Some z \<Rightarrow> \<exists>c. stored key (wDB w) = Some c \<and> unmarshal (scValue c) = Some z"
    if y: "x = Inr y" for y
  proof -
    from x y obtain row w0 where q: "db_query (\<lambda>d. find (\<lambda>c. scKey c = key) (dbServerConfigs d)) w = (Inr row, w0)"
      and rest: "(case row of None \<Rightarrow> returnM None
         | Some c \<Rightarrow> (case unmarshal (scValue c) of None \<Rightarrow> throwM (Err ''json'') | Some v \<Rightarrow> returnM (Some v))) w0 = (Inr y, w1)"
      by (auto simp: getServerConfig_def bindM_result_split)
    from db_query_run(1)[OF q] rest show ?thesis by (cases row; cases y) (auto simp: stored_def split: option.splits)
  qed
  have stop: "wDB w' = wDB w" if "x \<noteq> Inr None"
    using run x that same by (auto simp: create_once_def bindM_def split: sum.splits option.splits)
  have tail: "configs_kept (wDB w) (wDB w') \<and> (r = Inr () \<longrightarrow> (\<exists>v. stored key (wDB w') = Some \<lparr>scKey = key, scValue = marshal v\<rparr>))"
    if n: "x = Inr None"
  proof -
    obtain g w2 where g: "gen w1 = (g, w2)" by fastforce
    have w2: "wDB w2 = wDB w" using quietD(1)[OF gen g] same by simp
    show ?thesis
    proof (cases g)
      case (Inl e)
      with run x n g w2 show ?thesis by (auto simp: create_once_def bindM_def configs_kept_refl)
    next
      case (Inr v)
      with run x n g have set: "setServerConfig key marshal v w2 = (r, w')" by (simp add: create_once_def bindM_def)
      have "stored k (d\<lparr>dbServerConfigs := save_row scKey \<lparr>scKey = key, scValue = s\<rparr> (dbServerConfigs d)\<rparr>) =
          (if k = key then Some \<lparr>scKey = key, scValue = s\<rparr> else stored k d)" for k d s
        using find_save_row[of scKey k "\<lparr>scKey = key, scValue = s\<rparr>"] by (simp add: stored_def eq_commute)
      with found[OF n] w2 set show ?thesis
        by (auto simp: setServerConfig_def db_exec_def db_stmt_def configs_kept_def split: list.splits bool.splits)
    qed
  qed
  show "configs_kept (wDB w) (wDB w')" using tail stop by (cases "x = Inr None") (auto simp: configs_kept_refl)
  assume r: "r = Inr ()" and inv: "\<And>v. unmarshal (marshal v) = Some v"
  show "\<exists>c v. stored key (wDB w') = Some c \<and> unmarshal (scValue c) = Some v"
  proof (cases "x = Inr None")
    case True
    with tail r inv show ?thesis by fastforce
  next
    case False
    with run x r obtain y where "x = Inr (Some y)" by (cases x) (auto simp: create_once_def bindM_def split: option.splits)
    with found[of "Some y"] stop False show ?thesis by auto
  qed
qed

lemma quiet_RandomBytes: "within quiet (RandomBytes n)"
  unfolding RandomBytes_def by (intro quiet_intros quiet.within_mapM)

lemma quiet_key_generation:
  "within quiet (bindM (RandomBytes 32) (\<lambda>a. bindM (RandomBytes 32) (\<lambda>b. returnM (f a b))))"
  "within quiet (bindM (NewPrivateKey v) (\<lambda>(privateKey, id). returnM (g privateKey id)))"
  unfolding NewPrivateKey_def by (intro quiet_intros quiet_RandomBytes)+

lemma getServerConfig_stored:
  "wFaults w = [] \<Longrightarrow> stored key (wDB w) = Some c \<Longrightarrow> unmarshal (scValue c) = Some v \<Longrightarrow>
   getServerConfig key unmarshal w = (Inr (Some v), w)"
  by (simp add: getServerConfig_def bindM_def db_query_ok stored_def)


section \<open>The relay map\<close>

text \<open>
  With the embedded relay enabled, its region is in the map that is served, whatever the
  sources say and however many of them fail: one node relays at the public address, one answers STUN.
\<close>

lemma embedded_relay_served:
  assumes "\<not> drDisabled (deServer (cfDERP c))"
  shows "\<exists>region. fst (LoadDERPSources load c) (drRegionID (deServer (cfDERP c))) = Some region \<and>
    [(dnoHostName n, dnoDERPPort n). n \<leftarrow> dreNodes region, \<not> dnoSTUNOnly n] = [(cfDerpHost c, cfDerpPort c)] \<and>
    (cfStunPort c \<noteq> - 1 \<longrightarrow> [(dnoHostName n, dnoSTUNPort n). n \<leftarrow> dreNodes region, dnoSTUNPort n \<noteq> - 1] = [(cfStunHost c, cfStunPort c)])"
  using assms by (auto simp: LoadDERPSources_def DefaultDERPMap_def Let_def case_prod_unfold)

section \<open>Examples\<close>

text \<open>A codec for the keys: a string of the right length stands for one.\<close>

lemma sample_control_codec: "\<exists>(enc :: ControlKeys \<Rightarrow> string) dec. \<forall>k. dec (enc k) = Some k"
proof (intro exI allI)
  show "(\<lambda>x. Some (case from_nat (length x) of (a, b) \<Rightarrow> \<lparr>ckControlKey = a, ckLegacyControlKey = b\<rparr>))
      (replicate (to_nat (ckControlKey k, ckLegacyControlKey k)) (CHR ''x'')) = Some k" for k by simp
qed

lemma sample_jwk_codec: "\<exists>(enc :: JSONWebKey \<Rightarrow> string) dec. \<forall>k. dec (enc k) = Some k"
proof (intro exI allI)
  show "(\<lambda>x. Some (case from_nat (length x) of (a, b, c) \<Rightarrow> \<lparr>jkId = a, jkPrivateKey = b, jkCreatedAt = c\<rparr>))
      (replicate (to_nat (jkId k, jkPrivateKey k, jkCreatedAt k)) (CHR ''x'')) = Some k" for k by simp
qed

lemma create_once_succeeds:
  assumes "wFaults w = []" and "stored key (wDB w) = None" and "gen w = (Inr x, w1)" "wFaults w1 = []"
  shows "\<exists>w'. create_once key unmarshal marshal gen w = (Inr (), w') \<and> wFaults w' = [] \<and>
    (\<forall>k. k \<noteq> key \<longrightarrow> stored k (wDB w') = stored k (wDB w1))"
  using assms find_save_row[of scKey _ "\<lparr>scKey = key, scValue = marshal x\<rparr>"]
  by (simp add: create_once_def getServerConfig_def bindM_def db_query_ok stored_def setServerConfig_def db_exec_ok)


end
