(* ===== verification/NodeServices.thy ===== *)
theory NodeServices
  imports ServerKeys Registration
begin

text \<open>
  The smaller endpoints that a machine reaches over its Noise connection:
  \<open>internal/handlers/id_token.go\<close> (ID tokens of a machine and the key to verify them),
  \<open>internal/handlers/dns.go\<close> with \<open>internal/dns/provider.go\<close> (records of the configured zone),
  \<open>internal/handlers/query_feature.go\<close> and \<open>internal/handlers/update_health.go\<close>.

  The JWT library is the parameter \<open>sign\<close>, the DNS libraries are the provider's
  \<open>dpSetRecords\<close>, \<open>dpRelativeName\<close> and \<open>dpUnmarshal\<close>, \<open>net.LookupTXT\<close> is in the events of the wait. Times in a
  token are instants: the library cuts them to seconds.
\<close>

section \<open>ID tokens\<close>

record TokenRequest =
  tqCapVersion :: int
  tqNodeKey :: string
  tqAudience :: string

record token_claims =
  tcJit :: string
  tcIss :: string
  tcSub :: string
  tcAud :: "string list"
  tcExp :: instant
  tcNbf :: instant
  tcIat :: instant
  tcKey :: string
  tcAddresses :: "string list"
  tcNid :: uint64
  tcNode :: string
  tcDomain :: string
  tcTags :: "string list option"
  tcUser :: "string option"
  tcUid :: "uint64 option"

definition id_token_names :: "env \<Rightarrow> Machine \<Rightarrow> string \<times> string \<times> string" where
  "id_token_names e m =
     (let name = (if mNameIdx m \<noteq> 0 then mName m @ ''-'' @ Itoa (unat (mNameIdx m)) else mName m);
          sanitizedTailnetName = SanitizeTailnetName e (tName (mTailnet m))
      in (name, sanitizedTailnetName, name @ ''.'' @ sanitizedTailnetName))"

definition machine_claims :: "env \<Rightarrow> string \<Rightarrow> TokenRequest \<Rightarrow> Machine \<Rightarrow> instant \<Rightarrow> uint64 \<Rightarrow> token_claims" where
  "machine_claims e issuer req m now nid =
     (case id_token_names e m of
        (_, tailnetDomain, sub) \<Rightarrow>
          \<lparr>tcJit = Itoa (unat nid), tcIss = issuer, tcSub = sub, tcAud = [tqAudience req],
           tcExp = now + 5 * Minute, tcNbf = now, tcIat = now,
           tcKey = mNodeKey m, tcAddresses = [Addr_String (mIPv4 m), Addr_String (mIPv6 m)],
           tcNid = mID m, tcNode = sub, tcDomain = tailnetDomain,
           tcTags = (if HasTags m then Some (map (\<lambda>t. tailnetDomain @ '':'' @ t) (mTags m)) else None),
           tcUser = (if HasTags m then None else Some (tailnetDomain @ '':'' @ uName (mUser m))),
           tcUid = (if HasTags m then None else Some (mUserID m))\<rparr>)"

definition FetchToken ::
    "env \<Rightarrow> keys_env \<Rightarrow> (string \<Rightarrow> string \<Rightarrow> token_claims \<Rightarrow> error + string) \<Rightarrow> string \<Rightarrow> string \<Rightarrow> TokenRequest \<Rightarrow> string m" where
  "FetchToken e kv sign issuer machineKey req =
     (if tqCapVersion req < SupportedCapabilityVersion then throwM (HTTPError 400 UnsupportedClientVersionMessage)
      else
        bindM (GetJSONWebKeySet kv) (\<lambda>keySet.
        bindM (GetMachineByKeys machineKey (tqNodeKey req)) (\<lambda>mopt.
        case mopt of
          None \<Rightarrow> throwM (HTTPError 400 [])
        | Some m \<Rightarrow>
            bindM time_Now (\<lambda>now.
            bindM NextID (\<lambda>id.
            case keySet of
              None \<Rightarrow> throwM NilDeref
            | Some k \<Rightarrow> liftE (sign (jkPrivateKey k) (jkId k) (machine_claims e issuer req m now id)))))))"

record OpenIDConfig =
  oiIssuer :: string
  oiJwksUri :: string
  oiSubjectTypes :: "string list"
  oiResponseTypes :: "string list"
  oiScopes :: "string list"
  oiSigningAlgs :: "string list"
  oiClaims :: "string list"

definition openid_config :: "string \<Rightarrow> string \<Rightarrow> OpenIDConfig" where
  "openid_config issuer jwksUri =
     \<lparr>oiIssuer = issuer, oiJwksUri = jwksUri, oiSubjectTypes = [''public''], oiResponseTypes = [''id_token''],
      oiScopes = [''openid''], oiSigningAlgs = [''RS256''], oiClaims = [''sub'', ''aud'', ''exp'', ''iat'', ''iss'', ''jti'', ''nbf'']\<rparr>"

definition Jwks :: "keys_env \<Rightarrow> (string \<Rightarrow> string) \<Rightarrow> (string \<times> string) list m" where
  "Jwks kv publicOf =
     bindM (GetJSONWebKeySet kv) (\<lambda>keySet.
     case keySet of None \<Rightarrow> throwM NilDeref | Some k \<Rightarrow> returnM [(jkId k, publicOf (jkPrivateKey k))])"

section \<open>Features and health\<close>

record QueryFeatureResponse =
  qfText :: string
  qfComplete :: bool

definition serve_message :: "string \<Rightarrow> string" where
  "serve_message tailnet =
     ''Enabling HTTPS is required to use Serve:'' @ [char_of (10::nat), char_of (10::nat)] @
     ''  ionscale tailnets set-dns --tailnet '' @ tailnet @ '' --https-certs=true --magic-dns'' @ [char_of (10::nat)]"

definition QueryFeature :: "bool \<Rightarrow> string \<Rightarrow> string \<Rightarrow> string \<Rightarrow> QueryFeatureResponse m" where
  "QueryFeature dnsProvider machineKey nodeKey feature =
     (if feature = ''serve'' then
        bindM (GetMachineByKeys machineKey nodeKey) (\<lambda>mopt.
        case mopt of
          None \<Rightarrow> throwM (HTTPError 400 [])
        | Some machine \<Rightarrow>
            if \<not> dnsProvider \<or> \<not> dcHttpsCertsEnabled (tDNSConfig (mTailnet machine))
            then returnM \<lparr>qfText = serve_message (tName (mTailnet machine)), qfComplete = False\<rparr>
            else returnM \<lparr>qfText = [], qfComplete = True\<rparr>)
      else if feature = ''funnel'' then
        returnM \<lparr>qfText = ''Sorry, ionscale has no support for feature '' @ [CHR 0x27] @ feature @ [CHR 0x27, char_of (10::nat)], qfComplete = False\<rparr>
      else
        returnM \<lparr>qfText = ''Unknown feature request '' @ [CHR 0x27] @ feature @ [CHR 0x27, char_of (10::nat)], qfComplete = False\<rparr>)"

definition UpdateHealth :: "string \<Rightarrow> string \<Rightarrow> unit m" where
  "UpdateHealth machineKey nodeKey =
     bindM (GetMachineByKeys machineKey nodeKey) (\<lambda>mopt.
     case mopt of None \<Rightarrow> throwM (HTTPError 400 []) | Some _ \<Rightarrow> returnM ())"

section \<open>The DNS provider\<close>

datatype dns_provider = External string string | Plugin string string

record 'z dns_env =
  dpFactories :: "string list"
  dpUnmarshal :: "string \<Rightarrow> string \<Rightarrow> bool"
  dpPluginStarts :: "string \<Rightarrow> error option"
  dpRelativeName :: "string \<Rightarrow> string \<Rightarrow> string"
  dpSetRecords :: "dns_provider \<Rightarrow> string \<Rightarrow> string \<times> string \<times> string \<times> duration \<Rightarrow> ('z, unit) go"

definition fqdn :: "string \<Rightarrow> string" where
  "fqdn v = (if HasSuffix v ''.'' then v else v @ ''.'')"

definition NewProvider :: "'z dns_env \<Rightarrow> DNS \<Rightarrow> error + dns_provider option" where
  "NewProvider v config =
     (let p = dnProvider config in
      if length (dvZone p) = 0 then Inr None
      else if dvName p = [] \<and> dvPluginPath p = []
        then Inl (Err ''invalid dns provider configuration, either name or plugin_path should be set'')
      else if dvName p \<noteq> [] \<and> dvPluginPath p \<noteq> []
        then Inl (Err ''invalid dns provider configuration, only one of name or plugin_path should be set'')
      else if \<not> HasSuffix (dnMagicDNSSuffix config) (dvZone p) then Inl (Err ''invalid MagicDNS suffix'')
      else if dvName p \<in> set (dpFactories v) then
        (if dpUnmarshal v (dvName p) (dvConfiguration p) then Inr (Some (External (dvName p) (fqdn (dvZone p)))) else Inl (Err ''json''))
      else
        (case dpPluginStarts v (dvPluginPath p) of
           Some err \<Rightarrow> Inl err
         | None \<Rightarrow> Inr (Some (Plugin (dvPluginPath p) (fqdn (dvZone p))))))"

primrec provider_zone :: "dns_provider \<Rightarrow> string" where
  "provider_zone (External n z) = z"
| "provider_zone (Plugin p z) = z"

definition SetRecord :: "'z dns_env \<Rightarrow> dns_provider \<Rightarrow> string \<Rightarrow> string \<Rightarrow> string \<Rightarrow> ('z, unit) go" where
  "SetRecord v p recordType recordName val =
     seqM (case p of
             External _ _ \<Rightarrow> returnM ()
           | Plugin path _ \<Rightarrow> (case dpPluginStarts v path of Some err \<Rightarrow> throwM err | None \<Rightarrow> returnM ()))
       (dpSetRecords v p (provider_zone p) (recordType, dpRelativeName v recordName (provider_zone p), val, Minute))"

record SetDNSRequest =
  sdVersion :: int
  sdName :: string
  sdType :: string
  sdValue :: string

datatype dns_event = DnsTick "string list" | DnsTimeout | DnsClosed

text \<open>The wait for a challenge: it answers (\<open>True\<close>), or gives up without an answer.\<close>

primrec wait_for_record :: "string \<Rightarrow> dns_event list \<Rightarrow> bool" where
  "wait_for_record val [] = False"
| "wait_for_record val (ev # evs) =
     (case ev of
        DnsTick txtrecords \<Rightarrow> if val \<in> set txtrecords then True else wait_for_record val evs
      | DnsTimeout \<Rightarrow> True
      | DnsClosed \<Rightarrow> False)"

definition SetDNS :: "'z dns_env \<Rightarrow> dns_provider option \<Rightarrow> SetDNSRequest \<Rightarrow> dns_event list \<Rightarrow> ('z, bool) go" where
  "SetDNS v provider req evs =
     (if sdVersion req < SupportedCapabilityVersion then throwM (HTTPError 400 UnsupportedClientVersionMessage)
      else
        case provider of
          None \<Rightarrow> throwM (HTTPError 404 [])
        | Some p \<Rightarrow>
            seqM (SetRecord v p (sdType req) (sdName req) (sdValue req)) (
            if HasPrefix (sdName req) ''_acme-challenge'' \<and> sdType req = ''TXT''
            then returnM (wait_for_record (sdValue req) evs) else returnM True))"

section \<open>What a token says\<close>

lemma quiet_GetJSONWebKeySet: "within quiet (GetJSONWebKeySet kv)"
  unfolding GetJSONWebKeySet_def getServerConfig_def by (intro quiet_intros)

text \<open>
  C37. A token speaks for the machine that asked and for no other: it is signed with the stored
  key only for a machine of the tables that has both keys of the connection; it names that
  machine's id, key, tailnet and either its tags or its user, is meant for the audience of the
  request, and is valid for five minutes from now. Fetching one changes no table.
\<close>

theorem FetchToken_honest:
  assumes run: "FetchToken e kv sign issuer machineKey req w = (Inr token, w')"
  shows "\<exists>m k c. m \<in> set (dbMachines (wDB w)) \<and> mMachineKey m = machineKey \<and> mNodeKey m = tqNodeKey req \<and>
    sign (jkPrivateKey k) (jkId k) c = Inr token \<and> (\<exists>w1. GetJSONWebKeySet kv w = (Inr (Some k), w1)) \<and>
    tcNid c = mID m \<and> tcKey c = mNodeKey m \<and> tcIss c = issuer \<and> tcAud c = [tqAudience req] \<and>
    tcNbf c = wNow w \<and> tcExp c = wNow w + 5 * Minute \<and>
    tcDomain c = SanitizeTailnetName e (tName (tailnet_of (wDB w) (mTailnetID m))) \<and>
    (case tcTags c of
       None \<Rightarrow> mTags m = [] \<and> tcUid c = Some (mUserID m) \<and> tcUser c = Some (tcDomain c @ '':'' @ uName (user_of (wDB w) (mUserID m)))
     | Some ts \<Rightarrow> ts = map (\<lambda>t. tcDomain c @ '':'' @ t) (mTags m) \<and> mTags m \<noteq> [] \<and> tcUid c = None \<and> tcUser c = None) \<and>
    wDB w' = wDB w"
proof -
  have "within quiet (FetchToken e kv sign issuer machineKey req)"
    unfolding FetchToken_def by (intro quiet_intros quiet_GetJSONWebKeySet quiet_machine_reads)
  note same = quietD(1)[OF this run]
  from run obtain w1 m w2 nid k where ks: "GetJSONWebKeySet kv w = (Inr (Some k), w1)"
    and m: "GetMachineByKeys machineKey (tqNodeKey req) w1 = (Inr (Some m), w2)"
    and sig: "sign (jkPrivateKey k) (jkId k) (machine_claims e issuer req m (wNow w2) nid) = Inr token"
    by (auto simp: FetchToken_def go_success time_Now_ok split: if_splits option.splits)
  note q1 = quietD(1,2)[OF quiet_GetJSONWebKeySet ks] and q2 = quietD(1,2)[OF quiet_machine_reads(2) m]
  from take_machine_run[OF m[unfolded GetMachineByKeys_def]] q1 obtain row where row: "row \<in> set (dbMachines (wDB w))"
    "mMachineKey row = machineKey" "mNodeKey row = tqNodeKey req" "m = load_machine (wDB w) row" by auto
  with sig ks same q1 q2 show ?thesis
    by (intro exI[of _ row] exI[of _ k] exI[of _ "machine_claims e issuer req m (wNow w2) nid"])
      (auto simp: machine_claims_def id_token_names_def load_machine_def HasTags_def Let_def)
qed

section \<open>What the checks let through\<close>

text \<open>
  A machine that is cut off from its tailnet, because its key has expired or nobody has
  authorized it, still gets a token: the outcome depends neither on the expiry nor on the authorization.
\<close>

lemma FetchToken_ignores_quarantine:
  assumes "wFaults w = []" and "stored jwksConfigKey (wDB w) = Some c" and "kvUnmarshalJSONWebKey kv (scValue c) = Some k"
    and "find (\<lambda>m. mMachineKey m = machineKey \<and> mNodeKey m = tqNodeKey req) (dbMachines (wDB w)) = Some m"
    and "SupportedCapabilityVersion \<le> tqCapVersion req" and "\<And>cl. \<exists>t. sign (jkPrivateKey k) (jkId k) cl = Inr t"
  shows "\<exists>token w'. FetchToken e kv sign issuer machineKey req w = (Inr token, w')"
proof -
  have "getServerConfig jwksConfigKey (kvUnmarshalJSONWebKey kv) w = (Inr (Some k), w)"
    by (rule getServerConfig_stored[where unmarshal = "kvUnmarshalJSONWebKey kv", OF assms(1-3)])
  moreover have "GetMachineByKeys machineKey (tqNodeKey req) w = (Inr (Some (load_machine (wDB w) m)), w)"
    using assms(1,4) by (simp add: GetMachineByKeys_def take_machine_def db_query_ok)
  ultimately show ?thesis
    using assms(5,6) by (auto simp: FetchToken_def GetJSONWebKeySet_def bindM_def time_Now_ok NextID_ok)
qed

text \<open>The zone need not be a parent domain of the suffix: it is only a suffix of the text.\<close>

lemma NewProvider_accepts_sibling_domain:
  assumes "dpFactories v = [''route53'']" and "dpUnmarshal v ''route53'' c"
  shows "NewProvider v \<lparr>dnMagicDNSSuffix = ''notexample.com'',
    dnProvider = \<lparr>dvName = ''route53'', dvPluginPath = [], dvZone = ''example.com'', dvConfiguration = c\<rparr>\<rparr> =
    Inr (Some (External ''route53'' ''example.com.''))"
  using assms by (simp add: NewProvider_def HasSuffix_def HasPrefix_def fqdn_def Let_def)

text \<open>Every zone that a provider works on is absolute, and belongs to the configuration.\<close>

lemma NewProvider_zone:
  assumes "NewProvider v config = Inr (Some p)"
  shows "provider_zone p = fqdn (dvZone (dnProvider config))" and "HasSuffix (provider_zone p) ''.''"
    and "HasSuffix (dnMagicDNSSuffix config) (dvZone (dnProvider config))"
  using assms by (auto simp: NewProvider_def Let_def fqdn_def HasSuffix_def HasPrefix_def split: if_splits option.splits)

section \<open>An example\<close>

definition token_world :: world where
  "token_world = sample_world\<lparr>wDB := sample_db\<lparr>dbServerConfigs := [\<lparr>scKey = ''jwks'', scValue = ''kid''\<rparr>]\<rparr>\<rparr>"

definition token_keys :: keys_env where
  "token_keys = \<lparr>kvMarshalControlKeys = (\<lambda>_. []), kvUnmarshalControlKeys = (\<lambda>_. None), kvMarshalJSONWebKey = jkId,
     kvUnmarshalJSONWebKey = (\<lambda>s. Some \<lparr>jkId = s, jkPrivateKey = ''rsa'', jkCreatedAt = 0\<rparr>),
     kvNewMachine = (\<lambda>s. s), kvGenerateKey = (\<lambda>_. Inr ''rsa''), kvUnmarshalMachinePrivate = Some\<rparr>"

theorem FetchToken_honest_witness:
  "\<exists>token w' (m :: Machine). FetchToken sample_env token_keys (\<lambda>_ _ c. Inr (Itoa (unat (tcNid c)))) ''https://a'' ''mkey:1''
       \<lparr>tqCapVersion = 90, tqNodeKey = ''nodekey:1'', tqAudience = ''aws''\<rparr> token_world = (Inr token, w') \<and>
     m \<in> set (dbMachines (wDB token_world)) \<and> mMachineKey m = ''mkey:1'' \<and> token = Itoa (unat (mID m))"
proof -
  let ?sign = "\<lambda>(_::string) (_::string) c. Inr (Itoa (unat (tcNid c)))"
  let ?req = "\<lparr>tqCapVersion = 90, tqNodeKey = ''nodekey:1'', tqAudience = ''aws''\<rparr>"
  have clean: "wFaults token_world = []" by (simp add: token_world_def sample_world_def)
  have st: "stored jwksConfigKey (wDB token_world) = Some \<lparr>scKey = ''jwks'', scValue = ''kid''\<rparr>"
    by (simp add: stored_def token_world_def jwksConfigKey_def)
  have row: "find (\<lambda>m. mMachineKey m = ''mkey:1'' \<and> mNodeKey m = tqNodeKey ?req) (dbMachines (wDB token_world)) = Some (machine_row sample_laptop)"
    by (simp add: token_world_def sample_db_def machine_row_def sample_defs)
  obtain token w' where run: "FetchToken sample_env token_keys ?sign ''https://a'' ''mkey:1'' ?req token_world = (Inr token, w')"
    using FetchToken_ignores_quarantine[where kv = token_keys and sign = ?sign and e = sample_env and issuer = "''https://a''"
        and k = "\<lparr>jkId = ''kid'', jkPrivateKey = ''rsa'', jkCreatedAt = 0\<rparr>", OF clean st _ row]
    by (auto simp: token_keys_def SupportedCapabilityVersion_def)
  from FetchToken_honest[OF run] obtain m :: Machine and c :: token_claims where "m \<in> set (dbMachines (wDB token_world))" "mMachineKey m = ''mkey:1''"
    "Itoa (unat (tcNid c)) = token" "tcNid c = mID m" by auto
  with run show ?thesis by auto
qed

end
