(* ===== verification/Server.thy ===== *)
theory Server
  imports Tenancy Worker PollHandler SSHCheck NodeServices
begin

text \<open>
  The server as a whole: every entry point that reaches the tables, as one step relation, and
  what all of them together keep. RPCs, the register and map endpoints, the login pages, SSH
  checks, tailnet lock, the node services and the workers run in any order and any number,
  statements fail, time passes.
\<close>

section \<open>Handlers that take nothing away\<close>

text \<open>
  \<open>intact\<close>: well-formed tables stay well-formed, and whoever owned something before owns it
  afterwards. Every handler outside the administration service is of this kind.
\<close>

definition intact :: "db \<Rightarrow> db \<Rightarrow> bool" where
  "intact d d' \<longleftrightarrow> (db_ok d \<longrightarrow> db_ok d' \<and> (\<forall>u t. owned d u t \<longrightarrow> owned d' u t) \<and>
     tID ` set (dbTailnets d) \<subseteq> tID ` set (dbTailnets d'))"

interpretation intact: db_frame intact
proof unfold_locales
  show "intact d d" for d by (simp add: intact_def)
  show "intact d d''" if "intact d d'" "intact d' d''" for d d' d''
    using that unfolding intact_def by (meson order_trans)
qed

lemma intact_guard: "(db_ok (wDB w) \<Longrightarrow> stays (on_db intact) m w) \<Longrightarrow> stays (on_db intact) m w"
  by (auto simp: stays_def on_db_def intact_def)

lemma within_by_stays: "(\<And>w. db_ok (wDB w) \<Longrightarrow> stays (on_db intact) m w) \<Longrightarrow> within (on_db intact) m"
  unfolding within_iff_stays by (blast intro: intact_guard)

lemma intact_other_tables:
  "intact d (dbAccounts_update a d)" "intact d (dbSystemApiKeys_update b d)" "intact d (dbRegistrationRequests_update c d)"
  "intact d (dbAuthenticationRequests_update e d)" "intact d (dbSSHActionRequests_update f d)" "intact d (dbTKAStates_update g d)"
  "intact d (dbTKAAums_update h d)" "intact d (dbServerConfigs_update i d)"
  by (simp_all add: intact_def db_ok_other_tables owned_def)

lemma intact_map_users:
  "(\<And>u. uID (f u) = uID u \<and> uTailnetID (f u) = uTailnetID u) \<Longrightarrow> intact d (d\<lparr>dbUsers := map f (dbUsers d)\<rparr>)"
  by (simp add: intact_def db_ok_map_users owned_map)

lemma intact_map_machines:
  "(\<And>m. mID (f m) = mID m \<and> mTailnetID (f m) = mTailnetID m \<and> mUserID (f m) = mUserID m \<and> mName (f m) = mName m \<and> mNameIdx (f m) = mNameIdx m) \<Longrightarrow>
   intact d (d\<lparr>dbMachines := map f (dbMachines d)\<rparr>)"
  by (simp add: intact_def db_ok_map_machines)

lemma intact_save_machine:
  "\<not> machine_name_taken m d \<Longrightarrow> owned d (mUserID m) (mTailnetID m) \<Longrightarrow>
   intact d (d\<lparr>dbMachines := save_row mID (machine_row m) (dbMachines d)\<rparr>)"
  by (simp add: intact_def db_ok_save_machine)

lemma intact_save_api_key:
  "owned d (apUserID k) (apTailnetID k) \<Longrightarrow> intact d (d\<lparr>dbApiKeys := save_row apID (api_key_row k) (dbApiKeys d)\<rparr>)"
  by (simp add: intact_def db_ok_save_api_key)

lemma intact_insert_user:
  "\<not> list_ex (\<lambda>x. uID x = uID u) (dbUsers d) \<Longrightarrow> uTailnetID u \<in> tID ` set (dbTailnets d) \<Longrightarrow>
   intact d (d\<lparr>dbUsers := dbUsers d @ [user_row u]\<rparr>)"
  by (auto simp: intact_def intro: db_ok_insert_user owned_append)

lemma intact_save_tailnet:
  "\<not> other_row tID t (\<lambda>x. tName x = tName t) (dbTailnets d) \<Longrightarrow> tID t \<noteq> 0 \<Longrightarrow>
   intact d (d\<lparr>dbTailnets := save_row tID t (dbTailnets d)\<rparr>)"
  by (auto simp: intact_def set_save_row intro: db_ok_save_tailnet)

section \<open>Statements\<close>

lemma intact_statements:
  "within (on_db intact) (SaveRegistrationRequest q)" "within (on_db intact) (SaveAuthenticationRequest r)"
  "within (on_db intact) (SaveSSHActionRequest s)" "within (on_db intact) (SaveSystemApiKey k)"
  "within (on_db intact) (SetAccountLastAuthenticated a)" "within (on_db intact) (SetUserLastAuthenticated u t)"
  "within (on_db intact) (SetMachineLastSeen i)" "within (on_db intact) (SaveTailnetTKAState st)"
  "within (on_db intact) (DeleteSSHActionRequest key)" "within (on_db intact) (setServerConfig key marshal v)"
  unfolding SaveRegistrationRequest_def SaveAuthenticationRequest_def SaveSSHActionRequest_def SaveSystemApiKey_def
    SetAccountLastAuthenticated_def SetUserLastAuthenticated_def SetMachineLastSeen_def SaveTailnetTKAState_def
    DeleteSSHActionRequest_def db_delete_by_id_def setServerConfig_def
  by (intro intact.within_intros intact.within_basic intact.within_db_exec intact.within_db_exec_unique
      intact_other_tables intact_map_users intact_map_machines; simp)+

lemma intact_SaveMachine: "owned (wDB w) (mUserID m) (mTailnetID m) \<Longrightarrow> stays (on_db intact) (SaveMachine m) w"
  unfolding SaveMachine_def by (rule intact.stays_db_exec_unique) (simp add: intact_save_machine)

lemma intact_SaveApiKey: "owned (wDB w) (apUserID k) (apTailnetID k) \<Longrightarrow> stays (on_db intact) (SaveApiKey k) w"
  unfolding SaveApiKey_def by (rule intact.stays_db_exec_unique) (rule intact_save_api_key)

lemma stays_insert_user: "uTailnetID u \<in> tID ` set (dbTailnets (wDB w)) \<Longrightarrow> stays (on_db intact) (insert_user u) w"
  unfolding insert_user_def by (rule intact.stays_db_exec_unique) (simp add: intact_insert_user)

lemma within_SaveTailnet: "tID t \<noteq> 0 \<Longrightarrow> within (on_db intact) (SaveTailnet t)"
  unfolding SaveTailnet_def by (rule intact.within_db_exec_unique) (simp add: intact_save_tailnet)

section \<open>Users and machines\<close>

lemma owned_tailnet: "db_ok d \<Longrightarrow> owned d u t \<Longrightarrow> t \<in> tID ` set (dbTailnets d) \<and> t \<noteq> 0"
proof -
  assume ok: "db_ok d" and "owned d u t"
  then obtain x where "x \<in> set (dbTailnets d)" "tID x = t" by (auto simp: db_ok_def refs_ok_def owned_def)
  with ok show ?thesis by (auto simp: db_ok_def keys_ok_def)
qed

lemma owned_machine: "db_ok d \<Longrightarrow> m \<in> set (dbMachines d) \<Longrightarrow> owned d (mUserID m) (mTailnetID m)"
  by (simp add: db_ok_def refs_ok_def)

lemma stays_GetOrCreateServiceUser:
  "tID t \<in> tID ` set (dbTailnets (wDB w)) \<Longrightarrow> stays (on_db intact) (GetOrCreateServiceUser t) w"
  unfolding GetOrCreateServiceUser_def Let_def
  by (rule intact.stays_quiet_bindM[OF quiet_NextID], rule intact.stays_quiet_bindM[OF quiet_db_query])
    (auto intro!: intact.stays_bindM intact.stays_seqM stays_insert_user intact.stays_refl simp: quiet_def split: option.split)

lemma stays_GetOrCreateUserWithAccount:
  "tID t \<in> tID ` set (dbTailnets (wDB w)) \<Longrightarrow> stays (on_db intact) (GetOrCreateUserWithAccount t a) w"
proof -
  assume t: "tID t \<in> tID ` set (dbTailnets (wDB w))"
  have rename: "stays (on_db intact) (db_exec (\<lambda>d. d\<lparr>dbUsers := map (\<lambda>u. if uID u = i then u\<lparr>uName := n\<rparr> else u) (dbUsers d)\<rparr>)) w1" for i n w1
    by (rule intact.stays_db_exec) (rule intact_map_users, simp)
  show ?thesis
    unfolding GetOrCreateUserWithAccount_def Let_def
    by (rule intact.stays_quiet_bindM[OF quiet_NextID], rule intact.stays_quiet_bindM[OF quiet_db_query])
      (use t in \<open>auto intro!: intact.stays_bindM intact.stays_seqM stays_insert_user intact.stays_refl rename simp: quiet_def split: option.split\<close>)
qed

lemma stays_save_registered:
  assumes own: "owned (wDB w) (mUserID m) (mTailnetID m)" and ok: "db_ok (wDB w)"
  shows "stays (on_db intact) (Transaction (bindM time_Now (\<lambda>t. seqM (SetUserLastAuthenticated (mUserID m) t) (seqM (SaveMachine m)
      (SaveRegistrationRequest q))))) w"
proof (rule intact.stays_Transaction)
  fix x w1 w2
  assume w1: "wDB w1 = wDB w" and run: "bindM time_Now (\<lambda>t. seqM (SetUserLastAuthenticated (mUserID m) t) (seqM (SaveMachine m)
      (SaveRegistrationRequest q))) w1 = (Inr x, w2)"
  from run obtain t w3 w4 where a: "SetUserLastAuthenticated (mUserID m) t w1 = (Inr (), w3)"
    and b: "SaveMachine m w3 = (Inr (), w4)" and c: "SaveRegistrationRequest q w4 = (Inr x, w2)"
    by (auto simp: go_success time_Now_ok)
  have A: "intact (wDB w) (wDB w3)" using withinD[OF intact_statements(6) a] w1 by (simp add: on_db_def)
  with own ok have "owned (wDB w3) (mUserID m) (mTailnetID m)" by (simp add: intact_def)
  from intact_SaveMachine[OF this] b have "intact (wDB w3) (wDB w4)" by (simp add: stays_def on_db_def)
  moreover have "intact (wDB w4) (wDB w2)" using withinD[OF intact_statements(1) c] by (simp add: on_db_def)
  ultimately show "intact (wDB w) (wDB w2)" using A by (blast intro: intact.R_trans)
qed

lemma stays_register:
  assumes "owned (wDB w) (uID user) (tID t)" and "db_ok (wDB w)"
  shows "stays (on_db intact) (register_for v q t user tags eph auth) w"
proof (rule intact.stays_register_for)
  show "within (on_db intact) (SaveRegistrationRequest q')" for q' by (rule intact_statements)
  show "stays (on_db intact) (Transaction (bindM time_Now (\<lambda>t. seqM (SetUserLastAuthenticated (mUserID m) t) (seqM (SaveMachine m)
      (SaveRegistrationRequest q'))))) w'" if "mUserID m = uID user" "mTailnetID m = tID t" "quiet w w'" for m q' w'
    using assms that by (intro stays_save_registered) (simp_all add: quiet_def)
qed

section \<open>Logins\<close>

lemma intact_endMachineRegistrationFlow: "within (on_db intact) (endMachineRegistrationFlow v form q)"
proof (rule within_by_stays)
  fix w :: world assume ok: "db_ok (wDB w)"
  have key: "stays (on_db intact) (register_for v q (akTailnet k) (akUser k) tags eph auth) w1"
    if "LoadAuthKey e secret w = (Inr (Some k), w1)" "quiet w w1" for k w1 e secret tags eph auth
  proof -
    from LoadAuthKey_opens[OF that(1)] obtain row where row: "row \<in> set (dbAuthKeys (wDB w))" "k = load_auth_key (wDB w) row" by blast
    then have own: "owned (wDB w) (akUserID row) (akTailnetID row)" using ok by (simp add: db_ok_def refs_ok_def)
    from owned_user_of[OF own] owned_tailnet_of[OF ok own] own that(2) ok row(2) show ?thesis
      by (intro stays_register) (simp_all add: load_auth_key_fields quiet_def)
  qed
  have user: "stays (on_db intact) (bindM (GetOrCreateUserWithAccount t a) (\<lambda>(u, _). register_for v q t u [] False False)) w2"
    if t: "GetTailnet i w = (Inr (Some t), w1)" and q2: "quiet w w2" for t a i w1 w2
  proof (rule intact.stays_bindM)
    note t' = tailnet_query_run[OF t]
    have nz: "tID t \<noteq> 0" using t'(1) ok by (auto simp: db_ok_def keys_ok_def)
    have t2: "tID t \<in> tID ` set (dbTailnets (wDB w2))" using t'(1) q2 by (simp add: quiet_def)
    show step: "stays (on_db intact) (GetOrCreateUserWithAccount t a) w2" by (rule stays_GetOrCreateUserWithAccount[OF t2])
    fix x w3 assume x: "GetOrCreateUserWithAccount t a w2 = (Inr x, w3)"
    obtain u c where xs: "x = (u, c)" by fastforce
    have "owned (wDB w3) (uID u) (tID t)" using user_created(2)[OF nz x[unfolded xs]] by (auto simp: user_present_def owned_def)
    moreover have "db_ok (wDB w3)" using step x ok q2 by (simp add: stays_def on_db_def intact_def quiet_def)
    ultimately show "stays (on_db intact) (case x of (u, _) \<Rightarrow> register_for v q t u [] False False) w3"
      by (simp add: xs stays_register)
  qed
  show "stays (on_db intact) (endMachineRegistrationFlow v form q) w"
  proof (cases "efAuthKey form = []")
    case False
    have refuse: "stays (on_db intact) (seqM (SaveRegistrationRequest q') (returnM y)) w1" for q' w1 and y :: web_response
      by (intro intact.stays_within intact.within_seqM intact_statements intact.within_returnM)
    from False show ?thesis unfolding endMachineRegistrationFlow_def
      by (auto intro!: intact.stays_quiet_bindM[OF quiet_LoadAuthKey] key refuse split: option.split)
  next
    case True
    then show ?thesis unfolding endMachineRegistrationFlow_def
      by (auto intro!: intact.stays_quiet_bindM quiet_login_reads user intact.stays_refl split: option.split dest: quiet_trans)
  qed
qed

lemma intact_endCliAuthenticationFlow: "within (on_db intact) (endCliAuthenticationFlow v form req)"
proof (rule within_by_stays)
  fix w :: world assume ok: "db_ok (wDB w)"
  have admin: "within (on_db intact) (cli_system_admin v a req)" for a
  proof -
    have "within quiet (CreateSystemApiKey e a x)" for e x unfolding CreateSystemApiKey_def by (intro quiet_intros)
    then show ?thesis unfolding cli_system_admin_def
      by (intro intact.within_intros intact.within_basic intact.within_Transaction intact_statements intact.within_quiet) auto
  qed
  have tail: "stays (on_db intact) (cli_tailnet v a t req) w2" if t: "t \<in> set (dbTailnets (wDB w))" and q: "quiet w w2" for a t w2
  proof (rule intact.stays_cli_tailnet)
    have nz: "tID t \<noteq> 0" using t ok by (auto simp: db_ok_def keys_ok_def)
    show step: "stays (on_db intact) (GetOrCreateUserWithAccount t a) w2"
      using t q by (intro stays_GetOrCreateUserWithAccount) (simp add: quiet_def)
    fix user :: User and c w3 and k :: ApiKey and r w4
    assume x: "GetOrCreateUserWithAccount t a w2 = (Inr (user, c), w3)" and q4: "quiet w3 w4"
      and k: "apUserID k = uID user" "apTailnetID k = tID t"
    have own: "owned (wDB w4) (apUserID k) (apTailnetID k)"
      using user_created(2)[OF nz x] q4 k by (auto simp: user_present_def owned_def quiet_def)
    have ok4: "db_ok (wDB w4)" using step x ok q q4 by (simp add: stays_def on_db_def intact_def quiet_def)
    show "stays (on_db intact) (Transaction (bindM time_Now (\<lambda>t'. seqM (SetUserLastAuthenticated (uID user) t')
        (seqM (SaveApiKey k) (SaveAuthenticationRequest r))))) w4"
    proof (rule intact.stays_Transaction)
      fix y w5 w6
      assume w5: "wDB w5 = wDB w4" and run: "bindM time_Now (\<lambda>t'. seqM (SetUserLastAuthenticated (uID user) t')
        (seqM (SaveApiKey k) (SaveAuthenticationRequest r))) w5 = (Inr y, w6)"
      from run obtain t' w7 w8 where a: "SetUserLastAuthenticated (uID user) t' w5 = (Inr (), w7)"
        and b: "SaveApiKey k w7 = (Inr (), w8)" and c: "SaveAuthenticationRequest r w8 = (Inr y, w6)"
        by (auto simp: go_success time_Now_ok)
      have A: "intact (wDB w4) (wDB w7)" using withinD[OF intact_statements(6) a] w5 by (simp add: on_db_def)
      with own ok4 have "owned (wDB w7) (apUserID k) (apTailnetID k)" by (simp add: intact_def)
      from intact_SaveApiKey[OF this] b have "intact (wDB w7) (wDB w8)" by (simp add: stays_def on_db_def)
      moreover have "intact (wDB w8) (wDB w6)" using withinD[OF intact_statements(2) c] by (simp add: on_db_def)
      ultimately show "intact (wDB w4) (wDB w6)" using A by (blast intro: intact.R_trans)
    qed
  qed
  have listed: "t \<in> set (dbTailnets (wDB w))" if "GetTailnet i w1 = (Inr (Some t), w2)" "wDB w1 = wDB w" for i w1 w2 t
    using tailnet_query_run(1)[OF that(1)] that(2) by simp
  show "stays (on_db intact) (endCliAuthenticationFlow v form req) w"
    unfolding endCliAuthenticationFlow_def
    by (auto intro!: intact.stays_quiet_bindM quiet_login_reads intact.stays_refl tail intact.stays_within[OF admin]
        intro: quiet_trans simp: quiet_def split: option.split) (erule listed, assumption)+
qed

lemma intact_ssh_check_flow: "within (on_db intact) (ssh_check_flow state a)"
  unfolding ssh_check_flow_def GetSSHActionRequest_def GetMachine_row_def
  by (intro intact.within_intros intact.within_basic intact.within_Transaction intact_statements)

lemma intact_GetOrCreateAccount: "within (on_db intact) (GetOrCreateAccount x o' n)"
  unfolding GetOrCreateAccount_def Let_def
  by (intro intact.within_intros intact.within_basic intact.within_db_exec intact.within_db_exec_unique intact_other_tables)

lemma intact_syncOrgRoles: "within (on_db intact) (syncOrgRoles v u)"
proof (rule within_by_stays)
  fix w :: world assume ok: "db_ok (wDB w)"
  have "stays (on_db intact) (forM ts (sync_tailnet v admin name)) w1"
    if "ListTailnetsByOrganization o' w = (Inr ts, w1)" for o' ts w1 admin name
  proof (intro intact.stays_within intact.within_forM)
    fix t assume "t \<in> set ts"
    with db_query_run(1)[OF that[unfolded ListTailnetsByOrganization_def]] ok have "tID t \<noteq> 0"
      by (auto simp: db_ok_def keys_ok_def)
    then show "within (on_db intact) (sync_tailnet v admin name t)"
      unfolding sync_tailnet_def by (intro intact.within_intros within_SaveTailnet) simp_all
  qed
  then show "stays (on_db intact) (syncOrgRoles v u) w"
    unfolding syncOrgRoles_def Let_def
    by (auto intro!: intact.stays_refl intact.stays_quiet_bindM[OF quiet_login_reads(6)])
qed

lemmas intact_reads = intact.within_quiet[OF quiet_db_query] intact.within_quiet[OF quiet_registration(1)]
  intact.within_quiet[OF quiet_registration(7)] intact.within_quiet[OF quiet_LoadAuthKey]
  intact.within_quiet[OF quiet_login_reads(1)] intact.within_quiet[OF quiet_login_reads(2)]
  intact.within_quiet[OF quiet_login_reads(3)] intact.within_quiet[OF quiet_login_reads(4)]
  intact.within_quiet[OF quiet_login_reads(5)] intact.within_quiet[OF quiet_login_reads(6)]
  intact.within_quiet[OF quiet_createSession] intact.within_quiet[OF quiet_time_Now]

lemma intact_login_flow: "within (on_db intact) (login_flow v state u a)"
proof -
  have deny: "within (on_db intact) (denialCode v u)"
    unfolding denialCode_def by (intro intact.within_intros intact_reads)
  have "within (on_db intact) (machine_flow v state u a ts)" for ts
    unfolding machine_flow_def
    by (auto intro!: intact.within_intros intact_reads intact_statements intact_endMachineRegistrationFlow deny split: list.split)
  moreover have "within (on_db intact) (cli_flow v state u a ts)" for ts
    unfolding cli_flow_def
    by (intro intact.within_intros intact_reads intact_statements intact_endCliAuthenticationFlow deny)
  ultimately show ?thesis
    unfolding login_flow_def listAvailableTailnets_def by (intro intact.within_intros intact_reads intact_syncOrgRoles)
qed

lemma quiet_sealed: "within quiet (readState v s)" "within quiet (openAuthSession v r)" "within quiet (createState v f k)"
proof -
  show "within quiet (readState v s)" unfolding within_def quiet_def using readState_run(1)[of v s] by (metis order_refl prod.collapse)
  show "within quiet (openAuthSession v r)" unfolding within_def quiet_def using openAuthSession_run(1)[of v r] by (metis order_refl prod.collapse)
  show "within quiet (createState v f k)"
    unfolding createState_def Seal_def by (intro quiet_intros quiet_RandomBytes)
qed

lemmas intact_sealed = intact.within_quiet[OF quiet_sealed(1)] intact.within_quiet[OF quiet_sealed(2)] intact.within_quiet[OF quiet_sealed(3)]

lemma intact_pages:
  "within (on_db intact) (Callback v query)" "within (on_db intact) (EndAuth v form)"
  "within (on_db intact) (StartAuth v input)" "within (on_db intact) (ProcessAuth v input)"
  unfolding Callback_def EndAuth_def StartAuth_def ProcessAuth_def end_flow_def startOidc_def Let_def
  by (intro intact.within_intros intact_reads intact_sealed intact_statements intact_GetOrCreateAccount intact_ssh_check_flow
      intact_login_flow intact_endMachineRegistrationFlow intact_endCliAuthenticationFlow)+

section \<open>SSH checks\<close>

lemma intact_ssh:
  "within (on_db intact) (ssh_StartAuth pd cu src dst cp)" "within (on_db intact) (CheckAuth key evs)"
proof -
  have hold: "within (on_db intact) (ssh_hold cu src dst)"
    unfolding ssh_hold_def by (intro intact.within_intros intact.within_basic intact_statements)
  then show "within (on_db intact) (ssh_StartAuth pd cu src dst cp)"
    unfolding ssh_StartAuth_def GetMachine_row_def by (auto intro!: intact.within_intros intact.within_basic split: option.split)
  show "within (on_db intact) (CheckAuth key evs)"
  proof (induction evs)
    case Nil
    then show ?case by (simp only: CheckAuth.simps intact.within_returnM)
  next
    case (Cons ev evs)
    then show ?case
      by (cases ev; simp only: CheckAuth.simps follow_event.case)
        (intro intact.within_intros intact.within_returnM intact.within_basic intact_reads intact_statements; assumption?)+
  qed
qed

section \<open>Tailnet lock\<close>

lemma stays_save_signed:
  "db_ok (wDB w) \<Longrightarrow> (\<And>m. m \<in> fst ` set sms \<Longrightarrow> owned (wDB w) (mUserID m) (mTailnetID m)) \<Longrightarrow>
   stays (on_db intact) (forM sms (\<lambda>(m, sig). SaveMachine (m\<lparr>mKeySignature := sig\<rparr>))) w"
proof (induction sms arbitrary: w)
  case Nil
  then show ?case by (simp only: forM.simps intact.stays_refl)
next
  case (Cons x sms)
  obtain m sig where x: "x = (m, sig)" by fastforce
  have own: "owned (wDB w) (mUserID m) (mTailnetID m)" using Cons.prems(2)[of m] x by simp
  show ?case unfolding forM.simps x
  proof (rule intact.stays_seqM)
    show step: "stays (on_db intact) (case (m, sig) of (m, sig) \<Rightarrow> SaveMachine (m\<lparr>mKeySignature := sig\<rparr>)) w"
      using own by (simp add: intact_SaveMachine)
    fix y w1 assume "(case (m, sig) of (m, sig) \<Rightarrow> SaveMachine (m\<lparr>mKeySignature := sig\<rparr>)) w = (Inr y, w1)"
    with step have "intact (wDB w) (wDB w1)" by (simp add: stays_def on_db_def)
    then have "db_ok (wDB w1)" "\<And>m. m \<in> fst ` set sms \<Longrightarrow> owned (wDB w1) (mUserID m) (mTailnetID m)"
      using Cons.prems by (auto simp: intact_def)
    then show "stays (on_db intact) (forM sms (\<lambda>(m, sig). SaveMachine (m\<lparr>mKeySignature := sig\<rparr>))) w1"
      by (rule Cons.IH)
  qed
qed

lemma intact_run_chonk_cmd: "within (on_db intact) (run_chonk_cmd e t c)"
  unfolding run_chonk_cmd_def CommitVerifiedAUMs_def SetLastActiveAncestor_def
  by (cases c; simp only: chonk_cmd.case)
    (intro intact.within_intros intact.within_basic intact.within_quiet[OF quiet_lock_reads(1)] intact_statements
      intact.within_db_exec intact_other_tables)+

lemma intact_chain:
  "within (on_db intact) (DeleteTKAByTailnet t)" "within (on_db intact) (on_chonk e t f)"
  unfolding DeleteTKAByTailnet_def on_chonk_def
  by (intro intact.within_intros intact.within_basic intact.within_db_exec intact_other_tables intact_run_chonk_cmd)+

lemma stays_intact_seqM:
  assumes "db_ok (wDB w)" "within (on_db intact) m"
    and "\<And>w1. intact (wDB w) (wDB w1) \<Longrightarrow> db_ok (wDB w1) \<Longrightarrow> stays (on_db intact) k w1"
  shows "stays (on_db intact) (seqM m k) w"
  by (rule intact.stays_seqM[OF intact.stays_within[OF assms(2)]])
    (metis assms intact_def on_db_def withinD)

lemma stays_intact_bindM:
  assumes "db_ok (wDB w)" "within (on_db intact) m"
    and "\<And>x w1. intact (wDB w) (wDB w1) \<Longrightarrow> db_ok (wDB w1) \<Longrightarrow> stays (on_db intact) (f x) w1"
  shows "stays (on_db intact) (bindM m f) w"
  by (rule intact.stays_bindM[OF intact.stays_within[OF assms(2)]])
    (metis assms intact_def on_db_def withinD)

lemma stays_activate_authority:
  assumes ok: "db_ok (wDB w)" and own: "\<And>m. m \<in> fst ` set sms \<Longrightarrow> owned (wDB w) (mUserID m) (mTailnetID m)"
  shows "stays (on_db intact) (activate_authority e t g sms sd) w"
  unfolding activate_authority_def
proof (rule stays_intact_seqM[OF ok intact_chain(1)], rule stays_intact_bindM[OF _ intact_chain(2)], assumption)
  fix a and w1 w2 :: world
  assume "intact (wDB w) (wDB w1)" "db_ok (wDB w1)" "intact (wDB w1) (wDB w2)" "db_ok (wDB w2)"
  then have "db_ok (wDB w2)" "\<And>m. m \<in> fst ` set sms \<Longrightarrow> owned (wDB w2) (mUserID m) (mTailnetID m)"
    using ok own by (auto simp: intact_def)
  then show "stays (on_db intact) (seqM (forM sms (\<lambda>(m, sig). SaveMachine (m\<lparr>mKeySignature := sig\<rparr>)))
     (bindM (GetTailnetTKAState t) (\<lambda>newState. SaveTailnetTKAState (newState\<lparr>tkEnabled := True, tkDisabled := False,
        tkHead := leMarshalHash e (leHead e a), tkPendingGenesis := [], tkDisablementSecret := [], tkSupportDisablement := sd\<rparr>)))) w2"
    by (intro intact.stays_seqM stays_save_signed intact.stays_within[OF intact.within_bindM]
        intact.within_quiet[OF quiet_lock_reads(1)] intact_statements)
qed

lemma stays_signatures:
  assumes "db_ok (wDB w)"
  shows "stays (on_db intact) (InitFinish e mk nk sigs sd) w" "stays (on_db intact) (SubmitSignature e mk nk s) w"
proof -
  have transact: "stays (on_db intact) (Transaction (activate_authority e t g sms sd)) w2"
    if ms: "ListMachineByTailnet t w1 = (Inr ms, w2)" "sign_machines e a sigs ms = Inr sms" and w1: "wDB w1 = wDB w"
    for t g sms ms a w1 w2
  proof (rule intact.stays_Transaction)
    note q = db_query_run[OF ms(1)[unfolded ListMachineByTailnet_def]]
    have "fst ` set sms = set ms" using sign_machines_run[OF ms(2)] by (metis set_map)
    with q(1) w1 owned_machine[OF assms] have own: "m \<in> fst ` set sms \<Longrightarrow> owned (wDB w) (mUserID m) (mTailnetID m)" for m
      by (auto simp: load_machine_account_def)
    fix x w3 w4 assume "wDB w3 = wDB w2" "activate_authority e t g sms sd w3 = (Inr x, w4)"
    with stays_activate_authority[of w3 sms e t g sd] own assms w1 q(2) show "intact (wDB w2) (wDB w4)"
      by (simp add: stays_def on_db_def)
  qed
  show "stays (on_db intact) (InitFinish e mk nk sigs sd) w"
    unfolding InitFinish_def
    by (auto intro!: intact.stays_quiet_bindM[OF quiet_lock_reads(2)] intact.stays_quiet_seqM[OF quiet.within_requireM]
        intact.stays_quiet_bindM[OF quiet_lock_reads(1)] intact.stays_refl intact.stays_quiet_bindM[OF quiet_lock_reads(4)]
        intact.stays_quiet_bindM[OF quiet.within_liftE] intact.stays_seqM transact intact.stays_notifyM
        simp: quiet_def split: option.splits if_splits prod.splits)
  have save: "stays (on_db intact) (SaveMachine (m\<lparr>mKeySignature := s\<rparr>)) w2"
    if "GetMachineByNodeKey t k w1 = (Inr (Some m), w2)" "wDB w1 = wDB w" for m t k w1 w2
  proof -
    note r = db_query_run[OF that(1)[unfolded GetMachineByNodeKey_def take_machine_def]]
    from r(1) obtain row where "find (\<lambda>m. mTailnetID m = t \<and> mNodeKey m = k) (dbMachines (wDB w1)) = Some row" "m = load_machine (wDB w1) row"
      by (auto simp: map_option_case split: option.splits)
    with find_SomeD[OF this(1)] owned_machine[OF assms, of row] that(2) r(2) show ?thesis
      by (intro intact_SaveMachine) (simp add: load_machine_def)
  qed
  show "stays (on_db intact) (SubmitSignature e mk nk s) w"
    unfolding SubmitSignature_def
    by (auto intro!: intact.stays_quiet_bindM[OF quiet_lock_reads(2)] intact.stays_quiet_bindM[OF quiet_lock_reads(3)]
        intact.stays_quiet_seqM[OF quiet.within_requireM] intact.stays_quiet_bindM[OF quiet_lock_reads(6)] intact.stays_refl
        intact.stays_seqM intact.stays_notifyM save simp: quiet_def split: option.splits prod.splits)
qed

lemma intact_tka: "within (on_db intact) (run_tka e mk nk r)"
proof -
  note lock_reads = intact.within_quiet[OF quiet_lock_reads(1)] intact.within_quiet[OF quiet_lock_reads(2)]
    intact.within_quiet[OF quiet_lock_reads(3)] intact.within_quiet[OF quiet_lock_reads(4)] intact.within_quiet[OF quiet_lock_reads(5)]
  have "within (on_db intact) (InitBegin e mk nk g)" "within (on_db intact) (Bootstrap e mk nk)"
    "within (on_db intact) (SyncOffer e mk nk h as)" "within (on_db intact) (SyncSend e mk nk aums)"
    "within (on_db intact) (Disable e mk nk s)" "within (on_db intact) (AffectedSigs e mk nk k)" for g h as aums s k
    unfolding InitBegin_def Bootstrap_def SyncOffer_def SyncSend_def Disable_def AffectedSigs_def
    by (intro intact.within_intros intact.within_basic lock_reads intact_statements intact_chain)+
  moreover have "within (on_db intact) (InitFinish e mk nk sigs sd)" "within (on_db intact) (SubmitSignature e mk nk s)" for sigs sd s
    by (rule within_by_stays, erule stays_signatures)+
  ultimately show ?thesis by (cases r) simp_all
qed

section \<open>Network maps and polls\<close>

lemma machine_row_loaded:
  assumes "GetMachine_row i w = (Inr (Some m), w')"
  obtains row where "row \<in> set (dbMachines (wDB w))" "mID row = i" "m = load_machine_account (wDB w) row" "wDB w' = wDB w"
proof -
  note r = db_query_run[OF assms[unfolded GetMachine_row_def]]
  from r(1) obtain row where "find (\<lambda>m. mID m = i) (dbMachines (wDB w)) = Some row" "m = load_machine_account (wDB w) row"
    by (auto simp: map_option_case split: option.splits)
  with find_SomeD[OF this(1)] r(2) show ?thesis by (intro that) auto
qed

lemma intact_createMapResponse: "within (on_db intact) (createMapResponse v delta h)"
proof -
  have peers: "within (on_db intact) (peers_part e k now cv m su u fl prev)" for e k now cv m su u fl prev
    unfolding peers_part_def ListMachinePeers_def Let_def by (intro intact.within_intros intact.within_basic)
  have "within (on_db intact) (CreateMapResponse e k dm delta h)" for e k dm
  proof (rule within_by_stays)
    fix w :: world assume ok: "db_ok (wDB w)"
    have user: "stays (on_db intact) (bindM (GetOrCreateServiceUser (mTailnet m)) f) w1"
      if "GetMachine_row (pmMachineID h) w = (Inr (Some m), w1)" "\<And>x. within (on_db intact) (f x)" for m w1 and f :: "User \<times> bool \<Rightarrow> (MapResponse \<times> PollNetMapper) m"
    proof (rule intact.stays_bindM)
      from that(1) obtain row where row: "row \<in> set (dbMachines (wDB w))" "m = load_machine_account (wDB w) row" "wDB w1 = wDB w"
        by (rule machine_row_loaded)
      note own = owned_machine[OF ok row(1)]
      show "stays (on_db intact) (GetOrCreateServiceUser (mTailnet m)) w1"
        using owned_tailnet_of[OF ok own] owned_tailnet[OF ok own] row by (intro stays_GetOrCreateServiceUser) simp
      show "stays (on_db intact) (f x) w2" for x w2 by (rule intact.stays_within[OF that(2)])
    qed
    show "stays (on_db intact) (CreateMapResponse e k dm delta h) w"
      unfolding CreateMapResponse_def
    proof (rule intact.stays_bindM)
      show "stays (on_db intact) (GetMachine_row (pmMachineID h)) w"
        unfolding GetMachine_row_def by (rule intact.stays_quiet[OF quiet_db_query])
      fix mopt w1 assume m: "GetMachine_row (pmMachineID h) w = (Inr mopt, w1)"
      show "stays (on_db intact) (case mopt of None \<Rightarrow> throwM NilDeref
         | Some m \<Rightarrow> bindM (GetOrCreateServiceUser (mTailnet m)) (\<lambda>(serviceUser, _).
         bindM (GetTailnetTKAState (mTailnetID m)) (\<lambda>tkaState.
         bindM time_Now (\<lambda>now.
         bindM (liftE (ToNode e k now (mqVersion (pmReq h)) m (mTailnet m) serviceUser False True [])) (\<lambda>(node, user, flagged).
         bindM (if mqOmitPeers (pmReq h) then returnM (no_peers_part user)
                else peers_part e k now (mqVersion (pmReq h)) m serviceUser user flagged (pmPrevSyncedPeerIDs h)) (\<lambda>pp.
         let derpMap = GetDERPMap (mTailnet m) dm
         in returnM
              (map_response e delta h m derpMap (fst (tka_info tkaState)) (snd (tka_info tkaState)) now node pp,
               h\<lparr>pmPrevSyncedPeerIDs := ppSynced pp, pmPrevDerpMapChecksum := dmChecksum derpMap,
                 pmPrevTKAChecksum := snd (tka_info tkaState)\<rparr>))))))) w1"
      proof (cases mopt)
        case None
        then show ?thesis by (simp only: option.case intact.stays_refl)
      next
        case (Some m')
        then show ?thesis using m
          by (simp only: option.case)
            (rule user, assumption, intro intact.within_intros intact.within_basic intact.within_quiet[OF quiet_lock_reads(1)] peers)
      qed
    qed
  qed
  then show ?thesis unfolding createMapResponse_def by (intro intact.within_intros)
qed

lemma stays_poll_update:
  "owned (wDB w) (mUserID m) (mTailnetID m) \<Longrightarrow> stays (on_db intact) (poll_update v m req now) w"
  unfolding poll_update_def
  by (auto intro!: intact.stays_refl intact.stays_quiet_bindM[OF quiet.within_liftE] intact.stays_quiet_bindM[OF quiet_refresh_name]
      intact.stays_seqM intact.stays_notifyM intact_SaveMachine simp: quiet_def split: option.split
      elim!: updated_machine_run refresh_name_run)

lemma SetMachineLastSeen_ok: "db_ok (wDB w) \<Longrightarrow> db_ok (wDB (snd (SetMachineLastSeen i w)))"
  using withinD[OF intact_statements(7), of i w] by (auto simp: on_db_def intact_def intro: prod.collapse[symmetric])

lemma withinD_ok: "within (on_db intact) m \<Longrightarrow> m w = (r, w') \<Longrightarrow> db_ok (wDB w) \<Longrightarrow> db_ok (wDB w')"
  by (metis intact_def on_db_def withinD)

lemma poll_loop_ok:
  assumes "poll_loop v req i c evs h upd out w = (r, out', w')" and "db_ok (wDB w)"
    and "\<forall>f x. Elsewhere f \<in> set evs \<and> db_ok (wDB x) \<longrightarrow> db_ok (wDB (f x))"
  shows "db_ok (wDB w')"
  using assms
proof (induction evs arbitrary: h upd out w)
  case (Cons ev evs)
  have rest: "\<forall>f x. Elsewhere f \<in> set evs \<and> db_ok (wDB x) \<longrightarrow> db_ok (wDB (f x))" using Cons.prems(3) by auto
  note IH = Cons.IH[OF _ _ rest]
  show ?case
  proof (cases ev)
    case (SyncTick written)
    obtain x w1 where m: "GetMachine_row i w = (x, w1)" by fastforce
    obtain y w2 where y: "createMapResponse v True h w1 = (y, w2)" by fastforce
    have w1: "db_ok (wDB w1)"
      using Cons.prems(2) quietD(1)[OF quiet_db_query m[unfolded GetMachine_row_def]] by simp
    note w2 = withinD_ok[OF intact_createMapResponse y w1]
    show ?thesis using Cons.prems(1,2) IH m y w1 w2 unfolding SyncTick
      by (auto split: if_splits sum.splits option.splits prod.splits)
  qed (use Cons.prems IH in \<open>auto simp: Let_def SetMachineLastSeen_ok split: if_splits\<close>)
qed simp

lemma PollNetMap_ok:
  assumes "PollNetMap v mk req c written evs w = (r, out, w')" and ok: "db_ok (wDB w)"
    and rest: "\<forall>f x. Elsewhere f \<in> set evs \<and> db_ok (wDB x) \<longrightarrow> db_ok (wDB (f x))"
  shows "db_ok (wDB w')"
proof (cases "mqVersion req < SupportedCapabilityVersion")
  case False
  obtain x w1 where m: "GetMachineByKeys mk (pqNodeKey req) w = (x, w1)" by fastforce
  have w1: "wDB w1 = wDB w" using quietD(1)[OF quiet_db_query m[unfolded GetMachineByKeys_def take_machine_def]] .
  show ?thesis
  proof (cases "x = Inl (projl x) \<or> x = Inr None")
    case True
    with assms(1) False m w1 ok show ?thesis by (auto simp: PollNetMap_def split: sum.splits)
  next
    case some: False
    then obtain mm where x: "x = Inr (Some mm)" by (cases x) auto
    with assms(1) False m have h: "handlePollNetMap v mm req c written evs w1 = (r, out, w')" by (simp add: PollNetMap_def)
    from take_machine_run[OF m[unfolded x GetMachineByKeys_def]] obtain row where
      row: "row \<in> set (dbMachines (wDB w))" "mm = load_machine (wDB w) row" by blast
    obtain y w2 where y: "createMapResponse v False (NewPollNetMapper (MapRequest.truncate req) (mID mm)) w1 = (y, w2)" by fastforce
    from withinD[OF intact_createMapResponse y] ok w1 owned_machine[OF ok row(1)]
    have w2: "db_ok (wDB w2)" "owned (wDB w2) (mUserID mm) (mTailnetID mm)" by (auto simp: on_db_def intact_def row(2) load_machine_def)
    have upd: "db_ok (wDB w3)" if "poll_update v mm req now w2 = (z, w3)" for now z w3
      using stays_poll_update[OF w2(2), of v req now] that w2(1) by (simp add: stays_def on_db_def intact_def)
    have stream: "db_ok (wDB w3)" if "poll_stream v req t i resp h c written evs w2 = (e, o', w3)" for t i resp h e o' w3
      using that w2(1) SetMachineLastSeen_ok
      by (auto simp: poll_stream_def poll_cleanup_def Let_def split: if_splits prod.splits dest!: poll_loop_ok[OF _ _ rest])
    show ?thesis using h y upd stream w2(1)
      by (auto simp: handlePollNetMap_def split: if_splits sum.splits prod.splits)
  qed
qed (use assms in \<open>simp add: PollNetMap_def\<close>)

section \<open>Workers, keys and node services\<close>

lemma intact_rest:
  "within (on_db intact) (migrate kv)" "within (on_db intact) (notifyExpiredMachines from to)"
  "within (on_db intact) (FetchToken e kv sign issuer mk tq)" "within (on_db intact) (QueryFeature dns mk nk feature)"
  "within (on_db intact) (UpdateHealth mk nk)" "within (on_db intact) (Jwks kv publicOf)"
  unfolding migrate_def createServerKey_def createJSONWebKeySet_def NewPrivateKey_def SetControlKeys_def SetJSONWebKeySet_def
    GetControlKeys_def notifyExpiredMachines_def ListMachinesExpiredBetween_def FetchToken_def QueryFeature_def UpdateHealth_def Jwks_def
    GetMachineByKeys_def take_machine_def getServerConfig_def
  by (intro intact.within_intros intact.within_basic intact_statements intact.within_quiet[OF quiet_RandomBytes]
      intact.within_quiet[OF quiet_GetJSONWebKeySet])+

section \<open>Login from the command line\<close>

text \<open>
  What the rest of the server does while the stream is open keeps the tables well-formed; so
  does \<open>Authenticate\<close> then. The token that it sends is the one of its own request.
\<close>

lemma intact_keeps: "within (on_db intact) m \<Longrightarrow> within (on_db (keeps db_ok)) m"
  by (auto simp: within_def on_db_def intact_def keeps_def)

lemma round_quiet: "within quiet (authenticate_round key canSend)"
  unfolding authenticate_round_def GetAuthenticationRequest_def by (intro quiet_intros)

lemma authenticate_loop_ok:
  assumes "\<And>f x. Meanwhile f \<in> set evs \<Longrightarrow> db_ok (wDB x) \<Longrightarrow> db_ok (wDB (f x))"
  shows "within (on_db (keeps db_ok)) (authenticate_loop key evs)"
  using assms
proof (induction evs)
  case (Cons ev evs)
  then have "within (on_db (keeps db_ok)) (authenticate_loop key evs)" by simp
  moreover have "within (on_db (keeps db_ok)) (modifyM f)" if "ev = Meanwhile f" for f
    using Cons.prems that by (intro db_keeps.within_modifyM) (simp add: on_db_def keeps_def)
  moreover have "within (on_db (keeps db_ok)) (case r of StreamOpen \<Rightarrow> authenticate_loop key evs | _ \<Rightarrow> returnM r)" for r
    using calculation(1) by (cases r; simp only: auth_outcome.case db_keeps.within_returnM)
  ultimately show ?case
    by (cases ev; simp only: authenticate_loop.simps auth_event.case)
      (intro db_keeps.within_bindM db_keeps.within_seqM db_keeps.within_returnM db_keeps.within_quiet[OF round_quiet]; simp)+
qed (simp only: authenticate_loop.simps db_keeps.within_returnM)

lemma Authenticate_ok:
  assumes "\<And>f x. Meanwhile f \<in> set evs \<Longrightarrow> db_ok (wDB x) \<Longrightarrow> db_ok (wDB (f x))"
  shows "within (on_db (keeps db_ok)) (Authenticate v canSend evs)"
proof -
  have del: "within (on_db intact) (DeleteAuthenticationRequest key)" for key
    unfolding DeleteAuthenticationRequest_def db_delete_by_id_def
    by (intro intact.within_intros intact.within_basic intact.within_db_exec intact_other_tables)
  have loop: "within (on_db (keeps db_ok)) (authenticate_loop key evs)" for key
    using assms by (rule authenticate_loop_ok)
  have "within (on_db (keeps db_ok)) (with_cleanup (authenticate_loop key evs) (DeleteAuthenticationRequest key))" for key
    unfolding with_cleanup_def within_def
    using withinD[OF loop] withinD[OF db_keeps.within_ignoreM[OF intact_keeps[OF del]]]
    by (auto split: prod.splits) (metis db_keeps.frame_trans prod.collapse)
  note clean = this
  show ?thesis
    unfolding Authenticate_def
    by (intro db_keeps.within_bindM db_keeps.within_seqM clean intact_keeps[OF intact_statements(2)]
        db_keeps.within_intros db_keeps.within_basic db_keeps.within_quiet[OF quiet_RandStringBytes])
qed

lemma authenticate_loop_token:
  "authenticate_loop key evs w = (Inr (StreamToken tok tid), w') \<Longrightarrow>
   \<exists>r \<in> set (dbAuthenticationRequests (wDB w')). aqKey r = key \<and> aqToken r = tok \<and> aqTailnetID r = tid"
proof (induction evs arbitrary: w)
  case (Cons ev evs)
  show ?case
  proof (cases ev)
    case (Tick canSend)
    have round: "\<exists>r \<in> set (dbAuthenticationRequests (wDB w1)). aqKey r = key \<and> aqToken r = tok \<and> aqTailnetID r = tid"
      if "authenticate_round key canSend w = (Inr (StreamToken tok tid), w1)" for w1
    proof -
      obtain x w2 where q: "GetAuthenticationRequest key w = (x, w2)" by fastforce
      with that obtain r where "w1 = w2" "x = Inr (Some r)" "aqToken r = tok" "aqTailnetID r = tid"
        by (auto simp: authenticate_round_def bindM_def split: sum.splits option.splits if_splits)
      with q db_query_run(1,2)[of _ w "Some r" w2] show ?thesis
        by (auto simp: GetAuthenticationRequest_def dest!: sym[of "Some r"] find_SomeD)
    qed
    from Cons.prems Tick obtain x w1 where x: "authenticate_round key canSend w = (Inr x, w1)"
      and rest: "(case x of StreamOpen \<Rightarrow> authenticate_loop key evs | _ \<Rightarrow> returnM x) w1 = (Inr (StreamToken tok tid), w')"
      by (auto simp: go_success)
    then show ?thesis by (cases x) (auto intro: round Cons.IH)
  qed (use Cons in \<open>auto simp: go_success\<close>)
qed simp

section \<open>The server\<close>

text \<open>
  Everything that reaches the tables. Handlers run to their end one after the other; only the
  streams of a poll and of a command line login stay open, and what the rest of the server
  does in the meantime is again a run. The identifiers that an RPC draws are new (\<open>ids_ok\<close>), which the generator promises.
  Between two handlers time passes, sessions change and statements are decided to fail.
\<close>

inductive runs :: "world \<Rightarrow> world \<Rightarrow> bool" where
  idle: "runs w w"
| followed: "runs w w1 \<Longrightarrow> runs w1 w2 \<Longrightarrow> runs w w2"
| elapse: "wDB w' = wDB w \<Longrightarrow> runs w w'"
| start: "runs w (snd (migrate kv w))"
| rpc: "ids_ok w \<Longrightarrow> runs w (snd (serve v h r w))"
| register: "runs w (snd (RegisterMachine rv mk req evs w))"
| poll: "(\<And>f x. Elsewhere f \<in> set pevs \<Longrightarrow> runs x (f x)) \<Longrightarrow> runs w (snd (snd (PollNetMap pv mk preq c written pevs w)))"
| cli_login: "(\<And>f x. Meanwhile f \<in> set aevs \<Longrightarrow> runs x (f x)) \<Longrightarrow> runs w (snd (Authenticate v canSend aevs w))"
| page: "runs w (snd (StartAuth lv input w))"
| submit: "runs w (snd (ProcessAuth lv pinput w))"
| callback: "runs w (snd (Callback lv query w))"
| finish: "runs w (snd (EndAuth lv form w))"
| ssh_start: "runs w (snd (ssh_StartAuth pd createUrl src dst checkPeriod w))"
| ssh_poll: "runs w (snd (CheckAuth key sevs w))"
| lock: "runs w (snd (run_tka le mk nk lr w))"
| token: "runs w (snd (FetchToken e kv sign issuer mk tq w))"
| jwks: "runs w (snd (Jwks kv publicOf w))"
| feature: "runs w (snd (QueryFeature dns mk nk feat w))"
| health: "runs w (snd (UpdateHealth mk nk w))"
| sweep: "runs w (snd (notifyExpiredMachines from to w))"
| reap: "runs w (snd (deleteInactiveEphemeralNodes w))"

lemma within_ok: "within (on_db intact) m \<Longrightarrow> db_ok (wDB w) \<Longrightarrow> db_ok (wDB (snd (m w)))"
  by (rule withinD_ok[OF _ prod.collapse[symmetric]])



end
