(* ===== verification/GoPath.thy ===== *)
theory GoPath
  imports GoStrings
begin

text \<open>
  Go's \<open>path.Clean\<close> and \<open>path.Join\<close> (and \<open>filepath.Join\<close> on Unix): the shortest path name
  that is equivalent by purely lexical processing.
\<close>

section \<open>Cleaning\<close>

text \<open>The elements that are left, last one first; \<open>..\<close> takes one away, or stays at the front of a relative path.\<close>

definition clean_elem :: "bool \<Rightarrow> string \<Rightarrow> string list \<Rightarrow> string list" where
  "clean_elem rooted e stack =
     (if e = [] \<or> e = ''.'' then stack
      else if e = ''..'' then
        (if stack \<noteq> [] \<and> hd stack \<noteq> ''..'' then tl stack else if rooted then stack else e # stack)
      else e # stack)"

definition clean_elems :: "bool \<Rightarrow> string list \<Rightarrow> string list" where
  "clean_elems rooted es = rev (fold (clean_elem rooted) es [])"

definition is_rooted :: "string \<Rightarrow> bool" where
  "is_rooted p \<longleftrightarrow> p \<noteq> [] \<and> hd p = CHR ''/''"

definition path_Clean :: "string \<Rightarrow> string" where
  "path_Clean p =
     (let body = Join (clean_elems (is_rooted p) (Split (CHR ''/'') p)) ''/''
      in if is_rooted p then CHR ''/'' # body else if body = [] then ''.'' else body)"

definition path_Join :: "string list \<Rightarrow> string" where
  "path_Join elems =
     (case filter (\<lambda>e. e \<noteq> []) elems of [] \<Rightarrow> [] | es \<Rightarrow> path_Clean (Join es ''/''))"

section \<open>Names inside a directory\<close>

text \<open>A single element that names an entry of a directory.\<close>

definition entry_name :: "string \<Rightarrow> bool" where
  "entry_name e \<longleftrightarrow> e \<noteq> [] \<and> e \<noteq> ''.'' \<and> e \<noteq> ''..'' \<and> CHR ''/'' \<notin> set e"

text \<open>A directory as cleaning leaves it: absolute, other than the root.\<close>

definition clean_dir :: "string list \<Rightarrow> bool" where
  "clean_dir es \<longleftrightarrow> es \<noteq> [] \<and> list_all entry_name es"

definition dir_path :: "string list \<Rightarrow> string" where
  "dir_path es = CHR ''/'' # Join es ''/''"

lemma clean_elem_entry [simp]: "entry_name e \<Longrightarrow> clean_elem r e stack = e # stack"
  by (simp add: clean_elem_def entry_name_def)

lemma fold_clean_entries: "list_all entry_name es \<Longrightarrow> fold (clean_elem r) es stack = rev es @ stack"
  by (induction es arbitrary: stack) auto

lemma Split_Join_entries: "es \<noteq> [] \<Longrightarrow> list_all entry_name es \<Longrightarrow> Split (CHR ''/'') (Join es ''/'') = es"
  by (rule Split_Join) (auto simp: entry_name_def list_all_iff)

lemma Split_dir_path: "clean_dir es \<Longrightarrow> Split (CHR ''/'') (dir_path es) = [] # es"
  by (simp add: dir_path_def clean_dir_def Split_Join_entries)

lemma Clean_dir_path: "clean_dir es \<Longrightarrow> path_Clean (dir_path es) = dir_path es"
  by (simp add: path_Clean_def Split_dir_path clean_elems_def clean_dir_def fold_clean_entries)
    (simp add: is_rooted_def dir_path_def clean_elem_def fold_clean_entries)

lemma Join_snoc: "es \<noteq> [] \<Longrightarrow> Join (es @ [e]) sep = Join es sep @ sep @ e"
  by (induction es sep rule: Join.induct) auto

lemma Join_snoc2: "es \<noteq> [] \<Longrightarrow> Join (es @ [a, b]) sep = Join es sep @ sep @ a @ sep @ b"
  by (induction es sep rule: Join.induct) auto

lemma dir_path_snoc: "clean_dir es \<Longrightarrow> dir_path (es @ [e]) = dir_path es @ ''/'' @ e"
  by (simp add: dir_path_def clean_dir_def Join_snoc)

lemma clean_dir_snoc: "clean_dir es \<Longrightarrow> entry_name e \<Longrightarrow> clean_dir (es @ [e])"
  by (simp add: clean_dir_def)

text \<open>Joining a directory and an entry names the entry of that directory.\<close>

lemma path_Join_entry:
  assumes "clean_dir es" "entry_name e"
  shows "path_Join [dir_path es, e] = dir_path (es @ [e])"
proof -
  have "path_Join [dir_path es, e] = path_Clean (dir_path (es @ [e]))"
    using assms by (simp add: path_Join_def entry_name_def dir_path_snoc dir_path_def[of es])
  then show ?thesis by (simp add: Clean_dir_path clean_dir_snoc assms)
qed

text \<open>Joining a directory and \<open>..\<close> leaves the directory.\<close>

lemma path_Join_parent:
  assumes "clean_dir (es @ [e])" "es \<noteq> []" "entry_name f"
  shows "path_Join [dir_path (es @ [e]), ''../'' @ f] = dir_path (es @ [f])"
proof -
  let ?d = "dir_path (es @ [e]) @ ''/'' @ ''../'' @ f"
  have e: "list_all entry_name (es @ [e])" "entry_name e" "list_all entry_name es" using assms(1) by (simp_all add: clean_dir_def)
  have "Join (es @ [e] @ [''..'', f]) ''/'' = Join (es @ [e]) ''/'' @ ''/'' @ ''..'' @ ''/'' @ f"
    using Join_snoc2[of "es @ [e]" "''..''" f "''/''"] by (simp only: append_assoc append_is_Nil_conv list.distinct simp_thms)
  then have "?d = CHR ''/'' # Join (es @ [e] @ [''..'', f]) ''/''" by (simp add: dir_path_def)
  moreover have "Split (CHR ''/'') (Join (es @ [e] @ [''..'', f]) ''/'') = es @ [e] @ [''..'', f]"
  proof (rule Split_Join)
    fix x assume "x \<in> set (es @ [e] @ [''..'', f])"
    then have "entry_name x \<or> x = ''..''" using assms(3) e(1) by (auto simp: list_all_iff)
    then show "CHR ''/'' \<notin> set x" by (auto simp: entry_name_def)
  qed simp
  ultimately have s: "Split (CHR ''/'') ?d = [] # es @ [e] @ [''..'', f]" by simp
  have r: "is_rooted ?d" by (simp add: is_rooted_def dir_path_def)
  have "fold (clean_elem True) ([] # es @ [e] @ [''..'', f]) [] = f # rev es"
    using assms(3) e(3) e(2) by (simp add: fold_clean_entries clean_elem_def entry_name_def)
  then have "path_Clean ?d = dir_path (es @ [f])"
    unfolding path_Clean_def Let_def s clean_elems_def using r by (simp add: dir_path_def)
  moreover have "path_Join [dir_path (es @ [e]), ''../'' @ f] = path_Clean ?d"
    by (simp add: path_Join_def dir_path_def)
  ultimately show ?thesis by simp
qed

end
