(* ===== verification/CommandLine.thy ===== *)
theory CommandLine
  imports Tenancy ServerKeys GoPath
begin

text \<open>
  \<open>internal/cmd\<close> and \<open>pkg/client/ionscale\<close>: the command line client. A command loads the
  credentials of the server it talks to, chooses the tailnet it is about and sends its
  requests, each with the caller's token. The requests are answered by the handlers of the
  administration service behind the interceptors; the connect transport in between is a
  call. Environment, files, keyring, editor and the JSON, YAML and duration codecs are
  parameters. What a command prints is its result; the layout of tables is not modelled.
\<close>

section \<open>Credentials\<close>

text \<open>A keyring that does not open, a key that cannot be read, a key that is not there, its data.\<close>

record keyring_items =
  kiGet :: "string \<Rightarrow> error + string option"
  kiSetError :: "string \<Rightarrow> error option"

type_synonym keyring = "error + keyring_items"

record cli_env =
  ceGetenv :: "string \<Rightarrow> string"
  ceMD5 :: "string \<Rightarrow> string"
  ceMarshalSession :: "string \<times> uint64 \<Rightarrow> string"
  ceUnmarshalSession :: "string \<Rightarrow> error + string \<times> uint64"
  ceReadFile :: "string \<Rightarrow> error + string"
  ceEdit :: "string \<Rightarrow> error + string"
  ceStandardize :: "string \<Rightarrow> error + string"
  ceMarshalIAM :: "IAMPolicy \<Rightarrow> string"
  ceParseDuration :: "string \<Rightarrow> error + duration"
  ceParseIPPrefix :: "string \<Rightarrow> error option"
  ceRenderDERPMap :: "bool \<Rightarrow> string \<Rightarrow> error + string"
  ceUnmarshalDERPMap :: "string \<Rightarrow> error option"

datatype ClientAuth = defaultSession string uint64 | systemAdminTokenSession ServerPrivate uint64 | Anonymous

definition getEnvUint64 :: "(string \<Rightarrow> string) \<Rightarrow> string \<Rightarrow> uint64 \<Rightarrow> uint64" where
  "getEnvUint64 getenv key defaultValue =
     (if getenv key \<noteq> [] then (case ParseUint 64 (getenv key) of None \<Rightarrow> defaultValue | Some n \<Rightarrow> of_nat n)
      else defaultValue)"

definition createKeyName :: "(string \<Rightarrow> string) \<Rightarrow> string \<Rightarrow> string" where
  "createKeyName md5 addr = ''ionscale:'' @ EncodeToString (md5 addr)"

definition default_tailnet_var :: string where
  "default_tailnet_var = ''IONSCALE_SYSTEM_ADMIN_DEFAULT_TAILNET_ID''"

definition LoadClientAuth :: "cli_env \<Rightarrow> keyring \<Rightarrow> string \<Rightarrow> string \<Rightarrow> error + ClientAuth" where
  "LoadClientAuth c ring addr systemAdminKey =
     (if systemAdminKey \<noteq> [] then
        (case ParsePrivateKey systemAdminKey of
           Inl _ \<Rightarrow> Inl (Err ''invalid system admin key'')
         | Inr k \<Rightarrow> Inr (systemAdminTokenSession k (getEnvUint64 (ceGetenv c) default_tailnet_var 0)))
      else if ceGetenv c ''IONSCALE_TOKEN'' \<noteq> [] then
        Inr (defaultSession (ceGetenv c ''IONSCALE_TOKEN'') (getEnvUint64 (ceGetenv c) default_tailnet_var 0))
      else
        (case ring of
           Inl err \<Rightarrow> Inl err
         | Inr items \<Rightarrow>
             (case kiGet items (createKeyName (ceMD5 c) addr) of
                Inl err \<Rightarrow> Inl err
              | Inr None \<Rightarrow> Inr Anonymous
              | Inr (Some data) \<Rightarrow>
                  (case ceUnmarshalSession c data of
                     Inl err \<Rightarrow> Inl err
                   | Inr (tk, tid) \<Rightarrow> Inr (defaultSession tk tid)))))"

definition StoreAuthToken :: "cli_env \<Rightarrow> keyring \<Rightarrow> string \<Rightarrow> string \<Rightarrow> uint64 \<Rightarrow> error + keyring" where
  "StoreAuthToken c ring addr tok tailnetID =
     (case ring of
        Inl err \<Rightarrow> Inl err
      | Inr items \<Rightarrow>
          (let name = createKeyName (ceMD5 c) addr
           in case kiSetError items name of
                Some err \<Rightarrow> Inl err
              | None \<Rightarrow> Inr (Inr (items\<lparr>kiGet := (kiGet items)(name := Inr (Some (ceMarshalSession c (tok, tailnetID))))\<rparr>))))"

primrec auth_TailnetID :: "ClientAuth \<Rightarrow> uint64" where
  "auth_TailnetID (defaultSession tk tid) = tid"
| "auth_TailnetID (systemAdminTokenSession k tid) = tid"
| "auth_TailnetID Anonymous = 0"

primrec GetToken :: "svc_env \<Rightarrow> ClientAuth \<Rightarrow> string m" where
  "GetToken v (defaultSession tk tid) = returnM tk"
| "GetToken v (systemAdminTokenSession k tid) = GenerateSystemAdminToken v (spK k)"
| "GetToken v Anonymous = returnM []"

text \<open>
  A call of the client: its interceptor adds the token, the server's interceptors turn it
  into the principal that the handler sees.
\<close>

definition client_call :: "svc_env \<Rightarrow> ClientAuth \<Rightarrow> (Principal \<Rightarrow> 'a m) \<Rightarrow> 'a m" where
  "client_call v auth handler =
     bindM (tryM (GetToken v auth)) (\<lambda>r.
     WrapUnary (AuthenticationInterceptor v (\<lambda>p. handler (CurrentPrincipal p)) ''/rpc''
       (''Bearer '' @ (case r of Inl _ \<Rightarrow> [] | Inr tk \<Rightarrow> tk))))"

section \<open>The target of a command\<close>

text \<open>The two selectors are options: cobra's \<open>Changed\<close> tells a flag that was given.\<close>

record target =
  tgAddr :: string
  tgSystemAdminKey :: string
  tgInsecureSkipVerify :: bool
  tgTailnetName :: "string option"
  tgTailnetID :: "uint64 option"

definition getAddr :: "cli_env \<Rightarrow> target \<Rightarrow> string" where
  "getAddr c t = (if tgAddr t \<noteq> [] then tgAddr t else GetString (ceGetenv c) ''IONSCALE_ADDR'' ''https://localhost:8443'')"

definition getInsecureSkipVerify :: "cli_env \<Rightarrow> target \<Rightarrow> bool" where
  "getInsecureSkipVerify c t = (if tgInsecureSkipVerify t then True else GetBool (ceGetenv c) ''IONSCALE_SKIP_VERIFY'' False)"

definition getSystemAdminKey :: "cli_env \<Rightarrow> target \<Rightarrow> string" where
  "getSystemAdminKey c t =
     (if tgSystemAdminKey t \<noteq> [] then tgSystemAdminKey t
      else GetString (ceGetenv c) ''IONSCALE_SYSTEM_ADMIN_KEY'' (GetString (ceGetenv c) ''IONSCALE_KEYS_SYSTEM_ADMIN_KEY'' []))"

definition select_tailnet :: "uint64 \<Rightarrow> target \<Rightarrow> ApiTailnet list \<Rightarrow> ApiTailnet option" where
  "select_tailnet savedTailnetID t tailnets =
     find (\<lambda>n. atId n = savedTailnetID \<or> atId n = option_or (tgTailnetID t) 0 \<or> atName n = option_or (tgTailnetName t) []) tailnets"

record TargetContext =
  tcAuth :: ClientAuth
  tcTailnet :: "ApiTailnet option"

definition prepareCommand :: "cli_env \<Rightarrow> svc_env \<Rightarrow> keyring \<Rightarrow> bool \<Rightarrow> target \<Rightarrow> TargetContext m" where
  "prepareCommand c v ring enableTailnetSelector t =
     bindM (liftE (LoadClientAuth c ring (getAddr c t) (getSystemAdminKey c t))) (\<lambda>auth.
     if \<not> enableTailnetSelector then returnM \<lparr>tcAuth = auth, tcTailnet = None\<rparr>
     else
       seqM (requireM (\<not> (auth_TailnetID auth = 0 \<and> tgTailnetName t = None \<and> tgTailnetID t = None))
         (Err ''flag --tailnet or --tailnet-id is required'')) (
       seqM (requireM (\<not> (tgTailnetName t \<noteq> None \<and> tgTailnetID t \<noteq> None))
         (Err ''flags --tailnet and --tailnet-id are mutually exclusive'')) (
       bindM (client_call v auth (\<lambda>p. ListTailnets_rpc p [])) (\<lambda>tailnets.
       case select_tailnet (auth_TailnetID auth) t tailnets of
         None \<Rightarrow> throwM (Err ''requested tailnet not found or you are not authorized for this tailnet'')
       | Some tailnet \<Rightarrow> returnM \<lparr>tcAuth = auth, tcTailnet = Some tailnet\<rparr>))))"

definition tc_TailnetID :: "TargetContext \<Rightarrow> uint64" where
  "tc_TailnetID tc = (case tcTailnet tc of None \<Rightarrow> 0 | Some t \<Rightarrow> atId t)"

section \<open>Commands\<close>

record cli =
  clEnv :: cli_env
  clServer :: svc_env
  clRing :: keyring
  clTarget :: target

text \<open>A command for the server as a whole, and one for the tailnet that the flags select.\<close>

definition on_server :: "cli \<Rightarrow> (Principal \<Rightarrow> 'a m) \<Rightarrow> 'a m" where
  "on_server x handler =
     bindM (prepareCommand (clEnv x) (clServer x) (clRing x) False (clTarget x)) (\<lambda>tc.
     client_call (clServer x) (tcAuth tc) handler)"

definition on_tailnet :: "cli \<Rightarrow> (uint64 \<Rightarrow> Principal \<Rightarrow> 'a m) \<Rightarrow> 'a m" where
  "on_tailnet x handler =
     bindM (prepareCommand (clEnv x) (clServer x) (clRing x) True (clTarget x)) (\<lambda>tc.
     client_call (clServer x) (tcAuth tc) (handler (tc_TailnetID tc)))"

subsection \<open>tailnets\<close>

definition listTailnetsCommand :: "cli \<Rightarrow> string \<Rightarrow> ApiTailnet list m" where
  "listTailnetsCommand x org = on_server x (\<lambda>p. ListTailnets_rpc p org)"

definition iam_flag :: "cli_env \<Rightarrow> string \<Rightarrow> string \<Rightarrow> string" where
  "iam_flag c domain email =
     (if length email \<noteq> 0 then
        ceMarshalIAM c \<lparr>iamSubs = [], iamEmails = [ToLower email], iamFilters = [],
          iamRoles = [ToLower email \<mapsto> UserRoleAdmin]\<rparr>
      else if length domain \<noteq> 0 then
        ceMarshalIAM c \<lparr>iamSubs = [], iamEmails = [], iamFilters = [''domain == '' @ ToLower domain], iamRoles = Map.empty\<rparr>
      else ''{}'')"

text \<open>
  cobra runs \<open>PersistentPreRunE\<close>, which chooses the target, before \<open>PreRunE\<close>, which checks
  the flags.
\<close>

definition createTailnetsCommand :: "cli \<Rightarrow> string \<Rightarrow> string \<Rightarrow> string \<Rightarrow> string \<Rightarrow> ApiTailnet m" where
  "createTailnetsCommand x name domain email org =
     bindM (prepareCommand (clEnv x) (clServer x) (clRing x) False (clTarget x)) (\<lambda>tc.
     seqM (requireM (name \<noteq> []) (Err ''flag --name is required'')) (
     seqM (requireM (\<not> (domain \<noteq> [] \<and> email \<noteq> [])) (Err ''flags --email and --domain are mutually exclusive'')) (
     client_call (clServer x) (tcAuth tc) (\<lambda>p. CreateTailnet (clServer x) p
       \<lparr>ctName = name, ctOrganization = org, ctIamPolicy = iam_flag (clEnv x) domain email, ctAclPolicy = [], ctDnsConfig = None,
        ctServiceCollectionEnabled = False, ctFileSharingEnabled = False, ctSshEnabled = False,
        ctMachineAuthorizationEnabled = False\<rparr>))))"

definition deleteTailnetCommand :: "cli \<Rightarrow> bool \<Rightarrow> unit m" where
  "deleteTailnetCommand x force = on_tailnet x (\<lambda>i p. DeleteTailnet p i force)"

definition getDERPMap :: "cli \<Rightarrow> bool \<Rightarrow> string m" where
  "getDERPMap x asJson =
     bindM (on_tailnet x (\<lambda>i p. GetDERPMap_rpc (clServer x) p i)) (\<lambda>val. liftE (ceRenderDERPMap (clEnv x) asJson val))"

definition setDERPMap :: "cli \<Rightarrow> string \<Rightarrow> unit m" where
  "setDERPMap x file =
     bindM (prepareCommand (clEnv x) (clServer x) (clRing x) True (clTarget x)) (\<lambda>tc.
     bindM (liftE (ceReadFile (clEnv x) file)) (\<lambda>rawJson.
     bindM (client_call (clServer x) (tcAuth tc) (\<lambda>p. SetDERPMap (clServer x) p (tc_TailnetID tc) rawJson)) (\<lambda>val.
     checkM (ceUnmarshalDERPMap (clEnv x) val))))"

definition resetDERPMap :: "cli \<Rightarrow> unit m" where
  "resetDERPMap x = on_tailnet x (\<lambda>i p. ResetDERPMap p i)"

definition getDefaultDERPMap :: "cli \<Rightarrow> bool \<Rightarrow> string m" where
  "getDefaultDERPMap x asJson =
     bindM (on_server x (GetDefaultDERPMap (clServer x))) (\<lambda>val. liftE (ceRenderDERPMap (clEnv x) asJson val))"

definition enableFileSharingCommand :: "cli \<Rightarrow> unit m" where
  "enableFileSharingCommand x = on_tailnet x (\<lambda>i p. EnableFileSharing p i)"

definition disableFileSharingCommand :: "cli \<Rightarrow> unit m" where
  "disableFileSharingCommand x = on_tailnet x (\<lambda>i p. DisableFileSharing p i)"

definition enableServiceCollectionCommand :: "cli \<Rightarrow> unit m" where
  "enableServiceCollectionCommand x = on_tailnet x (\<lambda>i p. EnableServiceCollection p i)"

definition disableServiceCollectionCommand :: "cli \<Rightarrow> unit m" where
  "disableServiceCollectionCommand x = on_tailnet x (\<lambda>i p. DisableServiceCollection p i)"

definition enableSSHCommand :: "cli \<Rightarrow> unit m" where
  "enableSSHCommand x = on_tailnet x (\<lambda>i p. EnableSSH p i)"

definition disableSSHCommand :: "cli \<Rightarrow> unit m" where
  "disableSSHCommand x = on_tailnet x (\<lambda>i p. DisableSSH p i)"

definition enableMachineAuthorizationCommand :: "cli \<Rightarrow> unit m" where
  "enableMachineAuthorizationCommand x = on_tailnet x (\<lambda>i p. EnableMachineAuthorization p i)"

definition disableMachineAuthorizationCommand :: "cli \<Rightarrow> unit m" where
  "disableMachineAuthorizationCommand x = on_tailnet x (\<lambda>i p. DisableMachineAuthorization p i)"

definition tailnetLockStatusCommand :: "cli \<Rightarrow> TailnetLockStatus m" where
  "tailnetLockStatusCommand x = on_tailnet x (\<lambda>i p. GetTailnetLockStatus p i)"

definition enableTailnetLockCommand :: "cli \<Rightarrow> unit m" where
  "enableTailnetLockCommand x = on_tailnet x (\<lambda>i p. EnableTailnetLock p i)"

definition disableTailnetLockCommand :: "cli \<Rightarrow> unit m" where
  "disableTailnetLockCommand x = on_tailnet x (\<lambda>i p. DisableTailnetLock p i)"

subsection \<open>DNS settings\<close>

definition getDNSConfigCommand :: "cli \<Rightarrow> ApiDNSConfig m" where
  "getDNSConfigCommand x = on_tailnet x (\<lambda>i p. GetDNSConfig (clServer x) p i)"

text \<open>\<open>strings.Cut\<close> at the first occurrence of one byte.\<close>

fun Cut :: "char \<Rightarrow> string \<Rightarrow> (string \<times> string) option" where
  "Cut c [] = None"
| "Cut c (x # xs) = (if x = c then Some ([], xs) else map_option (\<lambda>(a, b). (x # a, b)) (Cut c xs))"

definition parse_extra_record :: "string \<Rightarrow> error + DNSRecord" where
  "parse_extra_record v =
     (case Cut (CHR ''='') v of
        None \<Rightarrow> Inl (Err ''invalid extra record'')
      | Some (name, ip) \<Rightarrow>
          if name = [] \<or> ip = [] then Inl (Err ''invalid extra record'')
          else (case Cut (CHR '':'') name of
                  Some (typ, n) \<Rightarrow> Inr \<lparr>drName = n, drType = ToUpper typ, drValue = ip\<rparr>
                | None \<Rightarrow> Inr \<lparr>drName = name, drType = [], drValue = ip\<rparr>))"

primrec parseExtraRecords :: "string list \<Rightarrow> error + DNSRecord list" where
  "parseExtraRecords [] = Inr []"
| "parseExtraRecords (v # vs) =
     (case parse_extra_record v of
        Inl err \<Rightarrow> Inl err
      | Inr r \<Rightarrow> (case parseExtraRecords vs of Inl err \<Rightarrow> Inl err | Inr rs \<Rightarrow> Inr (r # rs)))"

text \<open>The routes are a Go map, here in the order of their first use.\<close>

fun add_route :: "string \<Rightarrow> string \<Rightarrow> (string \<times> string list) list \<Rightarrow> (string \<times> string list) list" where
  "add_route d s [] = [(d, [s])]"
| "add_route d s ((d', ss) # rs) = (if d' = d then (d', ss @ [s]) # rs else (d', ss) # add_route d s rs)"

definition add_nameserver :: "string \<Rightarrow> string list \<times> (string \<times> string list) list \<Rightarrow> string list \<times> (string \<times> string list) list" where
  "add_nameserver n acc =
     (case acc of (globals, routes) \<Rightarrow>
        (case Split (CHR '':'') n of
           [d, s] \<Rightarrow> (globals, add_route d s routes)
         | _ \<Rightarrow> (globals @ [n], routes)))"

definition setDNSConfigCommand ::
    "cli \<Rightarrow> string list \<Rightarrow> bool \<Rightarrow> bool \<Rightarrow> bool \<Rightarrow> string list \<Rightarrow> string list \<Rightarrow> ApiDNSConfig m" where
  "setDNSConfigCommand x nameservers magicDNS httpsCerts overrideLocalDNS searchDomains extraRecords =
     bindM (prepareCommand (clEnv x) (clServer x) (clRing x) True (clTarget x)) (\<lambda>tc.
     let (globals, routes) = fold add_nameserver nameservers ([], []) in
     bindM (liftE (parseExtraRecords extraRecords)) (\<lambda>records.
     client_call (clServer x) (tcAuth tc) (\<lambda>p. SetDNSConfig (clServer x) p (tc_TailnetID tc) (Some
       \<lparr>adMagicDns = magicDNS, adHttpsCerts = httpsCerts, adMagicDnsSuffix = [], adOverrideLocalDns = overrideLocalDNS,
        adNameservers = globals, adRoutes = routes, adSearchDomains = searchDomains, adExtraRecords = map Some records\<rparr>))))"

subsection \<open>Policies\<close>

definition getACLConfigCommand :: "cli \<Rightarrow> string m" where
  "getACLConfigCommand x = on_tailnet x (\<lambda>i p. GetACLPolicy p i)"

definition editACLConfigCommand :: "cli \<Rightarrow> unit m" where
  "editACLConfigCommand x =
     bindM (prepareCommand (clEnv x) (clServer x) (clRing x) True (clTarget x)) (\<lambda>tc.
     bindM (client_call (clServer x) (tcAuth tc) (\<lambda>p. GetACLPolicy p (tc_TailnetID tc))) (\<lambda>policy.
     bindM (liftE (ceEdit (clEnv x) policy)) (\<lambda>edited.
     bindM (liftE (ceStandardize (clEnv x) edited)) (\<lambda>next.
     client_call (clServer x) (tcAuth tc) (\<lambda>p. SetACLPolicy (clServer x) p (tc_TailnetID tc) next)))))"

definition setACLConfigCommand :: "cli \<Rightarrow> string \<Rightarrow> unit m" where
  "setACLConfigCommand x file =
     bindM (prepareCommand (clEnv x) (clServer x) (clRing x) True (clTarget x)) (\<lambda>tc.
     bindM (liftE (ceReadFile (clEnv x) file)) (\<lambda>content.
     client_call (clServer x) (tcAuth tc) (\<lambda>p. SetACLPolicy (clServer x) p (tc_TailnetID tc) content)))"

definition getIAMPolicyCommand :: "cli \<Rightarrow> string m" where
  "getIAMPolicyCommand x = on_tailnet x (\<lambda>i p. GetIAMPolicy p i)"

definition editIAMPolicyCommand :: "cli \<Rightarrow> unit m" where
  "editIAMPolicyCommand x =
     bindM (prepareCommand (clEnv x) (clServer x) (clRing x) True (clTarget x)) (\<lambda>tc.
     bindM (client_call (clServer x) (tcAuth tc) (\<lambda>p. GetIAMPolicy p (tc_TailnetID tc))) (\<lambda>policy.
     bindM (liftE (ceEdit (clEnv x) policy)) (\<lambda>next.
     client_call (clServer x) (tcAuth tc) (\<lambda>p. SetIAMPolicy (clServer x) p (tc_TailnetID tc) next))))"

definition setIAMPolicyCommand :: "cli \<Rightarrow> string \<Rightarrow> unit m" where
  "setIAMPolicyCommand x file =
     bindM (prepareCommand (clEnv x) (clServer x) (clRing x) True (clTarget x)) (\<lambda>tc.
     bindM (liftE (ceReadFile (clEnv x) file)) (\<lambda>content.
     client_call (clServer x) (tcAuth tc) (\<lambda>p. SetIAMPolicy (clServer x) p (tc_TailnetID tc) content)))"

subsection \<open>Auth keys and users\<close>

definition expiry_flag :: "cli_env \<Rightarrow> string \<Rightarrow> error + duration option" where
  "expiry_flag c expiry =
     (if expiry \<noteq> [] \<and> expiry \<noteq> ''none''
      then (case ceParseDuration c expiry of Inl err \<Rightarrow> Inl err | Inr d \<Rightarrow> Inr (Some d))
      else Inr None)"

definition createAuthkeysCommand :: "cli \<Rightarrow> bool \<Rightarrow> bool \<Rightarrow> string list \<Rightarrow> string \<Rightarrow> string m" where
  "createAuthkeysCommand x ephemeral preAuthorized tags expiry =
     bindM (prepareCommand (clEnv x) (clServer x) (clRing x) True (clTarget x)) (\<lambda>tc.
     bindM (liftE (expiry_flag (clEnv x) expiry)) (\<lambda>expiryDur.
     bindM (client_call (clServer x) (tcAuth tc) (\<lambda>p. CreateAuthKey_rpc (clServer x) p
       \<lparr>cqTailnetId = tc_TailnetID tc, cqEphemeral = ephemeral, cqPreAuthorized = preAuthorized, cqTags = tags,
        cqExpiry = expiryDur\<rparr>)) (\<lambda>(val, _).
     returnM val)))"

definition deleteAuthKeyCommand :: "cli \<Rightarrow> uint64 \<Rightarrow> unit m" where
  "deleteAuthKeyCommand x authKeyId = on_server x (\<lambda>p. DeleteAuthKey p authKeyId)"

definition listAuthkeysCommand :: "cli \<Rightarrow> ApiAuthKey list m" where
  "listAuthkeysCommand x = on_tailnet x (\<lambda>i p. ListAuthKeys p i)"

definition revokeAccountCommand :: "cli \<Rightarrow> string \<Rightarrow> string \<Rightarrow> nat m" where
  "revokeAccountCommand x externalID org =
     bindM (on_server x (\<lambda>p. RevokeAccount p externalID org)) (\<lambda>tailnetIds. returnM (length tailnetIds))"

definition listUsersCommand :: "cli \<Rightarrow> ApiUser list m" where
  "listUsersCommand x = on_tailnet x (\<lambda>i p. ListUsers p i)"

definition deleteUserCommand :: "cli \<Rightarrow> uint64 \<Rightarrow> unit m" where
  "deleteUserCommand x userID = on_server x (\<lambda>p. DeleteUser p userID)"

subsection \<open>Machines\<close>

definition getMachineCommand :: "cli \<Rightarrow> uint64 \<Rightarrow> ApiMachine m" where
  "getMachineCommand x machineID = on_server x (\<lambda>p. GetMachine p machineID)"

definition deleteMachineCommand :: "cli \<Rightarrow> uint64 \<Rightarrow> unit m" where
  "deleteMachineCommand x machineID = on_server x (\<lambda>p. DeleteMachine p machineID)"

definition setMachineNameCommand :: "cli \<Rightarrow> uint64 \<Rightarrow> string \<Rightarrow> bool \<Rightarrow> unit m" where
  "setMachineNameCommand x machineID name useOSHostname =
     bindM (prepareCommand (clEnv x) (clServer x) (clRing x) False (clTarget x)) (\<lambda>tc.
     seqM (requireM (\<not> (\<not> useOSHostname \<and> name = [])) (Err ''name is required when not using os hostname'')) (
     client_call (clServer x) (tcAuth tc) (\<lambda>p. SetMachineName (svEnv (clServer x)) p machineID name useOSHostname)))"

definition expireMachineCommand :: "cli \<Rightarrow> uint64 \<Rightarrow> unit m" where
  "expireMachineCommand x machineID = on_server x (\<lambda>p. ExpireMachine p machineID)"

definition authorizeMachineCommand :: "cli \<Rightarrow> uint64 \<Rightarrow> unit m" where
  "authorizeMachineCommand x machineID = on_server x (\<lambda>p. AuthorizeMachine p machineID)"

definition listMachinesCommand :: "cli \<Rightarrow> ApiMachine list m" where
  "listMachinesCommand x = on_tailnet x (\<lambda>i p. ListMachines p i)"

definition getMachineRoutesCommand :: "cli \<Rightarrow> uint64 \<Rightarrow> (uint64 \<times> MachineRoutes) m" where
  "getMachineRoutesCommand x machineID = on_server x (\<lambda>p. GetMachineRoutes p machineID)"

primrec check_prefixes :: "cli_env \<Rightarrow> string list \<Rightarrow> error option" where
  "check_prefixes c [] = None"
| "check_prefixes c (r # rs) = (case ceParseIPPrefix c r of Some err \<Rightarrow> Some err | None \<Rightarrow> check_prefixes c rs)"

definition enableMachineRoutesCommand :: "cli \<Rightarrow> uint64 \<Rightarrow> string list \<Rightarrow> bool \<Rightarrow> (uint64 \<times> MachineRoutes) m" where
  "enableMachineRoutesCommand x machineID routes replace =
     bindM (prepareCommand (clEnv x) (clServer x) (clRing x) False (clTarget x)) (\<lambda>tc.
     seqM (checkM (check_prefixes (clEnv x) routes)) (
     client_call (clServer x) (tcAuth tc) (\<lambda>p. EnableMachineRoutes p machineID routes replace)))"

definition disableMachineRoutesCommand :: "cli \<Rightarrow> uint64 \<Rightarrow> string list \<Rightarrow> (uint64 \<times> MachineRoutes) m" where
  "disableMachineRoutesCommand x machineID routes =
     bindM (prepareCommand (clEnv x) (clServer x) (clRing x) False (clTarget x)) (\<lambda>tc.
     seqM (checkM (check_prefixes (clEnv x) routes)) (
     client_call (clServer x) (tcAuth tc) (\<lambda>p. DisableMachineRoutes p machineID routes)))"

definition enableExitNodeCommand :: "cli \<Rightarrow> uint64 \<Rightarrow> (uint64 \<times> MachineRoutes) m" where
  "enableExitNodeCommand x machineID = on_server x (\<lambda>p. EnableExitNode p machineID)"

definition disableExitNodeCommand :: "cli \<Rightarrow> uint64 \<Rightarrow> (uint64 \<times> MachineRoutes) m" where
  "disableExitNodeCommand x machineID = on_server x (\<lambda>p. DisableExitNode p machineID)"

definition configureSetMachineKeyExpiryCommand :: "cli \<Rightarrow> uint64 \<Rightarrow> bool \<Rightarrow> unit m" where
  "configureSetMachineKeyExpiryCommand x machineID disable = on_server x (\<lambda>p. SetMachineKeyExpiry p machineID disable)"

definition enableMachineKeyExpiryCommand :: "cli \<Rightarrow> uint64 \<Rightarrow> unit m" where
  "enableMachineKeyExpiryCommand x machineID = configureSetMachineKeyExpiryCommand x machineID False"

definition disableMachineKeyExpiryCommand :: "cli \<Rightarrow> uint64 \<Rightarrow> unit m" where
  "disableMachineKeyExpiryCommand x machineID = configureSetMachineKeyExpiryCommand x machineID True"

subsection \<open>Login, keys and the configuration file\<close>

text \<open>
  The call of \<open>Authenticate\<close> may fail; otherwise the messages of its stream arrive, and the
  stream ends, with an error or without. The result is the
  keyring, the URL that is shown and the token that is printed because it cannot be stored.
\<close>

record AuthenticateResponse =
  arAuthUrl :: string
  arToken :: string
  arTailnetId :: "uint64 option"

record login_output =
  loRing :: keyring
  loUrl :: "string option"
  loPrinted :: "string option"

primrec login_stream :: "cli \<Rightarrow> error option \<Rightarrow> AuthenticateResponse list \<Rightarrow> string option \<Rightarrow> error + login_output" where
  "login_stream x ending [] url =
     (case ending of Some err \<Rightarrow> Inl err | None \<Rightarrow> Inr \<lparr>loRing = clRing x, loUrl = url, loPrinted = None\<rparr>)"
| "login_stream x ending (resp # resps) url =
     (if length (arToken resp) \<noteq> 0 then
        (case StoreAuthToken (clEnv x) (clRing x) (getAddr (clEnv x) (clTarget x)) (arToken resp) (option_or (arTailnetId resp) 0) of
           Inr ring \<Rightarrow> Inr \<lparr>loRing = ring, loUrl = url, loPrinted = None\<rparr>
         | Inl _ \<Rightarrow> Inr \<lparr>loRing = clRing x, loUrl = url, loPrinted = Some (arToken resp)\<rparr>)
      else login_stream x ending resps
        (if length (arAuthUrl resp) \<noteq> 0 \<and> url = None then Some (arAuthUrl resp) else url))"

definition authLoginCommand :: "cli \<Rightarrow> error option \<Rightarrow> AuthenticateResponse list \<Rightarrow> error option \<Rightarrow> error + login_output" where
  "authLoginCommand x callError resps ending =
     (case LoadClientAuth (clEnv x) (clRing x) (getAddr (clEnv x) (clTarget x)) (getSystemAdminKey (clEnv x) (clTarget x)) of
        Inl err \<Rightarrow> Inl err
      | Inr _ \<Rightarrow> (case callError of Some err \<Rightarrow> Inl err | None \<Rightarrow> login_stream x ending resps None))"

definition NewServerKey :: "ServerPrivate m" where
  "NewServerKey = bindM (RandomBytes 32) (\<lambda>k. returnM \<lparr>spK = k\<rparr>)"

definition keyCommand :: "bool \<Rightarrow> string m" where
  "keyCommand disableNewLine =
     bindM NewServerKey (\<lambda>serverKey.
     returnM (ServerPrivate_String serverKey @ (if disableNewLine then [] else [char_of (10 :: nat)])))"

text \<open>
  \<open>configure\<close> prints a configuration file. The settings are the paths of the fields of
  \<open>config.Config\<close> that it assigns. \<open>gopkg.in/yaml.v2\<close>, which prints it, names a field by
  its lower-case Go name; \<open>sigs.k8s.io/yaml\<close>, which \<open>LoadConfig\<close> reads with, goes through
  JSON and knows a field by its \<open>json\<close> tag, in any case.
\<close>

definition configureCommand ::
    "string \<Rightarrow> bool \<Rightarrow> string \<Rightarrow> string \<Rightarrow> string \<Rightarrow> string \<Rightarrow> (string list \<times> string) list m" where
  "configureCommand domain acme email dataDir certFile keyFile =
     seqM (requireM (domain \<noteq> []) (Err ''required flag domain is missing'')) (
     seqM (requireM (\<not> (acme \<and> email = [])) (Err ''flag acme-email is required when acme is enabled'')) (
     seqM (requireM (\<not> (\<not> acme \<and> (certFile = [] \<or> keyFile = [])))
       (Err ''flags cert-file and key-file are required when acme is disabled'')) (
     bindM NewServerKey (\<lambda>controlKey.
     bindM NewServerKey (\<lambda>legacyControlKey.
     bindM NewServerKey (\<lambda>systemAdminKey.
     returnM (
       [([''ListenAddr''], ''0.0.0.0:443''), ([''MetricsListenAddr''], ''127.0.0.1:9090''), ([''PublicAddr''], domain @ '':443''),
        ([''Keys'', ''ControlKey''], ServerPrivate_String controlKey),
        ([''Keys'', ''LegacyControlKey''], ServerPrivate_String legacyControlKey),
        ([''Keys'', ''SystemAdminKey''], ServerPrivate_String systemAdminKey)] @
       (if acme then [([''Tls'', ''AcmeEnabled''], ''true''), ([''Tls'', ''AcmeEmail''], email)]
        else [([''Tls'', ''CertFile''], certFile), ([''Tls'', ''KeyFile''], keyFile)]) @
       [([''Database'', ''Type''], ''sqlite''),
        ([''Database'', ''Url''], path_Join [dataDir, ''ionscale.db?_pragma=busy_timeout(5000)&_pragma=journal_mode(WAL)&_pragma=foreign_keys(ON)''])])))))))"

text \<open>The tags of the settings of the server, its TLS, keys, database and logging; \<open>configure\<close> assigns no others.\<close>

definition config_tags :: "(string list \<times> string list) list" where
  "config_tags =
     [([''ListenAddr''], [''listen_addr'']), ([''StunListenAddr''], [''stun_listen_addr'']),
      ([''MetricsListenAddr''], [''metrics_listen_addr'']), ([''PublicAddr''], [''public_addr'']),
      ([''StunPublicAddr''], [''stun_public_addr'']),
      ([''Tls'', ''Disable''], [''tls'', ''disable'']), ([''Tls'', ''ForceHttps''], [''tls'', ''force_https'']),
      ([''Tls'', ''CertFile''], [''tls'', ''cert_file'']), ([''Tls'', ''KeyFile''], [''tls'', ''key_file'']),
      ([''Tls'', ''AcmeEnabled''], [''tls'', ''acme'']), ([''Tls'', ''AcmeEmail''], [''tls'', ''acme_email'']),
      ([''Tls'', ''AcmeCA''], [''tls'', ''acme_ca'']),
      ([''PollNet'', ''KeepAliveInterval''], [''poll_net'', ''keep_alive_interval'']),
      ([''Keys'', ''ControlKey''], [''keys'', ''control_key'']), ([''Keys'', ''LegacyControlKey''], [''keys'', ''legacy_control_key'']),
      ([''Keys'', ''SystemAdminKey''], [''keys'', ''system_admin_key'']),
      ([''Database'', ''Type''], [''database'', ''type'']), ([''Database'', ''Url''], [''database'', ''url'']),
      ([''Database'', ''MaxOpenConns''], [''database'', ''max_open_conns'']),
      ([''Database'', ''MaxIdleConns''], [''database'', ''max_idle_conns'']),
      ([''Database'', ''ConnMaxLifetime''], [''database'', ''conn_max_life_time'']),
      ([''Database'', ''ConnMaxIdleTime''], [''database'', ''conn_max_idle_time'']),
      ([''Logging'', ''Level''], [''logging'', ''level'']), ([''Logging'', ''Format''], [''logging'', ''format'']),
      ([''Logging'', ''File''], [''logging'', ''file''])]"

text \<open>The key under which \<open>configure\<close> prints a field, and the field that a key of the file sets.\<close>

definition yaml_key :: "string list \<Rightarrow> string list" where
  "yaml_key field = map ToLower field"

definition json_field :: "string list \<Rightarrow> string list option" where
  "json_field key = map_option fst (find (\<lambda>(_, tag). map ToLower tag = map ToLower key) config_tags)"

lemma ToLower_idem: "ToLower (ToLower s) = ToLower s"
proof -
  have "lower_char (lower_char c) = lower_char c" for c by (auto simp: lower_char_def Let_def)
  then show ?thesis by (simp add: ToLower_def)
qed

lemma tag_names: "map (map ToLower) (map snd config_tags) = map snd config_tags"
  by code_simp

lemma json_field_read: "json_field (yaml_key field) \<noteq> None \<longleftrightarrow> map ToLower field \<in> set (map snd config_tags)"
proof -
  have "json_field (yaml_key field) \<noteq> None \<longleftrightarrow> map ToLower field \<in> set (map (map ToLower) (map snd config_tags))"
  proof -
    have "ToLower \<circ> ToLower = ToLower" by (simp add: fun_eq_iff ToLower_idem)
    then show ?thesis
      by (simp add: json_field_def yaml_key_def find_None_iff image_iff split_beta) (metis prod.collapse snd_conv)
  qed
  then show ?thesis by (simp only: tag_names)
qed

lemma fields_read:
  "filter (\<lambda>field. map ToLower field \<in> set (map snd config_tags))
     ([[''ListenAddr''], [''MetricsListenAddr''], [''PublicAddr''], [''Keys'', ''ControlKey''], [''Keys'', ''LegacyControlKey''],
       [''Keys'', ''SystemAdminKey'']] @
      (if acme then [[''Tls'', ''AcmeEnabled''], [''Tls'', ''AcmeEmail'']] else [[''Tls'', ''CertFile''], [''Tls'', ''KeyFile'']]) @
      [[''Database'', ''Type''], [''Database'', ''Url'']]) = [[''Database'', ''Type''], [''Database'', ''Url'']]"
  by (cases acme; simp only: if_True if_False) code_simp+

text \<open>
  The file that \<open>configure\<close> prints does not configure the server: of the settings it
  contains \<open>LoadConfig\<close> reads those of the database and no other, neither the public
  address, which it requires, nor the keys nor the certificates.
\<close>

theorem configure_settings_lost:
  assumes "configureCommand domain acme email dataDir certFile keyFile w = (Inr settings, w')"
  shows "filter (\<lambda>field. json_field (yaml_key field) \<noteq> None) (map fst settings) = [[''Database'', ''Type''], [''Database'', ''Url'']] \<and>
    {[''PublicAddr''], [''Keys'', ''ControlKey''], [''Keys'', ''SystemAdminKey'']} \<subseteq> set (map fst settings)"
proof -
  from assms have fields: "map fst settings =
      [[''ListenAddr''], [''MetricsListenAddr''], [''PublicAddr''], [''Keys'', ''ControlKey''], [''Keys'', ''LegacyControlKey''],
       [''Keys'', ''SystemAdminKey'']] @
      (if acme then [[''Tls'', ''AcmeEnabled''], [''Tls'', ''AcmeEmail'']] else [[''Tls'', ''CertFile''], [''Tls'', ''KeyFile'']]) @
      [[''Database'', ''Type''], [''Database'', ''Url'']]"
    by (auto simp: configureCommand_def go_success)
  show ?thesis unfolding fields json_field_read fields_read by simp
qed

lemma NewServerKey_ok: "\<exists>k. NewServerKey w = (Inr k, w\<lparr>wNextRand := wNextRand w + 32\<rparr>) \<and> length (spK k) = 32"
  using RandomBytes_ok[of 32 w] by (auto simp: NewServerKey_def bindM_def)

theorem configure_settings_lost_witness:
  "\<exists>settings. fst (configureCommand ''vpn.example.com'' True ''a@b.c'' ''/var'' [] [] two_tailnets) = Inr settings \<and>
     filter (\<lambda>field. json_field (yaml_key field) \<noteq> None) (map fst settings) = [[''Database'', ''Type''], [''Database'', ''Url'']]"
proof -
  obtain k w1 where 1: "NewServerKey two_tailnets = (Inr k, w1)" using NewServerKey_ok by blast
  obtain k2 w2 where 2: "NewServerKey w1 = (Inr k2, w2)" using NewServerKey_ok by blast
  obtain k3 w3 where 3: "NewServerKey w2 = (Inr k3, w3)" using NewServerKey_ok by blast
  obtain settings where s: "configureCommand ''vpn.example.com'' True ''a@b.c'' ''/var'' [] [] two_tailnets = (Inr settings, w3)"
    using 1 2 3 by (simp add: configureCommand_def bindM_def seqM_def)
  from configure_settings_lost[OF s] s show ?thesis by simp
qed

section \<open>Whom a command is about\<close>

lemma quiet_GetToken: "within quiet (GetToken v auth)"
  by (cases auth; simp only: GetToken.simps GenerateSystemAdminToken_def) (intro quiet_intros quiet_RandomBytes)+

lemma client_call_run:
  assumes "client_call v auth f w = (Inr y, w')"
  obtains p w1 where "quiet w w1" "f p w1 = (Inr y, w')"
proof -
  obtain r w0 where r: "tryM (GetToken v auth) w = (r, w0)" by fastforce
  have q0: "quiet w w0" using withinD[OF quiet.within_tryM[OF quiet_GetToken] r] .
  obtain tk where c: "WrapUnary (AuthenticationInterceptor v (\<lambda>p. f (CurrentPrincipal p)) ''/rpc'' (''Bearer '' @ tk)) w0 = (Inr y, w')"
    using assms r by (auto simp: client_call_def bindM_def tryM_def split: prod.splits sum.splits)
  have path: "\<not> HasSuffix ''/rpc'' ''/GetVersion''" by code_simp
  from c path obtain p w1 where e: "exchangeToken v tk w0 = (Inr (Some p), w1)" and f: "f (CurrentPrincipal (Some p)) w1 = (Inr y, w')"
    by (auto simp: WrapUnary_def AuthenticationInterceptor_def bindM_def TrimPrefix_append simp del: append.simps
        split: prod.splits sum.splits option.splits)
  have "quiet w w1" using q0 withinD[OF quiet_exchangeToken e] by (rule quiet_trans)
  with f show ?thesis by (intro that) 
qed

lemma ListTailnets_listed:
  assumes "ListTailnets_rpc p [] w = (Inr ts, w')" and "n \<in> set ts"
  obtains t where "t \<in> set (dbTailnets (wDB w))" "atId n = tID t" "atName n = tName t"
proof -
  let ?b = "\<lambda>t g. brief_tailnet (tID t) (tName t) g"
  from assms(1) obtain as w1 where a: "(if IsSystemAdmin p then bindM ListTailnets (\<lambda>ts. returnM (map (\<lambda>t. ?b t (tOrganization t)) ts)) else returnM []) w = (Inr as, w1)"
    and ts: "ts = as \<or> (\<exists>i (t :: Tailnet) w2. GetTailnet i w1 = (Inr (Some t), w2) \<and> ts = as @ [?b t []])"
    unfolding ListTailnets_rpc_def by (auto simp: go_success split: option.splits) blast+
  have listed: "us = dbTailnets (wDB w) \<and> wDB w2 = wDB w" if "ListTailnets w = (Inr us, w2)" for us w2
    using db_query_run(1,2)[OF that[unfolded ListTailnets_def]] by simp
  have as: "wDB w1 = wDB w" "\<forall>n \<in> set as. \<exists>t \<in> set (dbTailnets (wDB w)). \<exists>g. n = ?b t g"
    using a by (auto simp: go_success split: if_splits dest!: listed) blast
  have own: "t \<in> set (dbTailnets (wDB w1))" if "GetTailnet i w1 = (Inr (Some t), w2)" for i t w2
    using db_query_run(1)[OF that[unfolded GetTailnet_def]] by (auto dest!: sym[of "Some t"] find_SomeD)
  have "\<exists>t \<in> set (dbTailnets (wDB w)). \<exists>g. n = ?b t g"
    using ts assms(2) as by (auto dest!: own) blast+
  then show ?thesis using that by (auto simp: brief_tailnet_def)
qed

lemma quiet_ListTailnets: "within quiet (ListTailnets_rpc p org)"
  unfolding ListTailnets_rpc_def require_system_admin_def ListTailnets_def ListTailnetsByOrganization_def GetTailnet_def
  by (intro quiet_intros)

text \<open>What the flags and the stored session ask for.\<close>

definition asked_for :: "cli \<Rightarrow> ClientAuth \<Rightarrow> Tailnet \<Rightarrow> bool" where
  "asked_for x auth t \<longleftrightarrow> tID t = auth_TailnetID auth \<or> tID t = option_or (tgTailnetID (clTarget x)) 0 \<or>
     tName t = option_or (tgTailnetName (clTarget x)) []"

lemma prepareCommand_tailnet:
  assumes "prepareCommand (clEnv x) (clServer x) (clRing x) True (clTarget x) w = (Inr tc, w')"
  obtains t where "LoadClientAuth (clEnv x) (clRing x) (getAddr (clEnv x) (clTarget x)) (getSystemAdminKey (clEnv x) (clTarget x)) = Inr (tcAuth tc)"
    "t \<in> set (dbTailnets (wDB w))" "asked_for x (tcAuth tc) t" "tc_TailnetID tc = tID t" "quiet w w'"
proof -
  from assms obtain auth n ns where
    a: "LoadClientAuth (clEnv x) (clRing x) (getAddr (clEnv x) (clTarget x)) (getSystemAdminKey (clEnv x) (clTarget x)) = Inr auth"
    and l: "client_call (clServer x) auth (\<lambda>p. ListTailnets_rpc p []) w = (Inr ns, w')"
    and s: "select_tailnet (auth_TailnetID auth) (clTarget x) ns = Some n" and tc: "tc = \<lparr>tcAuth = auth, tcTailnet = Some n\<rparr>"
    by (auto simp: prepareCommand_def go_success split: if_splits option.splits)
  from l obtain p w1 where p: "quiet w w1" "ListTailnets_rpc p [] w1 = (Inr ns, w')" by (rule client_call_run)
  from s have n: "n \<in> set ns" "atId n = auth_TailnetID auth \<or> atId n = option_or (tgTailnetID (clTarget x)) 0 \<or> atName n = option_or (tgTailnetName (clTarget x)) []"
    by (auto simp: select_tailnet_def dest!: find_SomeD)
  from ListTailnets_listed[OF p(2) n(1)] obtain t where t: "t \<in> set (dbTailnets (wDB w1))" "atId n = tID t" "atName n = tName t" .
  have "quiet w w'" using p(1) withinD[OF quiet_ListTailnets p(2)] by (rule quiet_trans)
  with that[of t] a tc t n(2) p(1) show ?thesis by (simp add: asked_for_def tc_TailnetID_def quiet_def)
qed

text \<open>
  C38. Deleting a tailnet from the command line, end to end: when the command reports success, the
  tables have lost exactly one tailnet with everything in it, and it is one that the stored
  session or a selector flag names.
\<close>

theorem cli_deletes_asked_tailnet:
  assumes "deleteTailnetCommand x force w = (Inr (), w')"
  shows "\<exists>auth t. LoadClientAuth (clEnv x) (clRing x) (getAddr (clEnv x) (clTarget x)) (getSystemAdminKey (clEnv x) (clTarget x)) = Inr auth \<and>
    t \<in> set (dbTailnets (wDB w)) \<and> asked_for x auth t \<and> wDB w' = delete_tailnet_from (tID t) (wDB w) \<and>
    (force \<or> (\<forall>m \<in> set (dbMachines (wDB w)). mTailnetID m \<noteq> tID t))"
proof -
  from assms obtain tc w1 where tc: "prepareCommand (clEnv x) (clServer x) (clRing x) True (clTarget x) w = (Inr tc, w1)"
    and c: "client_call (clServer x) (tcAuth tc) (\<lambda>p. DeleteTailnet p (tc_TailnetID tc) force) w1 = (Inr (), w')"
    by (auto simp: deleteTailnetCommand_def on_tailnet_def go_success)
  from tc obtain t where t: "LoadClientAuth (clEnv x) (clRing x) (getAddr (clEnv x) (clTarget x)) (getSystemAdminKey (clEnv x) (clTarget x)) = Inr (tcAuth tc)"
    "t \<in> set (dbTailnets (wDB w))" "asked_for x (tcAuth tc) t" "tc_TailnetID tc = tID t" "quiet w w1"
    by (rule prepareCommand_tailnet)
  from c obtain p w2 where "quiet w1 w2" "DeleteTailnet p (tc_TailnetID tc) force w2 = (Inr (), w')" by (rule client_call_run)
  with DeleteTailnet_run[OF this(2)] t show ?thesis by (intro exI[of _ "tcAuth tc"] exI[of _ t]) (simp add: quiet_def)
qed

section \<open>A session by token\<close>

text \<open>A script with a service token and a default tailnet in its environment, which passes \<open>--tailnet name\<close>.\<close>

definition script_env :: "string \<Rightarrow> string" where
  "script_env key =
     (if key = ''IONSCALE_TOKEN'' then stToken sample_service_token else if key = default_tailnet_var then ''1'' else [])"

definition script_cli :: "string \<Rightarrow> cli" where
  "script_cli name =
     \<lparr>clEnv = \<lparr>ceGetenv = script_env, ceMD5 = (\<lambda>s. s), ceMarshalSession = fst, ceUnmarshalSession = (\<lambda>s. Inr (s, 0)),
        ceReadFile = Inr, ceEdit = Inr, ceStandardize = Inr, ceMarshalIAM = (\<lambda>_. ''{}''), ceParseDuration = (\<lambda>_. Inr 0),
        ceParseIPPrefix = (\<lambda>_. None), ceRenderDERPMap = (\<lambda>_ s. Inr s), ceUnmarshalDERPMap = (\<lambda>_. None)\<rparr>,
      clServer = sample_svc, clRing = Inl NilDeref,
      clTarget = \<lparr>tgAddr = [], tgSystemAdminKey = [], tgInsecureSkipVerify = False, tgTailnetName = Some name, tgTailnetID = None\<rparr>\<rparr>"

lemma script_auth: "LoadClientAuth (clEnv (script_cli name)) (clRing (script_cli name)) addr [] =
    Inr (defaultSession (stToken sample_service_token) 1)"
  by (simp add: LoadClientAuth_def script_cli_def script_env_def sample_service_token_def default_tailnet_var_def getEnvUint64_def
      ParseUint_def digit_val_def)

lemma script_key: "getSystemAdminKey (clEnv (script_cli name)) (clTarget (script_cli name)) = []"
  by (simp add: getSystemAdminKey_def script_cli_def script_env_def GetString_def default_tailnet_var_def)

abbreviation (input) backend :: Principal where
  "backend \<equiv> no_principal\<lparr>pSystemRole := SystemRoleAdmin, pServiceName := ''backend''\<rparr>"

lemma script_call: "client_call sample_svc (defaultSession (stToken sample_service_token) i) f w = WrapUnary (f backend) w"
proof -
  have "exchangeToken sample_svc (stToken sample_service_token) w = (Inr (Some backend), w)"
    by (simp add: exchangeToken_def bindM_def time_Now_def sample_svc_def sample_service_token_def IsSystemAdminToken_def
        systemAdminTokenPrefix_def HasPrefix_def ServiceTokenPrefix_def lookup_token_def newServiceTokens_def)
  then show ?thesis
    by (simp add: client_call_def bindM_def tryM_def AuthenticationInterceptor_def HasSuffix_def HasPrefix_def TrimPrefix_def
        CurrentPrincipal_def WrapUnary_def)
qed

lemma backend_is_admin: "IsSystemAdmin backend" "pUser backend = None"
  by (simp_all add: no_principal_def IsSystemAdmin_def SystemRole_IsAdmin_def SystemRoleAdmin_def)

lemma two_tailnets_faults: "wFaults two_tailnets = []"
  by (simp add: two_tailnets_def sample_world_def)

lemma script_prepared:
  "\<exists>n. prepareCommand (clEnv (script_cli name)) sample_svc (clRing (script_cli name)) True (clTarget (script_cli name)) two_tailnets =
     (Inr \<lparr>tcAuth = defaultSession (stToken sample_service_token) 1, tcTailnet = Some n\<rparr>, two_tailnets) \<and> atId n = 1"
proof -
  have "dbTailnets (wDB two_tailnets) = [sample_tailnet, sample_tailnet\<lparr>tID := 2, tName := ''other'', tOrganization := []\<rparr>]"
    by (simp add: two_tailnets_def)
  moreover have "tID sample_tailnet = 1" by (simp add: sample_tailnet_def)
  moreover have "tgTailnetID (clTarget (script_cli name)) = None" "tgTailnetName (clTarget (script_cli name)) = Some name"
    by (simp_all add: script_cli_def)
  ultimately show ?thesis
    using backend_is_admin
    by (simp add: prepareCommand_def script_key script_auth script_call bindM_def seqM_def ListTailnets_rpc_def ListTailnets_def
        db_query_ok two_tailnets_faults WrapUnary_def select_tailnet_def brief_tailnet_def)
qed

lemma DeleteTailnet_succeeds:
  assumes "IsSystemAdmin p" and "wFaults w = []" and "i \<noteq> 0"
  shows "\<exists>w'. DeleteTailnet p i True w = (Inr (), w')"
  using assms
  by (simp add: DeleteTailnet_def require_system_admin_def CountMachineByTailnet_def Transaction_def DeleteMachineByTailnet_def
      DeleteApiKeysByTailnet_def DeleteAuthKeysByTailnet_def DeleteUsersByTailnet_def DeleteTKAByTailnet_def DeleteTailnet_row_def
      db_delete_by_id_def db_query_ok db_exec_ok bindM_def seqM_def notifyM_def)

lemma script_deletes:
  "\<exists>w'. deleteTailnetCommand (script_cli name) True two_tailnets = (Inr (), w') \<and> wDB w' = delete_tailnet_from 1 (wDB two_tailnets)"
proof -
  obtain w' where d: "DeleteTailnet backend 1 True two_tailnets = (Inr (), w')"
    using DeleteTailnet_succeeds[OF backend_is_admin(1) two_tailnets_faults] by fastforce
  from script_prepared[of name] obtain n where
    "prepareCommand (clEnv (script_cli name)) sample_svc (clRing (script_cli name)) True (clTarget (script_cli name)) two_tailnets =
       (Inr \<lparr>tcAuth = defaultSession (stToken sample_service_token) 1, tcTailnet = Some n\<rparr>, two_tailnets)" "atId n = 1" by blast
  moreover have "clServer (script_cli name) = sample_svc" by (simp add: script_cli_def)
  ultimately have "deleteTailnetCommand (script_cli name) True two_tailnets = (Inr (), w')"
    using d by (simp add: deleteTailnetCommand_def on_tailnet_def bindM_def script_call tc_TailnetID_def WrapUnary_def)
  with DeleteTailnet_run(2)[OF d] show ?thesis by blast
qed

text \<open>
  The default tailnet of the environment beats the flag: with a default tailnet that the
  server lists first, \<open>tailnets delete --tailnet name\<close> deletes that one, whatever the name is.
\<close>

theorem default_tailnet_beats_flag:
  "\<exists>w'. deleteTailnetCommand (script_cli name) True two_tailnets = (Inr (), w') \<and>
     map tID (dbTailnets (wDB w')) = [2] \<and> map tName (dbTailnets (wDB w')) = [''other'']"
proof -
  from script_deletes[of name] obtain w' where
    "deleteTailnetCommand (script_cli name) True two_tailnets = (Inr (), w')" "wDB w' = delete_tailnet_from 1 (wDB two_tailnets)" by blast
  then show ?thesis by (simp add: delete_tailnet_from_def two_tailnets_def sample_tailnet_def)
qed

theorem cli_deletes_asked_tailnet_witness:
  "\<exists>w' auth t. deleteTailnetCommand (script_cli ''other'') True two_tailnets = (Inr (), w') \<and>
     t \<in> set (dbTailnets (wDB two_tailnets)) \<and> asked_for (script_cli ''other'') auth t \<and>
     wDB w' = delete_tailnet_from (tID t) (wDB two_tailnets)"
proof -
  from script_deletes obtain w' where w: "deleteTailnetCommand (script_cli ''other'') True two_tailnets = (Inr (), w')" by blast
  from cli_deletes_asked_tailnet[OF this] w show ?thesis by blast
qed

text \<open>A token that \<open>auth login\<close> has stored is the one that the next command uses.\<close>

lemma stored_session_loaded:
  assumes "\<And>s. ceUnmarshalSession c (ceMarshalSession c s) = Inr s" and "ceGetenv c ''IONSCALE_TOKEN'' = []"
    and "StoreAuthToken c ring addr tok tid = Inr ring'"
  shows "LoadClientAuth c ring' addr [] = Inr (defaultSession tok tid)"
  using assms by (auto simp: LoadClientAuth_def StoreAuthToken_def Let_def split: sum.splits option.splits)

text \<open>
  A login that ends without printing the token has stored the first token of the stream, and
  the next command for that server sends it; one that prints it has not stored it.
\<close>

lemma login_stream_token:
  assumes "login_stream x ending resps url = Inr out" and "find (\<lambda>r. arToken r \<noteq> []) resps = Some resp"
  shows "(case StoreAuthToken (clEnv x) (clRing x) (getAddr (clEnv x) (clTarget x)) (arToken resp) (option_or (arTailnetId resp) 0) of
       Inr ring \<Rightarrow> loRing out = ring \<and> loPrinted out = None
     | Inl _ \<Rightarrow> loRing out = clRing x \<and> loPrinted out = Some (arToken resp))"
  using assms by (induction resps arbitrary: url) (auto split: if_splits sum.splits)

lemma login_then_command:
  assumes "authLoginCommand x None resps ending = Inr out" and "find (\<lambda>r. arToken r \<noteq> []) resps = Some resp"
    and codec: "\<And>s. ceUnmarshalSession (clEnv x) (ceMarshalSession (clEnv x) s) = Inr s" and "ceGetenv (clEnv x) ''IONSCALE_TOKEN'' = []"
    and "loPrinted out = None"
  shows "LoadClientAuth (clEnv x) (loRing out) (getAddr (clEnv x) (clTarget x)) [] =
    Inr (defaultSession (arToken resp) (option_or (arTailnetId resp) 0))"
proof -
  from assms(1) have "login_stream x ending resps None = Inr out" by (auto simp: authLoginCommand_def split: sum.splits)
  from login_stream_token[OF this assms(2)] assms(5) show ?thesis
    by (auto split: sum.splits intro: stored_session_loaded[OF codec assms(4)])
qed

section \<open>Extra records\<close>

lemma Cut_append: "c \<notin> set a \<Longrightarrow> Cut c (a @ c # b) = Some (a, b)"
  by (induction a) auto

lemma Cut_None: "c \<notin> set s \<Longrightarrow> Cut c s = None"
  by (induction s) auto

definition show_record :: "DNSRecord \<Rightarrow> string" where
  "show_record r = (if drType r = [] then drName r else drType r @ '':'' @ drName r) @ ''='' @ drValue r"

definition record_ok :: "DNSRecord \<Rightarrow> bool" where
  "record_ok r \<longleftrightarrow> CHR ''='' \<notin> set (drType r) \<union> set (drName r) \<and> CHR '':'' \<notin> set (drType r) \<and> ToUpper (drType r) = drType r \<and>
     (drType r = [] \<longrightarrow> CHR '':'' \<notin> set (drName r) \<and> drName r \<noteq> []) \<and> drValue r \<noteq> []"

lemma parse_show_record: "record_ok r \<Longrightarrow> parse_extra_record (show_record r) = Inr r"
proof (cases "drType r = []")
  case True
  then show "record_ok r \<Longrightarrow> ?thesis"
    using Cut_append[of "CHR ''=''" "drName r" "drValue r"]
    by (simp add: parse_extra_record_def show_record_def record_ok_def Cut_None)
next
  case False
  then show "record_ok r \<Longrightarrow> ?thesis"
    using Cut_append[of "CHR ''=''" "drType r @ '':'' @ drName r" "drValue r"] Cut_append[of "CHR '':''" "drType r" "drName r"]
    by (simp add: parse_extra_record_def show_record_def record_ok_def)
qed

text \<open>Every list of records can be written as flags: parsing what describes it gives it back.\<close>

lemma extra_records_roundtrip: "list_all record_ok rs \<Longrightarrow> parseExtraRecords (map show_record rs) = Inr rs"
  by (induction rs) (simp_all add: parse_show_record)

end
