(* ===== verification/Recorder.thy ===== *)
theory Recorder
  imports GoPath "HOL-Library.Sublist"
begin

text \<open>
  \<open>pkg/ssh/recorder.go\<close>: the SSH recorder, a node of the tailnet that stores the sessions
  which other nodes send to \<open>/record\<close>. The disk is a map from path names to contents; every
  call of the operating system may fail. The JSON header and the local time of a timestamp
  are parameters; joining the tailnet and listening are calls of the tailscale library.
\<close>

section \<open>The disk\<close>

record disk =
  dkFiles :: "string \<rightharpoonup> string"
  dkDirs :: "string list"
  dkFaults :: "bool list"

text \<open>A call of the operating system: the next fault decides whether it fails and changes nothing.\<close>

definition os_call :: "(disk, 'a) go \<Rightarrow> (disk, 'a) go" where
  "os_call m d =
     (case dkFaults d of
        True # fs \<Rightarrow> (Inl (Err ''input/output error''), d\<lparr>dkFaults := fs\<rparr>)
      | False # fs \<Rightarrow> m (d\<lparr>dkFaults := fs\<rparr>)
      | [] \<Rightarrow> m d)"

definition MkdirAll :: "string \<Rightarrow> (disk, unit) go" where
  "MkdirAll p = os_call (modifyM (\<lambda>d. d\<lparr>dkDirs := p # dkDirs d\<rparr>))"

text \<open>\<open>O_WRONLY|O_CREATE|O_EXCL\<close>: the file must not exist.\<close>

definition OpenExclusive :: "string \<Rightarrow> (disk, unit) go" where
  "OpenExclusive p = os_call (\<lambda>d.
     if dkFiles d p \<noteq> None then (Inl (Err ''file exists''), d)
     else (Inr (), d\<lparr>dkFiles := (dkFiles d)(p \<mapsto> [])\<rparr>))"

definition file_Write :: "string \<Rightarrow> string \<Rightarrow> (disk, unit) go" where
  "file_Write p s = os_call (modifyM (\<lambda>d. d\<lparr>dkFiles := (dkFiles d)(p \<mapsto> option_or (dkFiles d p) [] @ s)\<rparr>))"

section \<open>The handler\<close>

record CastHeader =
  chTimestamp :: int
  chSrcNodeID :: string

record recorder_env =
  reUnmarshal :: "string \<Rightarrow> error + CastHeader"
  reFormat :: "int \<Rightarrow> string"
  reChunks :: "string \<Rightarrow> string list"

definition newline :: char where
  "newline = char_of (10 :: nat)"

text \<open>\<open>ReadBytes\<close>: the first line with its delimiter, and what follows.\<close>

fun read_line :: "string \<Rightarrow> (string \<times> string) option" where
  "read_line [] = None"
| "read_line (c # s) = (if c = newline then Some ([c], s) else map_option (\<lambda>(l, r). (c # l, r)) (read_line s))"

definition recording_path :: "recorder_env \<Rightarrow> string \<Rightarrow> CastHeader \<Rightarrow> string" where
  "recording_path v dir header =
     path_Join [path_Join [dir, chSrcNodeID header], reFormat v (chTimestamp header) @ ''.cast'']"

text \<open>
  The body of the request is what arrives of it; \<open>broken\<close> says that the connection broke
  after it. \<open>io.Copy\<close> stores it in the chunks that it reads.
\<close>

definition io_Copy :: "recorder_env \<Rightarrow> string \<Rightarrow> string \<Rightarrow> bool \<Rightarrow> (disk, unit) go" where
  "io_Copy v p rest broken =
     seqM (forM (reChunks v rest) (file_Write p)) (requireM (\<not> broken) (Err ''unexpected EOF''))"

definition record_session :: "recorder_env \<Rightarrow> string \<Rightarrow> string \<Rightarrow> bool \<Rightarrow> (disk, string) go" where
  "record_session v dir body broken =
     (case read_line body of
        None \<Rightarrow> throwM (Err ''EOF'')
      | Some (line, rest) \<Rightarrow>
          bindM (liftE (reUnmarshal v line)) (\<lambda>header.
          let nodeRecordingDir = path_Join [dir, chSrcNodeID header];
              nodeRecordingFilePath = path_Join [nodeRecordingDir, reFormat v (chTimestamp header) @ ''.cast'']
          in
          seqM (MkdirAll nodeRecordingDir) (
          seqM (OpenExclusive nodeRecordingFilePath) (
          seqM (file_Write nodeRecordingFilePath line) (
          seqM (io_Copy v nodeRecordingFilePath rest broken) (
          returnM ''ok''))))))"

section \<open>What a recording leaves on the disk\<close>

text \<open>
  \<open>grows_only p\<close>: no file disappears and no content is lost; only the file \<open>p\<close> changes, and it
  grows at its end.
\<close>

definition grows_only :: "string \<Rightarrow> disk \<Rightarrow> disk \<Rightarrow> bool" where
  "grows_only p d d' \<longleftrightarrow> (\<forall>q. q \<noteq> p \<longrightarrow> dkFiles d' q = dkFiles d q) \<and>
     (\<forall>s. dkFiles d p = Some s \<longrightarrow> (\<exists>t. dkFiles d' p = Some (s @ t)))"

interpretation grows_only: frame "grows_only p" for p
proof unfold_locales
  show "grows_only p d d" for d by (simp add: grows_only_def)
  show "grows_only p d d''" if "grows_only p d d'" "grows_only p d' d''" for d d' d''
    using that unfolding grows_only_def by (metis append_assoc)
qed

lemma grows_only_os_call: "within (grows_only p) m \<Longrightarrow> within (grows_only p) (os_call m)"
proof -
  assume m: "within (grows_only p) m"
  have "grows_only p d d'" if "m (d\<lparr>dkFaults := fs\<rparr>) = (r, d')" for d fs r d'
    using withinD[OF m that] by (simp add: grows_only_def)
  with m show ?thesis
    by (auto simp: within_def os_call_def split: list.splits bool.splits) (simp add: grows_only_def, metis prod.collapse)
qed

lemma grows_only_steps:
  "within (grows_only p) (MkdirAll q)" "within (grows_only p) (file_Write p s)"
  unfolding MkdirAll_def file_Write_def
  by (intro grows_only_os_call grows_only.within_modifyM; simp add: grows_only_def)+

lemma file_Write_run:
  assumes "file_Write p s d = (r, d')" and "dkFiles d p = Some c"
  shows "\<exists>t. dkFiles d' p = Some (c @ t) \<and> (if r = Inr () then t = s else t = [])"
  using assms by (auto simp: file_Write_def os_call_def modifyM_def split: list.splits bool.splits)

lemma chunks_run:
  assumes "forM ss (file_Write p) d = (r, d')" and "dkFiles d p = Some c"
  shows "\<exists>t. dkFiles d' p = Some (c @ t) \<and> prefix t (concat ss) \<and> (r = Inr () \<longrightarrow> t = concat ss)"
  using assms
proof (induction ss arbitrary: d c)
  case (Cons s ss)
  obtain x d1 where x: "file_Write p s d = (x, d1)" by fastforce
  from file_Write_run[OF x Cons.prems(2)] obtain t where t: "dkFiles d1 p = Some (c @ t)" "if x = Inr () then t = s else t = []" by blast
  show ?case
  proof (cases x)
    case (Inl e)
    with x Cons.prems(1) t show ?thesis by (auto simp: seqM_def bindM_def)
  next
    case (Inr u)
    with x Cons.prems(1) have "forM ss (file_Write p) d1 = (r, d')" by (simp add: seqM_def bindM_def)
    from Cons.IH[OF this t(1)] t(2) Inr show ?thesis by auto
  qed
qed (auto simp: returnM_def)

text \<open>The part of a run after the file has been created.\<close>

definition store_body :: "recorder_env \<Rightarrow> string \<Rightarrow> string \<Rightarrow> string \<Rightarrow> bool \<Rightarrow> (disk, string) go" where
  "store_body v p line rest broken = seqM (file_Write p line) (seqM (io_Copy v p rest broken) (returnM ''ok''))"

lemma grows_only_store: "within (grows_only p) (store_body v p line rest broken)"
  unfolding store_body_def io_Copy_def by (intro grows_only.within_intros grows_only_steps)

lemma store_body_run:
  assumes "store_body v p line rest broken d = (r, d')" and "dkFiles d p = Some []" and "concat (reChunks v rest) = rest"
  shows "\<exists>t. dkFiles d' p = Some t \<and> prefix t (line @ rest) \<and> (\<forall>s. r = Inr s \<longrightarrow> t = line @ rest \<and> \<not> broken)"
proof -
  obtain x d1 where x: "file_Write p line d = (x, d1)" by fastforce
  from file_Write_run[OF x assms(2)] obtain t where t: "dkFiles d1 p = Some t" "if x = Inr () then t = line else t = []" by auto
  show ?thesis
  proof (cases x)
    case (Inl e)
    with x assms(1) t show ?thesis by (auto simp: store_body_def seqM_def bindM_def)
  next
    case (Inr u)
    obtain y d2 where y: "forM (reChunks v rest) (file_Write p) d1 = (y, d2)" by fastforce
    from chunks_run[OF y t(1)] Inr t(2) assms(3) obtain t2 where t2: "dkFiles d2 p = Some (line @ t2)" "prefix t2 rest" "y = Inr () \<longrightarrow> t2 = rest"
      by auto
    with x y Inr assms(1) show ?thesis
      by (cases y) (auto simp: store_body_def io_Copy_def seqM_def bindM_def requireM_def returnM_def throwM_def split: if_splits)
  qed
qed

lemma read_line_body: "read_line body = Some (line, rest) \<Longrightarrow> body = line @ rest"
  by (induction body arbitrary: line) (auto split: if_splits)

lemma record_session_run:
  assumes "record_session v dir body broken d = (r, d')" and "\<And>s. concat (reChunks v s) = s"
  shows "dkFiles d' = dkFiles d \<and> (\<forall>s. r \<noteq> Inr s) \<or>
    (\<exists>line rest header t. read_line body = Some (line, rest) \<and> reUnmarshal v line = Inr header \<and> prefix t body \<and>
       dkFiles d (recording_path v dir header) = None \<and> dkFiles d' = (dkFiles d)(recording_path v dir header \<mapsto> t) \<and>
       (\<forall>s. r = Inr s \<longrightarrow> t = body \<and> \<not> broken))"
proof (cases "\<exists>line rest header. read_line body = Some (line, rest) \<and> reUnmarshal v line = Inr header")
  case False
  with assms(1) show ?thesis
    by (auto simp: record_session_def bindM_def liftE_def throwM_def split: option.splits prod.splits sum.splits)
next
  case True
  then obtain line rest header where h: "read_line body = Some (line, rest)" "reUnmarshal v line = Inr header" by blast
  let ?p = "recording_path v dir header" and ?q = "path_Join [dir, chSrcNodeID header]"
  have run: "seqM (MkdirAll ?q) (seqM (OpenExclusive ?p) (store_body v ?p line rest broken)) d = (r, d')"
    using assms(1) h by (simp add: record_session_def recording_path_def store_body_def bindM_def liftE_def Let_def)
  obtain x d1 where x: "MkdirAll ?q d = (x, d1)" by fastforce
  have d1: "dkFiles d1 = dkFiles d" using x by (auto simp: MkdirAll_def os_call_def modifyM_def split: list.splits bool.splits)
  obtain y d2 where y: "OpenExclusive ?p d1 = (y, d2)" by fastforce
  have d2: "dkFiles d2 = (if y = Inr () then (dkFiles d)(?p \<mapsto> []) else dkFiles d) \<and> (y = Inr () \<longrightarrow> dkFiles d ?p = None)"
    using y d1 by (auto simp: OpenExclusive_def os_call_def split: list.splits bool.splits if_splits)
  show ?thesis
  proof (cases "x = Inr () \<and> y = Inr ()")
    case False
    with run x y d1 d2 show ?thesis by (auto simp: seqM_def bindM_def split: sum.splits)
  next
    case both: True
    with run x y have s: "store_body v ?p line rest broken d2 = (r, d')" by (simp add: seqM_def bindM_def)
    from d2 both have new: "dkFiles d2 ?p = Some []" by simp
    from store_body_run[OF s new assms(2)] obtain t where t: "dkFiles d' ?p = Some t" "prefix t (line @ rest)"
      "\<forall>s. r = Inr s \<longrightarrow> t = line @ rest \<and> \<not> broken" by blast
    have "dkFiles d' = (dkFiles d)(?p \<mapsto> t)"
    proof
      show "dkFiles d' q = ((dkFiles d)(?p \<mapsto> t)) q" for q
        using withinD[OF grows_only_store s] d2 both t(1) by (cases "q = ?p") (auto simp: grows_only_def)
    qed
    with h t d2 both read_line_body[OF h(1)] show ?thesis by blast
  qed
qed


text \<open>
  The node names its own directory: the identifier in the header of a request is joined to
  the directory of the recordings as it is, and one that begins with \<open>..\<close> leads outside.
\<close>

theorem recording_escapes_directory:
  assumes "clean_dir (es @ [e])" "es \<noteq> []" "entry_name f" "CHR ''/'' \<notin> set (reFormat v (chTimestamp header))"
    and "chSrcNodeID header = ''../'' @ f"
  shows "recording_path v (dir_path (es @ [e])) header = dir_path (es @ [f, reFormat v (chTimestamp header) @ ''.cast''])"
proof -
  have "entry_name (reFormat v (chTimestamp header) @ ''.cast'')" using assms(4) by (auto simp: entry_name_def append_eq_Cons_conv)
  moreover have "clean_dir (es @ [f])" using assms(1-3) by (simp add: clean_dir_def)
  ultimately show ?thesis
    unfolding recording_path_def assms(5) using path_Join_parent[OF assms(1-3)] path_Join_entry[of "es @ [f]"] by simp
qed

section \<open>Instances\<close>

definition sample_recorder :: recorder_env where
  "sample_recorder = \<lparr>reUnmarshal = (\<lambda>l. Inr \<lparr>chTimestamp = 7, chSrcNodeID = ''n1''\<rparr>), reFormat = (\<lambda>_. ''1970''), reChunks = (\<lambda>s. [s])\<rparr>"

definition empty_disk :: disk where
  "empty_disk = \<lparr>dkFiles = Map.empty, dkDirs = [], dkFaults = []\<rparr>"


theorem recording_escapes_directory_witness:
  "recording_path (sample_recorder\<lparr>reUnmarshal := (\<lambda>l. Inl NilDeref)\<rparr>) (dir_path ([''var''] @ [''rec''])) \<lparr>chTimestamp = 7, chSrcNodeID = ''../'' @ ''lib''\<rparr> =
     dir_path [''var'', ''lib'', ''1970.cast'']"
  using recording_escapes_directory[of "[''var'']" "''rec''" "''lib''" "sample_recorder\<lparr>reUnmarshal := (\<lambda>l. Inl NilDeref)\<rparr>" "\<lparr>chTimestamp = 7, chSrcNodeID = ''../'' @ ''lib''\<rparr>"]
  by (simp add: sample_recorder_def clean_dir_def entry_name_def)

end
