(* ===== verification/Migration.thy ===== *)
theory Migration
  imports ServerKeys
begin

text \<open>
  \<open>internal/database\<close>: opening the database. \<open>OpenDB\<close> migrates under the lock that keeps two
  servers from migrating at once. Of the migrations one moves data:
  \<open>m202609011200_account_organization\<close>, which recovers the organization of accounts that are
  older than the column. The others change the schema only, which the records of the model
  already have; gormigrate, which runs each of them once, is not modelled.
\<close>

section \<open>The organization of old accounts\<close>

text \<open>Users joined with their tailnets: the accounts and the organizations they are in.\<close>

definition joined :: "db \<Rightarrow> (uint64 \<times> string) list" where
  "joined d = concat (map (\<lambda>u.
     case uAccountID u of
       None \<Rightarrow> []
     | Some a \<Rightarrow> map (\<lambda>t. (a, tOrganization t)) (filter (\<lambda>t. tID t = uTailnetID u) (dbTailnets d))) (dbUsers d))"

text \<open>\<open>GROUP_CONCAT(DISTINCT t.organization) ... GROUP BY u.account_id\<close>\<close>

definition account_orgs :: "db \<Rightarrow> (uint64 \<times> string) list" where
  "account_orgs d =
     map (\<lambda>a. (a, Join (remdups (map snd (filter (\<lambda>r. fst r = a) (joined d)))) '','')) (remdups (map fst (joined d)))"

definition containsComma :: "string \<Rightarrow> bool" where
  "containsComma s = list_ex (\<lambda>c. c = CHR '','') s"

definition set_organization :: "uint64 \<times> string \<Rightarrow> Account \<Rightarrow> Account" where
  "set_organization row x = (if acID x = fst row then x\<lparr>acOrganization := snd row\<rparr> else x)"

definition account_organization :: "unit m" where
  "account_organization =
     bindM (db_query account_orgs) (\<lambda>rows.
     forM rows (\<lambda>row.
       if snd row = [] then returnM ()
       else if containsComma (snd row) then returnM ()
       else db_exec (\<lambda>d. d\<lparr>dbAccounts := map (set_organization row) (dbAccounts d)\<rparr>)))"

section \<open>Nobody's organization is guessed\<close>

text \<open>The organizations of the tailnets that an account has a user in; no organization counts as one.\<close>

definition memberships :: "db \<Rightarrow> uint64 \<Rightarrow> string set" where
  "memberships d a = {tOrganization t | u t. u \<in> set (dbUsers d) \<and> uAccountID u = Some a \<and> t \<in> set (dbTailnets d) \<and> tID t = uTailnetID u}"

lemma memberships_joined: "memberships d a = snd ` {r \<in> set (joined d). fst r = a}"
  by (force simp: memberships_def joined_def split: option.splits)

lemma Join_comma: "length xs \<ge> 2 \<Longrightarrow> CHR '','' \<in> set (Join xs '','')"
  by (cases "(xs, '','')" rule: Join.cases) auto

text \<open>One name without a comma comes out of the concatenation only if it went in alone.\<close>

lemma concatenated_alone:
  assumes "xs \<noteq> []" "distinct xs"
  shows "Join xs '','' = g \<and> g \<noteq> [] \<and> \<not> containsComma g \<longleftrightarrow> set xs = {g} \<and> g \<noteq> [] \<and> \<not> containsComma g"
proof (cases xs)
  case (Cons x ys)
  show ?thesis
  proof (cases ys)
    case Nil
    then show ?thesis using Cons by auto
  next
    case (Cons y zs)
    with \<open>xs = x # ys\<close> assms(2) have "set xs \<noteq> {g}" "length xs \<ge> 2" by auto
    then show ?thesis using Join_comma[of xs] by (auto simp: containsComma_def list_ex_iff)
  qed
qed (use assms in simp)

lemma account_orgs_row:
  "(a, g) \<in> set (account_orgs d) \<and> g \<noteq> [] \<and> \<not> containsComma g \<longleftrightarrow> memberships d a = {g} \<and> g \<noteq> [] \<and> \<not> containsComma g"
proof -
  let ?xs = "remdups (map snd (filter (\<lambda>r. fst r = a) (joined d)))"
  have set: "set ?xs = memberships d a" by (auto simp: memberships_joined)
  show ?thesis
  proof (cases "a \<in> fst ` set (joined d)")
    case True
    then have "?xs \<noteq> []" by (auto simp: filter_empty_conv)
    from concatenated_alone[OF this distinct_remdups, of g] True show ?thesis unfolding set by (auto simp: account_orgs_def)
  next
    case False
    then have "memberships d a = {}" by (force simp: memberships_joined)
    with False show ?thesis by (auto simp: account_orgs_def)
  qed
qed

definition usable :: "uint64 \<times> string \<Rightarrow> bool" where
  "usable row \<longleftrightarrow> snd row \<noteq> [] \<and> \<not> containsComma (snd row)"

lemma fold_set_organization:
  "distinct (map fst rows) \<Longrightarrow> fold set_organization rows x =
     (case find (\<lambda>r. fst r = acID x) rows of None \<Rightarrow> x | Some r \<Rightarrow> x\<lparr>acOrganization := snd r\<rparr>)"
proof (induction rows arbitrary: x)
  case (Cons r rows)
  show ?case
  proof (cases "acID x = fst r")
    case True
    then have "find (\<lambda>r'. fst r' = acID x) rows = None" using Cons.prems unfolding find_None_iff by (metis distinct.simps(2) image_eqI list.set_map list.simps(9))
    then show ?thesis using Cons True by (simp add: set_organization_def)
  next
    case False
    then show ?thesis using Cons by (auto simp: set_organization_def)
  qed
qed simp

lemma updates_run:
  assumes "forM rows (\<lambda>row. if snd row = [] then returnM () else if containsComma (snd row) then returnM ()
       else db_exec (\<lambda>d. d\<lparr>dbAccounts := map (set_organization row) (dbAccounts d)\<rparr>)) w = (Inr (), w')"
  shows "wDB w' = (wDB w)\<lparr>dbAccounts := map (fold set_organization (filter usable rows)) (dbAccounts (wDB w))\<rparr>"
  using assms
proof (induction rows arbitrary: w)
  case (Cons r rows)
  from Cons.prems obtain w1 where r: "(if snd r = [] then returnM () else if containsComma (snd r) then returnM ()
       else db_exec (\<lambda>d. d\<lparr>dbAccounts := map (set_organization r) (dbAccounts d)\<rparr>)) w = (Inr (), w1)"
    and rest: "forM rows (\<lambda>row. if snd row = [] then returnM () else if containsComma (snd row) then returnM ()
       else db_exec (\<lambda>d. d\<lparr>dbAccounts := map (set_organization row) (dbAccounts d)\<rparr>)) w1 = (Inr (), w')"
    by (auto simp: go_success)
  have "wDB w1 = (if usable r then (wDB w)\<lparr>dbAccounts := map (set_organization r) (dbAccounts (wDB w))\<rparr> else wDB w)"
    using r by (auto simp: usable_def split: if_splits dest: db_exec_run)
  with Cons.IH[OF rest] show ?case by (simp add: comp_def)
qed simp



section \<open>Opening the database\<close>

text \<open>
  The connection: the tables and whether this server holds the advisory lock. sqlite needs no
  lock. Waiting for the lock is not a step. \<open>schema\<close> is what gormigrate runs.
\<close>

datatype dbLock = PgLock | SqliteLock

type_synonym conn = "world \<times> bool"

definition createDB :: "Database \<Rightarrow> error option \<Rightarrow> error + dbLock" where
  "createDB config openError =
     (if daType config = ''sqlite'' \<or> daType config = ''sqlite3'' then
        (case openError of Some err \<Rightarrow> Inl err | None \<Rightarrow> Inr SqliteLock)
      else if daType config = ''postgres'' \<or> daType config = ''postgresql'' then
        (case openError of Some err \<Rightarrow> Inl err | None \<Rightarrow> Inr PgLock)
      else Inl (Err (''invalid database type '' @ daType config)))"

definition generateAdvisoryLockId :: "32 word \<Rightarrow> string" where
  "generateAdvisoryLockId crc = Itoa (unat (crc * 1486364155))"

definition db_Lock :: "dbLock \<Rightarrow> (conn, unit) go" where
  "db_Lock l c =
     (case l of
        SqliteLock \<Rightarrow> (Inr (), c)
      | PgLock \<Rightarrow>
          (case db_exec (\<lambda>d. d) (fst c) of
             (Inl err, w) \<Rightarrow> (Inl err, (w, snd c))
           | (Inr _, w) \<Rightarrow> (Inr (), (w, True))))"

definition UnlockErr :: "dbLock \<Rightarrow> error + unit \<Rightarrow> (conn, unit) go" where
  "UnlockErr l prevErr c =
     (case l of
        SqliteLock \<Rightarrow> (prevErr, c)
      | PgLock \<Rightarrow>
          (case db_exec (\<lambda>d. d) (fst c) of
             (Inl err, w) \<Rightarrow> (Inl err, (w, snd c))
           | (Inr _, w) \<Rightarrow> (prevErr, (w, False))))"

definition OpenDB :: "keys_env \<Rightarrow> unit m \<Rightarrow> Database \<Rightarrow> error option \<Rightarrow> (conn, unit) go" where
  "OpenDB kv schema config openError c =
     (case createDB config openError of
        Inl err \<Rightarrow> (Inl err, c)
      | Inr l \<Rightarrow>
          (case db_Lock l c of
             (Inl err, c1) \<Rightarrow> (Inl err, c1)
           | (Inr _, c1) \<Rightarrow>
               (case seqM schema (migrate kv) (fst c1) of
                  (r, w) \<Rightarrow> UnlockErr l r (w, snd c1))))"

text \<open>
  A server that starts has migrated and has given the lock back; one that could not take the
  lock has not touched the tables; and the lock stays taken only if the unlocking failed,
  which is reported.
\<close>

lemma OpenDB_locked:
  assumes "OpenDB kv schema config openError (w, False) = (r, (w', held))"
  shows "r = Inr () \<Longrightarrow> \<not> held \<and> (\<exists>w1 w2. wDB w1 = wDB w \<and> seqM schema (migrate kv) w1 = (Inr (), w2) \<and> wDB w' = wDB w2)"
    and "held \<Longrightarrow> r \<noteq> Inr () \<and> createDB config openError = Inr PgLock"
    and "createDB config openError = Inr l \<Longrightarrow> db_Lock l (w, False) = (Inl e, c) \<Longrightarrow> wDB w' = wDB w"
proof -
  have same: "wDB w2 = wDB w1" if "db_exec (\<lambda>d. d) w1 = (x, w2)" for x w1 w2
    using that by (auto simp: db_exec_def db_stmt_def split: list.splits bool.splits)
  note defs = OpenDB_def db_Lock_def UnlockErr_def
  show "held \<Longrightarrow> r \<noteq> Inr () \<and> createDB config openError = Inr PgLock"
    using assms by (auto simp: defs split: sum.splits dbLock.splits prod.splits)
  show "\<not> held \<and> (\<exists>w1 w2. wDB w1 = wDB w \<and> seqM schema (migrate kv) w1 = (Inr (), w2) \<and> wDB w' = wDB w2)" if "r = Inr ()"
    using assms that by (auto simp: defs split: sum.splits dbLock.splits prod.splits dest!: same)
  show "wDB w' = wDB w" if "createDB config openError = Inr l" "db_Lock l (w, False) = (Inl e, c)"
    using assms that by (auto simp: defs split: sum.splits dbLock.splits prod.splits dest!: same)
qed

end
