(* ===== verification/Edge.thy ===== *)
theory Edge
  imports Login Configuration
begin

text \<open>
  The edge of the server: the middlewares of \<open>internal/server/echo.go\<close> around every handler,
  the redirect to HTTPS, the health probe and the version (\<open>internal/handlers\<close>), the choice of
  the identity provider and the listeners of \<open>internal/server/server.go\<close> and the STUN responder
  (\<open>internal/stunserver\<close>). The routes themselves and the Noise and DERP
  protocols are calls of echo and of the tailscale libraries.
\<close>

section \<open>Middlewares\<close>

datatype 'r echo_reply = Reply 'r | Render nat string

text \<open>A panic is the error value that is not returned: it passes every caller up to a \<open>recover\<close>.\<close>

definition EchoRecover :: "('s, 'r echo_reply) go \<Rightarrow> ('s, 'r echo_reply) go" where
  "EchoRecover next = (\<lambda>s.
     case next s of
       (Inl err, s') \<Rightarrow> (Inl (if err = NilDeref then Err ''runtime error: invalid memory address or nil pointer dereference'' else err), s')
     | (Inr x, s') \<Rightarrow> (Inr x, s'))"

definition EchoErrorHandler :: "string \<Rightarrow> ('s, 'r echo_reply) go \<Rightarrow> ('s, 'r echo_reply) go" where
  "EchoErrorHandler requestURI next = (\<lambda>s.
     case next s of
       (Inl err, s') \<Rightarrow>
         if is_panic err then (Inl err, s')
         else if HasPrefix requestURI ''/a/'' then (Inr (Render 500 ''error.html''), s')
         else (Inl err, s')
     | (Inr x, s') \<Rightarrow> (Inr x, s'))"

text \<open>The order of \<open>webMux.Use\<close>: the first middleware is the outermost.\<close>

definition wrapped :: "string \<Rightarrow> ('s, 'r) go \<Rightarrow> ('s, 'r echo_reply) go" where
  "wrapped requestURI handler = EchoErrorHandler requestURI (EchoRecover (bindM handler (\<lambda>r. returnM (Reply r))))"

text \<open>
  No handler takes the server down, and no page of a login is left without an answer: a
  handler that ends never ends in a panic behind the middlewares, and under \<open>/a/\<close> it always
  answers, with the error page when it failed. The state is the one the handler left.
\<close>

lemma wrapped_safe:
  assumes "handler s = (r, s')" and "r \<noteq> Inl NoReturn"
  shows "snd (wrapped uri handler s) = s'"
    and "\<And>err. fst (wrapped uri handler s) = Inl err \<Longrightarrow> \<not> is_panic err"
    and "HasPrefix uri ''/a/'' \<Longrightarrow> fst (wrapped uri handler s) = Inr (case r of Inl _ \<Rightarrow> Render 500 ''error.html'' | Inr x \<Rightarrow> Reply x)"
  using assms by (auto simp: wrapped_def EchoErrorHandler_def EchoRecover_def bindM_def returnM_def is_panic_def split: sum.splits if_splits)

section \<open>Redirects and probes\<close>

definition httpsRedirectSkipper :: "Tls \<Rightarrow> string \<Rightarrow> string \<Rightarrow> string \<Rightarrow> bool" where
  "httpsRedirectSkipper c method requestURI path =
     (if method = ''POST'' \<and> requestURI = ''/ts2021'' then True
      else if method = ''GET'' \<and> path = ''/healthz'' then True
      else \<not> tlForceHttps c)"

definition Health :: "bool \<Rightarrow> nat \<times> string" where
  "Health pingFails = (if pingFails then (503, ''unavailable'') else (200, ''ok''))"

definition BuildVersion :: "string \<Rightarrow> string" where
  "BuildVersion ver = (if length ver = 0 then ''dev'' else ver)"

definition GetReleaseInfo :: "string \<Rightarrow> string \<Rightarrow> string \<times> string" where
  "GetReleaseInfo ver revision = (BuildVersion ver, revision)"

definition Version :: "string \<Rightarrow> string \<Rightarrow> nat \<times> (string \<times> string) list" where
  "Version ver revision =
     (case GetReleaseInfo ver revision of (v, r) \<Rightarrow> (200, [(''version'', v), (''revision'', r)]))"

section \<open>Identity provider\<close>

record OIDCProvider =
  opClientID :: string
  opClientSecret :: string
  opScopes :: "string list"
  opOrganizations :: Organizations
  opUsernameClaim :: string
  opSkipClientIDCheck :: bool

text \<open>\<open>discover\<close> is the discovery of the issuer's endpoints.\<close>

definition NewOIDCProvider :: "(string \<Rightarrow> error option) \<Rightarrow> AuthProvider \<Rightarrow> Organizations \<Rightarrow> error + OIDCProvider" where
  "NewOIDCProvider discover c organizations =
     (case discover (avIssuer c) of
        Some err \<Rightarrow> Inl err
      | None \<Rightarrow> Inr
          \<lparr>opClientID = avClientID c, opClientSecret = avClientSecret c,
           opScopes = [''openid'', ''email'', ''profile''] @ avScopes c, opOrganizations = organizations,
           opUsernameClaim = (if avUsernameClaim c = [] then ''preferred_username'' else avUsernameClaim c),
           opSkipClientIDCheck = (avClientID c = [])\<rparr>)"

definition setupAuthProvider :: "(string \<Rightarrow> error option) \<Rightarrow> Auth \<Rightarrow> error + OIDCProvider option \<times> IAMPolicy" where
  "setupAuthProvider discover config =
     (if length (avIssuer (atProvider config)) = 0
      then Inr (None, \<lparr>iamSubs = [], iamEmails = [], iamFilters = [], iamRoles = Map.empty\<rparr>)
      else
        case NewOIDCProvider discover (atProvider config) (atOrganizations config) of
          Inl err \<Rightarrow> Inl err
        | Inr provider \<Rightarrow>
            Inr (Some provider,
              \<lparr>iamSubs = spSubs (atSystemAdminPolicy config), iamEmails = spEmails (atSystemAdminPolicy config),
               iamFilters = spFilters (atSystemAdminPolicy config), iamRoles = Map.empty\<rparr>))"

text \<open>Without a provider nobody is a system administrator by policy, whatever the file lists.\<close>

lemma no_provider_no_admins:
  "setupAuthProvider discover config = Inr (None, policy) \<Longrightarrow> iamSubs policy = [] \<and> iamEmails policy = [] \<and> iamFilters policy = []"
  by (auto simp: setupAuthProvider_def split: if_splits sum.splits)

section \<open>STUN\<close>

text \<open>
  What \<open>ReadFromUDP\<close> returns, packet after packet: the connection is closed, the read fails,
  or a packet arrives from an address, with the outcome of the write that may answer it.
\<close>

datatype stun_event = StunClosed | StunReadError | StunPacket string Addr "16 word" bool

record stun_env =
  seIs :: "string \<Rightarrow> bool"
  seParseBindingRequest :: "string \<Rightarrow> string option"
  seResponse :: "string \<Rightarrow> Addr \<Rightarrow> 16 word \<Rightarrow> string"

record stun_counters =
  snReadError :: nat
  snNotSTUN :: nat
  snWriteError :: nat
  snSuccess :: nat
  snIPv4 :: nat
  snIPv6 :: nat

record stun_state =
  ssSent :: "(Addr \<times> 16 word \<times> string) list"
  ssCounters :: stun_counters

text \<open>The family of the address as \<open>net.IP.To4\<close> sees it: IPv4, plain or mapped into IPv6.\<close>

fun To4 :: "Addr \<Rightarrow> bool" where
  "To4 (Addr6 a z) = Is4In6 a"
| "To4 a = Is4 a"

primrec stun_Serve :: "stun_env \<Rightarrow> stun_event list \<Rightarrow> stun_state \<Rightarrow> bool \<times> stun_state" where
  "stun_Serve e [] s = (False, s)"
| "stun_Serve e (ev # evs) s =
     (case ev of
        StunClosed \<Rightarrow> (True, s)
      | StunReadError \<Rightarrow> stun_Serve e evs (s\<lparr>ssCounters := (ssCounters s)\<lparr>snReadError := snReadError (ssCounters s) + 1\<rparr>\<rparr>)
      | StunPacket pkt ip port written \<Rightarrow>
          if \<not> seIs e pkt \<or> seParseBindingRequest e pkt = None
          then stun_Serve e evs (s\<lparr>ssCounters := (ssCounters s)\<lparr>snNotSTUN := snNotSTUN (ssCounters s) + 1\<rparr>\<rparr>)
          else
            let c = ssCounters s;
                c1 = (if To4 ip then c\<lparr>snIPv4 := snIPv4 c + 1\<rparr> else c\<lparr>snIPv6 := snIPv6 c + 1\<rparr>);
                res = seResponse e (the (seParseBindingRequest e pkt)) ip port
            in if written
               then stun_Serve e evs \<lparr>ssSent = ssSent s @ [(ip, port, res)], ssCounters = c1\<lparr>snSuccess := snSuccess c1 + 1\<rparr>\<rparr>
               else stun_Serve e evs (s\<lparr>ssCounters := c1\<lparr>snWriteError := snWriteError c1 + 1\<rparr>\<rparr>))"

definition answered :: "stun_env \<Rightarrow> stun_event \<Rightarrow> bool" where
  "answered e ev = (case ev of StunPacket pkt ip port written \<Rightarrow> seIs e pkt \<and> seParseBindingRequest e pkt \<noteq> None \<and> written | _ \<Rightarrow> False)"

definition answer_to :: "stun_env \<Rightarrow> stun_event \<Rightarrow> Addr \<times> 16 word \<times> string" where
  "answer_to e ev = (case ev of StunPacket pkt ip port _ \<Rightarrow> (ip, port, seResponse e (the (seParseBindingRequest e pkt)) ip port)
     | _ \<Rightarrow> (ZeroAddr, 0, []))"

text \<open>
  The responder reflects: it sends one response per binding request, in their order, to the
  sender, with the sender's own address in it, and nothing to anybody else; neither a failed
  read nor a stray packet stops it, only the closing of the socket does.
\<close>

lemma stun_reflects:
  assumes "stun_Serve e evs s = (stopped, s')"
  shows "ssSent s' = ssSent s @ map (answer_to e) (filter (answered e) (takeWhile (\<lambda>ev. ev \<noteq> StunClosed) evs)) \<and>
    (stopped \<longleftrightarrow> StunClosed \<in> set evs) \<and>
    snSuccess (ssCounters s') = snSuccess (ssCounters s) + length (filter (answered e) (takeWhile (\<lambda>ev. ev \<noteq> StunClosed) evs))"
  using assms
proof (induction evs arbitrary: s)
  case (Cons ev evs)
  show ?case
  proof (cases ev)
    case (StunPacket pkt ip port written)
    with Cons show ?thesis
      by (cases "seParseBindingRequest e pkt") (auto simp: Let_def answered_def answer_to_def split: if_splits dest!: Cons.IH)
  qed (use Cons in \<open>auto simp: answered_def\<close>)
qed simp

section \<open>Listeners\<close>

text \<open>
  The sockets of the server, by the address they are bound to; \<open>lsTLS\<close> is the certificate they
  speak TLS with. Binding, reading a file and parsing a key pair may fail.
\<close>

datatype certificate = AcmeCertificate | FileCertificate string string

record listener =
  lsAddr :: string
  lsTLS :: "certificate option"

record net_env =
  neListen :: "string \<Rightarrow> error option"
  neReadFile :: "string \<Rightarrow> error + string"
  neX509KeyPair :: "string \<Rightarrow> string \<Rightarrow> error option"
  neListenUDP :: "string \<Rightarrow> error option"

definition net_Listen :: "net_env \<Rightarrow> string \<Rightarrow> certificate option \<Rightarrow> error + listener" where
  "net_Listen e addr cert = (case neListen e addr of Some err \<Rightarrow> Inl err | None \<Rightarrow> Inr \<lparr>lsAddr = addr, lsTLS = cert\<rparr>)"

definition webListener :: "net_env \<Rightarrow> Config \<Rightarrow> error + listener" where
  "webListener e config =
     (if tlDisable (cfTls config) then net_Listen e (cfListenAddr config) None
      else if tlAcmeEnabled (cfTls config) then net_Listen e (cfListenAddr config) (Some AcmeCertificate)
      else
        (case neReadFile e (tlCertFile (cfTls config)) of
           Inl err \<Rightarrow> Inl (Err ''error reading cert file'')
         | Inr certPEMBlock \<Rightarrow>
             (case neReadFile e (tlKeyFile (cfTls config)) of
                Inl err \<Rightarrow> Inl (Err ''error reading key file'')
              | Inr keyPEMBlock \<Rightarrow>
                  (case neX509KeyPair e certPEMBlock keyPEMBlock of
                     Some err \<Rightarrow> Inl (Err ''error reading cert and key file'')
                   | None \<Rightarrow> net_Listen e (cfListenAddr config) (Some (FileCertificate certPEMBlock keyPEMBlock))))))"

definition metricsListener :: "net_env \<Rightarrow> Config \<Rightarrow> error + listener" where
  "metricsListener e config = net_Listen e (cfMetricsListenAddr config) None"

definition stunListener :: "net_env \<Rightarrow> Config \<Rightarrow> error + string option" where
  "stunListener e config =
     (if drDisabled (deServer (cfDERP config)) then Inr None
      else (case neListenUDP e (cfStunListenAddr config) of Some err \<Rightarrow> Inl err | None \<Rightarrow> Inr (Some (cfStunListenAddr config))))"

definition STUNServer_Serve :: "string option \<Rightarrow> stun_env \<Rightarrow> stun_event list \<Rightarrow> stun_state \<Rightarrow> bool \<times> stun_state" where
  "STUNServer_Serve pc e evs s = (case pc of None \<Rightarrow> (True, s) | Some _ \<Rightarrow> stun_Serve e evs s)"

text \<open>
  The web interface is served without TLS only if the configuration says so: a certificate that
  cannot be read keeps the server from starting. A relay that is switched off answers nobody.
\<close>

lemma webListener_encrypted:
  "webListener e config = Inr l \<Longrightarrow> lsAddr l = cfListenAddr config \<and> (lsTLS l = None \<longleftrightarrow> tlDisable (cfTls config))"
  by (auto simp: webListener_def net_Listen_def split: if_splits sum.splits option.splits)

lemma stun_disabled:
  "stunListener e config = Inr pc \<Longrightarrow> drDisabled (deServer (cfDERP config)) \<Longrightarrow> STUNServer_Serve pc se evs s = (True, s)"
  by (auto simp: stunListener_def STUNServer_Serve_def)

end
