(* ===== verification/Spec2Isabelle.thy ===== *)
theory Spec2Isabelle
  imports AddrSelect SSHPolicy Server CommandLine Recorder Migration Edge
begin

text \<open>
  \<^bold>\<open>A verification of ionscale\<close>, a control server for Tailscale networks written in Go. The sources
  are under \<open>src/\<close>; paths below are relative to it.

  \<^bold>\<open>The program.\<close> A tailnet is a private network of machines. A machine talks to the server over an
  encrypted connection: it registers (\<open>internal/handlers/registration.go\<close>), with an auth key or by
  the login of a person in the browser (\<open>handlers/authentication.go\<close>, \<open>auth/oidc.go\<close>), and then
  keeps a map poll open (\<open>handlers/poll_net_map.go\<close>) on which the server tells it its peers, their
  addresses, the packet filter and the SSH policy (\<open>internal/mapping\<close>). Who is whose peer and which
  packets pass is decided by the access policy of the tailnet (\<open>domain/acl*.go\<close>). Whenever something
  changes, the session manager (\<open>core/session_manager.go\<close>) wakes up the open polls of the tailnet.
  Administrators use an RPC interface (\<open>internal/service\<close>) through the command line (\<open>internal/cmd\<close>).
  Everything is stored in one database (\<open>internal/domain\<close>, GORM). Workers remove ephemeral machines
  and announce expired ones (\<open>core/worker.go\<close>). Tailnet lock (\<open>handlers/tka.go\<close>) makes the machines
  trust only nodes that other machines have signed.

  \<^bold>\<open>How it is modelled.\<close> A Go function \<open>func(ctx, ...) (T, error)\<close> on the state is a function of type
  \<open>T m\<close>, that is \<open>world \<Rightarrow> (error + T) \<times> world\<close>: an error keeps the state that was reached before it.
  A nil dereference or another panic, and a call that does not return, are values of \<open>error\<close>, so
  that their absence can be stated. \<open>world\<close> (theory \<open>Repository\<close>) holds the tables \<open>wDB\<close>, the
  poll sessions \<open>wSessions\<close>, the clock \<open>wNow\<close>, the streams of identifiers and random numbers
  still to be drawn, and \<open>wFaults\<close>, which decides for each SQL statement whether it fails; so every
  theorem about a handler covers failing statements and rolled back transactions. Structs are
  records, unsigned integers words of their width, Go maps in which order matters association lists,
  pointers that may be nil options. A loaded row carries the associations that the code preloads.

  \<^bold>\<open>Theories\<close>, from the bottom up.

  \<^item> \<open>Prelude\<close>: integers, instants, errors, the monad, and the locale \<open>frame\<close> of relations that
    every run of a computation stays within. \<open>GoStrings\<close>, \<open>GoPath\<close>, \<open>Netip\<close>: what the code uses of
    Go's \<open>strings\<close>, \<open>strconv\<close>, \<open>sort\<close>, \<open>path\<close> and \<open>net/netip\<close>. \<open>Samples\<close>: a small tailnet for
    the instances.
  \<^item> \<open>Domain\<close>: the data of \<open>internal/domain\<close> and its pure methods; sets of strings and prefixes
    (locale \<open>go_set\<close>). \<open>Repository\<close>: every query and statement; the locale \<open>keyed_table\<close>, interpreted
    on each table, and \<open>db_frame\<close>, which lifts a relation on the tables to handlers. \<open>Integrity\<close>: the
    invariant \<open>db_ok\<close> of the tables and the frame \<open>quiet\<close> of the computations that only read.
  \<^item> \<open>ACL\<close>, \<open>FilterRules\<close>, \<open>SSHPolicy\<close> (\<open>domain/acl.go\<close>, \<open>acl_filter_rules.go\<close>,
    \<open>acl_ssh_policy.go\<close>): the policy, the packet filter, which is shown equal to a declarative one and
    to admit valid peers only, and the SSH policy.
  \<^item> \<open>Sessions\<close> (\<open>core/session_manager.go\<close>): channels, timers and notifications as a step relation
    over all interleavings, with the locale \<open>poll_sessions\<close> of what the handlers rely on: no panic,
    no lost wake-up, a new poll takes over from an old one.
  \<^item> \<open>NetMap\<close> (\<open>internal/mapping\<close>): the map response. Its peers are exactly the machines that the
    policy relates, visibility is mutual, a machine that is not authorized or expired is cut off, and
    no nil pointer is followed.
  \<^item> \<open>AddrSelect\<close> (\<open>internal/addr\<close>), \<open>TailnetLock\<close> (\<open>domain/tka.go\<close>, \<open>handlers/tka.go\<close>),
    \<open>Registration\<close>, \<open>PollHandler\<close>, \<open>Oidc\<close>, \<open>Login\<close>, \<open>SSHCheck\<close>, \<open>NodeServices\<close>: the endpoints
    of machines and browsers, each with what it may change and for whom. The client of a stream
    holds, after every frame, the peers of the state from which the frame was computed.
  \<^item> \<open>Interceptors\<close>, \<open>TailnetService\<close>, \<open>MachineService\<close>, \<open>AccountService\<close> (\<open>internal/service\<close>,
    \<open>internal/token\<close>): tokens, principals and every RPC. \<open>Authorization\<close> states what a principal is
    entitled to change, as a relation on the tables, and proves that every handler stays within it;
    \<open>Tenancy\<close> draws the consequences: tenants are isolated, expiry cuts off, deletion is all or nothing.
  \<^item> \<open>Worker\<close>, \<open>Configuration\<close> (\<open>internal/config\<close>), \<open>ServerKeys\<close> (\<open>internal/key\<close>,
    \<open>domain/server_config.go\<close>, \<open>internal/database\<close>), \<open>Migration\<close> (the migration that moves data and
    the lock around the migrations), \<open>Edge\<close> (middlewares, redirect, probes, listeners, STUN).
  \<^item> \<open>Server\<close>: all entry points that reach the tables as one relation \<open>runs\<close>, and the invariant
    \<open>db_ok\<close> of every run. Handlers are atomic in it except the two that wait with a state of their
    own, the map poll and the command line login, whose event lists contain what the rest of the
    server does meanwhile. A waiting registration or SSH check only reads the tables at each tick,
    so that a wait is a sequence of short calls.
  \<^item> \<open>CommandLine\<close> (\<open>internal/cmd\<close>, \<open>pkg/client/ionscale\<close>): every command, composed with the
    handlers of the service that answer it. \<open>Recorder\<close> (\<open>pkg/ssh\<close>): the SSH recorder on a disk.

  \<^bold>\<open>Properties.\<close> They are the theorems C1 to C40, each introduced by a text that states it: the
  policy and the network map (C1 to C5), the RPC interface and the integrity of the data (C6 to C9),
  registration and login (C10 to C16), the map poll (C17 to C20), tailnet lock (C21, C22), workers
  and administration (C23 to C27), sessions, keys, addresses, policies (C28 to C34), configuration,
  server keys and node services (C35 to C37), the command line, the recorder and the migration
  (C38 to C40). Each theorem with a hypothesis is followed by an instance on concrete data.

  \<^bold>\<open>Loops.\<close> Loops over data are structural recursions. \<open>selectIP\<close> may search for ever and is a
  \<open>partial_function\<close> whose value is None then; C32 shows that it returns when an address of the
  range is free. Loops that wait for the outside world (a poll stream, the follow-up of a
  registration, an SSH check, the command line login, a DNS record to appear, the STUN socket, the
  ticks of the workers) consume a list of events, of any length; a list that ends before the code
  returns gives a result that says so. No fuel is used.

  \<^bold>\<open>Parameters.\<close> Code that is not in the repository is a field of a record of functions: the OIDC and
  OAuth library, NaCl boxes, SHA-256 and base58, the codecs of JSON, YAML, HuJSON and zstd, the
  filter language of go-bexpr, the TKA library, JWT signing, DNS providers, keyring and editor,
  durations in text. What a theorem relies on is a hypothesis of it: that a codec reads back what it
  wrote, that a sealed box opens only under its key, that generated identifiers are new and not zero
  (\<open>ids_ok\<close>), that \<open>io.Copy\<close> reads chunks that make up the body.

  \<^bold>\<open>Not modelled.\<close> Generated code (protocol buffers, connect stubs, compiled templates); the Noise and
  DERP protocols and the route tables, which are calls of the tailscale libraries and of echo;
  the schema migrations, which gormigrate runs, and the driver hooks of JSON columns; the process of
  a DNS plugin; logging, audit records and metrics; the layout of printed tables; the commands that
  start the server or the recorder. Within a handler the steps of other requests do not interleave,
  except as said of \<open>Server\<close> and \<open>Sessions\<close>: the database serializes statements, not handlers, and
  races between two handlers are outside of the model.

  \<^bold>\<open>What the model showed.\<close> Several lemmas exhibit behaviour that the code does not seem to intend,
  among them \<open>isTagOwner_first_group_decides\<close>, \<open>reregistration_skips_tag_owners\<close>,
  \<open>GetOrCreateAccount_ignores_empty_organization\<close>, \<open>org_roles_miss_username\<close>,
  \<open>poll_first_write_leaks_session\<close>, \<open>FetchToken_ignores_quarantine\<close>,
  \<open>NewProvider_accepts_sibling_domain\<close>, \<open>public_addr_ipv6_unusable\<close>, \<open>default_tailnet_beats_flag\<close>,
  \<open>configure_settings_lost\<close> and \<open>recording_escapes_directory\<close>; the text above each explains it.
\<close>

end
